(* ===== verification/Prelude.thy ===== *)
theory Prelude
  imports Complex_Main "HOL-Library.Sublist" "HOL-Library.AList" "HOL-Library.Char_ord"
begin

text \<open>
  Shared ground of the development: Go strings and the functions of package \<open>strings\<close> the
  source uses, the error values every operation returns, the state-and-error combinators the
  operations are written with, and the relational rules (\<open>rel\<close>, \<open>rel_intros\<close>) that carry a
  two-state relation through a composed operation.

  A Go string is a byte string, so it is a \<^typ>\<open>string\<close> (a list of 8-bit characters).
  \<open>strings.ToLower\<close>, \<open>strings.EqualFold\<close> and \<open>strings.TrimSpace\<close> are written for ASCII; a byte
  above 127 is left as it is, which is what Go does for every rune without case or space class.
\<close>

section \<open>Go strings\<close>

definition is_space :: "char \<Rightarrow> bool" where
  "is_space c \<longleftrightarrow> c \<in> {CHR 0x09, CHR 0x0A, CHR 0x0B, CHR 0x0C, CHR 0x0D, CHR '' ''}"

definition TrimLeft :: "(char \<Rightarrow> bool) \<Rightarrow> string \<Rightarrow> string" where
  "TrimLeft p s = dropWhile p s"

definition TrimRight :: "(char \<Rightarrow> bool) \<Rightarrow> string \<Rightarrow> string" where
  "TrimRight p s = rev (dropWhile p (rev s))"

definition TrimSpace :: "string \<Rightarrow> string" where
  "TrimSpace s = TrimRight is_space (TrimLeft is_space s)"

definition lower_char :: "char \<Rightarrow> char" where
  "lower_char c = (let n = (of_char c :: nat) in if 65 \<le> n \<and> n \<le> 90 then char_of (n + 32) else c)"

definition ToLower :: "string \<Rightarrow> string" where
  "ToLower s = map lower_char s"

definition EqualFold :: "string \<Rightarrow> string \<Rightarrow> bool" where
  "EqualFold s t \<longleftrightarrow> ToLower s = ToLower t"

definition Contains :: "string \<Rightarrow> string \<Rightarrow> bool" where
  "Contains s sub \<longleftrightarrow> sublist sub s"

definition HasPrefix :: "string \<Rightarrow> string \<Rightarrow> bool" where
  "HasPrefix s p \<longleftrightarrow> prefix p s"

definition TrimPrefix :: "string \<Rightarrow> string \<Rightarrow> string" where
  "TrimPrefix s p = (if prefix p s then drop (length p) s else s)"

text \<open>The part after the last occurrence of a character, if it occurs
  (\<open>strings.LastIndex\<close> followed by the slice after it).\<close>

fun after_last :: "char \<Rightarrow> string \<Rightarrow> string option" where
  "after_last c [] = None"
| "after_last c (x # xs) =
     (case after_last c xs of
        Some r \<Rightarrow> Some r
      | None \<Rightarrow> if x = c then Some xs else None)"

text \<open>\<open>%q\<close> of a string with nothing to escape.\<close>

definition quoted :: "string \<Rightarrow> string" where
  "quoted s = [CHR 0x22] @ s @ [CHR 0x22]"

fun firstNonEmpty :: "string list \<Rightarrow> string" where
  "firstNonEmpty [] = []"
| "firstNonEmpty (v # vs) = (if v \<noteq> [] then v else firstNonEmpty vs)"

lemma firstNonEmpty_nonempty: "\<exists>v \<in> set vs. v \<noteq> [] \<Longrightarrow> firstNonEmpty vs \<noteq> []"
  by (induction vs) auto

lemma firstNonEmpty_mem: "firstNonEmpty vs \<noteq> [] \<Longrightarrow> firstNonEmpty vs \<in> set vs"
  by (induction vs) auto

lemma lower_char_idem [simp]: "lower_char (lower_char c) = lower_char c"
proof (cases "65 \<le> (of_char c :: nat) \<and> (of_char c :: nat) \<le> 90")
  case True
  then have "of_char (char_of ((of_char c :: nat) + 32) :: char) = (of_char c :: nat) + 32"
    by simp
  with True show ?thesis by (simp add: lower_char_def Let_def)
qed (auto simp: lower_char_def Let_def)

lemma ToLower_idem [simp]: "ToLower (ToLower s) = ToLower s"
  by (simp add: ToLower_def comp_def)

lemma ToLower_Nil [simp]: "ToLower [] = []" "ToLower s = [] \<longleftrightarrow> s = []"
  by (simp_all add: ToLower_def)

lemma EqualFold_refl [simp]: "EqualFold s s"
  by (simp add: EqualFold_def)

lemma EqualFold_sym: "EqualFold s t \<longleftrightarrow> EqualFold t s"
  by (auto simp: EqualFold_def)

lemma EqualFold_trans: "EqualFold s t \<Longrightarrow> EqualFold t u \<Longrightarrow> EqualFold s u"
  by (simp add: EqualFold_def)

lemma dropWhile_rev_dropWhile_idem:
  "dropWhile p (rev (dropWhile p (rev (dropWhile p s)))) = rev (dropWhile p (rev (dropWhile p s)))"
proof (cases "dropWhile p s = []")
  case True
  then show ?thesis by (simp only: True rev.simps dropWhile.simps)
next
  case False
  then obtain a as where Cons: "dropWhile p s = a # as" by (cases "dropWhile p s") auto
  then have "\<not> p a" by (metis hd_dropWhile list.discI list.sel(1))
  then have "dropWhile p (rev as @ [a]) = dropWhile p (rev as) @ [a]"
    by (simp add: dropWhile_append3)
  with Cons \<open>\<not> p a\<close> show ?thesis by simp
qed

lemma TrimSpace_idem [simp]: "TrimSpace (TrimSpace s) = TrimSpace s"
  by (simp add: TrimSpace_def TrimLeft_def TrimRight_def dropWhile_rev_dropWhile_idem
      dropWhile_idem)

lemma TrimSpace_Nil [simp]: "TrimSpace [] = []"
  by (simp add: TrimSpace_def TrimLeft_def TrimRight_def)

section \<open>Errors\<close>

text \<open>
  Why a governance rule blocks a request (the formatted reason strings of the source, with the
  data each is formatted from).
\<close>

datatype reason =
    RPolicy string
  | RQuota nat rat string
  | RBudget rat rat string
  | RBudgetWarning rat string
  | RProviderBudget string
  | RMetricQuota string rat rat string
  | RDlp

text \<open>
  Errors are values. \<open>NoRows\<close> to \<open>Fault\<close> are what a query can return (\<open>pgx.ErrNoRows\<close>, the
  constraint violations, and any other failure of the database), \<open>Blocked\<close> is
  \<open>aiEnforcementError\<close>, \<open>Wrap\<close> is \<open>fmt.Errorf\<close> with \<open>%w\<close>, \<open>Upstream\<close> an error of a provider,
  \<open>ApiError\<close> the \<open>adminAPIError\<close> of a provider client (status and body),
  \<open>Panic\<close> a run-time panic (the operation stops there and its caller recovers).
\<close>

datatype err =
    NoRows
  | UniqueViolation
  | FkViolation
  | CheckViolation
  | Fault
  | Msg string
  | NotFound string string
  | BadStatus string string
  | Blocked "reason list"
  | ActiveInstances nat
  | Upstream string
  | ApiError nat string
  | Panic string
  | Wrap string err

fun IsAIEnforcementError :: "err \<Rightarrow> bool" where
  "IsAIEnforcementError (Blocked _) = True"
| "IsAIEnforcementError (Wrap _ e) = IsAIEnforcementError e"
| "IsAIEnforcementError _ = False"

fun isUniqueViolation :: "err \<Rightarrow> bool" where
  "isUniqueViolation UniqueViolation = True"
| "isUniqueViolation (Wrap _ e) = isUniqueViolation e"
| "isUniqueViolation _ = False"

section \<open>Operations: a state, and a value or an error\<close>

type_synonym ('s, 'a) op = "'s \<Rightarrow> (err + 'a) \<times> 's"

definition ret :: "'a \<Rightarrow> ('s, 'a) op" where
  "ret x = (\<lambda>s. (Inr x, s))"

definition fail :: "err \<Rightarrow> ('s, 'a) op" where
  "fail e = (\<lambda>s. (Inl e, s))"

definition bindE :: "('s, 'a) op \<Rightarrow> ('a \<Rightarrow> ('s, 'b) op) \<Rightarrow> ('s, 'b) op" where
  "bindE m f = (\<lambda>s. case m s of (Inl e, t) \<Rightarrow> (Inl e, t) | (Inr x, t) \<Rightarrow> f x t)"

text \<open>\<open>x, err := m\<close> with the error inspected by the code that follows.\<close>

definition attempt :: "('s, 'a) op \<Rightarrow> ('s, err + 'a) op" where
  "attempt m = (\<lambda>s. case m s of (r, t) \<Rightarrow> (Inr r, t))"

text \<open>\<open>_, _ = m\<close>: the result and the error are dropped.\<close>

definition ignore :: "('s, 'a) op \<Rightarrow> ('s, unit) op" where
  "ignore m = (\<lambda>s. case m s of (r, t) \<Rightarrow> (Inr (), t))"

definition wrap :: "string \<Rightarrow> ('s, 'a) op \<Rightarrow> ('s, 'a) op" where
  "wrap ctxt m = (\<lambda>s. case m s of (Inl e, t) \<Rightarrow> (Inl (Wrap ctxt e), t) | (Inr x, t) \<Rightarrow> (Inr x, t))"

definition guardE :: "bool \<Rightarrow> err \<Rightarrow> ('s, unit) op" where
  "guardE b e = (if b then ret () else fail e)"

definition gets :: "('s \<Rightarrow> 'a) \<Rightarrow> ('s, 'a) op" where
  "gets f = (\<lambda>s. (Inr (f s), s))"

fun forE :: "'a list \<Rightarrow> ('a \<Rightarrow> ('s, unit) op) \<Rightarrow> ('s, unit) op" where
  "forE [] f = ret ()"
| "forE (x # xs) f = bindE (f x) (\<lambda>_. forE xs f)"

fun foldE :: "('b \<Rightarrow> 'a \<Rightarrow> ('s, 'b) op) \<Rightarrow> 'b \<Rightarrow> 'a list \<Rightarrow> ('s, 'b) op" where
  "foldE f acc [] = ret acc"
| "foldE f acc (x # xs) = bindE (f acc x) (\<lambda>acc'. foldE f acc' xs)"

named_theorems op_defs

declare ret_def [op_defs] fail_def [op_defs] bindE_def [op_defs] attempt_def [op_defs]
  ignore_def [op_defs] wrap_def [op_defs] guardE_def [op_defs] gets_def [op_defs]

lemma bindE_Inr_iff:
  "bindE m f s = (Inr y, u) \<longleftrightarrow> (\<exists>x t. m s = (Inr x, t) \<and> f x t = (Inr y, u))"
  by (auto simp: bindE_def split: prod.splits sum.splits)

lemma wrap_Inr_iff [simp]: "wrap c m s = (Inr y, u) \<longleftrightarrow> m s = (Inr y, u)"
  by (auto simp: wrap_def split: prod.splits sum.splits)

lemma guardE_Inr_iff [simp]: "guardE b e s = (Inr y, u) \<longleftrightarrow> b \<and> u = s"
  by (auto simp: guardE_def ret_def fail_def)

lemma ret_Inr_iff [simp]: "ret x s = (Inr y, u) \<longleftrightarrow> y = x \<and> u = s"
  by (auto simp: ret_def)

lemma fail_Inr_iff [simp]: "\<not> fail e s = (Inr y, u)"
  by (simp add: fail_def)

lemma gets_Inr_iff [simp]: "gets f s = (Inr y, u) \<longleftrightarrow> y = f s \<and> u = s"
  by (auto simp: gets_def)

lemma bindE_ret [simp]: "bindE (ret x) f = f x"
  by (simp add: bindE_def ret_def)

lemma bindE_fail [simp]: "bindE (fail e) f = fail e"
  by (simp add: bindE_def fail_def)

lemma snd_ret [simp]: "snd (ret x s) = s"
  by (simp add: ret_def)

lemma snd_fail [simp]: "snd (fail e s) = s"
  by (simp add: fail_def)

lemma snd_gets [simp]: "snd (gets f s) = s"
  by (simp add: gets_def)

text \<open>Running an operation whose error is looked at, or dropped.\<close>

lemma bindE_attempt: "bindE (attempt m) f s = f (fst (m s)) (snd (m s))"
  by (simp add: bindE_def attempt_def split: prod.splits)

lemma bindE_ignore: "bindE (ignore m) f s = f () (snd (m s))"
  by (simp add: bindE_def ignore_def split: prod.splits)

lemma fst_ignore [simp]: "fst (ignore m s) = Inr ()"
  by (simp add: ignore_def split: prod.splits)

lemma snd_ignore [simp]: "snd (ignore m s) = snd (m s)"
  by (simp add: ignore_def split: prod.splits)

lemma fst_fail [simp]: "fst (fail e s) = Inl e"
  by (simp add: fail_def)

lemma fst_ret [simp]: "fst (ret x s) = Inr x"
  by (simp add: ret_def)

lemma bindE_fst_Inr: "fst (m s) = Inr x \<Longrightarrow> bindE m f s = f x (snd (m s))"
  by (cases "m s") (simp add: bindE_def)

lemma fst_bindE: "fst (bindE m f s) = (case fst (m s) of Inl e \<Rightarrow> Inl e | Inr x \<Rightarrow> fst (f x (snd (m s))))"
  by (simp add: bindE_def split: prod.splits sum.splits)

lemma snd_bindE: "snd (bindE m f s) = (case fst (m s) of Inl e \<Rightarrow> snd (m s) | Inr x \<Rightarrow> snd (f x (snd (m s))))"
  by (simp add: bindE_def split: prod.splits sum.splits)

lemma fst_attempt [simp]: "fst (attempt m s) = Inr (fst (m s))"
  by (simp add: attempt_def split: prod.splits)

lemma snd_attempt [simp]: "snd (attempt m s) = snd (m s)"
  by (simp add: attempt_def split: prod.splits)

lemma snd_wrap [simp]: "snd (wrap c m s) = snd (m s)"
  by (simp add: wrap_def split: prod.splits sum.splits)

lemma fst_wrap: "fst (wrap c m s) = (case fst (m s) of Inl e \<Rightarrow> Inl (Wrap c e) | Inr x \<Rightarrow> Inr x)"
  by (simp add: wrap_def split: prod.splits sum.splits)

lemma snd_guardE [simp]: "snd (guardE b e s) = s"
  by (simp add: guardE_def)

lemma fst_guardE: "fst (guardE b e s) = (if b then Inr () else Inl e)"
  by (simp add: guardE_def)

lemma fst_gets [simp]: "fst (gets f s) = Inr (f s)"
  by (simp add: gets_def)

lemmas run_simps = fst_bindE snd_bindE fst_wrap fst_guardE

lemma fst_forE_total: "(\<And>x s. fst (f x s) = Inr ()) \<Longrightarrow> fst (forE xs f s) = Inr ()"
proof (induction xs arbitrary: s)
  case (Cons x xs)
  then show ?case by (simp add: bindE_fst_Inr)
qed simp

section \<open>Carrying a relation through an operation\<close>

text \<open>
  \<open>rel R m\<close>: whatever \<open>m\<close> returns, the state it leaves is related to the state it started from.
  For a reflexive and transitive \<open>R\<close> every combinator keeps it.
\<close>

definition rel :: "('s \<Rightarrow> 's \<Rightarrow> bool) \<Rightarrow> ('s, 'a) op \<Rightarrow> bool" where
  "rel R m \<longleftrightarrow> (\<forall>s. R s (snd (m s)))"

lemma relD: "rel R m \<Longrightarrow> R s (snd (m s))"
  by (simp add: rel_def)

lemma relD': "rel R m \<Longrightarrow> m s = (r, t) \<Longrightarrow> R s t"
  by (metis relD snd_conv)

lemma relI: "(\<And>s. R s (snd (m s))) \<Longrightarrow> rel R m"
  by (simp add: rel_def)

lemma rel_weaken: "rel R m \<Longrightarrow> (\<And>s t. R s t \<Longrightarrow> Q s t) \<Longrightarrow> rel Q m"
  by (simp add: rel_def)

locale preorder_rel =
  fixes R :: "'s \<Rightarrow> 's \<Rightarrow> bool"
  assumes R_refl: "R s s"
    and R_trans: "R s t \<Longrightarrow> R t u \<Longrightarrow> R s u"
begin

lemma rel_ret: "rel R (ret x)"
  by (simp add: rel_def R_refl)

lemma rel_fail: "rel R (fail e)"
  by (simp add: rel_def R_refl)

lemma rel_gets: "rel R (gets f)"
  by (simp add: rel_def R_refl)

lemma rel_guardE: "rel R (guardE b e)"
  by (simp add: guardE_def rel_ret rel_fail)

lemma rel_bindE: "rel R m \<Longrightarrow> (\<And>x. rel R (f x)) \<Longrightarrow> rel R (bindE m f)"
  unfolding rel_def bindE_def
  by (auto split: prod.splits sum.splits) (metis snd_conv, metis R_trans snd_conv)

text \<open>The same with what the first operation can return.\<close>

lemma rel_bindE_dep: "rel R m \<Longrightarrow> (\<And>x s. fst (m s) = Inr x \<Longrightarrow> rel R (f x)) \<Longrightarrow> rel R (bindE m f)"
  unfolding rel_def bindE_def
  by (auto split: prod.splits sum.splits) (metis snd_conv, metis R_trans fst_conv snd_conv)

lemma rel_attempt: "rel R m \<Longrightarrow> rel R (attempt m)"
  unfolding rel_def attempt_def by (auto split: prod.splits) (metis snd_conv)

lemma rel_ignore: "rel R m \<Longrightarrow> rel R (ignore m)"
  unfolding rel_def ignore_def by (auto split: prod.splits) (metis snd_conv)

lemma rel_wrap: "rel R m \<Longrightarrow> rel R (wrap c m)"
  unfolding rel_def wrap_def by (auto split: prod.splits sum.splits) (metis snd_conv)+

lemma rel_forE: "(\<And>x. x \<in> set xs \<Longrightarrow> rel R (f x)) \<Longrightarrow> rel R (forE xs f)"
  by (induction xs) (auto intro!: rel_ret rel_bindE)

lemma rel_foldE: "(\<And>acc x. x \<in> set xs \<Longrightarrow> rel R (f acc x)) \<Longrightarrow> rel R (foldE f acc xs)"
  by (induction xs arbitrary: acc) (auto intro!: rel_ret rel_bindE)

lemma rel_if: "(b \<Longrightarrow> rel R m) \<Longrightarrow> (\<not> b \<Longrightarrow> rel R n) \<Longrightarrow> rel R (if b then m else n)"
  by simp

lemma rel_case_sum:
  "(\<And>e. x = Inl e \<Longrightarrow> rel R (f e)) \<Longrightarrow> (\<And>y. x = Inr y \<Longrightarrow> rel R (g y)) \<Longrightarrow> rel R (case_sum f g x)"
  by (cases x) auto

lemma rel_case_option:
  "(x = None \<Longrightarrow> rel R m) \<Longrightarrow> (\<And>y. x = Some y \<Longrightarrow> rel R (f y)) \<Longrightarrow> rel R (case_option m f x)"
  by (cases x) auto

lemma rel_case_prod: "(\<And>a b. x = (a, b) \<Longrightarrow> rel R (f a b)) \<Longrightarrow> rel R (case_prod f x)"
  by (cases x) auto

lemma rel_Let: "rel R (f x) \<Longrightarrow> rel R (Let x f)"
  by simp

lemmas rel_intros = rel_ret rel_fail rel_gets rel_guardE rel_bindE rel_attempt rel_ignore
  rel_wrap rel_forE rel_foldE rel_if rel_case_sum rel_case_option rel_case_prod rel_Let

end

text \<open>Equality of a projection of the state is such a relation: the operation leaves it alone.\<close>

interpretation same: preorder_rel "\<lambda>s t. f t = f s" for f
  by unfold_locales auto

section \<open>Rows of a table\<close>

definition update_rows :: "('a \<Rightarrow> bool) \<Rightarrow> ('a \<Rightarrow> 'a) \<Rightarrow> 'a list \<Rightarrow> 'a list" where
  "update_rows p f xs = map (\<lambda>x. if p x then f x else x) xs"

lemma update_rows_map_same:
  "(\<And>x. g (f x) = g x) \<Longrightarrow> map g (update_rows p f xs) = map g xs"
  by (induction xs) (auto simp: update_rows_def)

lemma set_update_rows:
  "y \<in> set (update_rows p f xs) \<longleftrightarrow> (\<exists>x \<in> set xs. y = (if p x then f x else x))"
  by (auto simp: update_rows_def)

lemma length_update_rows [simp]: "length (update_rows p f xs) = length xs"
  by (simp add: update_rows_def)

lemma find_SomeD: "List.find p xs = Some x \<Longrightarrow> x \<in> set xs \<and> p x"
  by (induction xs) (auto split: if_splits)

lemma find_Some_unique:
  "distinct (map k xs) \<Longrightarrow> x \<in> set xs \<Longrightarrow> List.find (\<lambda>y. k y = k x) xs = Some x"
  by (induction xs) (auto simp: image_iff)

lemma find_NoneD: "List.find p xs = None \<Longrightarrow> x \<in> set xs \<Longrightarrow> \<not> p x"
  by (induction xs) (auto split: if_splits)

end
