(* ===== verification/GoNum.thy ===== *)
theory GoNum
  imports Prelude "HOL-Library.Log_Nat" "HOL-Library.Word"
begin

text \<open>
  Go's numbers. \<open>float64\<close> values are the rationals they denote; every arithmetic operation of
  the source is the exact operation followed by \<open>fl64\<close>, IEEE 754 rounding to nearest (ties to
  even) at 53 significant bits with gradual underflow. Overflow to an infinity and NaN are outside
  the model: JSON and the database cannot produce them, and the source divides only by a positive
  number. \<open>int32\<close> and \<open>int64\<close> arithmetic that can overflow goes through \<open>wrap32\<close> and \<open>wrap64\<close>.
\<close>

section \<open>Fixed-width integers\<close>

definition wrap32 :: "int \<Rightarrow> int" where
  "wrap32 x = sint (word_of_int x :: 32 word)"

definition wrap64 :: "int \<Rightarrow> int" where
  "wrap64 x = sint (word_of_int x :: 64 word)"

lemma wrap64_id: "- (2 ^ 63) \<le> x \<Longrightarrow> x < 2 ^ 63 \<Longrightarrow> wrap64 x = x"
  by (simp add: wrap64_def signed_of_int signed_take_bit_int_eq_self)

lemma wrap32_id: "- (2 ^ 31) \<le> x \<Longrightarrow> x < 2 ^ 31 \<Longrightarrow> wrap32 x = x"
  by (simp add: wrap32_def signed_of_int signed_take_bit_int_eq_self)

section \<open>Rounding to float64\<close>

type_synonym float64 = rat

text \<open>The exponent of a positive rational: \<open>2 powi e \<le> x < 2 powi (e + 1)\<close>.\<close>

definition expo :: "rat \<Rightarrow> int" where
  "expo x = (case quotient_of x of (p, q) \<Rightarrow>
     let d = bitlen p - bitlen q in if x < 2 powi d then d - 1 else d)"

definition round_half_even :: "rat \<Rightarrow> int" where
  "round_half_even y = (let r = \<lfloor>y\<rfloor>; f = y - of_int r in
     if f < 1/2 then r else if 1/2 < f then r + 1 else if even r then r else r + 1)"

definition ulp_exp :: "rat \<Rightarrow> int" where
  "ulp_exp x = max (expo x - 52) (-1074)"

definition fl64_pos :: "rat \<Rightarrow> rat" where
  "fl64_pos x = (let e = ulp_exp x in of_int (round_half_even (x / 2 powi e)) * 2 powi e)"

definition fl64 :: "rat \<Rightarrow> float64" where
  "fl64 x = (if x = 0 then 0 else if 0 < x then fl64_pos x else - fl64_pos (- x))"

definition fadd :: "float64 \<Rightarrow> float64 \<Rightarrow> float64" where "fadd x y = fl64 (x + y)"
definition fsub :: "float64 \<Rightarrow> float64 \<Rightarrow> float64" where "fsub x y = fl64 (x - y)"
definition fmul :: "float64 \<Rightarrow> float64 \<Rightarrow> float64" where "fmul x y = fl64 (x * y)"
definition fdiv :: "float64 \<Rightarrow> float64 \<Rightarrow> float64" where "fdiv x y = fl64 (x / y)"

text \<open>\<open>float64(n)\<close> of an integer.\<close>

definition of_count :: "int \<Rightarrow> float64" where "of_count n = fl64 (of_int n)"

lemma expo_bounds:
  assumes "0 < x"
  shows "2 powi (expo x) \<le> x \<and> x < 2 powi (expo x + 1)"
proof -
  obtain p q where pq: "quotient_of x = (p, q)" by fastforce
  then have q: "0 < q" and x: "x = of_int p / of_int q"
    by (auto intro: quotient_of_denom_pos quotient_of_div)
  with assms have p: "0 < p" by (simp add: zero_less_divide_iff)
  let ?d = "bitlen p - bitlen q"
  have bp: "2 ^ nat (bitlen p - 1) \<le> p" "p < 2 ^ nat (bitlen p)" using bitlen_bounds [OF p] by auto
  have bq: "2 ^ nat (bitlen q - 1) \<le> q" "q < 2 ^ nat (bitlen q)" using bitlen_bounds [OF q] by auto
  have pos: "1 \<le> bitlen p" "1 \<le> bitlen q"
    using bitlen_le_iff_power [of p 0] bitlen_le_iff_power [of q 0] p q by (auto simp: not_le)
  have toR: "rat_of_int (2 ^ nat k) = 2 powi k" if "0 \<le> k" for k
    using that by (simp add: power_int_def)
  have P: "2 powi (bitlen p - 1) \<le> rat_of_int p" "rat_of_int p < 2 powi bitlen p"
    using bp pos toR [of "bitlen p - 1"] toR [of "bitlen p"]
    by (metis of_int_le_iff diff_ge_0_iff_ge) (metis bp(2) of_int_less_iff pos(1) toR order.trans zero_le_one)
  have Q: "2 powi (bitlen q - 1) \<le> rat_of_int q" "rat_of_int q < 2 powi bitlen q"
    using bq pos toR [of "bitlen q - 1"] toR [of "bitlen q"]
    by (metis of_int_le_iff diff_ge_0_iff_ge) (metis bq(2) of_int_less_iff pos(2) toR order.trans zero_le_one)
  have q0: "0 < rat_of_int q" using q by simp
  have lo: "2 powi (?d - 1) \<le> x"
  proof -
    have "2 powi (?d - 1) * rat_of_int q \<le> 2 powi (?d - 1) * 2 powi bitlen q"
      using Q by (intro mult_left_mono) auto
    also have "\<dots> = 2 powi (bitlen p - 1)"
      by (simp flip: power_int_add)
    also have "\<dots> \<le> rat_of_int p" by (rule P)
    finally show ?thesis using q0 by (simp add: x field_simps)
  qed
  have hi: "x < 2 powi (?d + 1)"
  proof -
    have "rat_of_int p < 2 powi bitlen p" by (rule P)
    also have "\<dots> = 2 powi (?d + 1) * 2 powi (bitlen q - 1)"
      by (simp flip: power_int_add)
    also have "\<dots> \<le> 2 powi (?d + 1) * rat_of_int q"
      using Q by (intro mult_left_mono) auto
    finally show ?thesis using q0 by (simp add: x field_simps)
  qed
  show ?thesis using lo hi by (auto simp: expo_def pq Let_def)
qed


lemma expo_mono:
  assumes "0 < x" "x \<le> y"
  shows "expo x \<le> expo y"
proof (rule ccontr)
  assume "\<not> expo x \<le> expo y"
  then have "2 powi (expo y + 1) \<le> (2::rat) powi (expo x)"
    by (intro power_int_increasing) auto
  with expo_bounds [of x] expo_bounds [of y] assms show False by auto
qed

lemma round_half_even_bounds: "\<lfloor>y\<rfloor> \<le> round_half_even y" "round_half_even y \<le> \<lfloor>y\<rfloor> + 1"
  by (auto simp: round_half_even_def Let_def)

lemma round_half_even_of_int [simp]: "round_half_even (of_int n) = n"
  by (simp add: round_half_even_def Let_def)

lemma round_half_even_mono:
  assumes "x \<le> y"
  shows "round_half_even x \<le> round_half_even y"
proof (cases "\<lfloor>x\<rfloor> = \<lfloor>y\<rfloor>")
  case True
  with assms show ?thesis by (auto simp: round_half_even_def Let_def)
next
  case False
  with assms have "\<lfloor>x\<rfloor> + 1 \<le> \<lfloor>y\<rfloor>" using floor_mono [OF assms] by linarith
  with round_half_even_bounds [of x] round_half_even_bounds [of y] show ?thesis by linarith
qed

lemma fl64_pos_nonneg: "0 < x \<Longrightarrow> 0 \<le> fl64_pos x"
  using round_half_even_mono [of 0 "x / 2 powi (ulp_exp x)"] round_half_even_of_int [of 0]
  by (simp add: fl64_pos_def Let_def)

text \<open>Within one binade the rounding is that of the scaled integer; across binades the power of
  two between them separates the results.\<close>

lemma fl64_pos_upper:
  assumes "0 < x" "ulp_exp x < e"
  shows "fl64_pos x \<le> 2 powi (e + 52)"
proof -
  let ?u = "ulp_exp x"
  have "x < 2 powi (expo x + 1)" using expo_bounds [OF assms(1)] by simp
  also have "\<dots> \<le> 2 powi (?u + 53)" by (intro power_int_increasing) (auto simp: ulp_exp_def)
  also have "\<dots> = 2 powi ?u * of_int (2 ^ 53)" by (simp add: power_int_add)
  finally have "x / 2 powi ?u \<le> of_int (2 ^ 53)" by (simp add: field_simps)
  then have "round_half_even (x / 2 powi ?u) \<le> 2 ^ 53"
    using round_half_even_mono round_half_even_of_int by metis
  then have "rat_of_int (round_half_even (x / 2 powi ?u)) \<le> of_int (2 ^ 53)"
    by (simp only: of_int_le_iff)
  then have "fl64_pos x \<le> of_int (2 ^ 53) * 2 powi ?u"
    unfolding fl64_pos_def Let_def by (intro mult_right_mono) auto
  also have "\<dots> = 2 powi (?u + 53)" by (simp add: power_int_add)
  also have "\<dots> \<le> 2 powi (e + 52)" using assms(2) by (intro power_int_increasing) auto
  finally show ?thesis .
qed

lemma fl64_pos_lower:
  assumes "0 < y" "-1074 < ulp_exp y"
  shows "2 powi (ulp_exp y + 52) \<le> fl64_pos y"
proof -
  let ?u = "ulp_exp y"
  have u: "?u = expo y - 52" using assms(2) by (auto simp: ulp_exp_def)
  then have "2 powi (?u + 52) \<le> y" using expo_bounds [OF assms(1)] by simp
  then have "of_int (2 ^ 52) \<le> y / 2 powi ?u" by (simp add: power_int_add field_simps)
  then have "2 ^ 52 \<le> round_half_even (y / 2 powi ?u)"
    using round_half_even_mono round_half_even_of_int by metis
  then have "rat_of_int (2 ^ 52) \<le> of_int (round_half_even (y / 2 powi ?u))"
    by (simp only: of_int_le_iff)
  then have "of_int (2 ^ 52) * 2 powi ?u \<le> fl64_pos y"
    unfolding fl64_pos_def Let_def by (intro mult_right_mono) auto
  then show ?thesis by (simp add: power_int_add)
qed

lemma fl64_pos_mono:
  assumes "0 < x" "x \<le> y"
  shows "fl64_pos x \<le> fl64_pos y"
proof (cases "ulp_exp x = ulp_exp y")
  case True
  have "round_half_even (x / 2 powi ulp_exp y) \<le> round_half_even (y / 2 powi ulp_exp y)"
    using assms by (intro round_half_even_mono divide_right_mono) auto
  then show ?thesis
    by (auto simp: fl64_pos_def Let_def True intro!: mult_right_mono)
next
  case False
  have "ulp_exp x \<le> ulp_exp y" using expo_mono [OF assms] by (auto simp: ulp_exp_def)
  with False have lt: "ulp_exp x < ulp_exp y" by simp
  moreover have "-1074 \<le> ulp_exp x" by (simp add: ulp_exp_def)
  ultimately have "-1074 < ulp_exp y" by simp
  then show ?thesis
    using fl64_pos_upper [OF assms(1) lt] fl64_pos_lower [of y] assms by auto
qed

lemma fl64_0 [simp]: "fl64 0 = 0"
  by (simp add: fl64_def)

lemma fl64_nonneg [simp]: "0 \<le> x \<Longrightarrow> 0 \<le> fl64 x"
  by (auto simp: fl64_def fl64_pos_nonneg)

lemma fl64_nonpos: "x \<le> 0 \<Longrightarrow> fl64 x \<le> 0"
  using fl64_pos_nonneg [of "- x"] by (auto simp: fl64_def)

text \<open>Rounding is monotone, so comparisons with a limit survive it.\<close>

lemma fl64_mono: "x \<le> y \<Longrightarrow> fl64 x \<le> fl64 y"
proof -
  assume le: "x \<le> y"
  consider "0 < x" | "x \<le> 0" "0 \<le> y" | "y < 0" by linarith
  then show ?thesis
  proof cases
    case 1
    with le show ?thesis by (simp add: fl64_def fl64_pos_mono)
  next
    case 2
    then show ?thesis using fl64_nonpos [of x] fl64_nonneg [of y] by linarith
  next
    case 3
    with le have "fl64_pos (- y) \<le> fl64_pos (- x)" by (intro fl64_pos_mono) auto
    with 3 le show ?thesis by (simp add: fl64_def)
  qed
qed

text \<open>A multiple of a power of two with at most 53 significant bits is exact; so are the results
  of rounding themselves, and integers below \<open>2 ^ 53\<close>.\<close>

lemma fl64_pos_exact:
  assumes "0 < n" "n < 2 ^ 53" "-1074 \<le> e"
  shows "fl64_pos (of_int n * 2 powi e) = of_int n * 2 powi e"
proof -
  let ?x = "rat_of_int n * 2 powi e"
  have x: "0 < ?x" using assms(1) by simp
  have "expo ?x < e + 53"
  proof (rule ccontr)
    assume "\<not> expo ?x < e + 53"
    then have "(2::rat) powi (e + 53) \<le> 2 powi (expo ?x)" by (intro power_int_increasing) auto
    also have "\<dots> \<le> ?x" using expo_bounds [OF x] by simp
    finally have "rat_of_int (2 ^ 53) \<le> of_int n" by (simp add: power_int_add)
    then show False using assms(2) by (simp only: of_int_le_iff)
  qed
  then have e: "ulp_exp ?x \<le> e" using assms(3) by (simp add: ulp_exp_def)
  define u where "u = ulp_exp ?x"
  define k where "k = nat (e - u)"
  have pk: "(2::rat) powi e = 2 ^ k * 2 powi u"
  proof -
    have "e = int k + u" using e by (simp add: k_def u_def)
    then have "(2::rat) powi e = 2 powi (int k + u)" by simp
    then show ?thesis by (simp add: power_int_add)
  qed
  have scaled: "?x = of_int (n * 2 ^ k) * 2 powi u" by (simp add: pk)
  then have "?x / 2 powi u = of_int (n * 2 ^ k)" by (simp only:) simp
  then have "round_half_even (?x / 2 powi u) = n * 2 ^ k"
    using round_half_even_of_int by metis
  then have "fl64_pos ?x = of_int (n * 2 ^ k) * 2 powi u"
    by (simp only: fl64_pos_def Let_def u_def [symmetric])
  then show ?thesis by (rule trans [OF _ scaled [symmetric]])
qed

lemma fl64_int: "\<bar>n\<bar> < 2 ^ 53 \<Longrightarrow> fl64 (of_int n) = of_int n"
  using fl64_pos_exact [of n 0] fl64_pos_exact [of "- n" 0] by (auto simp: fl64_def)

lemma fl64_pos_form:
  assumes "0 < x"
  obtains n e where "fl64_pos x = of_int n * 2 powi e" "0 \<le> n" "n \<le> 2 ^ 53" "-1074 \<le> e"
proof -
  let ?u = "ulp_exp x"
  have "x < 2 powi (expo x + 1)" using expo_bounds [OF assms] by simp
  also have "\<dots> \<le> 2 powi (?u + 53)" by (intro power_int_increasing) (auto simp: ulp_exp_def)
  finally have "x / 2 powi ?u \<le> of_int (2 ^ 53)" by (simp add: power_int_add field_simps)
  then have "round_half_even (x / 2 powi ?u) \<le> 2 ^ 53"
    using round_half_even_mono round_half_even_of_int by metis
  moreover have "0 \<le> round_half_even (x / 2 powi ?u)"
    using round_half_even_mono [of 0 "x / 2 powi ?u"] round_half_even_of_int [of 0] assms by simp
  ultimately show thesis
    by (intro that [of "round_half_even (x / 2 powi ?u)" ?u]) (auto simp: fl64_pos_def Let_def ulp_exp_def)
qed

lemma fl64_of_form:
  assumes "0 \<le> n" "n \<le> 2 ^ 53" "-1074 \<le> e"
  shows "fl64 (of_int n * 2 powi e) = of_int n * 2 powi e"
proof -
  consider "n = 0" | "n = 2 ^ 53" | "0 < n" "n < 2 ^ 53" using assms by linarith
  then show ?thesis
  proof cases
    case 2
    have "rat_of_int n * 2 powi e = of_int (2 ^ 52) * 2 powi (e + 1)"
      by (simp add: 2 power_int_add)
    then show ?thesis using fl64_pos_exact [of "2 ^ 52" "e + 1"] assms(3) by (simp add: fl64_def)
  qed (use fl64_pos_exact [of n e] assms in \<open>auto simp: fl64_def\<close>)
qed

lemma fl64_idem_nonneg: "0 \<le> x \<Longrightarrow> fl64 (fl64 x) = fl64 x"
proof (cases "x = 0")
  case False
  assume "0 \<le> x"
  with False have x: "0 < x" by simp
  obtain n e where "fl64_pos x = of_int n * 2 powi e" "0 \<le> n" "n \<le> 2 ^ 53" "-1074 \<le> e"
    using fl64_pos_form [OF x] .
  then have "fl64 (fl64_pos x) = fl64_pos x" using fl64_of_form by metis
  with x show ?thesis by (simp add: fl64_def [of x])
qed simp

lemma of_count_small: "\<bar>n\<bar> < 2 ^ 53 \<Longrightarrow> of_count n = of_int n"
  by (simp add: of_count_def fl64_int)

lemma fadd_nonneg: "0 \<le> x \<Longrightarrow> 0 \<le> y \<Longrightarrow> 0 \<le> fadd x y"
  by (simp add: fadd_def)

lemma fmul_nonneg: "0 \<le> x \<Longrightarrow> 0 \<le> y \<Longrightarrow> 0 \<le> fmul x y"
  by (simp add: fmul_def)

lemma fdiv_nonneg: "0 \<le> x \<Longrightarrow> 0 \<le> y \<Longrightarrow> 0 \<le> fdiv x y"
  by (simp add: fdiv_def)

lemma fadd_mono: "x \<le> x' \<Longrightarrow> y \<le> y' \<Longrightarrow> fadd x y \<le> fadd x' y'"
  by (simp add: fadd_def fl64_mono)

lemma fmul_mono: "0 \<le> y \<Longrightarrow> x \<le> x' \<Longrightarrow> fmul x y \<le> fmul x' y"
  by (simp add: fmul_def fl64_mono mult_right_mono)

lemma fdiv_mono: "0 < d \<Longrightarrow> x \<le> y \<Longrightarrow> fdiv x d \<le> fdiv y d"
  by (simp add: fdiv_def fl64_mono divide_right_mono)

text \<open>Adding up a list of amounts in order, as an accumulation loop does.\<close>

definition fsum :: "float64 \<Rightarrow> float64 list \<Rightarrow> float64" where
  "fsum acc xs = foldl fadd acc xs"

lemma fsum_simps [simp]: "fsum acc [] = acc" "fsum acc (x # xs) = fsum (fadd acc x) xs"
  by (simp_all add: fsum_def)

lemma fsum_append: "fsum acc (xs @ ys) = fsum (fsum acc xs) ys"
  by (simp add: fsum_def)

lemma fsum_nonneg: "0 \<le> acc \<Longrightarrow> \<forall>x \<in> set xs. 0 \<le> x \<Longrightarrow> 0 \<le> fsum acc xs"
  by (induction xs arbitrary: acc) (auto intro: fadd_nonneg)

text \<open>Leaving amounts out of a sum of non-negative amounts never makes it larger.\<close>

lemma fadd_ge: "0 \<le> acc \<Longrightarrow> fl64 acc = acc \<Longrightarrow> 0 \<le> x \<Longrightarrow> acc \<le> fadd acc x"
  using fl64_mono [of acc "acc + x"] by (simp add: fadd_def)

lemma fadd_fixed: "0 \<le> a \<Longrightarrow> 0 \<le> x \<Longrightarrow> fl64 (fadd a x) = fadd a x"
  by (simp add: fadd_def fl64_idem_nonneg)

lemma fsum_filter_le:
  assumes "0 \<le> a" "a \<le> b" "fl64 b = b" "\<forall>x \<in> set xs. 0 \<le> f x"
  shows "fsum a (map f (filter P xs)) \<le> fsum b (map f xs)"
  using assms
proof (induction xs arbitrary: a b)
  case (Cons x xs)
  have b: "0 \<le> b" using Cons.prems by linarith
  have x: "0 \<le> f x" using Cons.prems by simp
  have fix': "fl64 (fadd b (f x)) = fadd b (f x)" by (rule fadd_fixed [OF b x])
  show ?case
  proof (cases "P x")
    case True
    have "fsum (fadd a (f x)) (map f (filter P xs)) \<le> fsum (fadd b (f x)) (map f xs)"
      using Cons.prems x fix' by (intro Cons.IH fadd_nonneg fadd_mono) auto
    with True show ?thesis by simp
  next
    case False
    have "a \<le> fadd b (f x)" using fadd_ge [OF b Cons.prems(3) x] Cons.prems(2) by linarith
    then have "fsum a (map f (filter P xs)) \<le> fsum (fadd b (f x)) (map f xs)"
      using Cons.prems fix' by (intro Cons.IH) auto
    with False show ?thesis by simp
  qed
qed simp

end
