(* ===== verification/GoTime.thy ===== *)
theory GoTime
  imports GoNum
begin

text \<open>
  Package \<open>time\<close> as the source uses it. An instant is the number of nanoseconds since the Unix
  epoch (UTC is the server's location); \<open>time.Date\<close>, \<open>AddDate\<close>, the civil fields of an instant
  and the two layouts \<open>aiExpiresAt\<close> parses (RFC 3339 and \<open>2006-01-02\<close>).
\<close>

type_synonym time = int

definition day_ns :: int where "day_ns = 86400000000000"

definition Hours :: "int \<Rightarrow> int" where "Hours n = n * 3600000000000"

section \<open>The civil calendar\<close>

text \<open>Days since the epoch of a proleptic Gregorian date, and back (year, month, day).\<close>

definition days_of_civil :: "int \<Rightarrow> int \<Rightarrow> int \<Rightarrow> int" where
  "days_of_civil y m d =
     (let y' = (if m \<le> 2 then y - 1 else y); era = y' div 400; yoe = y' mod 400;
          doy = (153 * ((m + 9) mod 12) + 2) div 5 + d - 1;
          doe = yoe * 365 + yoe div 4 - yoe div 100 + doy
      in era * 146097 + doe - 719468)"

text \<open>The March-based year of a day of a 400-year era, and the day of that year, by centuries,
  four-year cycles and years (the leap day ends the longer cycles).\<close>

definition year_of_era :: "int \<Rightarrow> int \<times> int" where
  "year_of_era doe =
     (let c = min 3 (doe div 36524); r = doe - 36524 * c;
          q = r div 1461; r' = r - 1461 * q;
          n = min 3 (r' div 365)
      in (100 * c + 4 * q + n, r' - 365 * n))"

definition month_of_doy :: "int \<Rightarrow> int" where
  "month_of_doy doy = (5 * doy + 2) div 153"

definition civil_of_days :: "int \<Rightarrow> int \<times> int \<times> int" where
  "civil_of_days z =
     (let z' = z + 719468; era = z' div 146097; (yoe, doy) = year_of_era (z' mod 146097);
          mp = month_of_doy doy;
          d = doy - (153 * mp + 2) div 5 + 1;
          m = (if mp < 10 then mp + 3 else mp - 9);
          y = yoe + era * 400 + (if m \<le> 2 then 1 else 0)
      in (y, m, d))"

definition day_number :: "time \<Rightarrow> int" where
  "day_number t = t div day_ns"

definition Date :: "int \<Rightarrow> int \<Rightarrow> int \<Rightarrow> time" where
  "Date y m d = days_of_civil y m d * day_ns"

text \<open>\<open>t.AddDate(0, 0, n)\<close>: the same time of day \<open>n\<close> days later.\<close>

definition AddDays :: "time \<Rightarrow> int \<Rightarrow> time" where
  "AddDays t n = t + n * day_ns"

text \<open>\<open>t.Add(time.Duration(days) * 24 * time.Hour)\<close>: the product is an \<open>int64\<close>.\<close>

definition AddDuration24h :: "time \<Rightarrow> int \<Rightarrow> time" where
  "AddDuration24h t days = t + wrap64 (wrap64 (days * 24) * 3600000000000)"

lemma AddDuration24h_exact:
  assumes "0 \<le> days" "days \<le> 106751"
  shows "AddDuration24h t days = AddDays t days"
  using assms by (simp add: AddDuration24h_def AddDays_def day_ns_def wrap64_id)

section \<open>Parsing instants\<close>

definition digit :: "char \<Rightarrow> int option" where
  "digit c = (let n = (of_char c :: nat) in if 48 \<le> n \<and> n \<le> 57 then Some (int (n - 48)) else None)"

text \<open>\<open>getnum(s, fixed)\<close>: one or two digits; with \<open>fixed\<close> both are required.\<close>

fun getnum :: "bool \<Rightarrow> string \<Rightarrow> (int \<times> string) option" where
  "getnum fixed [] = None"
| "getnum fixed [a] = (case digit a of None \<Rightarrow> None | Some x \<Rightarrow> if fixed then None else Some (x, []))"
| "getnum fixed (a # b # r) =
     (case digit a of None \<Rightarrow> None
      | Some x \<Rightarrow> (case digit b of Some y \<Rightarrow> Some (10 * x + y, r)
                   | None \<Rightarrow> if fixed then None else Some (x, b # r)))"

definition literal :: "char \<Rightarrow> string \<Rightarrow> string option" where
  "literal c s = (case s of x # r \<Rightarrow> if x = c then Some r else None | [] \<Rightarrow> None)"

definition getyear :: "string \<Rightarrow> (int \<times> string) option" where
  "getyear s = Option.bind (getnum True s) (\<lambda>(hi, r).
     Option.bind (getnum True r) (\<lambda>(lo, r'). Some (100 * hi + lo, r')))"

definition is_leap :: "int \<Rightarrow> bool" where
  "is_leap y \<longleftrightarrow> y mod 4 = 0 \<and> (y mod 100 \<noteq> 0 \<or> y mod 400 = 0)"

definition daysIn :: "int \<Rightarrow> int \<Rightarrow> int" where
  "daysIn m y = (if m = 2 then (if is_leap y then 29 else 28)
                 else if m \<in> {4, 6, 9, 11} then 30 else 31)"

definition getdate :: "string \<Rightarrow> (time \<times> string) option" where
  "getdate s = Option.bind (getyear s) (\<lambda>(y, s1). Option.bind (literal (CHR ''-'') s1) (\<lambda>s2.
     Option.bind (getnum True s2) (\<lambda>(m, s3). Option.bind (literal (CHR ''-'') s3) (\<lambda>s4.
     Option.bind (getnum True s4) (\<lambda>(d, s5).
       if 1 \<le> m \<and> m \<le> 12 \<and> 1 \<le> d \<and> d \<le> daysIn m y then Some (Date y m d, s5) else None)))))"

definition ParseDate :: "string \<Rightarrow> time option" where
  "ParseDate s = (case getdate s of Some (t, []) \<Rightarrow> Some t | _ \<Rightarrow> None)"

text \<open>Fractional seconds after a \<open>.\<close> or \<open>,\<close>: the first nine digits count.\<close>

definition is_digit :: "char \<Rightarrow> bool" where "is_digit c \<longleftrightarrow> digit c \<noteq> None"

definition digits_val :: "string \<Rightarrow> int" where
  "digits_val ds = foldl (\<lambda>acc c. 10 * acc + (case digit c of Some x \<Rightarrow> x | None \<Rightarrow> 0)) 0 ds"

definition getfrac :: "string \<Rightarrow> int \<times> string" where
  "getfrac s = (case s of
     c # d # r \<Rightarrow>
       if (c = CHR ''.'' \<or> c = CHR '','') \<and> is_digit d then
         let ds = takeWhile is_digit (d # r); used = take 9 ds in
         (digits_val used * 10 ^ (9 - length used), dropWhile is_digit (d # r))
       else (0, s)
   | _ \<Rightarrow> (0, s))"

definition getzone :: "string \<Rightarrow> int option" where
  "getzone s = (if s = ''Z'' then Some 0 else
     (case s of
        [sg, a, b, c, d, e] \<Rightarrow>
          Option.bind (getnum True [a, b]) (\<lambda>(hh, _). Option.bind (getnum True [d, e]) (\<lambda>(mm, _).
            if c = CHR '':'' \<and> hh \<le> 24 \<and> mm < 60 then
              (if sg = CHR ''+'' then Some (hh * 3600 + mm * 60)
               else if sg = CHR ''-'' then Some (- (hh * 3600 + mm * 60)) else None)
            else None))
      | _ \<Rightarrow> None))"

definition ParseRFC3339 :: "string \<Rightarrow> time option" where
  "ParseRFC3339 s = Option.bind (getdate s) (\<lambda>(t, s1). Option.bind (literal (CHR ''T'') s1) (\<lambda>s2.
     Option.bind (getnum False s2) (\<lambda>(hh, s3). Option.bind (literal (CHR '':'') s3) (\<lambda>s4.
     Option.bind (getnum True s4) (\<lambda>(mi, s5). Option.bind (literal (CHR '':'') s5) (\<lambda>s6.
     Option.bind (getnum True s6) (\<lambda>(sec, s7).
       let (ns, s8) = getfrac s7 in
       Option.bind (getzone s8) (\<lambda>off.
         if hh < 24 \<and> mi < 60 \<and> sec < 60
         then Some (t + (hh * 3600 + mi * 60 + sec - off) * 1000000000 + ns) else None))))))))"

section \<open>Formatting\<close>

definition digit_char :: "nat \<Rightarrow> char" where
  "digit_char n = char_of (48 + n)"

fun show_nat :: "nat \<Rightarrow> string" where
  "show_nat n = (if n < 10 then [digit_char n] else show_nat (n div 10) @ [digit_char (n mod 10)])"

declare show_nat.simps [simp del]

definition show_int :: "int \<Rightarrow> string" where
  "show_int i = (if i < 0 then CHR ''-'' # show_nat (nat (- i)) else show_nat (nat i))"

definition pad2 :: "int \<Rightarrow> string" where
  "pad2 n = [digit_char (nat (n div 10 mod 10)), digit_char (nat (n mod 10))]"

text \<open>\<open>t.UTC().Format(time.RFC3339)\<close>, for years of four digits.\<close>

definition FormatRFC3339 :: "time \<Rightarrow> string" where
  "FormatRFC3339 t = (case civil_of_days (day_number t) of (y, m, d) \<Rightarrow>
     let sec = (t mod day_ns) div 1000000000 in
     pad2 (y div 100) @ pad2 (y mod 100) @ ''-'' @ pad2 m @ ''-'' @ pad2 d @ ''T'' @
     pad2 (sec div 3600) @ '':'' @ pad2 (sec div 60 mod 60) @ '':'' @ pad2 (sec mod 60) @ ''Z'')"

section \<open>Facts about the calendar\<close>

text \<open>The tables of months and days of a year, checked on all 366 days.\<close>

lemma month_table:
  "list_all (\<lambda>doy. let mp = month_of_doy doy; d = doy - (153 * mp + 2) div 5 + 1
      in 1 \<le> d \<and> d \<le> 31 \<and> 0 \<le> mp \<and> mp \<le> 11) [0..365]"
  by code_simp

lemma month_day_range:
  assumes "0 \<le> doy" "doy \<le> 365"
  shows "1 \<le> doy - (153 * month_of_doy doy + 2) div 5 + 1"
    and "doy - (153 * month_of_doy doy + 2) div 5 + 1 \<le> 31"
    and "0 \<le> month_of_doy doy" and "month_of_doy doy \<le> 11"
  using assms month_table by (auto simp: list_all_iff Let_def)

lemma year_of_era_spec:
  assumes doe: "0 \<le> doe" "doe < 146097" and yd: "year_of_era doe = (yoe, doy)"
  shows "0 \<le> yoe \<and> yoe < 400" and "0 \<le> doy \<and> doy \<le> 365"
    and "doe = yoe * 365 + yoe div 4 - yoe div 100 + doy"
proof -
  define c r q r' n where defs: "c = min 3 (doe div 36524)" "r = doe - 36524 * c"
    "q = r div 1461" "r' = r - 1461 * q" "n = min 3 (r' div 365)"
  have eq: "yoe = 100 * c + 4 * q + n" "doy = r' - 365 * n"
    using yd by (simp_all add: year_of_era_def Let_def defs)
  have c: "0 \<le> c" "c \<le> 3" "0 \<le> r" "c < 3 \<Longrightarrow> r < 36524" "r \<le> 36524"
    using doe by (auto simp: defs(1,2) min_def)
  have q: "0 \<le> q" "q \<le> 24" "0 \<le> r'" "r' < 1461" using c(3,5) by (auto simp: defs(3,4))
  have n: "0 \<le> n" "n \<le> 3" "0 \<le> r' - 365 * n" "r' - 365 * n \<le> 365"
    using q(3,4) by (auto simp: defs(5) min_def)
  show "0 \<le> yoe \<and> yoe < 400" using c q n eq by linarith
  show "0 \<le> doy \<and> doy \<le> 365" using n eq by linarith
  have e4: "yoe = n + 4 * (25 * c + q)" and e100: "yoe = (4 * q + n) + 100 * c" using eq by simp_all
  have "yoe div 4 = 25 * c + q" unfolding e4 using n by simp
  moreover have "yoe div 100 = c" unfolding e100 using q n by (simp add: div_pos_pos_trivial)
  ultimately show "doe = yoe * 365 + yoe div 4 - yoe div 100 + doy"
    using eq by (simp add: defs(2,4))
qed

lemma civil_of_days_range:
  assumes "civil_of_days z = (y, m, d)"
  shows "1 \<le> m" "m \<le> 12" "1 \<le> d" "d \<le> 31"
proof -
  obtain yoe doy where yd: "year_of_era ((z + 719468) mod 146097) = (yoe, doy)" by fastforce
  note spec = year_of_era_spec [OF _ _ yd]
  have doy: "0 \<le> doy" "doy \<le> 365" using spec(2) by auto
  note md = month_day_range [OF doy]
  show "1 \<le> m" "m \<le> 12" "1 \<le> d" "d \<le> 31"
    using assms md by (auto simp: civil_of_days_def yd Let_def split: if_splits)
qed

text \<open>The calendar is a bijection as far as the program needs it: the date of a day number
  denotes that day.\<close>

lemma days_of_civil_of_days:
  assumes "civil_of_days z = (y, m, d)"
  shows "days_of_civil y m d = z"
proof -
  obtain yoe doy where yd: "year_of_era ((z + 719468) mod 146097) = (yoe, doy)" by fastforce
  define era where "era = (z + 719468) div 146097"
  note spec = year_of_era_spec [OF _ _ yd]
  have ye: "0 \<le> yoe" "yoe < 400" and doy: "0 \<le> doy" "doy \<le> 365" using spec(1,2) by auto
  have doe: "(z + 719468) mod 146097 = yoe * 365 + yoe div 4 - yoe div 100 + doy"
    using spec(3) by auto
  note md = month_day_range [OF doy]
  define mp where "mp = month_of_doy doy"
  have mp: "0 \<le> mp" "mp \<le> 11" using md by (auto simp: mp_def)
  have m: "m = (if mp < 10 then mp + 3 else mp - 9)" and d: "d = doy - (153 * mp + 2) div 5 + 1"
    and y: "y = yoe + era * 400 + (if m \<le> 2 then 1 else 0)"
    using assms by (auto simp: civil_of_days_def yd Let_def mp_def era_def)
  have mm: "(m + 9) mod 12 = mp" using m mp by (auto simp: mod_pos_pos_trivial)
  have y': "(if m \<le> 2 then y - 1 else y) = yoe + era * 400" using y by simp
  have "z + 719468 = era * 146097 + (yoe * 365 + yoe div 4 - yoe div 100 + doy)"
    using div_mult_mod_eq [of "z + 719468" 146097] by (simp add: doe era_def)
  then show ?thesis
    unfolding days_of_civil_def Let_def y' mm using ye by (simp add: d)
qed

text \<open>Earlier days of the same month have the same year and month, so the first of the month is
  the day number less the days already gone.\<close>

lemma days_of_civil_day: "days_of_civil y m d = days_of_civil y m 1 + (d - 1)"
  by (simp add: days_of_civil_def Let_def)

lemma month_start_bounds:
  assumes "civil_of_days z = (y, m, d)"
  shows "days_of_civil y m 1 \<le> z" "z \<le> days_of_civil y m 1 + 30"
  using days_of_civil_of_days [OF assms] days_of_civil_day [of y m d]
    civil_of_days_range [OF assms] by linarith+

text \<open>The closed form of the first of March of a year, and the distance of the months of a year
  from its first of January.\<close>

definition march_days :: "int \<Rightarrow> int" where
  "march_days y = 365 * y + y div 4 - y div 100 + y div 400 - 719468"

lemma div_era_shift:
  "(k + 400 * e) div 4 = k div 4 + 100 * (e::int)"
  "(k + 400 * e) div 100 = k div 100 + 4 * e"
  "(k + 400 * e) div 400 = k div 400 + e"
  using div_mult_self2 [of 4 k "100 * e"] div_mult_self2 [of 100 k "4 * e"] by simp_all

lemma era_closed_form:
  "(y div 400) * 146097 + ((y mod 400) * 365 + (y mod 400) div 4 - (y mod 400) div 100) - 719468
     = march_days y"
proof -
  define e r where "e = y div 400" and "r = y mod 400"
  have y: "y = r + 400 * e" by (simp add: e_def r_def)
  have r: "0 \<le> r" "r < 400" by (simp_all add: r_def)
  have "y div 4 = r div 4 + 100 * e" "y div 100 = r div 100 + 4 * e"
    unfolding y by (rule div_era_shift)+
  then show ?thesis unfolding march_days_def e_def [symmetric] r_def [symmetric]
    using y by (simp add: algebra_simps)
qed

lemma days_of_civil_closed:
  "days_of_civil y m d =
     march_days (if m \<le> 2 then y - 1 else y) + (153 * ((m + 9) mod 12) + 2) div 5 + d - 1"
  unfolding days_of_civil_def Let_def era_closed_form [symmetric] by simp

lemma march_days_step: "march_days (y - 1) + 365 \<le> march_days y" "march_days y \<le> march_days (y - 1) + 366"
proof -
  define e r where "e = (y - 1) div 400" and "r = (y - 1) mod 400"
  have y: "y - 1 = r + 400 * e" by (simp add: e_def r_def)
  have r: "0 \<le> r" "r < 400" by (simp_all add: r_def)
  have m: "march_days (k + 400 * e) = march_days k + 146097 * e" for k
    by (simp add: march_days_def div_era_shift)
  have tab: "list_all (\<lambda>r. march_days r + 365 \<le> march_days (r + 1)
      \<and> march_days (r + 1) \<le> march_days r + 366) [0..399]"
    by code_simp
  then have "march_days r + 365 \<le> march_days (r + 1)" "march_days (r + 1) \<le> march_days r + 366"
    using r by (auto simp: list_all_iff)
  moreover have "march_days (y - 1) = march_days r + 146097 * e" using m [of r] y by simp
  moreover have "march_days y = march_days (r + 1) + 146097 * e"
    using m [of "r + 1"] y by (simp add: algebra_simps)
  ultimately show "march_days (y - 1) + 365 \<le> march_days y" "march_days y \<le> march_days (y - 1) + 366"
    by linarith+
qed

lemma days_of_civil_jan:
  assumes "1 \<le> m" "m \<le> 12"
  shows "days_of_civil y 1 1 \<le> days_of_civil y m 1" "days_of_civil y m 1 \<le> days_of_civil y 1 1 + 335"
proof -
  have "m \<in> set [1..12]" using assms by auto
  then have "m = 1 \<or> m = 2 \<or> m = 3 \<or> m = 4 \<or> m = 5 \<or> m = 6 \<or> m = 7 \<or> m = 8 \<or> m = 9 \<or> m = 10 \<or> m = 11 \<or> m = 12"
    using assms by presburger
  then show "days_of_civil y 1 1 \<le> days_of_civil y m 1" "days_of_civil y m 1 \<le> days_of_civil y 1 1 + 335"
    using march_days_step [of y] by (auto simp: days_of_civil_closed)
qed

lemma day_number_bounds: "day_number t * day_ns \<le> t" "t < (day_number t + 1) * day_ns"
  by (simp_all add: day_number_def day_ns_def)

lemma ParseDate_example: "ParseDate ''2026-06-12'' = Some (Date 2026 6 12)"
  by code_simp

lemma ParseRFC3339_example:
  "ParseRFC3339 ''1970-01-02T01:00:00.5+01:00'' = Some (86400500000000)"
  by code_simp

lemma FormatRFC3339_example:
  "FormatRFC3339 86400500000000 = ''1970-01-02T00:00:00Z''"
  by code_simp

text \<open>Decimal printing is injective: the value can be read back.\<close>

lemma digit_digit_char: "n < 10 \<Longrightarrow> digit (digit_char n) = Some (int n)"
  by (simp add: digit_def digit_char_def Let_def)

lemma digits_val_append:
  "digits_val (xs @ [c]) = 10 * digits_val xs + (case digit c of Some x \<Rightarrow> x | None \<Rightarrow> 0)"
  by (simp add: digits_val_def)

lemma digits_val_show_nat: "digits_val (show_nat n) = int n"
proof (induction n rule: show_nat.induct)
  case (1 n)
  show ?case
  proof (cases "n < 10")
    case True
    then show ?thesis
      by (subst show_nat.simps) (simp add: digits_val_def digit_digit_char)
  next
    case False
    with 1 have "digits_val (show_nat n) = 10 * int (n div 10) + int (n mod 10)"
      by (subst show_nat.simps) (simp add: digits_val_append digit_digit_char)
    then show ?thesis by presburger
  qed
qed

lemma show_nat_inj: "show_nat m = show_nat n \<longleftrightarrow> m = n"
  by (metis digits_val_show_nat of_nat_eq_iff)

end
