(* ===== verification/Json.thy ===== *)
theory Json
  imports GoTime
begin

text \<open>
  JSON values: what a \<open>jsonb\<close> column holds and what \<open>encoding/json\<close> decodes into \<open>any\<close>.
  A Go \<open>map[string]any\<close> is an association list with distinct keys (\<open>obj\<close>). Decoding into a
  struct follows \<open>encoding/json\<close>: keys match a field up to case, the last match wins, \<open>null\<close>
  leaves the field as it is and a value of another type is a decoding error.
\<close>

datatype json =
    JNull
  | JBool bool
  | JNum float64
  | JStr string
  | JArr "json list"
  | JObj "(string \<times> json) list"

type_synonym obj = "(string \<times> json) list"
type_synonym kv = "(string \<times> string) list"

text \<open>\<open>json.Unmarshal\<close> into a \<open>map[string]any\<close> whose error is dropped; \<open>null\<close> gives the empty map.\<close>

definition to_obj :: "json \<Rightarrow> obj" where
  "to_obj j = (case j of JObj kvs \<Rightarrow> kvs | _ \<Rightarrow> [])"

text \<open>\<open>m[k].(string)\<close>: the value with its \<open>ok\<close>.\<close>

definition str_at :: "obj \<Rightarrow> string \<Rightarrow> string option" where
  "str_at m k = (case map_of m k of Some (JStr s) \<Rightarrow> Some s | _ \<Rightarrow> None)"

text \<open>\<open>m[k]\<close> of a \<open>map[string]string\<close>: the empty string when absent.\<close>

definition kv_at :: "kv \<Rightarrow> string \<Rightarrow> string" where
  "kv_at m k = (case map_of m k of Some v \<Rightarrow> v | None \<Rightarrow> [])"

section \<open>Decoding into struct fields\<close>

fun dec_string :: "string \<Rightarrow> obj \<Rightarrow> string \<Rightarrow> string option" where
  "dec_string k [] acc = Some acc"
| "dec_string k ((k', v) # r) acc =
     (if EqualFold k' k
      then (case v of JStr s \<Rightarrow> dec_string k r s | JNull \<Rightarrow> dec_string k r acc | _ \<Rightarrow> None)
      else dec_string k r acc)"

fun dec_num :: "string \<Rightarrow> obj \<Rightarrow> float64 \<Rightarrow> float64 option" where
  "dec_num k [] acc = Some acc"
| "dec_num k ((k', v) # r) acc =
     (if EqualFold k' k
      then (case v of JNum s \<Rightarrow> dec_num k r s | JNull \<Rightarrow> dec_num k r acc | _ \<Rightarrow> None)
      else dec_num k r acc)"

fun dec_elems :: "json list \<Rightarrow> string list option" where
  "dec_elems [] = Some []"
| "dec_elems (v # r) =
     (case v of
        JStr s \<Rightarrow> map_option (Cons s) (dec_elems r)
      | JNull \<Rightarrow> map_option (Cons []) (dec_elems r)
      | _ \<Rightarrow> None)"

fun dec_strings :: "string \<Rightarrow> obj \<Rightarrow> string list \<Rightarrow> string list option" where
  "dec_strings k [] acc = Some acc"
| "dec_strings k ((k', v) # r) acc =
     (if EqualFold k' k
      then (case v of
              JArr xs \<Rightarrow> (case dec_elems xs of Some ys \<Rightarrow> dec_strings k r ys | None \<Rightarrow> None)
            | JNull \<Rightarrow> dec_strings k r []
            | _ \<Rightarrow> None)
      else dec_strings k r acc)"

fun dec_obj :: "string \<Rightarrow> obj \<Rightarrow> obj \<Rightarrow> obj option" where
  "dec_obj k [] acc = Some acc"
| "dec_obj k ((k', v) # r) acc =
     (if EqualFold k' k
      then (case v of JObj m \<Rightarrow> dec_obj k r m | JNull \<Rightarrow> dec_obj k r [] | _ \<Rightarrow> None)
      else dec_obj k r acc)"

lemma dec_string_skip: "\<not> EqualFold k' k \<Longrightarrow> dec_string k ((k', v) # r) acc = dec_string k r acc"
  by simp

lemma dec_string_absent:
  "\<forall>(k', v) \<in> set m. \<not> EqualFold k' k \<Longrightarrow> dec_string k m acc = Some acc"
  by (induction k m acc rule: dec_string.induct) auto

text \<open>A field of any type: \<open>null\<close> keeps the value, a mismatch is an error, the last match wins.\<close>

fun dec_field :: "(json \<Rightarrow> 'a option) \<Rightarrow> string \<Rightarrow> obj \<Rightarrow> 'a \<Rightarrow> 'a option" where
  "dec_field f k [] acc = Some acc"
| "dec_field f k ((k', v) # r) acc =
     (if EqualFold k' k
      then (if v = JNull then dec_field f k r acc
            else (case f v of Some x \<Rightarrow> dec_field f k r x | None \<Rightarrow> None))
      else dec_field f k r acc)"

definition dec_bool :: "json \<Rightarrow> bool option" where
  "dec_bool v = (case v of JBool b \<Rightarrow> Some b | _ \<Rightarrow> None)"

text \<open>Into an \<open>int64\<close>.\<close>

definition dec_int :: "json \<Rightarrow> int option" where
  "dec_int v = (case v of JNum x \<Rightarrow> if of_int \<lfloor>x\<rfloor> = x \<and> - (2 ^ 63) \<le> x \<and> x < 2 ^ 63 then Some \<lfloor>x\<rfloor> else None | _ \<Rightarrow> None)"

fun dec_all :: "(json \<Rightarrow> 'a option) \<Rightarrow> json list \<Rightarrow> 'a list option" where
  "dec_all f [] = Some []"
| "dec_all f (v # r) = (case f v of None \<Rightarrow> None | Some x \<Rightarrow> map_option (Cons x) (dec_all f r))"

definition dec_array :: "(json \<Rightarrow> 'a option) \<Rightarrow> json \<Rightarrow> 'a list option" where
  "dec_array f v = (case v of JArr xs \<Rightarrow> dec_all f xs | _ \<Rightarrow> None)"

text \<open>A struct: its fields decoded from an object; \<open>null\<close> gives the zero value.\<close>

definition dec_struct :: "(obj \<Rightarrow> 'a option) \<Rightarrow> json \<Rightarrow> 'a option" where
  "dec_struct f v = (case v of JObj m \<Rightarrow> f m | JNull \<Rightarrow> f [] | _ \<Rightarrow> None)"

section \<open>HTTP messages\<close>

text \<open>A body is the JSON document its bytes decode to, or bytes that are no JSON document; \<open>hr_Text\<close> is
  what was read of it as text. The source decodes the body of a success and quotes the text of a
  refusal, never both.\<close>

datatype payload = Doc json | Bytes string

record HttpRequest =
  hq_Method :: string
  hq_URL :: string
  hq_Query :: kv
  hq_Headers :: kv
  hq_Body :: "payload option"

record HttpResponse =
  hr_StatusCode :: nat
  hr_ContentType :: string
  hr_Body :: "err + payload"
  hr_Text :: string

definition status_ok :: "HttpResponse \<Rightarrow> bool" where
  "status_ok r \<longleftrightarrow> 200 \<le> hr_StatusCode r \<and> hr_StatusCode r < 300"

text \<open>Reading the body of a response can fail half-way; what was read is no document then.\<close>

definition decode_body :: "(json \<Rightarrow> 'a option) \<Rightarrow> err + payload \<Rightarrow> 'a option" where
  "decode_body f b = (case b of Inr (Doc j) \<Rightarrow> f j | _ \<Rightarrow> None)"

end
