(* ===== verification/Hashes.thy ===== *)
theory Hashes
  imports GoNum
begin

text \<open>
  The parts of Go's \<open>crypto/sha1\<close>, \<open>crypto/sha256\<close> and \<open>encoding/hex\<close> that the program calls: the digest of a
  message and its hexadecimal form. Words are 32 bits wide and wrap; strings are bytes.
\<close>

unbundle bit_operations_syntax

section \<open>Hexadecimal\<close>

text \<open>\<open>hex.EncodeToString\<close>.\<close>

definition hex_digit :: "nat \<Rightarrow> char" where
  "hex_digit n = ''0123456789abcdef'' ! n"

definition EncodeToString :: "string \<Rightarrow> string" where
  "EncodeToString bs = concat (map (\<lambda>b. [hex_digit (of_char b div 16), hex_digit (of_char b mod 16)]) bs)"

lemma length_EncodeToString [simp]: "length (EncodeToString bs) = 2 * length bs"
  by (induction bs) (simp_all add: EncodeToString_def)

lemma hex_digits: "list_all (\<lambda>c. c \<in> set ''0123456789abcdef'') (EncodeToString bs)"
proof -
  have "hex_digit n \<in> set ''0123456789abcdef''" if "n < 16" for n
    unfolding hex_digit_def using that by (intro nth_mem) simp
  moreover have "(of_char b :: nat) div 16 < 16" "(of_char b :: nat) mod 16 < 16" for b
    using nat_of_char_less_256 [of b] by (simp_all add: less_mult_imp_div_less)
  ultimately show ?thesis by (induction bs) (simp_all add: EncodeToString_def del: set_simps)
qed

section \<open>Messages as blocks\<close>

text \<open>The lowest \<open>n\<close> bytes of a word, most significant first.\<close>

definition bytes_be :: "nat \<Rightarrow> 'a::len word \<Rightarrow> string" where
  "bytes_be n w = map (\<lambda>i. char_of (unat (drop_bit (8 * i) w AND 0xff))) (rev [0..<n])"

text \<open>A one bit, zeros up to 56 bytes modulo 64, and the length in bits.\<close>

definition padded :: "string \<Rightarrow> string" where
  "padded m = m @ [CHR 0x80] @ replicate ((119 - length m mod 64) mod 64) (CHR 0x00) @ bytes_be 8 (word_of_nat (8 * length m) :: 64 word)"

fun words_be :: "string \<Rightarrow> 32 word list" where
  "words_be (a # b # c # d # r) = foldl (\<lambda>w x. 256 * w + of_char x) 0 [a, b, c, d] # words_be r"
| "words_be r = []"

fun blocks :: "32 word list \<Rightarrow> 32 word list list" where
  "blocks ws = (if ws = [] then [] else take 16 ws # blocks (drop 16 ws))"

definition word_bytes :: "32 word list \<Rightarrow> string" where
  "word_bytes ws = concat (map (\<lambda>w. bytes_be 4 w) ws)"

section \<open>SHA-256\<close>

text \<open>The constants are the first 32 bits of the fractions of roots: of the cube roots of the first 64 primes, and
  of the square roots of the first eight. A root is found bit by bit.\<close>

definition root_floor :: "nat \<Rightarrow> int \<Rightarrow> int" where
  "root_floor k v = foldl (\<lambda>x i. if (x + 2 ^ i) ^ k \<le> v then x + 2 ^ i else x) 0 (rev [0..<40])"

definition small_primes :: "int list" where
  "small_primes =
    [2, 3, 5, 7, 11, 13, 17, 19, 23, 29, 31, 37, 41, 43, 47, 53, 59, 61, 67, 71, 73, 79,
     83, 89, 97, 101, 103, 107, 109, 113, 127, 131, 137, 139, 149, 151, 157, 163, 167, 173, 179, 181, 191, 193,
     197, 199, 211, 223, 227, 229, 233, 239, 241, 251, 257, 263, 269, 271, 277, 281, 283, 293, 307, 311]"

definition sha256_K :: "32 word list" where
  "sha256_K = map (\<lambda>p. word_of_int (root_floor 3 (p * 2 ^ 96))) small_primes"

definition sha256_H :: "32 word list" where
  "sha256_H = map (\<lambda>p. word_of_int (root_floor 2 (p * 2 ^ 64))) (take 8 small_primes)"

text \<open>The message schedule, grown at its end.\<close>

primrec expand256 :: "nat \<Rightarrow> 32 word list \<Rightarrow> 32 word list" where
  "expand256 0 w = w"
| "expand256 (Suc n) w = expand256 n (w @ [
     (let x = w ! (length w - 2) in word_rotr 17 x XOR word_rotr 19 x XOR drop_bit 10 x) + w ! (length w - 7)
     + (let x = w ! (length w - 15) in word_rotr 7 x XOR word_rotr 18 x XOR drop_bit 3 x) + w ! (length w - 16)])"

fun round256 :: "32 word list \<Rightarrow> 32 word \<times> 32 word \<Rightarrow> 32 word list" where
  "round256 [a, b, c, d, e, f, g, h] (k, w) =
     (let t1 = h + (word_rotr 6 e XOR word_rotr 11 e XOR word_rotr 25 e) + ((e AND f) XOR (NOT e AND g)) + k + w;
          t2 = (word_rotr 2 a XOR word_rotr 13 a XOR word_rotr 22 a) + ((a AND b) XOR (a AND c) XOR (b AND c))
      in [t1 + t2, a, b, c, d + t1, e, f, g])"
| "round256 s p = s"

definition sha256_block :: "32 word list \<Rightarrow> 32 word list \<Rightarrow> 32 word list" where
  "sha256_block hs block = map2 (+) hs (foldl round256 hs (zip sha256_K (expand256 48 block)))"

definition Sum256 :: "string \<Rightarrow> string" where
  "Sum256 m = word_bytes (foldl sha256_block sha256_H (blocks (words_be (padded m))))"

section \<open>SHA-1\<close>

definition sha1_H :: "32 word list" where
  "sha1_H = [0x67452301, 0xefcdab89, 0x98badcfe, 0x10325476, 0xc3d2e1f0]"

primrec expand1 :: "nat \<Rightarrow> 32 word list \<Rightarrow> 32 word list" where
  "expand1 0 w = w"
| "expand1 (Suc n) w = expand1 n (w @ [word_rotl 1
     (w ! (length w - 3) XOR w ! (length w - 8) XOR w ! (length w - 14) XOR w ! (length w - 16))])"

definition mix1 :: "nat \<Rightarrow> 32 word \<Rightarrow> 32 word \<Rightarrow> 32 word \<Rightarrow> 32 word" where
  "mix1 t b c d =
     (if t < 20 then ((b AND c) OR (NOT b AND d)) + 0x5a827999
      else if t < 40 then (b XOR c XOR d) + 0x6ed9eba1
      else if t < 60 then ((b AND c) OR (b AND d) OR (c AND d)) + 0x8f1bbcdc
      else (b XOR c XOR d) + 0xca62c1d6)"

fun round1 :: "32 word list \<Rightarrow> nat \<times> 32 word \<Rightarrow> 32 word list" where
  "round1 [a, b, c, d, e] (t, w) = [word_rotl 5 a + mix1 t b c d + e + w, a, word_rotl 30 b, c, d]"
| "round1 s p = s"

definition sha1_block :: "32 word list \<Rightarrow> 32 word list \<Rightarrow> 32 word list" where
  "sha1_block hs block = map2 (+) hs (foldl round1 hs (zip [0..<80] (expand1 64 block)))"

definition Sum1 :: "string \<Rightarrow> string" where
  "Sum1 m = word_bytes (foldl sha1_block sha1_H (blocks (words_be (padded m))))"

definition sha1_hex :: "string \<Rightarrow> string" where
  "sha1_hex m = EncodeToString (Sum1 m)"

section \<open>What the digests look like\<close>

lemma length_bytes_be [simp]: "length (bytes_be n w) = n"
  by (simp add: bytes_be_def)

lemma length_word_bytes [simp]: "length (word_bytes ws) = 4 * length ws"
  by (induction ws) (simp_all add: word_bytes_def)

lemma length_round256 [simp]: "length (round256 s p) = length s"
  by (cases "(s, p)" rule: round256.cases) (simp_all add: Let_def)

lemma length_round1 [simp]: "length (round1 s p) = length s"
  by (cases "(s, p)" rule: round1.cases) simp_all

lemma length_foldl_same: "(\<And>s p. length (f s p) = length s) \<Longrightarrow> length (foldl f s ps) = length s"
  by (induction ps arbitrary: s) simp_all

lemma length_small_primes: "length small_primes = 64"
  by (simp add: small_primes_def)

lemma length_Sum256 [simp]: "length (Sum256 m) = 32"
proof -
  have "length (sha256_block hs b) = length hs" for hs b
    by (simp add: sha256_block_def length_foldl_same)
  then show ?thesis by (simp add: Sum256_def length_foldl_same) (simp add: sha256_H_def length_small_primes)
qed

lemma length_Sum1 [simp]: "length (Sum1 m) = 20"
proof -
  have "length (sha1_block hs b) = length hs" for hs b
    by (simp add: sha1_block_def length_foldl_same)
  then show ?thesis by (simp add: Sum1_def length_foldl_same) (simp add: sha1_H_def)
qed

lemma sha1_hex_shape: "length (sha1_hex m) = 40" "list_all (\<lambda>c. c \<in> set ''0123456789abcdef'') (sha1_hex m)"
  unfolding sha1_hex_def by (simp, rule hex_digits)

text \<open>A padded message is whole blocks.\<close>

lemma padded_blocks: "length (padded m) mod 64 = 0"
proof -
  define q r where "q = length m div 64" and "r = length m mod 64"
  have m: "length m = 64 * q + r" and r: "r < 64" by (simp_all add: q_def r_def)
  show ?thesis
  proof (cases "r \<le> 55")
    case True
    then have "(119 - r) mod 64 = 55 - r"
      using mod_add_self1 [of 64 "55 - r"] by (simp add: Nat.diff_add_assoc)
    with True have "length (padded m) = 64 * (q + 1)" by (simp add: padded_def r_def [symmetric]) (simp add: m)
    then show ?thesis by simp
  next
    case False
    with r have "length (padded m) = 64 * (q + 2)" by (simp add: padded_def r_def [symmetric]) (simp add: m)
    then show ?thesis by simp
  qed
qed

end
