(* ===== verification/Auth.thy ===== *)
theory Auth
  imports Json Hashes
begin

text \<open>
  Package \<open>auth\<close> (\<open>internal/auth/auth.go\<close>: roles, identities, API-key middleware) and the tenant
  scoping rules of \<open>internal/orchestrator/tenant.go\<close>. A UUID is a natural number, \<open>uuid.Nil\<close>
  is 0. The request context carries at most one identity, so a context is an
  \<open>Identity option\<close>.
\<close>

type_synonym uuid = nat

definition RoleViewer :: string where "RoleViewer = ''viewer''"
definition RoleOperator :: string where "RoleOperator = ''operator''"
definition RoleAdmin :: string where "RoleAdmin = ''admin''"

lemmas role_defs = RoleViewer_def RoleOperator_def RoleAdmin_def

definition rank :: "string \<Rightarrow> int" where
  "rank r = (if r = RoleAdmin then 3 else if r = RoleOperator then 2 else if r = RoleViewer then 1 else 0)"

definition AtLeast :: "string \<Rightarrow> string \<Rightarrow> bool" where
  "AtLeast r need \<longleftrightarrow> rank need \<le> rank r"

definition ValidRole :: "string \<Rightarrow> bool" where
  "ValidRole s \<longleftrightarrow> s = RoleViewer \<or> s = RoleOperator \<or> s = RoleAdmin"

record Identity =
  id_email :: string
  id_tenant_name :: string
  id_tenant :: uuid
  id_role :: string

type_synonym ctx = "Identity option"

section \<open>Tenant scoping\<close>

definition tenantForCreate :: "ctx \<Rightarrow> uuid option" where
  "tenantForCreate c = (case c of None \<Rightarrow> None
     | Some i \<Rightarrow> if id_tenant i = 0 then None else Some (id_tenant i))"

definition scopeTenant :: "ctx \<Rightarrow> uuid option" where
  "scopeTenant c = (case c of None \<Rightarrow> None
     | Some i \<Rightarrow> if id_role i = RoleAdmin \<or> id_tenant i = 0 then None else Some (id_tenant i))"

definition tenantVisible :: "uuid option \<Rightarrow> uuid \<Rightarrow> bool" where
  "tenantVisible t tid \<longleftrightarrow> t = Some tid"

text \<open>The guard \<open>scoped && !tenantVisible(...)\<close> of the handlers, negated: the row may be touched.\<close>

definition in_scope :: "ctx \<Rightarrow> uuid option \<Rightarrow> bool" where
  "in_scope c t \<longleftrightarrow> (case scopeTenant c of None \<Rightarrow> True | Some tid \<Rightarrow> tenantVisible t tid)"

text \<open>The variant for providers, which are shared when they have no tenant.\<close>

definition in_scope_or_global :: "ctx \<Rightarrow> uuid option \<Rightarrow> bool" where
  "in_scope_or_global c t \<longleftrightarrow> (case scopeTenant c of None \<Rightarrow> True
     | Some tid \<Rightarrow> t = None \<or> tenantVisible t tid)"

text \<open>The filtering loop the list operations share.\<close>

definition visible_rows :: "ctx \<Rightarrow> ('a \<Rightarrow> uuid option) \<Rightarrow> 'a list \<Rightarrow> 'a list" where
  "visible_rows c tn rows = (case scopeTenant c of None \<Rightarrow> rows
     | Some tid \<Rightarrow> filter (\<lambda>r. tenantVisible (tn r) tid) rows)"

lemma visible_rows_in_scope: "r \<in> set (visible_rows c tn rows) \<longleftrightarrow> r \<in> set rows \<and> in_scope c (tn r)"
  by (auto simp: visible_rows_def in_scope_def split: option.splits)

lemma in_scope_unscoped [simp]: "scopeTenant c = None \<Longrightarrow> in_scope c t"
  by (simp add: in_scope_def)

section \<open>API-key authentication\<close>

definition bearer :: "string \<Rightarrow> string" where
  "bearer h = (if h = [] then []
     else if HasPrefix h ''Bearer '' then TrimSpace (TrimPrefix h ''Bearer '')
     else if HasPrefix h ''Token '' then TrimSpace (TrimPrefix h ''Token '')
     else TrimSpace h)"

text \<open>What a middleware does with a request: answer with a status, or call the next handler with
  an identity in the context.\<close>

datatype gate = Deny nat string | Pass ctx

definition dev_identity :: Identity where
  "dev_identity = \<lparr>id_email = ''dev'', id_tenant_name = ''default'', id_tenant = 0, id_role = RoleAdmin\<rparr>"

text \<open>What is stored of an API key.\<close>

definition HashKey :: "string \<Rightarrow> string" where
  "HashKey plain = EncodeToString (Sum256 plain)"

lemma length_HashKey [simp]: "length (HashKey plain) = 64"
  by (simp add: HashKey_def)

lemma HashKey_not_Nil [simp]: "HashKey plain \<noteq> []"
  using length_HashKey [of plain] by (metis list.size(3) zero_neq_numeral)

definition Middleware :: "(string \<Rightarrow> Identity option) \<Rightarrow> bool \<Rightarrow> string \<Rightarrow> gate" where
  "Middleware resolve enabled authorization =
     (if \<not> enabled then Pass (Some dev_identity)
      else let token = bearer authorization in
        if token = [] then Deny 401 ''missing API key''
        else (case resolve (HashKey token) of
                None \<Rightarrow> Deny 401 ''invalid API key''
              | Some i \<Rightarrow> Pass (Some i)))"

definition RequireRole :: "string \<Rightarrow> ctx \<Rightarrow> gate" where
  "RequireRole need c = (case c of
     None \<Rightarrow> Deny 403 ''insufficient role''
   | Some i \<Rightarrow> if AtLeast (id_role i) need then Pass c else Deny 403 ''insufficient role'')"

text \<open>A route behind both middlewares, in the order \<open>Routes\<close> installs them.\<close>

definition gated :: "(string \<Rightarrow> Identity option) \<Rightarrow> bool \<Rightarrow> string \<Rightarrow> string \<Rightarrow> gate" where
  "gated resolve enabled need authorization =
     (case Middleware resolve enabled authorization of
        Deny n m \<Rightarrow> Deny n m
      | Pass c \<Rightarrow> RequireRole need c)"

lemma rank_bounds: "0 \<le> rank r" "rank r \<le> 3"
  by (auto simp: rank_def)

lemma rank_pos_iff: "0 < rank r \<longleftrightarrow> ValidRole r"
  by (auto simp: rank_def ValidRole_def)

lemma AtLeast_trans: "AtLeast a b \<Longrightarrow> AtLeast b c \<Longrightarrow> AtLeast a c"
  by (simp add: AtLeast_def)

end
