(* ===== verification/AIProviders.thy ===== *)
theory AIProviders
  imports Auth
begin

text \<open>
  Package \<open>aiproviders\<close> (\<open>internal/aiproviders/provider.go\<close>): the values exchanged with an AI
  backend, the provider interface and the registry, and the built-in MockAI backend
  (\<open>internal/aiproviders/mock/mock.go\<close>). A backend acts on a world \<open>'w\<close> (its accounts, the
  network) that the rest of the program only sees through the interface. SHA-1 and the printing of
  a UUID are parameters of the mock.
\<close>

section \<open>Values of the interface\<close>

record Service =
  sv_Name :: string
  sv_Slug :: string
  sv_Category :: string
  sv_Description :: string
  sv_RequestSchema :: "obj option"
  sv_DefaultExpirationDays :: int
  sv_RequiresApproval :: bool

record Model =
  mo_Model :: string
  mo_DisplayName :: string
  mo_Modality :: string
  mo_Status :: string
  mo_Metadata :: "obj option"

record ProvisionRequest =
  pr_RequestID :: uuid
  pr_ServiceID :: uuid
  pr_Service :: Service
  pr_Owner :: string
  pr_Workspace :: string
  pr_Spec :: json
  pr_ExpiresAt :: "time option"
  pr_Credentials :: kv
  pr_Config :: obj

record ProvisionResult =
  res_ProviderAccessID :: string
  res_Observed :: obj

record RevokeRequest =
  rv_InstanceID :: uuid
  rv_ProviderAccessID :: string
  rv_Credentials :: kv
  rv_Config :: obj

record UsageRequest =
  uq_ProviderAccessID :: string
  uq_PeriodStart :: "time option"
  uq_PeriodEnd :: "time option"
  uq_Credentials :: kv
  uq_Config :: obj

record UsageRecord =
  ur_Metric :: string
  ur_Quantity :: float64
  ur_Unit :: string
  ur_CostUSD :: float64
  ur_Raw :: obj

record StatusResult =
  sr_Status :: string
  sr_Observed :: obj

text \<open>The optional administration interface (\<open>admin.go\<close>).\<close>

record OrgUser =
  ou_ID :: string
  ou_Email :: string
  ou_Name :: string
  ou_Role :: string
  ou_AddedAt :: string

record OrgWorkspace =
  ow_ID :: string
  ow_Name :: string
  ow_CreatedAt :: string
  ow_ArchivedAt :: string

record InviteResult =
  iv_InviteID :: string
  iv_Email :: string
  iv_Role :: string
  iv_Status :: string
  iv_InvitedAt :: string
  iv_ExpiresAt :: string

record WorkspaceAccess =
  wa_UserID :: string
  wa_Email :: string
  wa_OrgRole :: string
  wa_WorkspaceRole :: string
  wa_Inherited :: bool

record AdminContext =
  ac_Credentials :: kv
  ac_Config :: obj

record 'w AdminProvisioner =
  ad_ListOrgUsers :: "AdminContext \<Rightarrow> ('w, OrgUser list) op"
  ad_ListWorkspaces :: "AdminContext \<Rightarrow> ('w, OrgWorkspace list) op"
  ad_ListInvites :: "AdminContext \<Rightarrow> ('w, InviteResult list) op"
  ad_EffectiveWorkspaceAccess :: "AdminContext \<Rightarrow> string \<Rightarrow> ('w, WorkspaceAccess list) op"
  ad_InviteUser :: "AdminContext \<Rightarrow> string \<Rightarrow> string \<Rightarrow> ('w, InviteResult) op"
  ad_CreateWorkspace :: "AdminContext \<Rightarrow> string \<Rightarrow> ('w, OrgWorkspace) op"
  ad_ArchiveWorkspace :: "AdminContext \<Rightarrow> string \<Rightarrow> ('w, unit) op"
  ad_GrantWorkspaceAccess :: "AdminContext \<Rightarrow> string \<Rightarrow> string \<Rightarrow> string \<Rightarrow> ('w, unit) op"
  ad_RemoveWorkspaceMember :: "AdminContext \<Rightarrow> string \<Rightarrow> string \<Rightarrow> ('w, unit) op"
  ad_SetOrgRole :: "AdminContext \<Rightarrow> string \<Rightarrow> string \<Rightarrow> ('w, OrgUser) op"
  ad_RemoveOrgUser :: "AdminContext \<Rightarrow> string \<Rightarrow> ('w, unit) op"

text \<open>The optional controls of a project beyond membership (\<open>ProjectControlsProvisioner\<close>).\<close>

record ProjectAPIKey =
  pk_ID :: string
  pk_Name :: string
  pk_RedactedValue :: string
  pk_CreatedAt :: string
  pk_LastUsedAt :: string
  pk_OwnerType :: string
  pk_OwnerName :: string
  pk_OwnerEmail :: string

record ProjectRateLimit =
  rl_ID :: string
  rl_Model :: string
  rl_MaxRequestsPer1Minute :: float64
  rl_MaxTokensPer1Minute :: float64
  rl_MaxRequestsPer1Day :: float64
  rl_MaxImagesPer1Minute :: float64
  rl_MaxAudioMegabytesPer1Minute :: float64
  rl_Batch1DayMaxInputTokens :: float64
  rl_Raw :: obj

record ProjectRateLimitUpdate =
  ru_MaxRequestsPer1Minute :: "float64 option"
  ru_MaxTokensPer1Minute :: "float64 option"
  ru_MaxRequestsPer1Day :: "float64 option"
  ru_MaxImagesPer1Minute :: "float64 option"
  ru_MaxAudioMegabytesPer1Minute :: "float64 option"
  ru_Batch1DayMaxInputTokens :: "float64 option"

record ProjectModelPermissions =
  pm_Mode :: string
  pm_ModelIDs :: "string list"

record ProjectHostedToolPermissions =
  ht_CodeInterpreter :: bool
  ht_FileSearch :: bool
  ht_ImageGeneration :: bool
  ht_MCP :: bool
  ht_WebSearch :: bool

record ProjectSpendAlert =
  sa_ID :: string
  sa_Currency :: string
  sa_Interval :: string
  sa_ThresholdCents :: float64
  sa_Recipients :: "string list"
  sa_SubjectPrefix :: string
  sa_CreatedAt :: string

record ProjectSpendAlertInput =
  si_ThresholdCents :: float64
  si_Recipients :: "string list option"
  si_SubjectPrefix :: string

text \<open>\<open>ProjectDataRetention\<close> is its one field, the type; the recipients of an alert may be the nil slice.\<close>

record 'w ProjectControlsProvisioner =
  pc_ListProjectAPIKeys :: "AdminContext \<Rightarrow> string \<Rightarrow> ('w, ProjectAPIKey list) op"
  pc_DeleteProjectAPIKey :: "AdminContext \<Rightarrow> string \<Rightarrow> string \<Rightarrow> ('w, unit) op"
  pc_ListProjectRateLimits :: "AdminContext \<Rightarrow> string \<Rightarrow> ('w, ProjectRateLimit list) op"
  pc_UpdateProjectRateLimit :: "AdminContext \<Rightarrow> string \<Rightarrow> string \<Rightarrow> ProjectRateLimitUpdate \<Rightarrow> ('w, ProjectRateLimit) op"
  pc_GetProjectModelPermissions :: "AdminContext \<Rightarrow> string \<Rightarrow> ('w, ProjectModelPermissions) op"
  pc_SetProjectModelPermissions :: "AdminContext \<Rightarrow> string \<Rightarrow> ProjectModelPermissions \<Rightarrow> ('w, ProjectModelPermissions) op"
  pc_DeleteProjectModelPermissions :: "AdminContext \<Rightarrow> string \<Rightarrow> ('w, unit) op"
  pc_GetProjectHostedToolPermissions :: "AdminContext \<Rightarrow> string \<Rightarrow> ('w, ProjectHostedToolPermissions) op"
  pc_SetProjectHostedToolPermissions ::
    "AdminContext \<Rightarrow> string \<Rightarrow> ProjectHostedToolPermissions \<Rightarrow> ('w, ProjectHostedToolPermissions) op"
  pc_GetProjectDataRetention :: "AdminContext \<Rightarrow> string \<Rightarrow> ('w, string) op"
  pc_SetProjectDataRetention :: "AdminContext \<Rightarrow> string \<Rightarrow> string \<Rightarrow> ('w, string) op"
  pc_ListProjectSpendAlerts :: "AdminContext \<Rightarrow> string \<Rightarrow> ('w, ProjectSpendAlert list) op"
  pc_CreateProjectSpendAlert :: "AdminContext \<Rightarrow> string \<Rightarrow> ProjectSpendAlertInput \<Rightarrow> ('w, ProjectSpendAlert) op"
  pc_UpdateProjectSpendAlert ::
    "AdminContext \<Rightarrow> string \<Rightarrow> string \<Rightarrow> ProjectSpendAlertInput \<Rightarrow> ('w, ProjectSpendAlert) op"
  pc_DeleteProjectSpendAlert :: "AdminContext \<Rightarrow> string \<Rightarrow> string \<Rightarrow> ('w, unit) op"

text \<open>The interface: every call takes the resolved credentials and configuration, may change the
  backend's world and may fail. \<open>ListModels\<close> is the optional \<open>ModelCatalogProvider\<close>,
  \<open>Admin\<close> the optional \<open>AdminProvisioner\<close>, \<open>Controls\<close> the optional \<open>ProjectControlsProvisioner\<close>.\<close>

record 'w Provider =
  pv_Type :: string
  pv_ValidateCredentials :: "kv \<Rightarrow> obj \<Rightarrow> ('w, unit) op"
  pv_ListAvailableServices :: "kv \<Rightarrow> obj \<Rightarrow> ('w, Service list) op"
  pv_ProvisionAccess :: "ProvisionRequest \<Rightarrow> ('w, ProvisionResult) op"
  pv_RevokeAccess :: "RevokeRequest \<Rightarrow> ('w, unit) op"
  pv_GetUsage :: "UsageRequest \<Rightarrow> ('w, UsageRecord list) op"
  pv_GetStatus :: "string \<Rightarrow> ('w, StatusResult) op"
  pv_ListModels :: "(kv \<Rightarrow> obj \<Rightarrow> ('w, Model list) op) option"
  pv_Admin :: "'w AdminProvisioner option"
  pv_Controls :: "'w ProjectControlsProvisioner option"

section \<open>The registry\<close>

type_synonym 'w Registry = "(string \<times> 'w Provider) list"

definition NewRegistry :: "'w Registry" where "NewRegistry = []"

text \<open>\<open>Register\<close> panics on a second registration of a type: \<open>None\<close>.\<close>

definition Register :: "'w Registry \<Rightarrow> string \<Rightarrow> 'w Provider \<Rightarrow> 'w Registry option" where
  "Register r t f = (if map_of r t \<noteq> None then None else Some (AList.update t f r))"

definition Registry_Get :: "'w Registry \<Rightarrow> string \<Rightarrow> err + 'w Provider" where
  "Registry_Get r t = (case map_of r t of
     None \<Rightarrow> Inl (NotFound ''aiproviders: no provider registered for type'' t)
   | Some f \<Rightarrow> Inr f)"

lemma Registry_Get_Register:
  "Register r t f = Some r' \<Longrightarrow>
     Registry_Get r' u = (if u = t then Inr f else Registry_Get r u)"
  by (auto simp: Register_def Registry_Get_def update_conv split: if_splits)

definition validAIProviderType :: "string \<Rightarrow> bool" where
  "validAIProviderType t \<longleftrightarrow> t \<in> {''mock_ai'', ''openai'', ''anthropic'', ''gemini'',
     ''github_copilot'', ''cursor'', ''litellm''}"

section \<open>MockAI\<close>

definition mock_schema :: obj where
  "mock_schema = [(''fields'', JArr [JStr ''owner'', JStr ''workspace'', JStr ''justification'', JStr ''expires_at''])]"

definition mock_services :: "Service list" where
  "mock_services =
    [\<lparr>sv_Name = ''OpenAI API Access (Mock)'', sv_Slug = ''openai-api-mock'', sv_Category = ''api_access'',
      sv_Description = ''Mock governed access to OpenAI-style API services for MVP testing.'',
      sv_RequestSchema = Some mock_schema, sv_DefaultExpirationDays = 30, sv_RequiresApproval = True\<rparr>,
     \<lparr>sv_Name = ''Claude Access (Mock)'', sv_Slug = ''claude-access-mock'', sv_Category = ''api_access'',
      sv_Description = ''Mock governed access to Claude-style services for MVP testing.'',
      sv_RequestSchema = Some mock_schema, sv_DefaultExpirationDays = 30, sv_RequiresApproval = True\<rparr>,
     \<lparr>sv_Name = ''Kubernetes AI Sandbox (Mock)'', sv_Slug = ''k8s-ai-sandbox-mock'', sv_Category = ''sandbox'',
      sv_Description = ''Mock AI sandbox entitlement; no cluster or external provider is created.'',
      sv_RequestSchema = Some mock_schema, sv_DefaultExpirationDays = 7, sv_RequiresApproval = True\<rparr>]"

definition mock_models :: "Model list" where
  "mock_models =
    [\<lparr>mo_Model = ''mock-gpt-4.1-mini'', mo_DisplayName = ''Mock GPT-4.1 mini'', mo_Modality = ''text'',
      mo_Status = ''active'', mo_Metadata = Some [(''mock'', JBool True)]\<rparr>,
     \<lparr>mo_Model = ''mock-embedding-small'', mo_DisplayName = ''Mock Embedding Small'', mo_Modality = ''embedding'',
      mo_Status = ''active'', mo_Metadata = Some [(''mock'', JBool True)]\<rparr>,
     \<lparr>mo_Model = ''mock-image-1'', mo_DisplayName = ''Mock Image 1'', mo_Modality = ''image'',
      mo_Status = ''active'', mo_Metadata = Some [(''mock'', JBool True)]\<rparr>]"

definition mock_access_id :: "(uuid \<Rightarrow> string) \<Rightarrow> ProvisionRequest \<Rightarrow> string" where
  "mock_access_id uuid_str r =
     ''mock-ai-'' @ take 16 (sha1_hex (uuid_str (pr_RequestID r) @ '':'' @ sv_Slug (pr_Service r) @ '':'' @ pr_Owner r))"

definition mock_ProvisionAccess ::
  "(uuid \<Rightarrow> string) \<Rightarrow> ProvisionRequest \<Rightarrow> ('w, ProvisionResult) op" where
  "mock_ProvisionAccess uuid_str r =
     (let accessID = mock_access_id uuid_str r;
          observed = [(''provider'', JStr ''mock_ai''), (''provider_access_id'', JStr accessID),
            (''service'', JStr (sv_Slug (pr_Service r))), (''owner'', JStr (pr_Owner r)),
            (''workspace'', JStr (pr_Workspace r)), (''external'', JBool False),
            (''message'', JStr ''Mock AI access provisioned; no external provider call was made.'')] @
            (case pr_ExpiresAt r of None \<Rightarrow> [] | Some t \<Rightarrow> [(''expires_at'', JStr (FormatRFC3339 t))])
      in ret \<lparr>res_ProviderAccessID = accessID, res_Observed = observed\<rparr>)"

definition mock_RevokeAccess :: "RevokeRequest \<Rightarrow> ('w, unit) op" where
  "mock_RevokeAccess r = guardE (rv_ProviderAccessID r \<noteq> []) (Msg ''provider access id is required'')"

definition mock_GetUsage :: "UsageRequest \<Rightarrow> ('w, UsageRecord list) op" where
  "mock_GetUsage r = ret [\<lparr>ur_Metric = ''tokens'', ur_Quantity = 12500, ur_Unit = ''tokens'', ur_CostUSD = 5/4,
     ur_Raw = [(''provider_access_id'', JStr (uq_ProviderAccessID r)), (''mock'', JBool True)]\<rparr>]"

definition mock_GetStatus :: "string \<Rightarrow> ('w, StatusResult) op" where
  "mock_GetStatus accessID = ret \<lparr>sr_Status = (if accessID = [] then ''unknown'' else ''active''),
     sr_Observed = [(''provider_access_id'', JStr accessID), (''mock'', JBool True)]\<rparr>"

definition mock_provider :: "(uuid \<Rightarrow> string) \<Rightarrow> 'w Provider" where
  "mock_provider uuid_str =
     \<lparr>pv_Type = ''mock_ai'',
      pv_ValidateCredentials = (\<lambda>_ _. ret ()),
      pv_ListAvailableServices = (\<lambda>_ _. ret mock_services),
      pv_ProvisionAccess = mock_ProvisionAccess uuid_str,
      pv_RevokeAccess = mock_RevokeAccess,
      pv_GetUsage = mock_GetUsage,
      pv_GetStatus = mock_GetStatus,
      pv_ListModels = Some (\<lambda>_ _. ret mock_models),
      pv_Admin = None,
      pv_Controls = None\<rparr>"

end
