(* ===== verification/Store.thy ===== *)
theory Store
  imports AIProviders
begin

text \<open>
  The database as the program sees it: the rows of \<open>internal/db/models.go\<close>, the tables, and the
  queries of \<open>internal/db/*.sql.go\<close> with the constraints of the schema (\<open>migrations/\<close>).
  A table is the list of its rows in insertion order, so \<open>order by created_at desc\<close> is the
  reverse. New rows take the next free identifier and the current time; \<open>now()\<close> of the
  database and \<open>time.Now()\<close> of the server are one clock, constant during an operation.
  A query named \<open>n\<close> fails with \<open>Fault\<close> when the environment says so (\<open>env_fault\<close>): lost
  connections, timeouts and every other failure the schema does not explain.
\<close>

section \<open>Rows\<close>

record AiProvider =
  p_ID :: uuid
  p_Name :: string
  p_Type :: string
  p_Config :: json
  p_Status :: string
  p_TenantID :: "uuid option"
  p_CreatedAt :: time
  p_UpdatedAt :: time

record AiProviderCredential =
  c_ID :: uuid
  c_ProviderID :: uuid
  c_SecretRef :: string
  c_Scopes :: "string list"
  c_CreatedAt :: time

record AiService =
  s_ID :: uuid
  s_ProviderID :: uuid
  s_Name :: string
  s_Slug :: string
  s_Category :: string
  s_Description :: string
  s_RequestSchema :: json
  s_DefaultExpirationDays :: int
  s_RequiresApproval :: bool
  s_Status :: string
  s_CreatedAt :: time
  s_UpdatedAt :: time

record AiServiceRow = AiService +
  s_ProviderName :: string
  s_ProviderType :: string

record AiServiceInstance =
  i_ID :: uuid
  i_ServiceID :: uuid
  i_RequestID :: "uuid option"
  i_ProviderAccessID :: string
  i_Owner :: string
  i_TenantID :: "uuid option"
  i_Workspace :: string
  i_Status :: string
  i_Spec :: json
  i_Observed :: json
  i_ProvisionedAt :: "time option"
  i_ExpiresAt :: "time option"
  i_RevokedAt :: "time option"
  i_CreatedAt :: time
  i_UpdatedAt :: time

record AiServiceInstanceRow = AiServiceInstance +
  i_ServiceName :: string
  i_ServiceSlug :: string
  i_ProviderName :: string
  i_ProviderType :: string

record AiUsageRecord =
  u_ID :: uuid
  u_InstanceID :: "uuid option"
  u_ProviderID :: uuid
  u_PeriodStart :: time
  u_PeriodEnd :: time
  u_Metric :: string
  u_Quantity :: float64
  u_Unit :: string
  u_CostUsd :: float64
  u_Raw :: json
  u_CreatedAt :: time

record AiUsageRow = AiUsageRecord +
  u_ProviderName :: string
  u_Owner :: "string option"
  u_Workspace :: "string option"
  u_TenantID :: "uuid option"

record AiBudget =
  b_ID :: uuid
  b_TenantID :: "uuid option"
  b_Scope :: string
  b_ScopeRef :: string
  b_LimitUsd :: float64
  b_Period :: string
  b_SoftThresholdPct :: int
  b_HardThresholdPct :: int
  b_CreatedAt :: time
  b_UpdatedAt :: time

record AiQuota =
  q_ID :: uuid
  q_ServiceID :: "uuid option"
  q_TenantID :: "uuid option"
  q_Metric :: string
  q_LimitQuantity :: float64
  q_Period :: string
  q_Enforcement :: string
  q_CreatedAt :: time

record AiAccessPolicy =
  po_ID :: uuid
  po_Name :: string
  po_TenantID :: "uuid option"
  po_Rules :: json
  po_Status :: string
  po_CreatedAt :: time
  po_UpdatedAt :: time

record AiModelCatalog =
  m_ID :: uuid
  m_ProviderID :: uuid
  m_Model :: string
  m_DisplayName :: string
  m_Modality :: string
  m_Status :: string
  m_Metadata :: json
  m_CreatedAt :: time
  m_UpdatedAt :: time

text \<open>An audit message is a fixed text, the joined reasons of a block, one formatted warning, the
  text of an error, or a fixed text formatted with a count.\<close>

datatype message = Text string | Reasons "reason list" | Warning reason | ErrorText err | TextN string int

record AiAuditEvent =
  a_ID :: uuid
  a_Actor :: string
  a_TenantID :: "uuid option"
  a_SubjectType :: string
  a_SubjectID :: "uuid option"
  a_Action :: string
  a_Message :: message
  a_Fields :: obj
  a_CreatedAt :: time

record Request =
  r_ID :: uuid
  r_Name :: string
  r_Environment :: string
  r_Requester :: string
  r_Kind :: string
  r_Provider :: string
  r_Blueprint :: string
  r_Spec :: json
  r_Status :: string
  r_TicketRef :: string
  r_ResourceRef :: string
  r_DecidedBy :: string
  r_Reason :: string
  r_TenantID :: "uuid option"
  r_CreatedAt :: time
  r_UpdatedAt :: time

record Tenant =
  t_ID :: uuid
  t_Name :: string
  t_CreatedAt :: time

record User =
  us_ID :: uuid
  us_Email :: string
  us_TenantID :: uuid
  us_Role :: string
  us_ApiKeyHash :: string
  us_CreatedAt :: time

record McpServer =
  ms_ID :: uuid
  ms_Name :: string
  ms_Transport :: string
  ms_Endpoint :: string
  ms_Description :: string
  ms_RiskTier :: string
  ms_AllowedTools :: json
  ms_Status :: string
  ms_TenantID :: "uuid option"
  ms_CreatedAt :: time
  ms_UpdatedAt :: time

record McpGrant =
  g_ID :: uuid
  g_ServerID :: uuid
  g_Owner :: string
  g_Status :: string
  g_ExpiresAt :: "time option"
  g_GrantedBy :: string
  g_TenantID :: "uuid option"
  g_CreatedAt :: time
  g_RevokedAt :: "time option"

record McpGrantRow = McpGrant +
  g_ServerName :: string
  g_ServerRiskTier :: string

text \<open>What the connector bus publishes (\<open>internal/events\<close>): kind, action, name, environment,
  provider and message.\<close>

record Event =
  ev_Kind :: string
  ev_Action :: string
  ev_Name :: string
  ev_Environment :: string
  ev_Provider :: string
  ev_Message :: message

section \<open>The state and the environment of the service\<close>

record 'w st =
  st_now :: time
  st_next :: uuid
  st_providers :: "AiProvider list"
  st_credentials :: "AiProviderCredential list"
  st_services :: "AiService list"
  st_instances :: "AiServiceInstance list"
  st_usage :: "AiUsageRecord list"
  st_budgets :: "AiBudget list"
  st_quotas :: "AiQuota list"
  st_policies :: "AiAccessPolicy list"
  st_models :: "AiModelCatalog list"
  st_audit :: "AiAuditEvent list"
  st_requests :: "Request list"
  st_tenants :: "Tenant list"
  st_users :: "User list"
  st_servers :: "McpServer list"
  st_grants :: "McpGrant list"
  st_bus :: "Event list"
  st_world :: 'w

text \<open>The secret store behind \<open>CredentialResolver\<close>: reading is always there, writing is an
  optional capability the service asks for with a type assertion.\<close>

record 'w Creds =
  cr_ReadSecret :: "string \<Rightarrow> 'w \<Rightarrow> err + kv"
  cr_WriteSecret :: "(string \<Rightarrow> kv \<Rightarrow> ('w, unit) op) option"

record 'w env =
  env_fault :: "string \<Rightarrow> bool"
  env_uuid_string :: "uuid \<Rightarrow> string"
  env_uuid_parse :: "string \<Rightarrow> uuid option"
  env_creds :: "'w Creds option"
  env_ai :: "'w Registry option"
  env_events :: bool
  env_CreateTicket :: "(string \<Rightarrow> string \<Rightarrow> ('w, string) op) option"
  env_RandRead :: "('w, string) op"
  env_url_ok :: "string \<Rightarrow> bool"
  env_http :: "HttpRequest \<Rightarrow> ('w, HttpResponse) op"

definition query :: "'w env \<Rightarrow> string \<Rightarrow> ('w st, 'a) op \<Rightarrow> ('w st, 'a) op" where
  "query E n m = (if env_fault E n then fail Fault else m)"

text \<open>A call into the world of the backends.\<close>

definition on_world :: "('w, 'a) op \<Rightarrow> ('w st, 'a) op" where
  "on_world m = (\<lambda>s. case m (st_world s) of (r, w) \<Rightarrow> (r, s\<lparr>st_world := w\<rparr>))"

definition one :: "('w st \<Rightarrow> 'a option) \<Rightarrow> ('w st, 'a) op" where
  "one f = (\<lambda>s. case f s of None \<Rightarrow> (Inl NoRows, s) | Some r \<Rightarrow> (Inr r, s))"

text \<open>An insertion: the row is built from the fresh identifier and the clock.\<close>

definition insert_row :: "(('t list \<Rightarrow> 't list) \<Rightarrow> 'w st \<Rightarrow> 'w st) \<Rightarrow> (uuid \<Rightarrow> time \<Rightarrow> 't) \<Rightarrow> ('w st, 't) op" where
  "insert_row upd mk = (\<lambda>s. let r = mk (st_next s) (st_now s) in
     (Inr r, (upd (\<lambda>rows. rows @ [r]) s)\<lparr>st_next := Suc (st_next s)\<rparr>))"

text \<open>An update of the row with a given key, returning it.\<close>

definition update_row ::
  "('w st \<Rightarrow> 't list) \<Rightarrow> (('t list \<Rightarrow> 't list) \<Rightarrow> 'w st \<Rightarrow> 'w st) \<Rightarrow> ('t \<Rightarrow> uuid) \<Rightarrow> uuid \<Rightarrow>
   (time \<Rightarrow> 't \<Rightarrow> 't) \<Rightarrow> ('w st, 't) op" where
  "update_row get upd key k f = (\<lambda>s. case List.find (\<lambda>r. key r = k) (get s) of
     None \<Rightarrow> (Inl NoRows, s)
   | Some r \<Rightarrow> (Inr (f (st_now s) r), upd (update_rows (\<lambda>r. key r = k) (f (st_now s))) s))"

definition check :: "('w st \<Rightarrow> bool) \<Rightarrow> err \<Rightarrow> ('w st, unit) op" where
  "check p e = (\<lambda>s. if p s then (Inr (), s) else (Inl e, s))"

definition modify :: "('w st \<Rightarrow> 'w st) \<Rightarrow> ('w st, unit) op" where
  "modify f = (\<lambda>s. (Inr (), f s))"

declare query_def [op_defs] on_world_def [op_defs] one_def [op_defs] insert_row_def [op_defs]
  update_row_def [op_defs] check_def [op_defs] modify_def [op_defs]

definition fk_tenant :: "uuid option \<Rightarrow> 'w st \<Rightarrow> bool" where
  "fk_tenant t s \<longleftrightarrow> (case t of None \<Rightarrow> True | Some k \<Rightarrow> k \<in> t_ID ` set (st_tenants s))"

section \<open>Queries: providers, credentials, services\<close>

definition active_disabled :: "string list" where "active_disabled = [''active'', ''disabled'']"

definition q_CreateAIProvider :: "'w env \<Rightarrow> string \<Rightarrow> string \<Rightarrow> json \<Rightarrow> uuid option \<Rightarrow> ('w st, AiProvider) op" where
  "q_CreateAIProvider E name ty config tenant = query E ''CreateAIProvider''
     (bindE (check (\<lambda>_. validAIProviderType ty) CheckViolation) (\<lambda>_.
      bindE (check (\<lambda>s. name \<notin> p_Name ` set (st_providers s)) UniqueViolation) (\<lambda>_.
      bindE (check (fk_tenant tenant) FkViolation) (\<lambda>_.
      insert_row st_providers_update (\<lambda>i t. \<lparr>p_ID = i, p_Name = name, p_Type = ty, p_Config = config,
        p_Status = ''active'', p_TenantID = tenant, p_CreatedAt = t, p_UpdatedAt = t\<rparr>)))))"

definition q_ListAIProviders :: "'w env \<Rightarrow> ('w st, AiProvider list) op" where
  "q_ListAIProviders E = query E ''ListAIProviders'' (gets (\<lambda>s. rev (st_providers s)))"

definition q_GetAIProvider :: "'w env \<Rightarrow> uuid \<Rightarrow> ('w st, AiProvider) op" where
  "q_GetAIProvider E k = query E ''GetAIProvider''
     (one (\<lambda>s. List.find (\<lambda>p. p_ID p = k) (st_providers s)))"

definition q_GetAIProviderByName :: "'w env \<Rightarrow> string \<Rightarrow> ('w st, AiProvider) op" where
  "q_GetAIProviderByName E name = query E ''GetAIProviderByName''
     (one (\<lambda>s. List.find (\<lambda>p. p_Name p = name) (st_providers s)))"

definition q_UpdateAIProvider :: "'w env \<Rightarrow> uuid \<Rightarrow> string \<Rightarrow> string \<Rightarrow> json \<Rightarrow> string \<Rightarrow> ('w st, AiProvider) op" where
  "q_UpdateAIProvider E k name ty config status = query E ''UpdateAIProvider''
     (bindE (one (\<lambda>s. List.find (\<lambda>r. p_ID r = k) (st_providers s))) (\<lambda>_.
      bindE (check (\<lambda>_. validAIProviderType ty \<and> status \<in> set active_disabled) CheckViolation) (\<lambda>_.
      bindE (check (\<lambda>s. \<forall>p \<in> set (st_providers s). p_Name p = name \<longrightarrow> p_ID p = k) UniqueViolation) (\<lambda>_.
      update_row st_providers st_providers_update p_ID k (\<lambda>t p.
        p\<lparr>p_Name := name, p_Type := ty, p_Config := config, p_Status := status, p_UpdatedAt := t\<rparr>)))))"

definition q_CreateAIProviderCredential :: "'w env \<Rightarrow> uuid \<Rightarrow> string \<Rightarrow> string list \<Rightarrow> ('w st, AiProviderCredential) op" where
  "q_CreateAIProviderCredential E provider ref scopes = query E ''CreateAIProviderCredential''
     (bindE (check (\<lambda>s. provider \<in> p_ID ` set (st_providers s)) FkViolation) (\<lambda>_.
      insert_row st_credentials_update (\<lambda>i t. \<lparr>c_ID = i, c_ProviderID = provider, c_SecretRef = ref,
        c_Scopes = scopes, c_CreatedAt = t\<rparr>)))"

text \<open>The latest credential row of a provider.\<close>

definition q_GetAIProviderCredentialByProvider :: "'w env \<Rightarrow> uuid \<Rightarrow> ('w st, AiProviderCredential) op" where
  "q_GetAIProviderCredentialByProvider E provider = query E ''GetAIProviderCredentialByProvider''
     (one (\<lambda>s. List.find (\<lambda>c. c_ProviderID c = provider) (rev (st_credentials s))))"

definition q_CreateAIService ::
  "'w env \<Rightarrow> uuid \<Rightarrow> string \<Rightarrow> string \<Rightarrow> string \<Rightarrow> string \<Rightarrow> json \<Rightarrow> int \<Rightarrow> bool \<Rightarrow> ('w st, AiService) op" where
  "q_CreateAIService E provider name slug category description schema days approval = query E ''CreateAIService''
     (bindE (check (\<lambda>s. \<not> (\<exists>v \<in> set (st_services s). s_ProviderID v = provider \<and> s_Slug v = slug)) UniqueViolation) (\<lambda>_.
      bindE (check (\<lambda>s. provider \<in> p_ID ` set (st_providers s)) FkViolation) (\<lambda>_.
      insert_row st_services_update (\<lambda>i t. \<lparr>s_ID = i, s_ProviderID = provider, s_Name = name, s_Slug = slug,
        s_Category = category, s_Description = description, s_RequestSchema = schema,
        s_DefaultExpirationDays = days, s_RequiresApproval = approval, s_Status = ''active'', s_CreatedAt = t, s_UpdatedAt = t\<rparr>))))"

text \<open>The join of a service with its provider.\<close>

definition service_row :: "'w st \<Rightarrow> AiService \<Rightarrow> AiServiceRow option" where
  "service_row s v = (case List.find (\<lambda>p. p_ID p = s_ProviderID v) (st_providers s) of
     None \<Rightarrow> None
   | Some p \<Rightarrow> Some (AiService.extend v (AiServiceRow.fields (p_Name p) (p_Type p))))"

definition q_ListAIServices :: "'w env \<Rightarrow> ('w st, AiServiceRow list) op" where
  "q_ListAIServices E = query E ''ListAIServices''
     (gets (\<lambda>s. List.map_filter (service_row s) (rev (st_services s))))"

definition q_GetAIService :: "'w env \<Rightarrow> uuid \<Rightarrow> ('w st, AiServiceRow) op" where
  "q_GetAIService E k = query E ''GetAIService''
     (one (\<lambda>s. Option.bind (List.find (\<lambda>v. s_ID v = k) (st_services s)) (service_row s)))"

text \<open>A slug is unique per provider only; the query takes the first row it meets.\<close>

definition q_GetAIServiceBySlug :: "'w env \<Rightarrow> string \<Rightarrow> ('w st, AiServiceRow) op" where
  "q_GetAIServiceBySlug E slug = query E ''GetAIServiceBySlug''
     (one (\<lambda>s. Option.bind (List.find (\<lambda>v. s_Slug v = slug) (st_services s)) (service_row s)))"

section \<open>Queries: instances\<close>

definition live_status :: "string \<Rightarrow> bool" where
  "live_status x \<longleftrightarrow> x = ''active'' \<or> x = ''suspended''"

definition instance_statuses :: "string list" where
  "instance_statuses = [''provisioning'', ''active'', ''suspended'', ''revoking'', ''revoked'', ''expired'', ''failed'']"

definition q_CreateAIServiceInstance ::
  "'w env \<Rightarrow> uuid \<Rightarrow> uuid option \<Rightarrow> string \<Rightarrow> string \<Rightarrow> uuid option \<Rightarrow> string \<Rightarrow> string \<Rightarrow> json \<Rightarrow> json \<Rightarrow>
   time option \<Rightarrow> time option \<Rightarrow> ('w st, AiServiceInstance) op" where
  "q_CreateAIServiceInstance E service request access owner tenant workspace status spec observed prov expires =
     query E ''CreateAIServiceInstance''
     (bindE (check (\<lambda>_. status \<in> set instance_statuses) CheckViolation) (\<lambda>_.
      bindE (check (\<lambda>s. service \<in> s_ID ` set (st_services s)
          \<and> (case request of None \<Rightarrow> True | Some q \<Rightarrow> q \<in> r_ID ` set (st_requests s)) \<and> fk_tenant tenant s) FkViolation) (\<lambda>_.
      insert_row st_instances_update (\<lambda>i t. \<lparr>i_ID = i, i_ServiceID = service, i_RequestID = request,
        i_ProviderAccessID = access, i_Owner = owner, i_TenantID = tenant, i_Workspace = workspace,
        i_Status = status, i_Spec = spec, i_Observed = observed, i_ProvisionedAt = prov,
        i_ExpiresAt = expires, i_RevokedAt = None, i_CreatedAt = t, i_UpdatedAt = t\<rparr>))))"

definition q_GetAIServiceInstance :: "'w env \<Rightarrow> uuid \<Rightarrow> ('w st, AiServiceInstance) op" where
  "q_GetAIServiceInstance E k = query E ''GetAIServiceInstance''
     (one (\<lambda>s. List.find (\<lambda>i. i_ID i = k) (st_instances s)))"

definition instance_row :: "'w st \<Rightarrow> AiServiceInstance \<Rightarrow> AiServiceInstanceRow option" where
  "instance_row s i = (case List.find (\<lambda>v. s_ID v = i_ServiceID i) (st_services s) of
     None \<Rightarrow> None
   | Some v \<Rightarrow> (case List.find (\<lambda>p. p_ID p = s_ProviderID v) (st_providers s) of
       None \<Rightarrow> None
     | Some p \<Rightarrow> Some (AiServiceInstance.extend i
         (AiServiceInstanceRow.fields (s_Name v) (s_Slug v) (p_Name p) (p_Type p)))))"

definition q_ListAIServiceInstances :: "'w env \<Rightarrow> ('w st, AiServiceInstanceRow list) op" where
  "q_ListAIServiceInstances E = query E ''ListAIServiceInstances''
     (gets (\<lambda>s. List.map_filter (instance_row s) (rev (st_instances s))))"

definition q_RevokeAIServiceInstance :: "'w env \<Rightarrow> uuid \<Rightarrow> ('w st, AiServiceInstance) op" where
  "q_RevokeAIServiceInstance E k = query E ''RevokeAIServiceInstance''
     (update_row st_instances st_instances_update i_ID k (\<lambda>t i.
        i\<lparr>i_Status := ''revoked'', i_RevokedAt := Some t, i_UpdatedAt := t\<rparr>))"

definition q_RecertifyAIServiceInstance :: "'w env \<Rightarrow> uuid \<Rightarrow> time option \<Rightarrow> ('w st, AiServiceInstance) op" where
  "q_RecertifyAIServiceInstance E k expires = query E ''RecertifyAIServiceInstance''
     (update_row st_instances st_instances_update i_ID k (\<lambda>t i.
        i\<lparr>i_ExpiresAt := expires, i_UpdatedAt := t\<rparr>))"

definition q_ListAIExpiringInstances :: "'w env \<Rightarrow> int \<Rightarrow> ('w st, AiServiceInstanceRow list) op" where
  "q_ListAIExpiringInstances E days = query E ''ListAIExpiringInstances''
     (gets (\<lambda>s. sort_key (\<lambda>i. case i_ExpiresAt i of Some t \<Rightarrow> t | None \<Rightarrow> 0)
        (filter (\<lambda>i. live_status (i_Status i) \<and>
             (case i_ExpiresAt i of None \<Rightarrow> False | Some t \<Rightarrow> t \<le> AddDays (st_now s) days))
           (List.map_filter (instance_row s) (st_instances s)))))"

definition provider_services :: "'w st \<Rightarrow> uuid \<Rightarrow> uuid set" where
  "provider_services s provider = s_ID ` {v \<in> set (st_services s). s_ProviderID v = provider}"

definition q_CountActiveAIInstancesByProvider :: "'w env \<Rightarrow> uuid \<Rightarrow> ('w st, nat) op" where
  "q_CountActiveAIInstancesByProvider E provider = query E ''CountActiveAIInstancesByProvider''
     (gets (\<lambda>s. length (filter (\<lambda>i. i_ServiceID i \<in> provider_services s provider \<and> live_status (i_Status i))
        (st_instances s))))"

text \<open>Usage rows of a deleted instance go with it (\<open>on delete cascade\<close>).\<close>

definition q_DeleteAIServiceInstancesByProvider :: "'w env \<Rightarrow> uuid \<Rightarrow> ('w st, unit) op" where
  "q_DeleteAIServiceInstancesByProvider E provider = query E ''DeleteAIServiceInstancesByProvider''
     (modify (\<lambda>s. let gone = i_ID ` {i \<in> set (st_instances s). i_ServiceID i \<in> provider_services s provider} in
        s\<lparr>st_instances := filter (\<lambda>i. i_ServiceID i \<notin> provider_services s provider) (st_instances s),
          st_usage := filter (\<lambda>u. case u_InstanceID u of None \<Rightarrow> True | Some k \<Rightarrow> k \<notin> gone) (st_usage s)\<rparr>))"

text \<open>Deleting a provider cascades to its credentials, services, models, usage and the quotas of its
  services; instances of its services restrict it.\<close>

definition q_DeleteAIProvider :: "'w env \<Rightarrow> uuid \<Rightarrow> ('w st, unit) op" where
  "q_DeleteAIProvider E provider = query E ''DeleteAIProvider''
     (bindE (check (\<lambda>s. \<forall>i \<in> set (st_instances s). i_ServiceID i \<notin> provider_services s provider) FkViolation) (\<lambda>_.
      modify (\<lambda>s. let gone = provider_services s provider in
        s\<lparr>st_providers := filter (\<lambda>p. p_ID p \<noteq> provider) (st_providers s),
          st_credentials := filter (\<lambda>c. c_ProviderID c \<noteq> provider) (st_credentials s),
          st_services := filter (\<lambda>v. s_ProviderID v \<noteq> provider) (st_services s),
          st_models := filter (\<lambda>m. m_ProviderID m \<noteq> provider) (st_models s),
          st_usage := filter (\<lambda>u. u_ProviderID u \<noteq> provider) (st_usage s),
          st_quotas := filter (\<lambda>q. case q_ServiceID q of None \<Rightarrow> True | Some k \<Rightarrow> k \<notin> gone) (st_quotas s)\<rparr>)))"

end
