(* ===== verification/Queries.thy ===== *)
theory Queries
  imports Store
begin

text \<open>
  The remaining queries of \<open>internal/db\<close>: usage, budgets, quotas, policies, the model catalog and
  the audit log (\<open>ai.sql.go\<close>), requests (\<open>requests.sql.go\<close>), tenants and users (\<open>users.sql.go\<close>),
  MCP servers and grants (\<open>mcp.sql.go\<close>).
\<close>

section \<open>Usage\<close>

definition q_CreateAIUsageRecord ::
  "'w env \<Rightarrow> uuid option \<Rightarrow> uuid \<Rightarrow> time \<Rightarrow> time \<Rightarrow> string \<Rightarrow> float64 \<Rightarrow> string \<Rightarrow> float64 \<Rightarrow> json \<Rightarrow>
   ('w st, AiUsageRecord) op" where
  "q_CreateAIUsageRecord E inst provider ps pe metric quantity unit cost raw = query E ''CreateAIUsageRecord''
     (bindE (check (\<lambda>s. provider \<in> p_ID ` set (st_providers s)
          \<and> (case inst of None \<Rightarrow> True | Some k \<Rightarrow> k \<in> i_ID ` set (st_instances s))) FkViolation) (\<lambda>_.
      insert_row st_usage_update (\<lambda>i t. \<lparr>u_ID = i, u_InstanceID = inst, u_ProviderID = provider,
        u_PeriodStart = ps, u_PeriodEnd = pe, u_Metric = metric, u_Quantity = quantity, u_Unit = unit,
        u_CostUsd = cost, u_Raw = raw, u_CreatedAt = t\<rparr>)))"

definition q_FindAIUsageRecordByImportKey ::
  "'w env \<Rightarrow> uuid \<Rightarrow> time \<Rightarrow> time \<Rightarrow> string \<Rightarrow> string \<Rightarrow> ('w st, AiUsageRecord) op" where
  "q_FindAIUsageRecordByImportKey E provider ps pe metric key = query E ''FindAIUsageRecordByImportKey''
     (one (\<lambda>s. List.find (\<lambda>u. u_ProviderID u = provider \<and> u_PeriodStart u = ps \<and> u_PeriodEnd u = pe
        \<and> u_Metric u = metric \<and> str_at (to_obj (u_Raw u)) ''import_key'' = Some key) (st_usage s)))"

definition q_FindAIKeySpendRecord :: "'w env \<Rightarrow> uuid \<Rightarrow> ('w st, AiUsageRecord) op" where
  "q_FindAIKeySpendRecord E inst = query E ''FindAIKeySpendRecord''
     (one (\<lambda>s. List.find (\<lambda>u. u_InstanceID u = Some inst \<and> u_Metric u = ''cost_usd''
        \<and> str_at (to_obj (u_Raw u)) ''source'' = Some ''litellm_spend'') (st_usage s)))"

definition q_UpdateAIUsageRecordCost :: "'w env \<Rightarrow> uuid \<Rightarrow> float64 \<Rightarrow> ('w st, unit) op" where
  "q_UpdateAIUsageRecordCost E k cost = query E ''UpdateAIUsageRecordCost''
     (modify (\<lambda>s. st_usage_update (update_rows (\<lambda>u. u_ID u = k) (\<lambda>u.
        u\<lparr>u_CostUsd := cost, u_Quantity := cost, u_PeriodStart := st_now s, u_PeriodEnd := st_now s\<rparr>)) s))"

text \<open>The join of a usage row with its provider and, when it has one, its instance.\<close>

definition usage_row :: "'w st \<Rightarrow> AiUsageRecord \<Rightarrow> AiUsageRow option" where
  "usage_row s u = (case List.find (\<lambda>p. p_ID p = u_ProviderID u) (st_providers s) of
     None \<Rightarrow> None
   | Some p \<Rightarrow>
       let i = (case u_InstanceID u of None \<Rightarrow> None
                | Some k \<Rightarrow> List.find (\<lambda>i. i_ID i = k) (st_instances s)) in
       Some (AiUsageRecord.extend u (AiUsageRow.fields (p_Name p) (map_option i_Owner i)
         (map_option i_Workspace i) (Option.bind i i_TenantID))))"

definition q_ListAIUsageRecords :: "'w env \<Rightarrow> ('w st, AiUsageRow list) op" where
  "q_ListAIUsageRecords E = query E ''ListAIUsageRecords''
     (gets (\<lambda>s. sort_key (\<lambda>u. - u_PeriodStart u) (List.map_filter (usage_row s) (rev (st_usage s)))))"

section \<open>Budgets, quotas, policies\<close>

definition q_CreateAIBudget ::
  "'w env \<Rightarrow> uuid option \<Rightarrow> string \<Rightarrow> string \<Rightarrow> float64 \<Rightarrow> string \<Rightarrow> int \<Rightarrow> int \<Rightarrow> ('w st, AiBudget) op" where
  "q_CreateAIBudget E tenant scope ref limit period soft hard = query E ''CreateAIBudget''
     (bindE (check (fk_tenant tenant) FkViolation) (\<lambda>_.
      insert_row st_budgets_update (\<lambda>i t. \<lparr>b_ID = i, b_TenantID = tenant, b_Scope = scope, b_ScopeRef = ref,
        b_LimitUsd = limit, b_Period = period, b_SoftThresholdPct = soft, b_HardThresholdPct = hard,
        b_CreatedAt = t, b_UpdatedAt = t\<rparr>)))"

definition q_ListAIBudgets :: "'w env \<Rightarrow> ('w st, AiBudget list) op" where
  "q_ListAIBudgets E = query E ''ListAIBudgets'' (gets (\<lambda>s. rev (st_budgets s)))"

definition q_GetAIBudget :: "'w env \<Rightarrow> uuid \<Rightarrow> ('w st, AiBudget) op" where
  "q_GetAIBudget E k = query E ''GetAIBudget'' (one (\<lambda>s. List.find (\<lambda>b. b_ID b = k) (st_budgets s)))"

definition q_UpdateAIBudget ::
  "'w env \<Rightarrow> uuid \<Rightarrow> string \<Rightarrow> string \<Rightarrow> float64 \<Rightarrow> string \<Rightarrow> int \<Rightarrow> int \<Rightarrow> ('w st, AiBudget) op" where
  "q_UpdateAIBudget E k scope ref limit period soft hard = query E ''UpdateAIBudget''
     (update_row st_budgets st_budgets_update b_ID k (\<lambda>t b. b\<lparr>b_Scope := scope, b_ScopeRef := ref,
        b_LimitUsd := limit, b_Period := period, b_SoftThresholdPct := soft, b_HardThresholdPct := hard,
        b_UpdatedAt := t\<rparr>))"

definition q_DeleteAIBudget :: "'w env \<Rightarrow> uuid \<Rightarrow> ('w st, unit) op" where
  "q_DeleteAIBudget E k = query E ''DeleteAIBudget''
     (modify (st_budgets_update (filter (\<lambda>b. b_ID b \<noteq> k))))"

definition q_CreateAIQuota ::
  "'w env \<Rightarrow> uuid option \<Rightarrow> uuid option \<Rightarrow> string \<Rightarrow> float64 \<Rightarrow> string \<Rightarrow> string \<Rightarrow> ('w st, AiQuota) op" where
  "q_CreateAIQuota E service tenant metric limit period enforcement = query E ''CreateAIQuota''
     (bindE (check (\<lambda>_. enforcement \<in> {''warn'', ''block''}) CheckViolation) (\<lambda>_.
      bindE (check (\<lambda>s. (case service of None \<Rightarrow> True | Some k \<Rightarrow> k \<in> s_ID ` set (st_services s))
          \<and> fk_tenant tenant s) FkViolation) (\<lambda>_.
      insert_row st_quotas_update (\<lambda>i t. \<lparr>q_ID = i, q_ServiceID = service, q_TenantID = tenant,
        q_Metric = metric, q_LimitQuantity = limit, q_Period = period, q_Enforcement = enforcement,
        q_CreatedAt = t\<rparr>))))"

definition q_ListAIQuotas :: "'w env \<Rightarrow> ('w st, AiQuota list) op" where
  "q_ListAIQuotas E = query E ''ListAIQuotas'' (gets (\<lambda>s. rev (st_quotas s)))"

definition q_GetAIQuota :: "'w env \<Rightarrow> uuid \<Rightarrow> ('w st, AiQuota) op" where
  "q_GetAIQuota E k = query E ''GetAIQuota'' (one (\<lambda>s. List.find (\<lambda>q. q_ID q = k) (st_quotas s)))"

definition q_UpdateAIQuota :: "'w env \<Rightarrow> uuid \<Rightarrow> float64 \<Rightarrow> string \<Rightarrow> string \<Rightarrow> ('w st, AiQuota) op" where
  "q_UpdateAIQuota E k limit period enforcement = query E ''UpdateAIQuota''
     (bindE (one (\<lambda>s. List.find (\<lambda>r. q_ID r = k) (st_quotas s))) (\<lambda>_.
      bindE (check (\<lambda>_. enforcement \<in> {''warn'', ''block''}) CheckViolation) (\<lambda>_.
      update_row st_quotas st_quotas_update q_ID k (\<lambda>t q. q\<lparr>q_LimitQuantity := limit, q_Period := period,
        q_Enforcement := enforcement\<rparr>))))"

definition q_DeleteAIQuota :: "'w env \<Rightarrow> uuid \<Rightarrow> ('w st, unit) op" where
  "q_DeleteAIQuota E k = query E ''DeleteAIQuota''
     (modify (st_quotas_update (filter (\<lambda>q. q_ID q \<noteq> k))))"

definition q_CreateAIAccessPolicy ::
  "'w env \<Rightarrow> string \<Rightarrow> uuid option \<Rightarrow> json \<Rightarrow> string \<Rightarrow> ('w st, AiAccessPolicy) op" where
  "q_CreateAIAccessPolicy E name tenant rules status = query E ''CreateAIAccessPolicy''
     (bindE (check (\<lambda>_. status \<in> set active_disabled) CheckViolation) (\<lambda>_.
      bindE (check (\<lambda>s. name \<notin> po_Name ` set (st_policies s)) UniqueViolation) (\<lambda>_.
      bindE (check (fk_tenant tenant) FkViolation) (\<lambda>_.
      insert_row st_policies_update (\<lambda>i t. \<lparr>po_ID = i, po_Name = name, po_TenantID = tenant,
        po_Rules = rules, po_Status = status, po_CreatedAt = t, po_UpdatedAt = t\<rparr>)))))"

definition q_ListAIAccessPolicies :: "'w env \<Rightarrow> ('w st, AiAccessPolicy list) op" where
  "q_ListAIAccessPolicies E = query E ''ListAIAccessPolicies'' (gets (\<lambda>s. rev (st_policies s)))"

definition q_GetAIAccessPolicy :: "'w env \<Rightarrow> uuid \<Rightarrow> ('w st, AiAccessPolicy) op" where
  "q_GetAIAccessPolicy E k = query E ''GetAIAccessPolicy''
     (one (\<lambda>s. List.find (\<lambda>p. po_ID p = k) (st_policies s)))"

definition q_UpdateAIAccessPolicy :: "'w env \<Rightarrow> uuid \<Rightarrow> json \<Rightarrow> string \<Rightarrow> ('w st, AiAccessPolicy) op" where
  "q_UpdateAIAccessPolicy E k rules status = query E ''UpdateAIAccessPolicy''
     (bindE (one (\<lambda>s. List.find (\<lambda>r. po_ID r = k) (st_policies s))) (\<lambda>_.
      bindE (check (\<lambda>_. status \<in> set active_disabled) CheckViolation) (\<lambda>_.
      update_row st_policies st_policies_update po_ID k (\<lambda>t p. p\<lparr>po_Rules := rules, po_Status := status,
        po_UpdatedAt := t\<rparr>))))"

definition q_DeleteAIAccessPolicy :: "'w env \<Rightarrow> uuid \<Rightarrow> ('w st, unit) op" where
  "q_DeleteAIAccessPolicy E k = query E ''DeleteAIAccessPolicy''
     (modify (st_policies_update (filter (\<lambda>p. po_ID p \<noteq> k))))"

section \<open>Model catalog and audit log\<close>

text \<open>\<open>on conflict (provider_id, model) do update\<close>.\<close>

definition q_UpsertAIModelCatalog ::
  "'w env \<Rightarrow> uuid \<Rightarrow> string \<Rightarrow> string \<Rightarrow> string \<Rightarrow> string \<Rightarrow> json \<Rightarrow> ('w st, AiModelCatalog) op" where
  "q_UpsertAIModelCatalog E provider model display modality status meta = query E ''UpsertAIModelCatalog''
     (bindE (check (\<lambda>_. status \<in> set active_disabled) CheckViolation) (\<lambda>_.
      bindE (gets (\<lambda>s. List.find (\<lambda>m. m_ProviderID m = provider \<and> m_Model m = model) (st_models s))) (\<lambda>old.
      case old of
        Some m \<Rightarrow> update_row st_models st_models_update m_ID (m_ID m) (\<lambda>t m. m\<lparr>m_DisplayName := display,
          m_Modality := modality, m_Status := status, m_Metadata := meta, m_UpdatedAt := t\<rparr>)
      | None \<Rightarrow> bindE (check (\<lambda>s. provider \<in> p_ID ` set (st_providers s)) FkViolation) (\<lambda>_.
          insert_row st_models_update (\<lambda>i t. \<lparr>m_ID = i, m_ProviderID = provider, m_Model = model,
            m_DisplayName = display, m_Modality = modality, m_Status = status, m_Metadata = meta,
            m_CreatedAt = t, m_UpdatedAt = t\<rparr>)))))"

text \<open>The catalog with the names of its providers, in the order of the names and models; text compares by
  its bytes, the collation C.\<close>

record AiModelCatalogRow = AiModelCatalog +
  m_ProviderName :: string
  m_ProviderType :: string

fun text_le :: "string \<Rightarrow> string \<Rightarrow> bool" where
  "text_le [] y = True"
| "text_le (a # x) [] = False"
| "text_le (a # x) (b # y) = (if a = b then text_le x y else (of_char a :: nat) < of_char b)"

fun insert_by :: "('a \<Rightarrow> 'a \<Rightarrow> bool) \<Rightarrow> 'a \<Rightarrow> 'a list \<Rightarrow> 'a list" where
  "insert_by le x [] = [x]"
| "insert_by le x (y # ys) = (if le x y then x # y # ys else y # insert_by le x ys)"

definition catalog_le :: "AiModelCatalogRow \<Rightarrow> AiModelCatalogRow \<Rightarrow> bool" where
  "catalog_le a b \<longleftrightarrow> (if m_ProviderName a = m_ProviderName b then text_le (m_Model a) (m_Model b)
     else text_le (m_ProviderName a) (m_ProviderName b))"

definition catalog_row :: "'w st \<Rightarrow> AiModelCatalog \<Rightarrow> AiModelCatalogRow option" where
  "catalog_row s m = (case List.find (\<lambda>p. p_ID p = m_ProviderID m) (st_providers s) of
     None \<Rightarrow> None
   | Some p \<Rightarrow> Some (AiModelCatalog.extend m (AiModelCatalogRow.fields (p_Name p) (p_Type p))))"

definition q_ListAIModelCatalog :: "'w env \<Rightarrow> ('w st, AiModelCatalogRow list) op" where
  "q_ListAIModelCatalog E = query E ''ListAIModelCatalog''
     (gets (\<lambda>s. foldr (insert_by catalog_le) (List.map_filter (catalog_row s) (st_models s)) []))"

definition q_CreateAIAuditEvent ::
  "'w env \<Rightarrow> string \<Rightarrow> uuid option \<Rightarrow> string \<Rightarrow> uuid option \<Rightarrow> string \<Rightarrow> message \<Rightarrow> obj \<Rightarrow> ('w st, AiAuditEvent) op" where
  "q_CreateAIAuditEvent E actor tenant sty sid action msg flds = query E ''CreateAIAuditEvent''
     (bindE (check (fk_tenant tenant) FkViolation) (\<lambda>_.
      insert_row st_audit_update (\<lambda>i t. \<lparr>a_ID = i, a_Actor = actor, a_TenantID = tenant,
        a_SubjectType = sty, a_SubjectID = sid, a_Action = action, a_Message = msg, a_Fields = flds,
        a_CreatedAt = t\<rparr>)))"

definition q_ListAIAuditEvents :: "'w env \<Rightarrow> int \<Rightarrow> ('w st, AiAuditEvent list) op" where
  "q_ListAIAuditEvents E limit = query E ''ListAIAuditEvents''
     (gets (\<lambda>s. take (nat limit) (rev (st_audit s))))"

section \<open>Requests\<close>

definition request_statuses :: "string list" where
  "request_statuses = [''pending_approval'', ''approved'', ''rejected'', ''provisioning'', ''completed'', ''failed'']"

definition request_kinds :: "string list" where
  "request_kinds = [''vm'', ''cluster'', ''database'', ''stack'', ''environment'', ''project'', ''account'', ''ai_service'']"

definition q_CreateRequest ::
  "'w env \<Rightarrow> string \<Rightarrow> string \<Rightarrow> string \<Rightarrow> string \<Rightarrow> string \<Rightarrow> string \<Rightarrow> json \<Rightarrow> uuid option \<Rightarrow> ('w st, Request) op" where
  "q_CreateRequest E name environment requester kind provider blueprint spec tenant = query E ''CreateRequest''
     (bindE (check (\<lambda>_. kind \<in> set request_kinds) CheckViolation) (\<lambda>_.
      bindE (check (\<lambda>s. \<not> (\<exists>r \<in> set (st_requests s). r_Name r = name \<and> r_Environment r = environment))
        UniqueViolation) (\<lambda>_.
      bindE (check (fk_tenant tenant) FkViolation) (\<lambda>_.
      insert_row st_requests_update (\<lambda>i t. \<lparr>r_ID = i, r_Name = name, r_Environment = environment,
        r_Requester = requester, r_Kind = kind, r_Provider = provider, r_Blueprint = blueprint,
        r_Spec = spec, r_Status = ''pending_approval'', r_TicketRef = [], r_ResourceRef = [],
        r_DecidedBy = [], r_Reason = [], r_TenantID = tenant, r_CreatedAt = t, r_UpdatedAt = t\<rparr>)))))"

definition q_GetRequestByName :: "'w env \<Rightarrow> string \<Rightarrow> string \<Rightarrow> ('w st, Request) op" where
  "q_GetRequestByName E name environment = query E ''GetRequestByName''
     (one (\<lambda>s. List.find (\<lambda>r. r_Name r = name \<and> r_Environment r = environment) (st_requests s)))"

definition q_ListRequests :: "'w env \<Rightarrow> ('w st, Request list) op" where
  "q_ListRequests E = query E ''ListRequests'' (gets (\<lambda>s. rev (st_requests s)))"

definition q_SetRequestTicket :: "'w env \<Rightarrow> uuid \<Rightarrow> string \<Rightarrow> ('w st, Request) op" where
  "q_SetRequestTicket E k ticket = query E ''SetRequestTicket''
     (update_row st_requests st_requests_update r_ID k (\<lambda>t r. r\<lparr>r_TicketRef := ticket, r_UpdatedAt := t\<rparr>))"

definition q_SetRequestResource :: "'w env \<Rightarrow> uuid \<Rightarrow> string \<Rightarrow> string \<Rightarrow> ('w st, Request) op" where
  "q_SetRequestResource E k resource status = query E ''SetRequestResource''
     (bindE (one (\<lambda>s. List.find (\<lambda>r. r_ID r = k) (st_requests s))) (\<lambda>_.
      bindE (check (\<lambda>_. status \<in> set request_statuses) CheckViolation) (\<lambda>_.
      update_row st_requests st_requests_update r_ID k (\<lambda>t r.
        r\<lparr>r_ResourceRef := resource, r_Status := status, r_UpdatedAt := t\<rparr>))))"

definition q_DecideRequest :: "'w env \<Rightarrow> uuid \<Rightarrow> string \<Rightarrow> string \<Rightarrow> string \<Rightarrow> ('w st, Request) op" where
  "q_DecideRequest E k status decidedBy reason = query E ''DecideRequest''
     (bindE (one (\<lambda>s. List.find (\<lambda>r. r_ID r = k) (st_requests s))) (\<lambda>_.
      bindE (check (\<lambda>_. status \<in> set request_statuses) CheckViolation) (\<lambda>_.
      update_row st_requests st_requests_update r_ID k (\<lambda>t r.
        r\<lparr>r_Status := status, r_DecidedBy := decidedBy, r_Reason := reason, r_UpdatedAt := t\<rparr>))))"

section \<open>Tenants and users\<close>

definition q_CreateTenant :: "'w env \<Rightarrow> string \<Rightarrow> ('w st, Tenant) op" where
  "q_CreateTenant E name = query E ''CreateTenant''
     (bindE (check (\<lambda>s. name \<notin> t_Name ` set (st_tenants s)) UniqueViolation) (\<lambda>_.
      insert_row st_tenants_update (\<lambda>i t. \<lparr>t_ID = i, t_Name = name, t_CreatedAt = t\<rparr>)))"

definition q_GetTenantByName :: "'w env \<Rightarrow> string \<Rightarrow> ('w st, Tenant) op" where
  "q_GetTenantByName E name = query E ''GetTenantByName''
     (one (\<lambda>s. List.find (\<lambda>t. t_Name t = name) (st_tenants s)))"

definition q_GetTenant :: "'w env \<Rightarrow> uuid \<Rightarrow> ('w st, Tenant) op" where
  "q_GetTenant E k = query E ''GetTenant'' (one (\<lambda>s. List.find (\<lambda>t. t_ID t = k) (st_tenants s)))"

definition q_ListTenants :: "'w env \<Rightarrow> ('w st, Tenant list) op" where
  "q_ListTenants E = query E ''ListTenants'' (gets (\<lambda>s. rev (st_tenants s)))"

definition q_CreateUser :: "'w env \<Rightarrow> string \<Rightarrow> uuid \<Rightarrow> string \<Rightarrow> string \<Rightarrow> ('w st, User) op" where
  "q_CreateUser E email tenant role hash = query E ''CreateUser''
     (bindE (check (\<lambda>_. ValidRole role) CheckViolation) (\<lambda>_.
      bindE (check (\<lambda>s. email \<notin> us_Email ` set (st_users s)) UniqueViolation) (\<lambda>_.
      bindE (check (\<lambda>s. tenant \<in> t_ID ` set (st_tenants s)) FkViolation) (\<lambda>_.
      insert_row st_users_update (\<lambda>i t. \<lparr>us_ID = i, us_Email = email, us_TenantID = tenant,
        us_Role = role, us_ApiKeyHash = hash, us_CreatedAt = t\<rparr>)))))"

definition q_GetUserByAPIKeyHash :: "'w env \<Rightarrow> string \<Rightarrow> ('w st, User) op" where
  "q_GetUserByAPIKeyHash E hash = query E ''GetUserByAPIKeyHash''
     (one (\<lambda>s. List.find (\<lambda>u. us_ApiKeyHash u = hash) (st_users s)))"

definition q_ListUsers :: "'w env \<Rightarrow> ('w st, User list) op" where
  "q_ListUsers E = query E ''ListUsers'' (gets (\<lambda>s. rev (st_users s)))"

section \<open>MCP servers and grants\<close>

definition mcp_transports :: "string list" where "mcp_transports = [''stdio'', ''http'', ''sse'']"

definition mcp_risk_tiers :: "string list" where
  "mcp_risk_tiers = [''low'', ''medium'', ''high'', ''critical'']"

definition q_CreateMCPServer ::
  "'w env \<Rightarrow> string \<Rightarrow> string \<Rightarrow> string \<Rightarrow> string \<Rightarrow> string \<Rightarrow> json \<Rightarrow> uuid option \<Rightarrow> ('w st, McpServer) op" where
  "q_CreateMCPServer E name transport endpoint descr risk tools tenant = query E ''CreateMCPServer''
     (bindE (check (\<lambda>_. transport \<in> set mcp_transports \<and> risk \<in> set mcp_risk_tiers) CheckViolation) (\<lambda>_.
      bindE (check (\<lambda>s. name \<notin> ms_Name ` set (st_servers s)) UniqueViolation) (\<lambda>_.
      bindE (check (fk_tenant tenant) FkViolation) (\<lambda>_.
      insert_row st_servers_update (\<lambda>i t. \<lparr>ms_ID = i, ms_Name = name, ms_Transport = transport,
        ms_Endpoint = endpoint, ms_Description = descr, ms_RiskTier = risk, ms_AllowedTools = tools,
        ms_Status = ''active'', ms_TenantID = tenant, ms_CreatedAt = t, ms_UpdatedAt = t\<rparr>)))))"

definition q_ListMCPServers :: "'w env \<Rightarrow> ('w st, McpServer list) op" where
  "q_ListMCPServers E = query E ''ListMCPServers'' (gets (\<lambda>s. rev (st_servers s)))"

definition q_GetMCPServerByName :: "'w env \<Rightarrow> string \<Rightarrow> ('w st, McpServer) op" where
  "q_GetMCPServerByName E name = query E ''GetMCPServerByName''
     (one (\<lambda>s. List.find (\<lambda>m. ms_Name m = name) (st_servers s)))"

definition q_UpdateMCPServerStatus :: "'w env \<Rightarrow> uuid \<Rightarrow> string \<Rightarrow> ('w st, McpServer) op" where
  "q_UpdateMCPServerStatus E k status = query E ''UpdateMCPServerStatus''
     (bindE (one (\<lambda>s. List.find (\<lambda>r. ms_ID r = k) (st_servers s))) (\<lambda>_.
      bindE (check (\<lambda>_. status \<in> set active_disabled) CheckViolation) (\<lambda>_.
      update_row st_servers st_servers_update ms_ID k (\<lambda>t m. m\<lparr>ms_Status := status, ms_UpdatedAt := t\<rparr>))))"

definition q_DeleteMCPServer :: "'w env \<Rightarrow> uuid \<Rightarrow> ('w st, unit) op" where
  "q_DeleteMCPServer E k = query E ''DeleteMCPServer''
     (modify (\<lambda>s. s\<lparr>st_servers := filter (\<lambda>m. ms_ID m \<noteq> k) (st_servers s),
        st_grants := filter (\<lambda>g. g_ServerID g \<noteq> k) (st_grants s)\<rparr>))"

definition grant_statuses :: "string list" where
  "grant_statuses = [''requested'', ''active'', ''revoked'', ''expired'', ''rejected'']"

definition q_CreateMCPGrant ::
  "'w env \<Rightarrow> uuid \<Rightarrow> string \<Rightarrow> time option \<Rightarrow> string \<Rightarrow> uuid option \<Rightarrow> string \<Rightarrow> ('w st, McpGrant) op" where
  "q_CreateMCPGrant E server owner expires grantedBy tenant status = query E ''CreateMCPGrant''
     (bindE (check (\<lambda>_. status \<in> set grant_statuses) CheckViolation) (\<lambda>_.
      bindE (check (\<lambda>s. server \<in> ms_ID ` set (st_servers s) \<and> fk_tenant tenant s) FkViolation) (\<lambda>_.
      insert_row st_grants_update (\<lambda>i t. \<lparr>g_ID = i, g_ServerID = server, g_Owner = owner,
        g_Status = status, g_ExpiresAt = expires, g_GrantedBy = grantedBy, g_TenantID = tenant,
        g_CreatedAt = t, g_RevokedAt = None\<rparr>))))"

definition grant_row :: "'w st \<Rightarrow> McpGrant \<Rightarrow> McpGrantRow option" where
  "grant_row s g = (case List.find (\<lambda>m. ms_ID m = g_ServerID g) (st_servers s) of
     None \<Rightarrow> None
   | Some m \<Rightarrow> Some (McpGrant.extend g (McpGrantRow.fields (ms_Name m) (ms_RiskTier m))))"

definition q_ListMCPGrants :: "'w env \<Rightarrow> ('w st, McpGrantRow list) op" where
  "q_ListMCPGrants E = query E ''ListMCPGrants''
     (gets (\<lambda>s. List.map_filter (grant_row s) (rev (st_grants s))))"

text \<open>SQL's \<open>lower\<close> on both sides; the newest matching grant.\<close>

definition grant_of :: "uuid \<Rightarrow> string \<Rightarrow> McpGrant \<Rightarrow> bool" where
  "grant_of server owner g \<longleftrightarrow> g_ServerID g = server \<and> ToLower (g_Owner g) = ToLower owner"

definition q_FindLatestMCPGrant :: "'w env \<Rightarrow> uuid \<Rightarrow> string \<Rightarrow> ('w st, McpGrant) op" where
  "q_FindLatestMCPGrant E server owner = query E ''FindLatestMCPGrant''
     (one (\<lambda>s. List.find (grant_of server owner) (rev (st_grants s))))"

definition q_FindActiveMCPGrant :: "'w env \<Rightarrow> uuid \<Rightarrow> string \<Rightarrow> ('w st, McpGrant) op" where
  "q_FindActiveMCPGrant E server owner = query E ''FindActiveMCPGrant''
     (one (\<lambda>s. List.find (\<lambda>g. grant_of server owner g \<and> g_Status g = ''active'') (rev (st_grants s))))"

definition q_SetMCPGrantStatus :: "'w env \<Rightarrow> uuid \<Rightarrow> string \<Rightarrow> ('w st, McpGrant) op" where
  "q_SetMCPGrantStatus E k status = query E ''SetMCPGrantStatus''
     (bindE (one (\<lambda>s. List.find (\<lambda>r. g_ID r = k) (st_grants s))) (\<lambda>_.
      bindE (check (\<lambda>_. status \<in> set grant_statuses) CheckViolation) (\<lambda>_.
      update_row st_grants st_grants_update g_ID k (\<lambda>t g. g\<lparr>g_Status := status\<rparr>))))"

definition q_RevokeMCPGrant :: "'w env \<Rightarrow> uuid \<Rightarrow> ('w st, McpGrant) op" where
  "q_RevokeMCPGrant E k = query E ''RevokeMCPGrant''
     (update_row st_grants st_grants_update g_ID k (\<lambda>t g. g\<lparr>g_Status := ''revoked'', g_RevokedAt := Some t\<rparr>))"

end
