(* ===== verification/Service.thy ===== *)
theory Service
  imports Queries
begin

text \<open>
  The parts of the orchestrator every operation uses (\<open>internal/orchestrator/service.go\<close> and the
  helpers of \<open>ai.go\<close>): events, the audit trail, credentials and provider configuration, and the
  handling of keys a provider mints. The locale \<open>audit_rel\<close> is the contract between a state
  relation and these shared effects: a relation that survives an audit insert, a published event
  and a change of the backends' world survives every helper here.
\<close>

section \<open>Events and audit\<close>

definition emit :: "'w env \<Rightarrow> string \<Rightarrow> string \<Rightarrow> string \<Rightarrow> string \<Rightarrow> string \<Rightarrow> message \<Rightarrow> ('w st, unit) op" where
  "emit E kind action name environment provider msg =
     (if \<not> env_events E then ret ()
      else modify (st_bus_update (\<lambda>b. b @ [\<lparr>ev_Kind = kind, ev_Action = action, ev_Name = name,
        ev_Environment = environment, ev_Provider = provider, ev_Message = msg\<rparr>])))"

definition audit_actor :: "ctx \<Rightarrow> string \<Rightarrow> string" where
  "audit_actor c fallback = (let a = (case c of Some i \<Rightarrow> id_email i | None \<Rightarrow> fallback) in
     if a = [] then ''system'' else a)"

definition nonzero :: "uuid \<Rightarrow> uuid option" where
  "nonzero k = (if k = 0 then None else Some k)"

definition emitAIAudit ::
  "'w env \<Rightarrow> ctx \<Rightarrow> string \<Rightarrow> uuid \<Rightarrow> string \<Rightarrow> message \<Rightarrow> obj \<Rightarrow> string \<Rightarrow> ('w st, unit) op" where
  "emitAIAudit E c sty sid action msg flds fallback =
     ignore (q_CreateAIAuditEvent E (audit_actor c fallback) (tenantForCreate c) sty (nonzero sid) action msg flds)"

section \<open>Provider configuration and credentials\<close>

definition aiProviderConfig :: "AiProvider \<Rightarrow> obj" where
  "aiProviderConfig p = to_obj (p_Config p)"

definition isSensitiveAIConfigKey :: "string \<Rightarrow> bool" where
  "isSensitiveAIConfigKey key \<longleftrightarrow> ToLower (TrimSpace key) \<in>
     {''api_key'', ''openai_api_key'', ''anthropic_api_key'', ''admin_api_key'', ''token'', ''access_token'',
      ''bearer_token'', ''secret'', ''client_secret'', ''password'', ''master_key'', ''litellm_master_key''}"

definition rejectAIProviderSecretConfig :: "obj \<Rightarrow> err option" where
  "rejectAIProviderSecretConfig cfg = (case List.find (\<lambda>(k, v). isSensitiveAIConfigKey k) cfg of
     Some (k, v) \<Rightarrow> Some (NotFound ''ai provider config must not include secret key'' k)
   | None \<Rightarrow> None)"

definition aiProvider :: "'w env \<Rightarrow> string \<Rightarrow> err + 'w Provider" where
  "aiProvider E t = (case env_ai E of
     None \<Rightarrow> Inl (Msg ''ai provider registry is not configured'')
   | Some r \<Rightarrow> Registry_Get r t)"

definition lift :: "err + 'a \<Rightarrow> ('s, 'a) op" where
  "lift r = (case r of Inl e \<Rightarrow> fail e | Inr x \<Rightarrow> ret x)"

definition aiCredentials :: "'w env \<Rightarrow> AiProvider \<Rightarrow> ('w st, kv) op" where
  "aiCredentials E p = (case env_creds E of
     None \<Rightarrow> ret []
   | Some cr \<Rightarrow> bindE (attempt (q_GetAIProviderCredentialByProvider E (p_ID p))) (\<lambda>r.
       case r of
         Inl _ \<Rightarrow> ret []
       | Inr c \<Rightarrow> if TrimSpace (c_SecretRef c) = [] then ret []
                 else gets (\<lambda>s. case cr_ReadSecret cr (c_SecretRef c) (st_world s) of
                        Inl _ \<Rightarrow> [] | Inr m \<Rightarrow> m)))"

section \<open>Minted keys\<close>

definition maskKey :: "string \<Rightarrow> string" where
  "maskKey k = (if length k \<le> 8 then ''****''
     else take 4 k @ [CHR 0xE2, CHR 0x80, CHR 0xA6] @ drop (length k - 4) k)"

definition stripMintedSecret :: "'w env \<Rightarrow> uuid \<Rightarrow> obj \<Rightarrow> ('w st, string \<times> obj) op" where
  "stripMintedSecret E requestID observed =
     (case str_at observed ''virtual_key'' of
        None \<Rightarrow> ret ([], observed)
      | Some raw \<Rightarrow>
          if TrimSpace raw = [] then ret ([], observed)
          else
            let observed = AList.delete ''virtual_key'' observed;
                alias0 = (case str_at observed ''key_alias'' of Some a \<Rightarrow> a | None \<Rightarrow> []);
                alias = (if alias0 = [] then env_uuid_string E requestID else alias0);
                path = ''opord/ai/keys/'' @ alias
            in bindE
                 (case Option.bind (env_creds E) cr_WriteSecret of
                    None \<Rightarrow> ret observed
                  | Some write \<Rightarrow>
                      bindE (attempt (on_world (write path [(''key'', raw)]))) (\<lambda>r.
                        case r of
                          Inl _ \<Rightarrow> ret observed
                        | Inr _ \<Rightarrow> ret (AList.update ''virtual_key_secret'' (JStr path) observed)))
                 (\<lambda>observed. ret (raw, AList.update ''virtual_key_preview'' (JStr (maskKey raw)) observed)))"

definition mintedKeyPath :: "json \<Rightarrow> string" where
  "mintedKeyPath observed = (case str_at (to_obj observed) ''virtual_key_secret'' of
     None \<Rightarrow> [] | Some p \<Rightarrow> TrimSpace p)"

definition readMintedKey :: "'w env \<Rightarrow> string \<Rightarrow> ('w st, string) op" where
  "readMintedKey E path =
     (if path = [] then ret [] else
      (case env_creds E of
         None \<Rightarrow> ret []
       | Some cr \<Rightarrow> gets (\<lambda>s. case cr_ReadSecret cr path (st_world s) of
             Inl _ \<Rightarrow> [] | Inr m \<Rightarrow> TrimSpace (kv_at m ''key''))))"

section \<open>The contract of the shared effects\<close>

text \<open>Reading asks nothing of a relation but that it is a preorder.\<close>

locale query_rel = preorder_rel R for R :: "'w st \<Rightarrow> 'w st \<Rightarrow> bool"
begin

lemma rel_one: "rel R (one f)"
  by (auto simp: rel_def one_def R_refl split: option.splits)

lemma rel_query: "rel R m \<Longrightarrow> rel R (query E n m)"
  by (simp add: query_def rel_fail)

lemma rel_check: "rel R (check p e)"
  by (auto simp: rel_def check_def R_refl)

lemma rel_lift: "rel R (lift r)"
  by (auto simp: lift_def rel_fail rel_ret split: sum.splits)

lemma rel_aiCredentials: "rel R (aiCredentials E p)"
  unfolding aiCredentials_def q_GetAIProviderCredentialByProvider_def
  by (intro rel_intros rel_query rel_one)

lemma rel_readMintedKey: "rel R (readMintedKey E path)"
  unfolding readMintedKey_def by (intro rel_intros)

lemma rel_reads:
  "rel R (q_ListAIProviders E)" "rel R (q_GetAIProvider E k)" "rel R (q_GetAIProviderByName E name)"
  "rel R (q_GetAIProviderCredentialByProvider E k)" "rel R (q_ListAIServices E)" "rel R (q_GetAIService E k)"
  "rel R (q_GetAIServiceBySlug E name)" "rel R (q_GetAIServiceInstance E k)"
  "rel R (q_ListAIServiceInstances E)" "rel R (q_ListAIExpiringInstances E n)"
  "rel R (q_CountActiveAIInstancesByProvider E k)"
  "rel R (q_FindAIUsageRecordByImportKey E k ps pe metric key)" "rel R (q_FindAIKeySpendRecord E k)"
  "rel R (q_ListAIUsageRecords E)" "rel R (q_ListAIBudgets E)" "rel R (q_GetAIBudget E k)"
  "rel R (q_ListAIQuotas E)" "rel R (q_GetAIQuota E k)" "rel R (q_ListAIAccessPolicies E)"
  "rel R (q_GetAIAccessPolicy E k)" "rel R (q_ListAIAuditEvents E n)"
  "rel R (q_GetRequestByName E name environment)" "rel R (q_ListRequests E)"
  "rel R (q_GetTenantByName E name)" "rel R (q_GetTenant E k)" "rel R (q_ListTenants E)"
  "rel R (q_GetUserByAPIKeyHash E name)" "rel R (q_ListUsers E)"
  "rel R (q_ListMCPServers E)" "rel R (q_GetMCPServerByName E name)" "rel R (q_ListMCPGrants E)"
  "rel R (q_FindLatestMCPGrant E k name)" "rel R (q_FindActiveMCPGrant E k name)"
  "rel R (q_ListAIModelCatalog E)"
  unfolding q_ListAIProviders_def q_GetAIProvider_def q_GetAIProviderByName_def
    q_GetAIProviderCredentialByProvider_def q_ListAIServices_def q_GetAIService_def
    q_GetAIServiceBySlug_def q_GetAIServiceInstance_def q_ListAIServiceInstances_def
    q_ListAIExpiringInstances_def q_CountActiveAIInstancesByProvider_def
    q_FindAIUsageRecordByImportKey_def q_FindAIKeySpendRecord_def q_ListAIUsageRecords_def
    q_ListAIBudgets_def q_GetAIBudget_def q_ListAIQuotas_def q_GetAIQuota_def
    q_ListAIAccessPolicies_def q_GetAIAccessPolicy_def q_ListAIAuditEvents_def
    q_GetRequestByName_def q_ListRequests_def q_GetTenantByName_def q_GetTenant_def q_ListTenants_def
    q_GetUserByAPIKeyHash_def q_ListUsers_def q_ListMCPServers_def q_GetMCPServerByName_def
    q_ListMCPGrants_def q_FindLatestMCPGrant_def q_FindActiveMCPGrant_def
    q_ListAIModelCatalog_def
  by (intro rel_query rel_gets rel_one)+

lemmas query_rules = rel_intros rel_query rel_check rel_lift rel_aiCredentials rel_readMintedKey rel_reads

end

text \<open>The state itself is such a relation: what only reads leaves the state as it is.\<close>

interpretation ro: query_rel "\<lambda>s t :: 'w st. t = s"
  by unfold_locales auto

locale audit_rel = query_rel R for R :: "'w st \<Rightarrow> 'w st \<Rightarrow> bool" +
  assumes R_audit: "rel R (q_CreateAIAuditEvent E actor tenant sty sid action msg flds)"
    and R_bus: "R s (s\<lparr>st_bus := b\<rparr>)"
    and R_world: "R s (s\<lparr>st_world := w\<rparr>)"
begin

lemma rel_on_world: "rel R (on_world m)"
  by (auto simp: rel_def on_world_def R_world split: prod.splits)

lemma rel_emit: "rel R (emit E kind action name environment provider msg)"
proof -
  have "R s (st_bus_update f s)" for f s
    using R_bus [of s "f (st_bus s)"] by (metis (no_types, lifting) st.update_convs(18) st.fold_congs(18))
  then show ?thesis by (simp add: emit_def rel_def ret_def modify_def R_refl)
qed

lemma rel_emitAIAudit: "rel R (emitAIAudit E c sty sid action msg flds fallback)"
  unfolding emitAIAudit_def by (intro rel_ignore R_audit)

lemma rel_stripMintedSecret: "rel R (stripMintedSecret E k observed)"
  unfolding stripMintedSecret_def by (intro rel_intros rel_on_world)

lemmas audit_rules = query_rules rel_on_world rel_emit rel_emitAIAudit rel_stripMintedSecret

end

section \<open>Masked keys and stripped secrets\<close>

lemma maskKey_bound: "length (maskKey k) \<le> 11"
  by (simp add: maskKey_def)

text \<open>Only the first and the last four bytes of a long key reach its mask.\<close>

lemma maskKey_hides:
  assumes "length a = 4" "length b = 4" "m \<noteq> []" "m' \<noteq> []"
  shows "maskKey (a @ m @ b) = maskKey (a @ m' @ b)"
  using assms by (simp add: maskKey_def)

lemma map_of_AList_delete: "map_of (AList.delete k m) k' = (if k' = k then None else map_of m k')"
  by (simp add: delete_conv)

lemma map_of_AList_update: "map_of (AList.update k v m) k' = (if k' = k then Some v else map_of m k')"
  by (simp add: update_conv)

lemma str_at_delete: "str_at (AList.delete k m) k' = (if k' = k then None else str_at m k')"
  by (simp add: str_at_def map_of_AList_delete)

lemma str_at_update: "str_at (AList.update k (JStr v) m) k' = (if k' = k then Some v else str_at m k')"
  by (simp add: str_at_def map_of_AList_update)

text \<open>An observed state that carries no raw key.\<close>

definition sealed :: "obj \<Rightarrow> bool" where
  "sealed m \<longleftrightarrow> (case str_at m ''virtual_key'' of None \<Rightarrow> True | Some raw \<Rightarrow> TrimSpace raw = [])"

lemma sealed_update: "k \<noteq> ''virtual_key'' \<Longrightarrow> sealed (AList.update k (JStr v) m) = sealed m"
  by (simp add: sealed_def str_at_update)

lemma sealed_delete: "sealed (AList.delete ''virtual_key'' m)"
  by (simp add: sealed_def str_at_delete)

lemma stripMintedSecret_sealed:
  "fst (stripMintedSecret E k m s) = Inr (raw, m') \<Longrightarrow> sealed m'"
proof (cases "sealed m")
  case True
  assume "fst (stripMintedSecret E k m s) = Inr (raw, m')"
  with True show ?thesis
    by (auto simp: stripMintedSecret_def sealed_def run_simps split: option.splits if_splits)
next
  case False
  then obtain v where v: "str_at m ''virtual_key'' = Some v" "TrimSpace v \<noteq> []"
    by (auto simp: sealed_def split: option.splits)
  assume "fst (stripMintedSecret E k m s) = Inr (raw, m')"
  with v show ?thesis
    by (auto simp: stripMintedSecret_def Let_def run_simps sealed_update sealed_delete split: option.splits sum.splits)
qed

end
