(* ===== verification/Budget.thy ===== *)
theory Budget
  imports Service
begin

text \<open>
  Spend accounting (\<open>internal/orchestrator/ai_governance.go\<close>): budget periods and scopes, the
  cost of a set of usage rows with supersession of gateway estimates by imported reports, and the
  budget summaries the gates read.
\<close>

section \<open>Periods and scopes\<close>

definition aiBudgetPeriodStart :: "time \<Rightarrow> string \<Rightarrow> time" where
  "aiBudgetPeriodStart now period =
     (case civil_of_days (day_number now) of (y, m, d) \<Rightarrow>
        let p = ToLower (TrimSpace period) in
        if p = ''daily'' then Date y m d
        else if p = ''yearly'' \<or> p = ''annual'' then Date y 1 1
        else Date y m 1)"

definition usageRawField :: "json \<Rightarrow> string \<Rightarrow> string" where
  "usageRawField raw key = (case str_at (to_obj raw) key of Some v \<Rightarrow> TrimSpace v | None \<Rightarrow> [])"

definition usageSource :: "json \<Rightarrow> string" where
  "usageSource raw = ToLower (usageRawField raw ''source'')"

definition aiAuthoritativeCostSources :: "string list" where
  "aiAuthoritativeCostSources = [''openai_costs_api'', ''anthropic_cost_report'', ''litellm_spend'']"

definition aiBudgetScopeMatches :: "'w env \<Rightarrow> AiBudget \<Rightarrow> AiUsageRow \<Rightarrow> bool" where
  "aiBudgetScopeMatches E b u =
     (let ref = TrimSpace (b_ScopeRef b); scope = ToLower (TrimSpace (b_Scope b)) in
      if scope = [] \<or> scope = ''global'' then True
      else if scope = ''provider'' then
        ref = [] \<or> EqualFold (u_ProviderName u) ref \<or> env_uuid_string E (u_ProviderID u) = ref
      else if scope = ''owner'' then
        (case u_Owner u of Some w \<Rightarrow> EqualFold w ref | None \<Rightarrow> False)
        \<or> EqualFold (usageRawField (u_Raw u) ''owner'') ref
      else if scope = ''workspace'' then
        (case u_Workspace u of Some w \<Rightarrow> EqualFold w ref | None \<Rightarrow> False)
        \<or> EqualFold (usageRawField (u_Raw u) ''workspace'') ref
        \<or> EqualFold (usageRawField (u_Raw u) ''workspace_id'') ref
      else if scope = ''tenant'' then
        (if ref = [] then u_TenantID u = None
         else (case u_TenantID u of Some t \<Rightarrow> env_uuid_string E t = ref | None \<Rightarrow> False))
      else False)"

section \<open>Cost with supersession\<close>

definition counted :: "time \<Rightarrow> (AiUsageRow \<Rightarrow> bool) \<Rightarrow> AiUsageRow \<Rightarrow> bool" where
  "counted start inScope u \<longleftrightarrow> \<not> (u_PeriodStart u < start \<or> \<not> inScope u)"

text \<open>The first loop: providers with an imported spend report in the window.\<close>

definition authoritative_providers :: "AiUsageRow list \<Rightarrow> time \<Rightarrow> (AiUsageRow \<Rightarrow> bool) \<Rightarrow> string list" where
  "authoritative_providers usage start inScope =
     map (\<lambda>u. ToLower (u_ProviderName u))
       (filter (\<lambda>u. counted start inScope u \<and> usageSource (u_Raw u) \<in> set aiAuthoritativeCostSources) usage)"

definition superseded :: "string list \<Rightarrow> AiUsageRow \<Rightarrow> bool" where
  "superseded auth u \<longleftrightarrow> usageSource (u_Raw u) = ''opord_gateway_lite'' \<and> ToLower (u_ProviderName u) \<in> set auth"

text \<open>The second loop, over the rows in order.\<close>

fun cost_loop :: "(AiUsageRow \<Rightarrow> bool) \<Rightarrow> string list \<Rightarrow> time \<Rightarrow> float64 \<Rightarrow> AiUsageRow list \<Rightarrow> float64" where
  "cost_loop inScope auth start acc [] = acc"
| "cost_loop inScope auth start acc (u # us) =
     (if u_PeriodStart u < start \<or> \<not> inScope u then cost_loop inScope auth start acc us
      else if superseded auth u then cost_loop inScope auth start acc us
      else cost_loop inScope auth start (fadd acc (u_CostUsd u)) us)"

definition aiCostUSD :: "AiUsageRow list \<Rightarrow> time \<Rightarrow> (AiUsageRow \<Rightarrow> bool) \<Rightarrow> float64" where
  "aiCostUSD usage start inScope = cost_loop inScope (authoritative_providers usage start inScope) start 0 usage"

definition aiBudgetActualUSD :: "'w env \<Rightarrow> time \<Rightarrow> AiBudget \<Rightarrow> AiUsageRow list \<Rightarrow> float64" where
  "aiBudgetActualUSD E now b usage =
     aiCostUSD usage (aiBudgetPeriodStart now (b_Period b)) (aiBudgetScopeMatches E b)"

section \<open>Summaries\<close>

record AIBudgetSummary =
  bs_Budget :: AiBudget
  bs_ActualUSD :: float64
  bs_RemainingUSD :: float64
  bs_UsagePct :: float64
  bs_Status :: string

definition usage_pct :: "AiBudget \<Rightarrow> float64 \<Rightarrow> float64" where
  "usage_pct b actual = (if 0 < b_LimitUsd b then fmul (fdiv actual (b_LimitUsd b)) 100 else 0)"

definition summarize :: "AiBudget \<Rightarrow> float64 \<Rightarrow> AIBudgetSummary" where
  "summarize b actual =
     (let pct = usage_pct b actual in
      \<lparr>bs_Budget = b, bs_ActualUSD = actual, bs_RemainingUSD = fsub (b_LimitUsd b) actual, bs_UsagePct = pct,
       bs_Status = (if of_count (b_HardThresholdPct b) \<le> pct then ''hard_limit''
                    else if of_count (b_SoftThresholdPct b) \<le> pct then ''warning'' else ''ok'')\<rparr>)"

definition ListAIUsageRecords :: "'w env \<Rightarrow> ctx \<Rightarrow> ('w st, AiUsageRow list) op" where
  "ListAIUsageRecords E c = bindE (q_ListAIUsageRecords E) (\<lambda>rows. ret (visible_rows c u_TenantID rows))"

definition ListAIBudgetSummaries :: "'w env \<Rightarrow> ctx \<Rightarrow> ('w st, AIBudgetSummary list) op" where
  "ListAIBudgetSummaries E c =
     bindE (wrap ''listing ai budgets'' (q_ListAIBudgets E)) (\<lambda>budgets.
     bindE (ListAIUsageRecords E c) (\<lambda>usage.
     bindE (gets st_now) (\<lambda>now.
     ret (map (\<lambda>b. summarize b (aiBudgetActualUSD E now b usage)) (visible_rows c b_TenantID budgets)))))"

section \<open>What the accounting guarantees\<close>

lemma aiBudgetPeriodStart_le: "aiBudgetPeriodStart now period \<le> now"
proof -
  obtain y m d where ymd: "civil_of_days (day_number now) = (y, m, d)" by (metis prod_cases3)
  have day: "day_number now * day_ns \<le> now" by (rule day_number_bounds)
  have "days_of_civil y m d = day_number now" using days_of_civil_of_days [OF ymd] .
  moreover have "days_of_civil y m 1 \<le> day_number now" using month_start_bounds [OF ymd] by simp
  moreover have "days_of_civil y 1 1 \<le> days_of_civil y m 1"
    using days_of_civil_jan civil_of_days_range [OF ymd] by blast
  ultimately have "k * day_ns \<le> now"
    if "k \<in> {days_of_civil y m d, days_of_civil y m 1, days_of_civil y 1 1}" for k
    using that day mult_right_mono [of k "day_number now" day_ns] by (auto simp: day_ns_def)
  then show ?thesis by (simp add: aiBudgetPeriodStart_def ymd Date_def Let_def)
qed

lemma aiBudgetPeriodStart_window:
  "now < aiBudgetPeriodStart now period + 366 * day_ns"
  "ToLower (TrimSpace period) \<notin> {''yearly'', ''annual''} \<Longrightarrow> now < aiBudgetPeriodStart now period + 31 * day_ns"
  "ToLower (TrimSpace period) = ''daily'' \<Longrightarrow> now < aiBudgetPeriodStart now period + day_ns"
proof -
  obtain y m d where ymd: "civil_of_days (day_number now) = (y, m, d)" by (metis prod_cases3)
  have day: "now < (day_number now + 1) * day_ns" by (rule day_number_bounds)
  have eq: "days_of_civil y m d = day_number now" using days_of_civil_of_days [OF ymd] .
  have mon: "day_number now \<le> days_of_civil y m 1 + 30" using month_start_bounds [OF ymd] by simp
  have jan: "days_of_civil y m 1 \<le> days_of_civil y 1 1 + 335"
    using days_of_civil_jan civil_of_days_range [OF ymd] by blast
  have lt: "now < (k + n) * day_ns" if "day_number now + 1 \<le> k + n" for k n
    using that day mult_right_mono [of "day_number now + 1" "k + n" day_ns] by (auto simp: day_ns_def)
  show "now < aiBudgetPeriodStart now period + 366 * day_ns"
    using lt [of "days_of_civil y m d" 366] lt [of "days_of_civil y m 1" 366] lt [of "days_of_civil y 1 1" 366]
      eq mon jan
    by (simp add: aiBudgetPeriodStart_def ymd Date_def Let_def distrib_right)
  show "now < aiBudgetPeriodStart now period + 31 * day_ns"
    if "ToLower (TrimSpace period) \<notin> {''yearly'', ''annual''}"
    using that lt [of "days_of_civil y m d" 31] lt [of "days_of_civil y m 1" 31] eq mon
    by (simp add: aiBudgetPeriodStart_def ymd Date_def Let_def distrib_right)
  show "now < aiBudgetPeriodStart now period + day_ns" if "ToLower (TrimSpace period) = ''daily''"
    using that lt [of "days_of_civil y m d" 1] eq
    by (simp add: aiBudgetPeriodStart_def ymd Date_def Let_def distrib_right)
qed

text \<open>The loop sums exactly the counted rows that are not superseded.\<close>

definition billable :: "AiUsageRow list \<Rightarrow> time \<Rightarrow> (AiUsageRow \<Rightarrow> bool) \<Rightarrow> AiUsageRow \<Rightarrow> bool" where
  "billable usage start inScope u \<longleftrightarrow> counted start inScope u
     \<and> \<not> (usageSource (u_Raw u) = ''opord_gateway_lite''
          \<and> (\<exists>v \<in> set usage. counted start inScope v
               \<and> usageSource (u_Raw v) \<in> set aiAuthoritativeCostSources
               \<and> EqualFold (u_ProviderName v) (u_ProviderName u)))"

lemma cost_loop_fsum:
  "cost_loop inScope auth start acc us =
     fsum acc (map u_CostUsd (filter (\<lambda>u. counted start inScope u \<and> \<not> superseded auth u) us))"
  by (induction inScope auth start acc us rule: cost_loop.induct) (auto simp: counted_def)

lemma aiCostUSD_billable:
  "aiCostUSD usage start inScope = fsum 0 (map u_CostUsd (filter (billable usage start inScope) usage))"
proof -
  have "(counted start inScope u \<and> \<not> superseded (authoritative_providers usage start inScope) u)
      \<longleftrightarrow> billable usage start inScope u" for u
    unfolding billable_def superseded_def authoritative_providers_def EqualFold_def
    by (simp add: image_iff) metis
  then show ?thesis by (simp add: aiCostUSD_def cost_loop_fsum)
qed

lemma aiCostUSD_nonneg: "\<forall>u \<in> set usage. 0 \<le> u_CostUsd u \<Longrightarrow> 0 \<le> aiCostUSD usage start inScope"
  unfolding aiCostUSD_billable by (intro fsum_nonneg) auto

lemma aiCostUSD_le_fsum:
  assumes "\<forall>u \<in> set usage. 0 \<le> u_CostUsd u"
  shows "aiCostUSD usage start inScope \<le> fsum 0 (map u_CostUsd usage)"
  unfolding aiCostUSD_billable using assms by (intro fsum_filter_le) auto

text \<open>A gateway estimate of a provider that also has an imported report in the window is not
  counted, wherever it stands in the list.\<close>

lemma billable_drop_superseded:
  assumes "usageSource (u_Raw u) = ''opord_gateway_lite''"
    and "v \<in> set (us @ vs)" "counted start inScope v"
    and "usageSource (u_Raw v) \<in> set aiAuthoritativeCostSources"
    and "EqualFold (u_ProviderName v) (u_ProviderName u)"
  shows "filter (billable (us @ u # vs) start inScope) (us @ u # vs)
       = filter (billable (us @ vs) start inScope) (us @ vs)"
proof -
  have "usageSource (u_Raw u) \<notin> set aiAuthoritativeCostSources"
    using assms(1) by (simp add: aiAuthoritativeCostSources_def)
  then have "billable (us @ u # vs) start inScope = billable (us @ vs) start inScope"
    by (intro ext) (auto simp: billable_def)
  moreover have "\<not> billable (us @ u # vs) start inScope u"
    using assms by (auto simp: billable_def)
  ultimately show ?thesis by simp
qed

text \<open>Severity of a summary's status.\<close>

definition severity :: "string \<Rightarrow> nat" where
  "severity x = (if x = ''hard_limit'' then 2 else if x = ''warning'' then 1 else 0)"

lemma usage_pct_mono: "x \<le> y \<Longrightarrow> usage_pct b x \<le> usage_pct b y"
  by (auto simp: usage_pct_def intro: fmul_mono fdiv_mono)

lemma summarize_severity_mono:
  assumes "x \<le> y"
  shows "severity (bs_Status (summarize b x)) \<le> severity (bs_Status (summarize b y))"
  using usage_pct_mono [OF assms, of b] by (auto simp: summarize_def Let_def severity_def)

text \<open>Reading the budgets changes nothing.\<close>

context query_rel
begin

lemma rel_ListAIUsageRecords: "rel R (ListAIUsageRecords E c)"
  unfolding ListAIUsageRecords_def by (intro query_rules)

lemma rel_ListAIBudgetSummaries: "rel R (ListAIBudgetSummaries E c)"
  unfolding ListAIBudgetSummaries_def by (intro query_rules rel_ListAIUsageRecords)

end

end
