(* ===== verification/Enforce.thy ===== *)
theory Enforce
  imports Budget
begin

text \<open>
  The governance gates (\<open>internal/orchestrator/ai_enforce.go\<close> and the list operations of
  \<open>ai_governance.go\<close> they read): deny policies, seat quotas and the budget gate of a request, and
  the budget and token gates of a gateway call.
\<close>

section \<open>Request facts and policy rules\<close>

record aiReqContext =
  rc_ServiceID :: uuid
  rc_ServiceSlug :: string
  rc_ServiceCategory :: string
  rc_ProviderName :: string
  rc_ProviderType :: string
  rc_Owner :: string
  rc_Workspace :: string
  rc_Tenant :: "uuid option"

record aiPolicyRule =
  pr_Effect :: string
  pr_Providers :: "string list"
  pr_Categories :: "string list"
  pr_Services :: "string list"
  pr_OwnerDomains :: "string list"

text \<open>\<open>json.Unmarshal(p.Rules, &rule)\<close>; \<open>None\<close> is a decoding error.\<close>

definition decode_rule :: "json \<Rightarrow> aiPolicyRule option" where
  "decode_rule j = (case j of
     JNull \<Rightarrow> Some \<lparr>pr_Effect = [], pr_Providers = [], pr_Categories = [], pr_Services = [], pr_OwnerDomains = []\<rparr>
   | JObj m \<Rightarrow>
       Option.bind (dec_string ''effect'' m []) (\<lambda>e.
       Option.bind (dec_strings ''providers'' m []) (\<lambda>ps.
       Option.bind (dec_strings ''categories'' m []) (\<lambda>cs.
       Option.bind (dec_strings ''services'' m []) (\<lambda>ss.
       Option.bind (dec_strings ''owner_domains'' m []) (\<lambda>ds.
       Some \<lparr>pr_Effect = e, pr_Providers = ps, pr_Categories = cs, pr_Services = ss, pr_OwnerDomains = ds\<rparr>)))))
   | _ \<Rightarrow> None)"

definition isDeny :: "aiPolicyRule \<Rightarrow> bool" where
  "isDeny r \<longleftrightarrow> \<not> EqualFold (TrimSpace (pr_Effect r)) ''allow''"

definition hasSelector :: "aiPolicyRule \<Rightarrow> bool" where
  "hasSelector r \<longleftrightarrow> list_ex (list_ex (\<lambda>v. TrimSpace v \<noteq> []))
     [pr_Providers r, pr_Categories r, pr_Services r, pr_OwnerDomains r]"

definition matchAny :: "string list \<Rightarrow> string list \<Rightarrow> bool" where
  "matchAny patterns candidates \<longleftrightarrow> patterns = [] \<or>
     list_ex (\<lambda>p. TrimSpace p = [] \<or> list_ex (\<lambda>c. EqualFold (TrimSpace p) (TrimSpace c)) candidates) patterns"

definition emailDomain :: "string \<Rightarrow> string" where
  "emailDomain owner = (case after_last (CHR ''@'') owner of
     None \<Rightarrow> [] | Some d \<Rightarrow> if d = [] then [] else ToLower (TrimSpace d))"

definition matches :: "aiPolicyRule \<Rightarrow> aiReqContext \<Rightarrow> bool" where
  "matches r rc \<longleftrightarrow> matchAny (pr_Providers r) [rc_ProviderName rc, rc_ProviderType rc]
     \<and> matchAny (pr_Categories r) [rc_ServiceCategory rc]
     \<and> matchAny (pr_Services r) [rc_ServiceSlug rc]
     \<and> matchAny (pr_OwnerDomains r) [emailDomain (rc_Owner rc)]"

section \<open>Budget scopes against a request\<close>

definition budgetAppliesToRequest :: "'w env \<Rightarrow> AiBudget \<Rightarrow> aiReqContext \<Rightarrow> bool" where
  "budgetAppliesToRequest E b rc =
     (let ref = TrimSpace (b_ScopeRef b); scope = ToLower (TrimSpace (b_Scope b)) in
      if scope = [] \<or> scope = ''global'' then True
      else if scope = ''provider'' then ref = [] \<or> EqualFold (rc_ProviderName rc) ref
      else if scope = ''owner'' then EqualFold (rc_Owner rc) ref
      else if scope = ''workspace'' then ref = [] \<or> EqualFold (rc_Workspace rc) ref
      else if scope = ''tenant'' then
        (if ref = [] then rc_Tenant rc = None
         else (case rc_Tenant rc of Some t \<Rightarrow> env_uuid_string E t = ref | None \<Rightarrow> False))
      else False)"

definition scopeLabel :: "AiBudget \<Rightarrow> string" where
  "scopeLabel b = (let scope0 = TrimSpace (b_Scope b); scope = (if scope0 = [] then ''global'' else scope0);
      ref = TrimSpace (b_ScopeRef b) in if ref \<noteq> [] then scope @ '':'' @ ref else scope)"

section \<open>The lists the gates read\<close>

definition ListAIQuotas :: "'w env \<Rightarrow> ctx \<Rightarrow> ('w st, AiQuota list) op" where
  "ListAIQuotas E c = bindE (wrap ''listing ai quotas'' (q_ListAIQuotas E))
     (\<lambda>rows. ret (visible_rows c q_TenantID rows))"

definition ListAIAccessPolicies :: "'w env \<Rightarrow> ctx \<Rightarrow> ('w st, AiAccessPolicy list) op" where
  "ListAIAccessPolicies E c = bindE (wrap ''listing ai access policies'' (q_ListAIAccessPolicies E))
     (\<lambda>rows. ret (visible_rows c po_TenantID rows))"

definition ListAIInstances :: "'w env \<Rightarrow> ctx \<Rightarrow> ('w st, AiServiceInstanceRow list) op" where
  "ListAIInstances E c = bindE (wrap ''listing ai instances'' (q_ListAIServiceInstances E))
     (\<lambda>rows. ret (visible_rows c i_TenantID rows))"

text \<open>A read whose error is not looked at leaves the empty list.\<close>

definition ok_list :: "err + 'a list \<Rightarrow> 'a list" where
  "ok_list r = (case r of Inl _ \<Rightarrow> [] | Inr xs \<Rightarrow> xs)"

section \<open>The gate of a request\<close>

definition policy_denies :: "aiReqContext \<Rightarrow> AiAccessPolicy \<Rightarrow> bool" where
  "policy_denies rc p \<longleftrightarrow> po_Status p = ''active'' \<and>
     (case decode_rule (po_Rules p) of
        None \<Rightarrow> False
      | Some rule \<Rightarrow> isDeny rule \<and> hasSelector rule \<and> matches rule rc)"

definition seat_metric :: "AiQuota \<Rightarrow> bool" where
  "seat_metric q \<longleftrightarrow> ToLower (TrimSpace (q_Metric q)) \<in> {''instances'', ''seats''}"

definition quota_active :: "aiReqContext \<Rightarrow> AiServiceInstanceRow list \<Rightarrow> AiQuota \<Rightarrow> nat" where
  "quota_active rc instances q = length (filter (\<lambda>i. i_Status i = ''active''
     \<and> (q_ServiceID q = None \<or> i_ServiceID i = rc_ServiceID rc)) instances)"

text \<open>One turn of the quota loop: the reason it adds, if any.\<close>

definition quota_reason :: "aiReqContext \<Rightarrow> AiServiceInstanceRow list \<Rightarrow> AiQuota \<Rightarrow> reason option" where
  "quota_reason rc instances q =
     (if \<not> seat_metric q then None
      else if q_ServiceID q \<noteq> None \<and> q_ServiceID q \<noteq> Some (rc_ServiceID rc) then None
      else let active = quota_active rc instances q in
        if q_LimitQuantity q \<le> of_count (int active)
        then Some (RQuota active (q_LimitQuantity q) (ToLower (TrimSpace (q_Metric q))))
        else None)"

definition budget_hard :: "'w env \<Rightarrow> aiReqContext \<Rightarrow> AIBudgetSummary \<Rightarrow> reason option" where
  "budget_hard E rc b = (if budgetAppliesToRequest E (bs_Budget b) rc \<and> bs_Status b = ''hard_limit''
     then Some (RBudget (bs_ActualUSD b) (b_LimitUsd (bs_Budget b)) (scopeLabel (bs_Budget b))) else None)"

definition budget_soft :: "'w env \<Rightarrow> aiReqContext \<Rightarrow> AIBudgetSummary \<Rightarrow> reason option" where
  "budget_soft E rc b = (if budgetAppliesToRequest E (bs_Budget b) rc \<and> bs_Status b = ''warning''
     then Some (RBudgetWarning (bs_UsagePct b) (scopeLabel (bs_Budget b))) else None)"

definition evaluateAIGovernance :: "'w env \<Rightarrow> ctx \<Rightarrow> aiReqContext \<Rightarrow> ('w st, unit) op" where
  "evaluateAIGovernance E c rc =
     bindE (attempt (ListAIAccessPolicies E c)) (\<lambda>policies.
     bindE (attempt (ListAIQuotas E c)) (\<lambda>quotas.
     bindE (attempt (ListAIInstances E c)) (\<lambda>instances.
     bindE (attempt (ListAIBudgetSummaries E c)) (\<lambda>budgets.
       let denied = map (\<lambda>p. RPolicy (po_Name p)) (filter (policy_denies rc) (ok_list policies));
           verdict = quota_reason rc (ok_list instances);
           hard = denied
             @ List.map_filter verdict (filter (\<lambda>q. q_Enforcement q = ''block'') (ok_list quotas))
             @ List.map_filter (budget_hard E rc) (ok_list budgets);
           soft = List.map_filter verdict (filter (\<lambda>q. q_Enforcement q \<noteq> ''block'') (ok_list quotas))
             @ List.map_filter (budget_soft E rc) (ok_list budgets);
           flds = [(''service'', JStr (rc_ServiceSlug rc)), (''owner'', JStr (rc_Owner rc))]
       in bindE (forE soft (\<lambda>w. emitAIAudit E c ''ai_request'' 0 ''governance_warning'' (Warning w) flds (rc_Owner rc))) (\<lambda>_.
          if hard \<noteq> [] then
            bindE (emitAIAudit E c ''ai_request'' 0 ''governance_blocked'' (Reasons hard) flds (rc_Owner rc)) (\<lambda>_.
            fail (Blocked hard))
          else ret ())))))"

section \<open>The gate of a gateway call\<close>

definition aiQuotaUsage :: "time \<Rightarrow> string \<Rightarrow> string \<Rightarrow> AiUsageRow list \<Rightarrow> float64" where
  "aiQuotaUsage now metric period usage =
     (let start = aiBudgetPeriodStart now period in
      if metric = ''cost_usd'' \<or> metric = ''cost'' then aiCostUSD usage start (\<lambda>_. True)
      else fsum 0 (map u_Quantity (filter (\<lambda>u. \<not> u_PeriodStart u < start
             \<and> EqualFold (TrimSpace (u_Metric u)) metric) usage)))"

definition gateway_budget_hit :: "'w env \<Rightarrow> aiReqContext \<Rightarrow> AIBudgetSummary \<Rightarrow> bool" where
  "gateway_budget_hit E rc b \<longleftrightarrow>
     ToLower (TrimSpace (b_Scope (bs_Budget b))) \<in> {[], ''global'', ''provider''}
     \<and> bs_Status b = ''hard_limit'' \<and> budgetAppliesToRequest E (bs_Budget b) rc"

definition gateway_quota_hit :: "time \<Rightarrow> AiUsageRow list \<Rightarrow> AiQuota \<Rightarrow> bool" where
  "gateway_quota_hit now usage q \<longleftrightarrow>
     (let metric = ToLower (TrimSpace (q_Metric q)) in
      metric \<in> {''tokens'', ''cost_usd'', ''cost''} \<and> EqualFold (q_Enforcement q) ''block''
      \<and> q_LimitQuantity q \<le> aiQuotaUsage now metric (q_Period q) usage)"

definition evaluateGatewayBudget :: "'w env \<Rightarrow> ctx \<Rightarrow> string \<Rightarrow> ('w st, unit) op" where
  "evaluateGatewayBudget E c providerName =
     bindE (attempt (ListAIBudgetSummaries E c)) (\<lambda>r.
     case r of
       Inl _ \<Rightarrow> ret ()
     | Inr budgets \<Rightarrow>
         let rc = \<lparr>rc_ServiceID = 0, rc_ServiceSlug = [], rc_ServiceCategory = [], rc_ProviderName = providerName,
               rc_ProviderType = [], rc_Owner = [], rc_Workspace = [], rc_Tenant = None\<rparr>;
             flds = [(''provider'', JStr providerName)]
         in case List.find (gateway_budget_hit E rc) budgets of
              Some b \<Rightarrow>
                bindE (emitAIAudit E c ''ai_gateway'' 0 ''governance_blocked'' (Text ''budget exhausted'') flds []) (\<lambda>_.
                fail (Blocked [RProviderBudget providerName]))
            | None \<Rightarrow>
                bindE (attempt (ListAIQuotas E c)) (\<lambda>rq.
                case rq of
                  Inl _ \<Rightarrow> ret ()
                | Inr quotas \<Rightarrow>
                    if quotas = [] then ret ()
                    else bindE (attempt (ListAIUsageRecords E c)) (\<lambda>ru.
                      case ru of
                        Inl _ \<Rightarrow> ret ()
                      | Inr usage \<Rightarrow> bindE (gets st_now) (\<lambda>now.
                          case List.find (gateway_quota_hit now usage) quotas of
                            None \<Rightarrow> ret ()
                          | Some q \<Rightarrow>
                              let metric = ToLower (TrimSpace (q_Metric q));
                                  rsn = RMetricQuota metric (aiQuotaUsage now metric (q_Period q) usage)
                                          (q_LimitQuantity q) (q_Period q)
                              in bindE (emitAIAudit E c ''ai_gateway'' 0 ''governance_blocked'' (Reasons [rsn])
                                   (flds @ [(''metric'', JStr metric)]) []) (\<lambda>_.
                                 fail (Blocked [rsn]))))))"

section \<open>What the request gate decides\<close>

text \<open>What each read contributes: the visible rows, or nothing when the query fails.\<close>

definition policies_view :: "'w env \<Rightarrow> ctx \<Rightarrow> 'w st \<Rightarrow> AiAccessPolicy list" where
  "policies_view E c s = (if env_fault E ''ListAIAccessPolicies'' then []
     else visible_rows c po_TenantID (rev (st_policies s)))"

definition quotas_view :: "'w env \<Rightarrow> ctx \<Rightarrow> 'w st \<Rightarrow> AiQuota list" where
  "quotas_view E c s = (if env_fault E ''ListAIQuotas'' then []
     else visible_rows c q_TenantID (rev (st_quotas s)))"

definition instances_view :: "'w env \<Rightarrow> ctx \<Rightarrow> 'w st \<Rightarrow> AiServiceInstanceRow list" where
  "instances_view E c s = (if env_fault E ''ListAIServiceInstances'' then []
     else visible_rows c i_TenantID (List.map_filter (instance_row s) (rev (st_instances s))))"

definition usage_view :: "ctx \<Rightarrow> 'w st \<Rightarrow> AiUsageRow list" where
  "usage_view c s = visible_rows c u_TenantID
     (sort_key (\<lambda>u. - u_PeriodStart u) (List.map_filter (usage_row s) (rev (st_usage s))))"

definition budgets_view :: "'w env \<Rightarrow> ctx \<Rightarrow> 'w st \<Rightarrow> AIBudgetSummary list" where
  "budgets_view E c s = (if env_fault E ''ListAIBudgets'' \<or> env_fault E ''ListAIUsageRecords'' then []
     else map (\<lambda>b. summarize b (aiBudgetActualUSD E (st_now s) b (usage_view c s)))
            (visible_rows c b_TenantID (rev (st_budgets s))))"

lemma read_policies:
  "ok_list (fst (ListAIAccessPolicies E c s)) = policies_view E c s" "snd (ListAIAccessPolicies E c s) = s"
  by (simp_all add: ListAIAccessPolicies_def q_ListAIAccessPolicies_def policies_view_def ok_list_def op_defs)

lemma read_quotas:
  "ok_list (fst (ListAIQuotas E c s)) = quotas_view E c s" "snd (ListAIQuotas E c s) = s"
  by (simp_all add: ListAIQuotas_def q_ListAIQuotas_def quotas_view_def ok_list_def op_defs)

lemma read_instances:
  "ok_list (fst (ListAIInstances E c s)) = instances_view E c s" "snd (ListAIInstances E c s) = s"
  by (simp_all add: ListAIInstances_def q_ListAIServiceInstances_def instances_view_def ok_list_def op_defs)

lemma read_budgets:
  "ok_list (fst (ListAIBudgetSummaries E c s)) = budgets_view E c s" "snd (ListAIBudgetSummaries E c s) = s"
  by (simp_all add: ListAIBudgetSummaries_def ListAIUsageRecords_def q_ListAIBudgets_def
      q_ListAIUsageRecords_def budgets_view_def usage_view_def ok_list_def op_defs)

lemmas gate_reads = read_policies read_quotas read_instances read_budgets

definition gov_hard :: "'w env \<Rightarrow> ctx \<Rightarrow> aiReqContext \<Rightarrow> 'w st \<Rightarrow> reason list" where
  "gov_hard E c rc s = map (\<lambda>p. RPolicy (po_Name p)) (filter (policy_denies rc) (policies_view E c s))
     @ List.map_filter (quota_reason rc (instances_view E c s))
         (filter (\<lambda>q. q_Enforcement q = ''block'') (quotas_view E c s))
     @ List.map_filter (budget_hard E rc) (budgets_view E c s)"

lemma fst_emitAIAudit [simp]: "fst (emitAIAudit E c sty sid action msg flds fallback s) = Inr ()"
  by (simp add: emitAIAudit_def)

lemma evaluateAIGovernance_result:
  "fst (evaluateAIGovernance E c rc s) =
     (if gov_hard E c rc s = [] then Inr () else Inl (Blocked (gov_hard E c rc s)))"
  unfolding evaluateAIGovernance_def
  by (simp add: bindE_attempt gate_reads Let_def bindE_fst_Inr fst_forE_total)
     (auto simp: gov_hard_def bindE_fst_Inr fst_forE_total)

lemma set_map_filter: "y \<in> set (List.map_filter f xs) \<longleftrightarrow> (\<exists>x \<in> set xs. f x = Some y)"
  by (auto simp: List.map_filter_def image_iff)

lemma map_filter_Nil_iff: "List.map_filter f xs = [] \<longleftrightarrow> (\<forall>x \<in> set xs. f x = None)"
  by (auto simp: List.map_filter_def filter_empty_conv)

text \<open>The gate passes exactly when no visible rule forbids the request.\<close>

lemma gov_hard_Nil_iff:
  "gov_hard E c rc s = [] \<longleftrightarrow>
     (\<forall>p \<in> set (policies_view E c s). \<not> policy_denies rc p)
   \<and> (\<forall>q \<in> set (quotas_view E c s). q_Enforcement q = ''block'' \<longrightarrow> quota_reason rc (instances_view E c s) q = None)
   \<and> (\<forall>b \<in> set (budgets_view E c s). budget_hard E rc b = None)"
  by (auto simp: gov_hard_def map_filter_Nil_iff filter_empty_conv)

lemma evaluateAIGovernance_passD:
  "evaluateAIGovernance E c rc s = (Inr u, t) \<Longrightarrow> gov_hard E c rc s = []"
  using evaluateAIGovernance_result [of E c rc s] by (auto split: if_splits)

text \<open>The gateway gate in the same terms.\<close>

lemma selectorless_rule_inert:
  "decode_rule (po_Rules p) = Some rule \<Longrightarrow> \<not> hasSelector rule \<Longrightarrow> \<not> policy_denies rc p"
  by (simp add: policy_denies_def)

context query_rel
begin

lemma rel_gate_lists:
  "rel R (ListAIQuotas E c)" "rel R (ListAIAccessPolicies E c)" "rel R (ListAIInstances E c)"
  unfolding ListAIQuotas_def ListAIAccessPolicies_def ListAIInstances_def
  by (intro query_rules)+

end

context audit_rel
begin

lemma rel_evaluateAIGovernance: "rel R (evaluateAIGovernance E c rc)"
  unfolding evaluateAIGovernance_def by (intro audit_rules rel_gate_lists rel_ListAIBudgetSummaries)

lemma rel_evaluateGatewayBudget: "rel R (evaluateGatewayBudget E c name)"
  unfolding evaluateGatewayBudget_def
  by (intro audit_rules rel_gate_lists rel_ListAIBudgetSummaries rel_ListAIUsageRecords)

end

end
