(* ===== verification/Instances.thy ===== *)
theory Instances
  imports Enforce
begin

text \<open>
  The life of an access grant (\<open>internal/orchestrator/ai.go\<close>): the request specification, the
  provisioning of an approved request into an instance, revocation, the expiry reaper, access
  review, recertification and the retrieval of a minted key.
\<close>

section \<open>The request specification\<close>

record AIRequestSpec =
  sp_ServiceID :: string
  sp_ServiceSlug :: string
  sp_Owner :: string
  sp_Workspace :: string
  sp_Justification :: string
  sp_ExpiresAt :: string
  sp_Metadata :: obj

definition omitempty :: "string \<Rightarrow> string \<Rightarrow> obj" where
  "omitempty k v = (if v = [] then [] else [(k, JStr v)])"

definition marshal_spec :: "AIRequestSpec \<Rightarrow> json" where
  "marshal_spec sp = JObj (omitempty ''service_id'' (sp_ServiceID sp)
     @ omitempty ''service_slug'' (sp_ServiceSlug sp) @ omitempty ''owner'' (sp_Owner sp)
     @ omitempty ''workspace'' (sp_Workspace sp) @ omitempty ''justification'' (sp_Justification sp)
     @ omitempty ''expires_at'' (sp_ExpiresAt sp)
     @ (if sp_Metadata sp = [] then [] else [(''metadata'', JObj (sp_Metadata sp))]))"

definition decode_spec :: "obj \<Rightarrow> AIRequestSpec option" where
  "decode_spec m = Option.bind (dec_string ''service_id'' m []) (\<lambda>a.
     Option.bind (dec_string ''service_slug'' m []) (\<lambda>b. Option.bind (dec_string ''owner'' m []) (\<lambda>c.
     Option.bind (dec_string ''workspace'' m []) (\<lambda>d. Option.bind (dec_string ''justification'' m []) (\<lambda>e.
     Option.bind (dec_string ''expires_at'' m []) (\<lambda>f. Option.bind (dec_obj ''metadata'' m []) (\<lambda>g.
     Some \<lparr>sp_ServiceID = a, sp_ServiceSlug = b, sp_Owner = c, sp_Workspace = d,
           sp_Justification = e, sp_ExpiresAt = f, sp_Metadata = g\<rparr>)))))))"

definition aiRequestSpecOf :: "json \<Rightarrow> err + AIRequestSpec" where
  "aiRequestSpecOf raw = (case (case raw of JNull \<Rightarrow> decode_spec [] | JObj m \<Rightarrow> decode_spec m | _ \<Rightarrow> None) of
     None \<Rightarrow> Inl (Msg ''decoding ai request spec'') | Some sp \<Rightarrow> Inr sp)"

section \<open>Lookup and expiry\<close>

definition lookupAIService :: "'w env \<Rightarrow> AIRequestSpec \<Rightarrow> ('w st, AiServiceRow) op" where
  "lookupAIService E spec =
     (if sp_ServiceID spec \<noteq> [] then
        (case env_uuid_parse E (sp_ServiceID spec) of
           None \<Rightarrow> fail (Msg ''invalid service_id'')
         | Some k \<Rightarrow> q_GetAIService E k)
      else q_GetAIServiceBySlug E (sp_ServiceSlug spec))"

definition aiProviderServiceFromRow :: "AiServiceRow \<Rightarrow> Service" where
  "aiProviderServiceFromRow v = \<lparr>sv_Name = s_Name v, sv_Slug = s_Slug v, sv_Category = s_Category v,
     sv_Description = s_Description v, sv_RequestSchema = Some (to_obj (s_RequestSchema v)),
     sv_DefaultExpirationDays = s_DefaultExpirationDays v, sv_RequiresApproval = s_RequiresApproval v\<rparr>"

definition aiExpiresAt :: "string \<Rightarrow> time \<Rightarrow> int \<Rightarrow> err + time option" where
  "aiExpiresAt raw0 created days =
     (let raw = TrimSpace raw0 in
      if raw \<noteq> [] then
        (case ParseRFC3339 raw of
           Some t \<Rightarrow> Inr (Some t)
         | None \<Rightarrow> (case ParseDate raw of
             Some t \<Rightarrow> Inr (Some t)
           | None \<Rightarrow> Inl (Msg ''expires_at must be RFC3339 or YYYY-MM-DD'')))
      else if days \<le> 0 then Inr None
      else Inr (Some (AddDuration24h created days)))"

section \<open>Provisioning\<close>

definition recordAIUsage :: "'w env \<Rightarrow> uuid \<Rightarrow> uuid \<Rightarrow> 'w Provider \<Rightarrow> string \<Rightarrow> ('w st, unit) op" where
  "recordAIUsage E providerID instanceID prov accessID =
     bindE (gets st_now) (\<lambda>now.
     bindE (attempt (on_world (pv_GetUsage prov \<lparr>uq_ProviderAccessID = accessID,
         uq_PeriodStart = Some (now - Hours 24), uq_PeriodEnd = Some now, uq_Credentials = [], uq_Config = []\<rparr>))) (\<lambda>r.
     case r of
       Inl _ \<Rightarrow> ret ()
     | Inr records \<Rightarrow> forE records (\<lambda>rec.
         ignore (q_CreateAIUsageRecord E (Some instanceID) providerID (now - Hours 24) now (ur_Metric rec)
           (ur_Quantity rec) (ur_Unit rec) (ur_CostUSD rec) (JObj (ur_Raw rec))))))"

text \<open>What the provisioning knows once the request is resolved: the service, its provider with the
  backend, and who gets access where and until when.\<close>

record 'w Plan =
  pl_Service :: AiServiceRow
  pl_Provider :: AiProvider
  pl_Backend :: "'w Provider"
  pl_Owner :: string
  pl_Workspace :: string
  pl_ExpiresAt :: "time option"

definition plan_facts :: "Request \<Rightarrow> 'w Plan \<Rightarrow> aiReqContext" where
  "plan_facts req p = \<lparr>rc_ServiceID = s_ID (pl_Service p), rc_ServiceSlug = s_Slug (pl_Service p),
     rc_ServiceCategory = s_Category (pl_Service p), rc_ProviderName = p_Name (pl_Provider p),
     rc_ProviderType = p_Type (pl_Provider p), rc_Owner = pl_Owner p, rc_Workspace = pl_Workspace p,
     rc_Tenant = r_TenantID req\<rparr>"

definition resolve_plan :: "'w env \<Rightarrow> Request \<Rightarrow> ('w st, 'w Plan) op" where
  "resolve_plan E req =
     bindE (lift (aiRequestSpecOf (r_Spec req))) (\<lambda>spec.
     bindE (guardE (\<not> (sp_ServiceSlug spec = [] \<and> sp_ServiceID spec = []))
        (Msg ''ai request missing service_slug or service_id'')) (\<lambda>_.
     bindE (lookupAIService E spec) (\<lambda>service.
     bindE (wrap ''loading ai provider'' (q_GetAIProvider E (s_ProviderID service))) (\<lambda>provider.
     bindE (lift (aiProvider E (p_Type provider))) (\<lambda>prov.
     bindE (lift (aiExpiresAt (sp_ExpiresAt spec) (r_CreatedAt req) (s_DefaultExpirationDays service))) (\<lambda>expiresAt.
     ret \<lparr>pl_Service = service, pl_Provider = provider, pl_Backend = prov,
          pl_Owner = firstNonEmpty [sp_Owner spec, r_Requester req, ''unknown''],
          pl_Workspace = firstNonEmpty [sp_Workspace spec, r_Environment req, ''default''],
          pl_ExpiresAt = expiresAt\<rparr>))))))"

text \<open>A step whose failure is audited under the request before it is returned.\<close>

definition or_audit :: "'w env \<Rightarrow> ctx \<Rightarrow> Request \<Rightarrow> string \<Rightarrow> ('w st, 'a) op \<Rightarrow> ('w st, 'a) op" where
  "or_audit E c req action m =
     bindE (attempt m) (\<lambda>r. case r of
       Inl e \<Rightarrow> bindE (emitAIAudit E c ''ai_request'' (r_ID req) action (ErrorText e)
                  [(''request'', JStr (r_Name req))] (r_DecidedBy req)) (\<lambda>_. fail e)
     | Inr x \<Rightarrow> ret x)"

definition provision_call :: "Request \<Rightarrow> 'w Plan \<Rightarrow> kv \<Rightarrow> ('w st, ProvisionResult) op" where
  "provision_call req p creds = on_world (pv_ProvisionAccess (pl_Backend p)
     \<lparr>pr_RequestID = r_ID req, pr_ServiceID = s_ID (pl_Service p),
      pr_Service = aiProviderServiceFromRow (pl_Service p), pr_Owner = pl_Owner p, pr_Workspace = pl_Workspace p,
      pr_Spec = r_Spec req, pr_ExpiresAt = pl_ExpiresAt p, pr_Credentials = creds,
      pr_Config = aiProviderConfig (pl_Provider p)\<rparr>)"

definition store_instance :: "'w env \<Rightarrow> Request \<Rightarrow> 'w Plan \<Rightarrow> ProvisionResult \<Rightarrow> ('w st, AiServiceInstance) op" where
  "store_instance E req p res =
     bindE (stripMintedSecret E (r_ID req) (res_Observed res)) (\<lambda>(raw, observed).
     bindE (gets st_now) (\<lambda>now.
     wrap ''creating ai service instance'' (q_CreateAIServiceInstance E (s_ID (pl_Service p)) (Some (r_ID req))
        (res_ProviderAccessID res) (pl_Owner p) (r_TenantID req) (pl_Workspace p) ''active'' (r_Spec req)
        (JObj observed) (Some now) (pl_ExpiresAt p))))"

definition announce_instance :: "'w env \<Rightarrow> ctx \<Rightarrow> Request \<Rightarrow> 'w Plan \<Rightarrow> string \<Rightarrow> AiServiceInstance \<Rightarrow> ('w st, unit) op" where
  "announce_instance E c req p access inst =
     bindE (recordAIUsage E (p_ID (pl_Provider p)) (i_ID inst) (pl_Backend p) access) (\<lambda>_.
     bindE (emit E ''ai_service'' ''ready'' (env_uuid_string E (i_ID inst)) (r_Environment req)
        (p_Name (pl_Provider p)) (Text (s_Slug (pl_Service p) @ '' granted to '' @ pl_Owner p))) (\<lambda>_.
     emitAIAudit E c ''ai_instance'' (i_ID inst) ''created'' (Text ''AI service instance created'')
        [(''request'', JStr (r_Name req)), (''service'', JStr (s_Slug (pl_Service p))),
         (''provider'', JStr (p_Name (pl_Provider p))), (''owner'', JStr (pl_Owner p))] (r_DecidedBy req)))"

definition ProvisionAIRequest :: "'w env \<Rightarrow> ctx \<Rightarrow> Request \<Rightarrow> ('w st, AiServiceInstance) op" where
  "ProvisionAIRequest E c req =
     bindE (resolve_plan E req) (\<lambda>p.
     bindE (or_audit E c req ''provision_blocked'' (evaluateAIGovernance E c (plan_facts req p))) (\<lambda>_.
     bindE (aiCredentials E (pl_Provider p)) (\<lambda>creds.
     bindE (or_audit E c req ''provision_failed'' (provision_call req p creds)) (\<lambda>res.
     bindE (store_instance E req p res) (\<lambda>inst.
     bindE (announce_instance E c req p (res_ProviderAccessID res) inst) (\<lambda>_.
     ret inst))))))"

section \<open>Revocation\<close>

definition RevokeAIInstance :: "'w env \<Rightarrow> ctx \<Rightarrow> uuid \<Rightarrow> string \<Rightarrow> ('w st, AiServiceInstance) op" where
  "RevokeAIInstance E c k actor =
     bindE (wrap ''ai instance not found'' (q_GetAIServiceInstance E k)) (\<lambda>inst.
     bindE (guardE (in_scope c (i_TenantID inst)) (NotFound ''ai instance not found'' (env_uuid_string E k))) (\<lambda>_.
     bindE (guardE (live_status (i_Status inst)) (BadStatus (env_uuid_string E k) (i_Status inst))) (\<lambda>_.
     bindE (wrap ''loading ai service'' (q_GetAIService E (i_ServiceID inst))) (\<lambda>service.
     bindE (wrap ''loading ai provider'' (q_GetAIProvider E (s_ProviderID service))) (\<lambda>provider.
     bindE (lift (aiProvider E (p_Type provider))) (\<lambda>prov.
     bindE (aiCredentials E provider) (\<lambda>creds0.
     bindE (readMintedKey E (mintedKeyPath (i_Observed inst))) (\<lambda>key.
     let creds = (if key \<noteq> [] then AList.update ''minted_key'' key creds0 else creds0) in
     bindE (attempt (on_world (pv_RevokeAccess prov \<lparr>rv_InstanceID = i_ID inst,
        rv_ProviderAccessID = i_ProviderAccessID inst, rv_Credentials = creds,
        rv_Config = aiProviderConfig provider\<rparr>))) (\<lambda>r.
     case r of
       Inl e \<Rightarrow> bindE (emitAIAudit E c ''ai_instance'' (i_ID inst) ''revoke_failed'' (ErrorText e)
                  [(''provider'', JStr (p_Name provider))] actor) (\<lambda>_. fail e)
     | Inr _ \<Rightarrow>
         bindE (wrap ''recording ai revoke'' (q_RevokeAIServiceInstance E (i_ID inst))) (\<lambda>revoked.
         bindE (emit E ''ai_service'' ''revoked'' (env_uuid_string E (i_ID inst)) [] (p_Name provider)
            (Text (s_Slug service @ '' revoked''))) (\<lambda>_.
         bindE (emitAIAudit E c ''ai_instance'' (i_ID inst) ''revoked'' (Text ''AI service instance revoked'')
            [(''service'', JStr (s_Slug service)), (''provider'', JStr (p_Name provider))] actor) (\<lambda>_.
         ret revoked))))))))))))"

section \<open>The expiry reaper\<close>

definition expired_now :: "time \<Rightarrow> time option \<Rightarrow> bool" where
  "expired_now now e \<longleftrightarrow> (case e of None \<Rightarrow> False | Some t \<Rightarrow> \<not> t > now)"

definition reap_due :: "time \<Rightarrow> AiServiceInstanceRow \<Rightarrow> bool" where
  "reap_due now r \<longleftrightarrow> live_status (i_Status r) \<and> expired_now now (i_ExpiresAt r)"

definition reap_one :: "'w env \<Rightarrow> ctx \<Rightarrow> time \<Rightarrow> nat \<Rightarrow> AiServiceInstanceRow \<Rightarrow> ('w st, nat) op" where
  "reap_one E c now reaped r =
     (if \<not> reap_due now r then ret reaped
      else bindE (attempt (RevokeAIInstance E c (i_ID r) ''system-expiry'')) (\<lambda>res.
        case res of
          Inl _ \<Rightarrow> ret reaped
        | Inr _ \<Rightarrow> bindE (emitAIAudit E c ''ai_instance'' (i_ID r) ''expired'' (Text ''AI access auto-revoked on expiry'')
             [(''owner'', JStr (i_Owner r))] ''system-expiry'') (\<lambda>_. ret (Suc reaped))))"

definition ReapExpiredAIInstances :: "'w env \<Rightarrow> ctx \<Rightarrow> ('w st, nat) op" where
  "ReapExpiredAIInstances E c =
     bindE (wrap ''listing ai instances'' (q_ListAIServiceInstances E)) (\<lambda>rows.
     bindE (gets st_now) (\<lambda>now. foldE (reap_one E c now) 0 rows))"

section \<open>Access review and recertification\<close>

definition quot_trunc :: "int \<Rightarrow> int \<Rightarrow> int" where
  "quot_trunc a b = sgn a * (\<bar>a\<bar> div b)"

text \<open>\<open>int(d.Hours() / 24)\<close>.\<close>

definition age_days :: "int \<Rightarrow> int" where
  "age_days d =
     (let h = quot_trunc d 3600000000000; ns = d - h * 3600000000000;
          x = fdiv (fadd (of_count h) (fdiv (of_count ns) 3600000000000)) 24
      in if 0 \<le> x then \<lfloor>x\<rfloor> else - \<lfloor>- x\<rfloor>)"

record AIAccessReviewItem =
  ri_Instance :: AiServiceInstanceRow
  ri_Flag :: string
  ri_AgeDays :: int

definition review_flag :: "time \<Rightarrow> int \<Rightarrow> AiServiceInstanceRow \<Rightarrow> string" where
  "review_flag now staleDays r =
     (case i_ExpiresAt r of
        None \<Rightarrow> ''no_expiry''
      | Some t \<Rightarrow>
          if t < now then ''overdue''
          else if t < AddDays now staleDays then ''expiring_soon''
          else if staleDays \<le> age_days (now - i_CreatedAt r) then ''long_lived''
          else ''ok'')"

definition ListAIAccessReview :: "'w env \<Rightarrow> ctx \<Rightarrow> int \<Rightarrow> ('w st, AIAccessReviewItem list) op" where
  "ListAIAccessReview E c staleDays0 =
     (let staleDays = (if staleDays0 \<le> 0 then 90 else staleDays0) in
      bindE (ListAIInstances E c) (\<lambda>rows.
      bindE (gets st_now) (\<lambda>now.
      ret (map (\<lambda>r. \<lparr>ri_Instance = r, ri_Flag = review_flag now staleDays r,
                     ri_AgeDays = age_days (now - i_CreatedAt r)\<rparr>)
             (filter (\<lambda>r. live_status (i_Status r)) rows)))))"

definition RecertifyAIInstance :: "'w env \<Rightarrow> ctx \<Rightarrow> uuid \<Rightarrow> int \<Rightarrow> string \<Rightarrow> ('w st, AiServiceInstance) op" where
  "RecertifyAIInstance E c k extendDays0 actor =
     (let extendDays = (if extendDays0 \<le> 0 then 90 else extendDays0) in
      bindE (wrap ''ai instance not found'' (q_GetAIServiceInstance E k)) (\<lambda>inst.
      bindE (guardE (in_scope c (i_TenantID inst)) (NotFound ''ai instance not found'' (env_uuid_string E k))) (\<lambda>_.
      bindE (guardE (live_status (i_Status inst)) (BadStatus (env_uuid_string E k) (i_Status inst))) (\<lambda>_.
      bindE (gets (\<lambda>s. AddDays (st_now s) extendDays)) (\<lambda>newExp.
      bindE (wrap ''recertifying ai instance'' (q_RecertifyAIServiceInstance E k (Some newExp))) (\<lambda>updated.
      bindE (emitAIAudit E c ''ai_instance'' k ''recertified'' (Text ''AI access recertified (access review)'')
         [(''owner'', JStr (i_Owner inst)), (''extend_days'', JNum (of_int extendDays)),
          (''new_expiry'', JStr (FormatRFC3339 newExp))] actor) (\<lambda>_.
      ret updated)))))))"

definition RevealAIInstanceSecret :: "'w env \<Rightarrow> ctx \<Rightarrow> uuid \<Rightarrow> string \<Rightarrow> ('w st, string) op" where
  "RevealAIInstanceSecret E c k actor =
     bindE (wrap ''ai instance not found'' (q_GetAIServiceInstance E k)) (\<lambda>inst.
     bindE (guardE (in_scope c (i_TenantID inst)) (NotFound ''ai instance not found'' (env_uuid_string E k))) (\<lambda>_.
     let path = mintedKeyPath (i_Observed inst) in
     bindE (guardE (path \<noteq> []) (NotFound ''ai instance has no stored minted secret'' (env_uuid_string E k))) (\<lambda>_.
     bindE (readMintedKey E path) (\<lambda>key.
     bindE (guardE (key \<noteq> []) (Msg ''minted secret not retrievable from the secret store'')) (\<lambda>_.
     bindE (emitAIAudit E c ''ai_instance'' (i_ID inst) ''secret_revealed'' (Text ''minted AI credential revealed'')
        [(''owner'', JStr (i_Owner inst))] actor) (\<lambda>_.
     ret key))))))"

definition ListAIExpiringInstances :: "'w env \<Rightarrow> ctx \<Rightarrow> int \<Rightarrow> ('w st, AiServiceInstanceRow list) op" where
  "ListAIExpiringInstances E c days0 =
     (let days = (if days0 \<le> 0 then 30 else days0) in
      bindE (wrap ''listing ai renewals'' (q_ListAIExpiringInstances E days)) (\<lambda>rows.
      ret (visible_rows c i_TenantID rows)))"

section \<open>The contract of the access lifecycle\<close>

context query_rel
begin

lemma rel_lookupAIService: "rel R (lookupAIService E spec)"
  unfolding lookupAIService_def by (intro query_rules)

lemma rel_resolve_plan: "rel R (resolve_plan E req)"
  unfolding resolve_plan_def by (intro query_rules rel_lookupAIService)

end

context audit_rel
begin

lemma rel_or_audit: "rel R m \<Longrightarrow> rel R (or_audit E c req action m)"
  unfolding or_audit_def by (intro audit_rules)

lemma rel_provision_call: "rel R (provision_call req p creds)"
  unfolding provision_call_def by (intro audit_rules)

lemmas provision_rules = rel_lookupAIService rel_resolve_plan rel_or_audit rel_provision_call

end

text \<open>A relation that survives the queries this component writes with survives its operations.\<close>

locale upkeep_rel = audit_rel R for R :: "'w st \<Rightarrow> 'w st \<Rightarrow> bool" +
  assumes R_RevokeAIServiceInstance: "rel R (q_RevokeAIServiceInstance E k)"
    and R_RecertifyAIServiceInstance: "rel R (q_RecertifyAIServiceInstance E k expires)"
begin

lemma rel_RevokeAIInstance: "rel R (RevokeAIInstance E c k actor)"
  unfolding RevokeAIInstance_def by (intro audit_rules R_RevokeAIServiceInstance)

lemma rel_ReapExpiredAIInstances: "rel R (ReapExpiredAIInstances E c)"
  unfolding ReapExpiredAIInstances_def reap_one_def by (intro audit_rules rel_RevokeAIInstance)

lemma rel_RecertifyAIInstance: "rel R (RecertifyAIInstance E c k days actor)"
  unfolding RecertifyAIInstance_def Let_def by (intro audit_rules R_RecertifyAIServiceInstance)

lemma rel_RevealAIInstanceSecret: "rel R (RevealAIInstanceSecret E c k actor)"
  unfolding RevealAIInstanceSecret_def by (intro audit_rules)

lemmas upkeep_rules = rel_RevokeAIInstance rel_ReapExpiredAIInstances rel_RecertifyAIInstance
  rel_RevealAIInstanceSecret

end

text \<open>Usage records are added by provisioning, by the importers and by the gateways.\<close>

locale usage_rel = audit_rel R for R :: "'w st \<Rightarrow> 'w st \<Rightarrow> bool" +
  assumes R_CreateAIUsageRecord: "rel R (q_CreateAIUsageRecord E inst provider ps pe metric quantity unit cost raw)"
begin

lemma rel_recordAIUsage: "rel R (recordAIUsage E p i prov access)"
  unfolding recordAIUsage_def by (intro audit_rules R_CreateAIUsageRecord)

lemma rel_announce_instance: "rel R (announce_instance E c req p access inst)"
  unfolding announce_instance_def by (intro audit_rules rel_recordAIUsage)

end

text \<open>Granting also inserts the instance.\<close>

locale instance_rel = upkeep_rel R + usage_rel R for R :: "'w st \<Rightarrow> 'w st \<Rightarrow> bool" +
  assumes R_CreateAIServiceInstance:
    "rel R (q_CreateAIServiceInstance E service request access owner tenant workspace status spec observed prov expires)"
begin

lemma rel_ProvisionAIRequest: "rel R (ProvisionAIRequest E c req)"
  unfolding ProvisionAIRequest_def store_instance_def
  by (intro audit_rules provision_rules rel_evaluateAIGovernance rel_announce_instance R_CreateAIServiceInstance)

end

end
