(* ===== verification/Requests.thy ===== *)
theory Requests
  imports Instances
begin

text \<open>
  The approval workflow (\<open>internal/orchestrator/request.go\<close> and \<open>CreateAIRequest\<close>,
  \<open>ListAIRequests\<close> of \<open>ai.go\<close>): a request is filed, then approved (which provisions it) or
  rejected.
\<close>

section \<open>Filing a request\<close>

definition validRequestKinds :: "string list" where "validRequestKinds = [''ai_service'']"

definition default_env :: "string \<Rightarrow> string" where
  "default_env e = (if e = [] then ''dev'' else e)"

definition nl :: string where "nl = [CHR 0x0A]"

definition open_ticket :: "'w env \<Rightarrow> string \<Rightarrow> Request \<Rightarrow> ('w st, Request) op" where
  "open_ticket E environment req =
     (case env_CreateTicket E of
        None \<Rightarrow> ret req
      | Some create \<Rightarrow>
          let title = ''OPORD request: '' @ r_Kind req @ '' '' @ quoted (r_Name req) @ '' ('' @ environment @ '')'';
              content = ''Requester: '' @ r_Requester req @ nl @ ''Kind: '' @ r_Kind req @ nl
                @ ''Provider: '' @ r_Provider req @ nl @ ''Blueprint: '' @ r_Blueprint req @ nl
                @ ''Environment: '' @ environment
          in bindE (attempt (on_world (create title content))) (\<lambda>r.
             case r of
               Inl _ \<Rightarrow> ret req
             | Inr ticket \<Rightarrow>
                 if ticket = [] then ret req
                 else bindE (attempt (q_SetRequestTicket E (r_ID req) ticket)) (\<lambda>u.
                   case u of Inl _ \<Rightarrow> ret req | Inr updated \<Rightarrow> ret updated)))"

definition CreateRequest ::
  "'w env \<Rightarrow> ctx \<Rightarrow> string \<Rightarrow> string \<Rightarrow> string \<Rightarrow> string \<Rightarrow> string \<Rightarrow> string \<Rightarrow> json \<Rightarrow> ('w st, Request) op" where
  "CreateRequest E c name environment0 requester kind provider blueprint spec =
     bindE (guardE (name \<noteq> [] \<and> provider \<noteq> [] \<and> kind \<noteq> [])
        (Msg ''request name, provider and kind are required'')) (\<lambda>_.
     bindE (guardE (kind \<in> set validRequestKinds) (NotFound ''invalid request kind'' kind)) (\<lambda>_.
     let environment = default_env environment0 in
     bindE (wrap ''creating request'' (q_CreateRequest E name environment requester kind provider blueprint
        spec (tenantForCreate c))) (\<lambda>created.
     bindE (open_ticket E environment created) (\<lambda>req.
     bindE (emit E ''request'' ''created'' (r_Name req) environment (r_Provider req)
        (Text (r_Kind req @ '' requested by '' @ r_Requester req @ '' (ticket '' @ r_TicketRef req @ '')''))) (\<lambda>_.
     ret req)))))"

record CreateAIRequestInput =
  in_Name :: string
  in_Requester :: string
  in_ServiceID :: string
  in_ServiceSlug :: string
  in_Owner :: string
  in_Workspace :: string
  in_Justification :: string
  in_ExpiresAt :: string
  in_Metadata :: obj

definition input_spec :: "'w env \<Rightarrow> CreateAIRequestInput \<Rightarrow> AiServiceRow \<Rightarrow> AIRequestSpec" where
  "input_spec E i service = \<lparr>sp_ServiceID = env_uuid_string E (s_ID service), sp_ServiceSlug = s_Slug service,
     sp_Owner = firstNonEmpty [in_Owner i, in_Requester i], sp_Workspace = in_Workspace i,
     sp_Justification = in_Justification i, sp_ExpiresAt = in_ExpiresAt i, sp_Metadata = in_Metadata i\<rparr>"

definition lookup_spec :: "CreateAIRequestInput \<Rightarrow> AIRequestSpec" where
  "lookup_spec i = \<lparr>sp_ServiceID = TrimSpace (in_ServiceID i), sp_ServiceSlug = TrimSpace (in_ServiceSlug i),
     sp_Owner = [], sp_Workspace = [], sp_Justification = [], sp_ExpiresAt = [], sp_Metadata = []\<rparr>"

definition request_facts :: "ctx \<Rightarrow> CreateAIRequestInput \<Rightarrow> AiServiceRow \<Rightarrow> aiReqContext" where
  "request_facts c i service = \<lparr>rc_ServiceID = s_ID service, rc_ServiceSlug = s_Slug service,
     rc_ServiceCategory = s_Category service, rc_ProviderName = s_ProviderName service,
     rc_ProviderType = s_ProviderType service, rc_Owner = firstNonEmpty [in_Owner i, in_Requester i],
     rc_Workspace = in_Workspace i, rc_Tenant = tenantForCreate c\<rparr>"

definition CreateAIRequest :: "'w env \<Rightarrow> ctx \<Rightarrow> CreateAIRequestInput \<Rightarrow> ('w st, Request) op" where
  "CreateAIRequest E c i =
     bindE (guardE (\<not> (TrimSpace (in_Name i) = []
          \<or> (TrimSpace (in_ServiceSlug i) = [] \<and> TrimSpace (in_ServiceID i) = [])))
        (Msg ''name and service_slug (or service_id) are required'')) (\<lambda>_.
     bindE (lift (aiExpiresAt (in_ExpiresAt i) 0 0)) (\<lambda>_.
     bindE (wrap ''ai service not found'' (lookupAIService E (lookup_spec i))) (\<lambda>service.
     bindE (evaluateAIGovernance E c (request_facts c i service)) (\<lambda>_.
     bindE (CreateRequest E c (in_Name i) [] (in_Requester i) ''ai_service'' (s_ProviderName service) []
        (marshal_spec (input_spec E i service))) (\<lambda>req.
     bindE (emitAIAudit E c ''ai_request'' (r_ID req) ''created'' (Text ''AI service request created'')
        [(''request'', JStr (r_Name req)), (''service'', JStr (s_Slug service)),
         (''provider'', JStr (s_ProviderName service))] (in_Requester i)) (\<lambda>_.
     ret req))))))"

section \<open>Deciding a request\<close>

definition provisionRequest :: "'w env \<Rightarrow> ctx \<Rightarrow> Request \<Rightarrow> ('w st, string \<times> string) op" where
  "provisionRequest E c req =
     (if r_Kind req = ''ai_service'' then
        bindE (ProvisionAIRequest E c req) (\<lambda>inst. ret (env_uuid_string E (i_ID inst), ''completed''))
      else fail (NotFound ''unknown request kind'' (r_Kind req)))"

definition find_request :: "'w env \<Rightarrow> ctx \<Rightarrow> string \<Rightarrow> string \<Rightarrow> ('w st, Request) op" where
  "find_request E c name environment =
     bindE (wrap ''request not found'' (q_GetRequestByName E name environment)) (\<lambda>req.
     bindE (guardE (in_scope c (r_TenantID req)) (NotFound ''request not found'' name)) (\<lambda>_. ret req))"

text \<open>An approval after the request has been found pending: it is recorded, provisioned and settled.\<close>

definition approve_pending :: "'w env \<Rightarrow> ctx \<Rightarrow> string \<Rightarrow> string \<Rightarrow> Request \<Rightarrow> ('w st, unit) op" where
  "approve_pending E c environment approvedBy req =
     bindE (wrap ''recording approval'' (q_DecideRequest E (r_ID req) ''approved'' approvedBy [])) (\<lambda>_.
     bindE (attempt (provisionRequest E c req)) (\<lambda>outcome.
     case outcome of
       Inl e \<Rightarrow>
         bindE (ignore (q_SetRequestResource E (r_ID req) (r_Name req) ''failed'')) (\<lambda>_.
         bindE (emit E ''request'' ''failed'' (r_Name req) environment (r_Provider req) (ErrorText e)) (\<lambda>_.
         fail (Wrap ''provisioning approved request'' e)))
     | Inr (resourceRef0, nextStatus0) \<Rightarrow>
         let resourceRef = (if resourceRef0 = [] then r_Name req else resourceRef0);
             nextStatus = (if nextStatus0 = [] then ''provisioning'' else nextStatus0) in
         bindE (ignore (q_SetRequestResource E (r_ID req) resourceRef nextStatus)) (\<lambda>_.
         emit E ''request'' ''approved'' (r_Name req) environment (r_Provider req)
           (Text (r_Kind req @ '' approved by '' @ approvedBy)))))"

definition ApproveRequest :: "'w env \<Rightarrow> ctx \<Rightarrow> string \<Rightarrow> string \<Rightarrow> string \<Rightarrow> ('w st, unit) op" where
  "ApproveRequest E c name environment0 approvedBy =
     (let environment = default_env environment0 in
      bindE (find_request E c name environment) (\<lambda>req.
      bindE (guardE (r_Status req = ''pending_approval'') (BadStatus name (r_Status req))) (\<lambda>_.
      approve_pending E c environment approvedBy req)))"

definition RejectRequest :: "'w env \<Rightarrow> ctx \<Rightarrow> string \<Rightarrow> string \<Rightarrow> string \<Rightarrow> string \<Rightarrow> ('w st, unit) op" where
  "RejectRequest E c name environment0 rejectedBy why =
     (let environment = default_env environment0 in
      bindE (find_request E c name environment) (\<lambda>req.
      bindE (guardE (r_Status req = ''pending_approval'') (BadStatus name (r_Status req))) (\<lambda>_.
      bindE (wrap ''recording rejection'' (q_DecideRequest E (r_ID req) ''rejected'' rejectedBy why)) (\<lambda>_.
      emit E ''request'' ''rejected'' (r_Name req) environment (r_Provider req)
        (Text (TrimSpace (''rejected by '' @ rejectedBy @ '': '' @ why)))))))"

section \<open>Reading requests\<close>

definition ListRequests :: "'w env \<Rightarrow> ctx \<Rightarrow> ('w st, Request list) op" where
  "ListRequests E c = bindE (wrap ''listing requests'' (q_ListRequests E))
     (\<lambda>rs. ret (visible_rows c r_TenantID rs))"

definition ListAIRequests :: "'w env \<Rightarrow> ctx \<Rightarrow> ('w st, Request list) op" where
  "ListAIRequests E c = bindE (ListRequests E c) (\<lambda>rs. ret (filter (\<lambda>r. r_Kind r = ''ai_service'') rs))"

definition RequestStatus :: "'w env \<Rightarrow> ctx \<Rightarrow> string \<Rightarrow> string \<Rightarrow> ('w st, Request) op" where
  "RequestStatus E c name environment0 = find_request E c name (default_env environment0)"

section \<open>The contract of the approval workflow\<close>

context query_rel
begin

lemma rel_find_request: "rel R (find_request E c name environment)"
  unfolding find_request_def by (intro query_rules)

end

text \<open>Filing writes with two queries only.\<close>

locale filing_rel = audit_rel R for R :: "'w st \<Rightarrow> 'w st \<Rightarrow> bool" +
  assumes R_CreateRequest: "rel R (q_CreateRequest E name environment requester kind provider blueprint spec tenant)"
    and R_SetRequestTicket: "rel R (q_SetRequestTicket E k ticket)"
begin

lemma rel_open_ticket: "rel R (open_ticket E environment req)"
  unfolding open_ticket_def by (intro audit_rules R_SetRequestTicket)

lemma rel_CreateRequest: "rel R (CreateRequest E c name environment requester kind provider blueprint spec)"
  unfolding CreateRequest_def by (intro audit_rules rel_open_ticket R_CreateRequest)

lemma rel_CreateAIRequest: "rel R (CreateAIRequest E c i)"
  unfolding CreateAIRequest_def
  by (intro audit_rules rel_lookupAIService rel_evaluateAIGovernance rel_CreateRequest)

end

text \<open>Deciding writes with two more.\<close>

locale decision_rel = audit_rel R for R :: "'w st \<Rightarrow> 'w st \<Rightarrow> bool" +
  assumes R_SetRequestResource: "rel R (q_SetRequestResource E k resource status)"
    and R_DecideRequest: "rel R (q_DecideRequest E k status by reason)"
begin

lemma rel_RejectRequest: "rel R (RejectRequest E c name environment by why)"
  unfolding RejectRequest_def by (intro audit_rules rel_find_request R_DecideRequest)

end

locale request_rel = instance_rel R + filing_rel R + decision_rel R for R :: "'w st \<Rightarrow> 'w st \<Rightarrow> bool"
begin

lemma rel_provisionRequest: "rel R (provisionRequest E c req)"
  unfolding provisionRequest_def by (intro audit_rules rel_ProvisionAIRequest)

lemma rel_ApproveRequest: "rel R (ApproveRequest E c name environment by)"
  unfolding ApproveRequest_def approve_pending_def
  by (intro audit_rules rel_find_request R_DecideRequest rel_provisionRequest R_SetRequestResource)

end

end
