(* ===== verification/ProviderOps.thy ===== *)
theory ProviderOps
  imports Requests
begin

text \<open>
  The provider registry of the orchestrator (\<open>internal/orchestrator/ai.go\<close>): registering,
  updating and deleting an AI provider, importing its catalog of services, checking its
  credentials, and the lists of providers, services and audit events.
\<close>

section \<open>The service catalog\<close>

definition schema_of :: "obj option \<Rightarrow> json" where
  "schema_of m = (case m of None \<Rightarrow> JObj [] | Some o' \<Rightarrow> JObj o')"

text \<open>One turn of the import loop: a duplicate slug is skipped, any other error stops the import.\<close>

definition sync_one :: "'w env \<Rightarrow> AiProvider \<Rightarrow> Service \<Rightarrow> ('w st, unit) op" where
  "sync_one E p svc =
     bindE (attempt (q_CreateAIService E (p_ID p) (sv_Name svc) (sv_Slug svc)
        (firstNonEmpty [sv_Category svc, ''access'']) (sv_Description svc) (schema_of (sv_RequestSchema svc))
        (wrap32 (sv_DefaultExpirationDays svc)) (sv_RequiresApproval svc))) (\<lambda>r.
     case r of
       Inr _ \<Rightarrow> ret ()
     | Inl e \<Rightarrow> if isUniqueViolation e then ret () else fail (Wrap ''creating ai service'' e))"

definition SyncAIProviderServices :: "'w env \<Rightarrow> AiProvider \<Rightarrow> ('w st, unit) op" where
  "SyncAIProviderServices E p =
     bindE (lift (aiProvider E (p_Type p))) (\<lambda>prov.
     bindE (aiCredentials E p) (\<lambda>creds.
     bindE (wrap ''listing ai provider services''
        (on_world (pv_ListAvailableServices prov creds (aiProviderConfig p)))) (\<lambda>services.
     forE services (sync_one E p))))"

definition SyncAIProviderServicesByName :: "'w env \<Rightarrow> ctx \<Rightarrow> string \<Rightarrow> ('w st, unit) op" where
  "SyncAIProviderServicesByName E c name =
     bindE (wrap ''ai provider not found'' (q_GetAIProviderByName E name)) (\<lambda>p.
     bindE (SyncAIProviderServices E p) (\<lambda>_.
     emitAIAudit E c ''ai_provider'' (p_ID p) ''synced'' (Text ''AI provider catalog services synced'')
       [(''name'', JStr (p_Name p)), (''type'', JStr (p_Type p))] []))"

section \<open>Registering a provider\<close>

record AIProviderInput =
  ap_Name :: string
  ap_Type :: string
  ap_Config :: "obj option"
  ap_SecretRef :: string
  ap_Scopes :: "string list"

definition CreateAIProvider :: "'w env \<Rightarrow> ctx \<Rightarrow> AIProviderInput \<Rightarrow> ('w st, AiProvider) op" where
  "CreateAIProvider E c i =
     bindE (guardE (TrimSpace (ap_Name i) \<noteq> []) (Msg ''ai provider name is required'')) (\<lambda>_.
     bindE (guardE (validAIProviderType (ap_Type i)) (NotFound ''unsupported ai provider type'' (ap_Type i))) (\<lambda>_.
     let cfg = (case ap_Config i of None \<Rightarrow> [] | Some m \<Rightarrow> m) in
     bindE (case rejectAIProviderSecretConfig cfg of Some e \<Rightarrow> fail e | None \<Rightarrow> ret ()) (\<lambda>_.
     bindE (wrap ''creating ai provider'' (q_CreateAIProvider E (ap_Name i) (ap_Type i) (JObj cfg) (tenantForCreate c))) (\<lambda>p.
     bindE (if TrimSpace (ap_SecretRef i) = [] then ret ()
            else bindE (wrap ''creating ai provider credential ref''
                   (q_CreateAIProviderCredential E (p_ID p) (TrimSpace (ap_SecretRef i)) (ap_Scopes i))) (\<lambda>_. ret ())) (\<lambda>_.
     bindE (SyncAIProviderServices E p) (\<lambda>_.
     bindE (emit E ''ai_provider'' ''registered'' (p_Name p) [] (p_Type p) (Text ''AI provider registered'')) (\<lambda>_.
     bindE (emitAIAudit E c ''ai_provider'' (p_ID p) ''registered'' (Text ''AI provider registered'')
        [(''name'', JStr (p_Name p)), (''type'', JStr (p_Type p)), (''secret_ref'', JBool (ap_SecretRef i \<noteq> []))] []) (\<lambda>_.
     ret p))))))))"

section \<open>Updating a provider\<close>

record UpdateAIProviderInput =
  up_Config :: "obj option"
  up_SecretRef :: "string option"
  up_Status :: string

text \<open>The merge loop: a null deletes the key.\<close>

fun merge_config :: "obj \<Rightarrow> obj \<Rightarrow> obj" where
  "merge_config cfg [] = cfg"
| "merge_config cfg ((k, v) # r) =
     merge_config (if v = JNull then AList.delete k cfg else AList.update k v cfg) r"

definition provider_guard :: "ctx \<Rightarrow> AiProvider \<Rightarrow> string \<Rightarrow> ('s, unit) op" where
  "provider_guard c p name = guardE (in_scope_or_global c (p_TenantID p)) (NotFound ''ai provider not found'' name)"

definition UpdateAIProvider :: "'w env \<Rightarrow> ctx \<Rightarrow> string \<Rightarrow> UpdateAIProviderInput \<Rightarrow> ('w st, AiProvider) op" where
  "UpdateAIProvider E c name i =
     bindE (wrap ''ai provider not found'' (q_GetAIProviderByName E name)) (\<lambda>p.
     bindE (provider_guard c p name) (\<lambda>_.
     let new = (case up_Config i of None \<Rightarrow> [] | Some m \<Rightarrow> m) in
     bindE (case rejectAIProviderSecretConfig new of Some e \<Rightarrow> fail e | None \<Rightarrow> ret ()) (\<lambda>_.
     let cfg = merge_config (aiProviderConfig p) new; stat = TrimSpace (up_Status i) in
     bindE (guardE (stat = [] \<or> stat = ''active'' \<or> stat = ''disabled'')
        (Msg ''status must be active or disabled'')) (\<lambda>_.
     let status = (if stat = [] then p_Status p else stat) in
     bindE (wrap ''updating ai provider'' (q_UpdateAIProvider E (p_ID p) (p_Name p) (p_Type p) (JObj cfg) status)) (\<lambda>updated.
     bindE (case up_SecretRef i of None \<Rightarrow> ret ()
            | Some ref \<Rightarrow> bindE (wrap ''rotating ai provider credential ref''
                (q_CreateAIProviderCredential E (p_ID p) (TrimSpace ref) [])) (\<lambda>_. ret ())) (\<lambda>_.
     bindE (emitAIAudit E c ''ai_provider'' (p_ID p) ''updated'' (Text ''AI provider updated'')
        [(''name'', JStr (p_Name p)), (''changed'', JArr (map JStr
            (map (\<lambda>(k, v). ''config.'' @ k) new @ (if stat = [] then [] else [''status''])
             @ (case up_SecretRef i of None \<Rightarrow> [] | Some _ \<Rightarrow> [''secret_ref'']))))] []) (\<lambda>_.
     ret updated)))))))"

section \<open>Deleting a provider\<close>

definition DeleteAIProvider :: "'w env \<Rightarrow> ctx \<Rightarrow> string \<Rightarrow> ('w st, unit) op" where
  "DeleteAIProvider E c name =
     bindE (wrap ''ai provider not found'' (q_GetAIProviderByName E name)) (\<lambda>p.
     bindE (provider_guard c p name) (\<lambda>_.
     bindE (wrap ''checking ai provider instances'' (q_CountActiveAIInstancesByProvider E (p_ID p))) (\<lambda>active.
     bindE (guardE (\<not> 0 < active) (Wrap name (ActiveInstances active))) (\<lambda>_.
     bindE (wrap ''removing ai instance history'' (q_DeleteAIServiceInstancesByProvider E (p_ID p))) (\<lambda>_.
     bindE (wrap ''deleting ai provider'' (q_DeleteAIProvider E (p_ID p))) (\<lambda>_.
     bindE (emit E ''ai_provider'' ''deleted'' (p_Name p) [] (p_Type p) (Text ''AI provider deleted'')) (\<lambda>_.
     emitAIAudit E c ''ai_provider'' (p_ID p) ''deleted'' (Text ''AI provider deleted'')
       [(''name'', JStr (p_Name p)), (''type'', JStr (p_Type p))] [])))))))"

section \<open>Checks and lists\<close>

definition CheckAIProvider :: "'w env \<Rightarrow> ctx \<Rightarrow> string \<Rightarrow> ('w st, unit) op" where
  "CheckAIProvider E c name =
     bindE (wrap ''ai provider not found'' (q_GetAIProviderByName E name)) (\<lambda>p.
     bindE (lift (aiProvider E (p_Type p))) (\<lambda>prov.
     bindE (aiCredentials E p) (\<lambda>creds.
     bindE (attempt (on_world (pv_ValidateCredentials prov creds (aiProviderConfig p)))) (\<lambda>r.
     case r of
       Inl e \<Rightarrow> bindE (emitAIAudit E c ''ai_provider'' (p_ID p) ''check_failed'' (ErrorText e)
                  [(''name'', JStr (p_Name p))] []) (\<lambda>_. fail e)
     | Inr _ \<Rightarrow> emitAIAudit E c ''ai_provider'' (p_ID p) ''checked'' (Text ''AI provider credentials validated'')
                  [(''name'', JStr (p_Name p))] []))))"

definition ListAIProviders :: "'w env \<Rightarrow> ctx \<Rightarrow> ('w st, AiProvider list) op" where
  "ListAIProviders E c = bindE (wrap ''listing ai providers'' (q_ListAIProviders E)) (\<lambda>ps.
     ret (case scopeTenant c of None \<Rightarrow> ps
          | Some tid \<Rightarrow> filter (\<lambda>p. p_TenantID p = None \<or> tenantVisible (p_TenantID p) tid) ps))"

definition ListAIServices :: "'w env \<Rightarrow> ('w st, AiServiceRow list) op" where
  "ListAIServices E = wrap ''listing ai services'' (q_ListAIServices E)"

definition ListAIAuditEvents :: "'w env \<Rightarrow> ctx \<Rightarrow> int \<Rightarrow> ('w st, AiAuditEvent list) op" where
  "ListAIAuditEvents E c limit0 =
     bindE (q_ListAIAuditEvents E (if limit0 \<le> 0 then 100 else limit0)) (\<lambda>rows.
     ret (case scopeTenant c of None \<Rightarrow> rows
          | Some tid \<Rightarrow> filter (\<lambda>r. a_TenantID r = None \<or> tenantVisible (a_TenantID r) tid) rows))"

section \<open>The contract of the provider catalog\<close>

locale offering_rel = audit_rel R for R :: "'w st \<Rightarrow> 'w st \<Rightarrow> bool" +
  assumes R_CreateAIService: "rel R (q_CreateAIService E k name slug category descr schema days approval)"
    and R_CreateAIProviderCredential: "rel R (q_CreateAIProviderCredential E k ref scopes)"
    and R_DeleteAIServiceInstancesByProvider: "rel R (q_DeleteAIServiceInstancesByProvider E k)"
    and R_DeleteAIProvider: "rel R (q_DeleteAIProvider E k)"
begin

lemma rel_SyncAIProviderServices: "rel R (SyncAIProviderServices E p)"
  unfolding SyncAIProviderServices_def sync_one_def by (intro audit_rules R_CreateAIService)

lemma rel_SyncAIProviderServicesByName: "rel R (SyncAIProviderServicesByName E c name)"
  unfolding SyncAIProviderServicesByName_def by (intro audit_rules rel_SyncAIProviderServices)

lemma rel_DeleteAIProvider: "rel R (DeleteAIProvider E c name)"
  unfolding DeleteAIProvider_def provider_guard_def
  by (intro audit_rules R_DeleteAIServiceInstancesByProvider R_DeleteAIProvider)

lemma rel_CheckAIProvider: "rel R (CheckAIProvider E c name)"
  unfolding CheckAIProvider_def by (intro audit_rules)

lemmas offering_rules = rel_SyncAIProviderServicesByName rel_DeleteAIProvider rel_CheckAIProvider

end

text \<open>Registering and editing a provider writes with two more queries.\<close>

locale catalog_rel = offering_rel R for R :: "'w st \<Rightarrow> 'w st \<Rightarrow> bool" +
  assumes R_CreateAIProvider: "rel R (q_CreateAIProvider E name ty config tenant)"
    and R_UpdateAIProvider: "rel R (q_UpdateAIProvider E k name ty config status)"
begin

lemma rel_CreateAIProvider: "rel R (CreateAIProvider E c i)"
  unfolding CreateAIProvider_def
  by (intro audit_rules rel_SyncAIProviderServices R_CreateAIProvider R_CreateAIProviderCredential)

lemma rel_UpdateAIProvider: "rel R (UpdateAIProvider E c name i)"
  unfolding UpdateAIProvider_def provider_guard_def
  by (intro audit_rules R_UpdateAIProvider R_CreateAIProviderCredential)

lemmas catalog_rules = offering_rules rel_CreateAIProvider rel_UpdateAIProvider

end

end
