(* ===== verification/Governance.thy ===== *)
theory Governance
  imports ProviderOps
begin

text \<open>
  Administration of the governance rules (\<open>internal/orchestrator/ai_governance.go\<close>): budgets,
  quotas and access policies are created with defaults and validation, edited and deleted behind
  the tenant guard, and the model catalog of a provider is synchronised.
\<close>

section \<open>Budgets\<close>

record AIBudgetInput =
  bi_Scope :: string
  bi_ScopeRef :: string
  bi_LimitUSD :: float64
  bi_Period :: string
  bi_SoftThresholdPct :: int
  bi_HardThresholdPct :: int

definition or_default :: "string \<Rightarrow> string \<Rightarrow> string" where
  "or_default d v = (let t = TrimSpace v in if t = [] then d else t)"

definition pct_default :: "int \<Rightarrow> int \<Rightarrow> int" where
  "pct_default d v = (if v = 0 then d else v)"

definition validateAIBudgetThresholds :: "int \<Rightarrow> int \<Rightarrow> err option" where
  "validateAIBudgetThresholds soft hard =
     (if soft \<le> 0 \<or> hard \<le> 0 then Some (Msg ''threshold percentages must be greater than zero'')
      else if hard < soft then Some (Msg ''soft threshold must not exceed hard threshold'')
      else None)"

definition raise :: "err option \<Rightarrow> ('s, unit) op" where
  "raise e = (case e of None \<Rightarrow> ret () | Some x \<Rightarrow> fail x)"

definition aiTenantGuard :: "ctx \<Rightarrow> uuid option \<Rightarrow> ('s, unit) op" where
  "aiTenantGuard c t = guardE (in_scope c t) (Msg ''not found'')"

definition CreateAIBudget :: "'w env \<Rightarrow> ctx \<Rightarrow> AIBudgetInput \<Rightarrow> ('w st, AiBudget) op" where
  "CreateAIBudget E c i =
     (let scope = or_default ''global'' (bi_Scope i); period = or_default ''monthly'' (bi_Period i);
          soft = pct_default 80 (bi_SoftThresholdPct i); hard = pct_default 100 (bi_HardThresholdPct i) in
      bindE (guardE (\<not> bi_LimitUSD i \<le> 0) (Msg ''limit_usd must be greater than zero'')) (\<lambda>_.
      bindE (raise (validateAIBudgetThresholds soft hard)) (\<lambda>_.
      bindE (wrap ''creating ai budget'' (q_CreateAIBudget E (tenantForCreate c) scope (TrimSpace (bi_ScopeRef i))
         (bi_LimitUSD i) period soft hard)) (\<lambda>b.
      bindE (emitAIAudit E c ''ai_budget'' (b_ID b) ''created'' (Text ''AI budget created'')
         [(''scope'', JStr (b_Scope b)), (''scope_ref'', JStr (b_ScopeRef b)), (''limit_usd'', JNum (b_LimitUsd b))] []) (\<lambda>_.
      ret b)))))"

definition UpdateAIBudget :: "'w env \<Rightarrow> ctx \<Rightarrow> uuid \<Rightarrow> AIBudgetInput \<Rightarrow> ('w st, AiBudget) op" where
  "UpdateAIBudget E c k i =
     bindE (guardE (\<not> bi_LimitUSD i \<le> 0) (Msg ''limit_usd must be greater than zero'')) (\<lambda>_.
     bindE (wrap ''loading ai budget'' (q_GetAIBudget E k)) (\<lambda>existing.
     bindE (aiTenantGuard c (b_TenantID existing)) (\<lambda>_.
     let period = or_default ''monthly'' (bi_Period i);
         soft = pct_default 80 (bi_SoftThresholdPct i); hard = pct_default 100 (bi_HardThresholdPct i) in
     bindE (raise (validateAIBudgetThresholds soft hard)) (\<lambda>_.
     let keep = (TrimSpace (bi_Scope i) = []);
         scope = (if keep then b_Scope existing else TrimSpace (bi_Scope i));
         ref = (if keep then b_ScopeRef existing else TrimSpace (bi_ScopeRef i)) in
     bindE (wrap ''updating ai budget'' (q_UpdateAIBudget E k scope ref (bi_LimitUSD i) period soft hard)) (\<lambda>b.
     bindE (emitAIAudit E c ''ai_budget'' (b_ID b) ''updated'' (Text ''AI budget updated'')
        [(''limit_usd'', JNum (b_LimitUsd b)), (''period'', JStr (b_Period b)), (''scope'', JStr (b_Scope b))] []) (\<lambda>_.
     ret b))))))"

definition DeleteAIBudget :: "'w env \<Rightarrow> ctx \<Rightarrow> uuid \<Rightarrow> ('w st, unit) op" where
  "DeleteAIBudget E c k =
     bindE (wrap ''loading ai budget'' (q_GetAIBudget E k)) (\<lambda>existing.
     bindE (aiTenantGuard c (b_TenantID existing)) (\<lambda>_.
     bindE (wrap ''deleting ai budget'' (q_DeleteAIBudget E k)) (\<lambda>_.
     emitAIAudit E c ''ai_budget'' k ''deleted'' (Text ''AI budget deleted'') [] [])))"

section \<open>Quotas\<close>

record AIQuotaInput =
  qi_ServiceSlug :: string
  qi_Metric :: string
  qi_LimitQuantity :: float64
  qi_Period :: string
  qi_Enforcement :: string

definition CreateAIQuota :: "'w env \<Rightarrow> ctx \<Rightarrow> AIQuotaInput \<Rightarrow> ('w st, AiQuota) op" where
  "CreateAIQuota E c i =
     (let metric = or_default ''tokens'' (qi_Metric i); period = or_default ''monthly'' (qi_Period i);
          enforcement = or_default ''warn'' (qi_Enforcement i) in
      bindE (guardE (\<not> qi_LimitQuantity i \<le> 0) (Msg ''limit_quantity must be greater than zero'')) (\<lambda>_.
      bindE (if TrimSpace (qi_ServiceSlug i) = [] then ret None
             else bindE (wrap ''ai service not found'' (q_GetAIServiceBySlug E (TrimSpace (qi_ServiceSlug i))))
                    (\<lambda>svc. ret (Some (s_ID svc)))) (\<lambda>serviceID.
      bindE (wrap ''creating ai quota'' (q_CreateAIQuota E serviceID (tenantForCreate c) metric
         (qi_LimitQuantity i) period enforcement)) (\<lambda>q.
      bindE (emitAIAudit E c ''ai_quota'' (q_ID q) ''created'' (Text ''AI quota created'')
         [(''metric'', JStr (q_Metric q)), (''limit_quantity'', JNum (q_LimitQuantity q)), (''period'', JStr (q_Period q))] []) (\<lambda>_.
      ret q)))))"

definition UpdateAIQuota :: "'w env \<Rightarrow> ctx \<Rightarrow> uuid \<Rightarrow> float64 \<Rightarrow> string \<Rightarrow> string \<Rightarrow> ('w st, AiQuota) op" where
  "UpdateAIQuota E c k limit period0 enforcement0 =
     bindE (guardE (\<not> limit \<le> 0) (Msg ''limit_quantity must be greater than zero'')) (\<lambda>_.
     bindE (wrap ''loading ai quota'' (q_GetAIQuota E k)) (\<lambda>existing.
     bindE (aiTenantGuard c (q_TenantID existing)) (\<lambda>_.
     let period = or_default ''monthly'' period0;
         enforcement = (if ToLower (TrimSpace enforcement0) = ''block'' then ''block'' else ''warn'') in
     bindE (wrap ''updating ai quota'' (q_UpdateAIQuota E k limit period enforcement)) (\<lambda>q.
     bindE (emitAIAudit E c ''ai_quota'' (q_ID q) ''updated'' (Text ''AI quota updated'')
        [(''metric'', JStr (q_Metric q)), (''limit'', JNum (q_LimitQuantity q)), (''enforcement'', JStr (q_Enforcement q))] []) (\<lambda>_.
     ret q)))))"

definition DeleteAIQuota :: "'w env \<Rightarrow> ctx \<Rightarrow> uuid \<Rightarrow> ('w st, unit) op" where
  "DeleteAIQuota E c k =
     bindE (wrap ''loading ai quota'' (q_GetAIQuota E k)) (\<lambda>existing.
     bindE (aiTenantGuard c (q_TenantID existing)) (\<lambda>_.
     bindE (wrap ''deleting ai quota'' (q_DeleteAIQuota E k)) (\<lambda>_.
     emitAIAudit E c ''ai_quota'' k ''deleted'' (Text ''AI quota deleted'') [] [])))"

section \<open>Access policies\<close>

record AIAccessPolicyInput =
  pi_Name :: string
  pi_Rules :: "obj option"
  pi_Status :: string

definition CreateAIAccessPolicy :: "'w env \<Rightarrow> ctx \<Rightarrow> AIAccessPolicyInput \<Rightarrow> ('w st, AiAccessPolicy) op" where
  "CreateAIAccessPolicy E c i =
     bindE (guardE (TrimSpace (pi_Name i) \<noteq> []) (Msg ''policy name is required'')) (\<lambda>_.
     let status = or_default ''active'' (pi_Status i) in
     bindE (wrap ''creating ai access policy'' (q_CreateAIAccessPolicy E (TrimSpace (pi_Name i)) (tenantForCreate c)
        (schema_of (pi_Rules i)) status)) (\<lambda>p.
     bindE (emitAIAudit E c ''ai_policy'' (po_ID p) ''created'' (Text ''AI access policy created'')
        [(''name'', JStr (po_Name p)), (''status'', JStr (po_Status p))] []) (\<lambda>_.
     ret p)))"

definition UpdateAIAccessPolicy :: "'w env \<Rightarrow> ctx \<Rightarrow> uuid \<Rightarrow> obj option \<Rightarrow> string \<Rightarrow> ('w st, AiAccessPolicy) op" where
  "UpdateAIAccessPolicy E c k rules status0 =
     bindE (wrap ''loading ai policy'' (q_GetAIAccessPolicy E k)) (\<lambda>existing.
     bindE (aiTenantGuard c (po_TenantID existing)) (\<lambda>_.
     let status = (if ToLower (TrimSpace status0) = ''disabled'' then ''disabled'' else ''active'') in
     bindE (wrap ''updating ai policy'' (q_UpdateAIAccessPolicy E k (schema_of rules) status)) (\<lambda>p.
     bindE (emitAIAudit E c ''ai_policy'' (po_ID p) ''updated'' (Text ''AI policy updated'')
        [(''name'', JStr (po_Name p)), (''status'', JStr (po_Status p))] []) (\<lambda>_.
     ret p))))"

definition DeleteAIAccessPolicy :: "'w env \<Rightarrow> ctx \<Rightarrow> uuid \<Rightarrow> ('w st, unit) op" where
  "DeleteAIAccessPolicy E c k =
     bindE (wrap ''loading ai policy'' (q_GetAIAccessPolicy E k)) (\<lambda>existing.
     bindE (aiTenantGuard c (po_TenantID existing)) (\<lambda>_.
     bindE (wrap ''deleting ai policy'' (q_DeleteAIAccessPolicy E k)) (\<lambda>_.
     emitAIAudit E c ''ai_policy'' k ''deleted'' (Text ''AI policy deleted'') [] [])))"

section \<open>The model catalog\<close>

definition sync_model :: "'w env \<Rightarrow> AiProvider \<Rightarrow> Model \<Rightarrow> ('w st, unit) op" where
  "sync_model E p m =
     (if TrimSpace (mo_Model m) = [] then ret ()
      else bindE (wrap ''upserting ai model'' (q_UpsertAIModelCatalog E (p_ID p) (mo_Model m)
             (firstNonEmpty [mo_DisplayName m, mo_Model m]) (firstNonEmpty [mo_Modality m, ''text''])
             (firstNonEmpty [mo_Status m, ''active'']) (schema_of (mo_Metadata m)))) (\<lambda>_. ret ()))"

definition ListAIModelCatalog :: "'w env \<Rightarrow> ('w st, AiModelCatalogRow list) op" where
  "ListAIModelCatalog E = wrap ''listing ai model catalog'' (q_ListAIModelCatalog E)"

definition SyncAIProviderModelsByName :: "'w env \<Rightarrow> ctx \<Rightarrow> string \<Rightarrow> ('w st, unit) op" where
  "SyncAIProviderModelsByName E c name =
     bindE (wrap ''ai provider not found'' (q_GetAIProviderByName E name)) (\<lambda>p.
     bindE (lift (aiProvider E (p_Type p))) (\<lambda>prov.
     case pv_ListModels prov of
       None \<Rightarrow> fail (NotFound ''ai provider does not expose a model catalog'' (p_Type p))
     | Some list_models \<Rightarrow>
         bindE (aiCredentials E p) (\<lambda>creds.
         bindE (attempt (on_world (list_models creds (aiProviderConfig p)))) (\<lambda>r.
         case r of
           Inl e \<Rightarrow> bindE (emitAIAudit E c ''ai_provider'' (p_ID p) ''model_sync_failed'' (ErrorText e)
                      [(''name'', JStr (p_Name p)), (''type'', JStr (p_Type p))] []) (\<lambda>_. fail e)
         | Inr models \<Rightarrow>
             bindE (forE models (sync_model E p)) (\<lambda>_.
             emitAIAudit E c ''ai_provider'' (p_ID p) ''models_synced'' (Text ''AI provider models synced'')
               [(''name'', JStr (p_Name p)), (''count'', JNum (of_count (int (length models))))] [])))))"

section \<open>The contract of the governance rules\<close>

locale models_rel = audit_rel R for R :: "'w st \<Rightarrow> 'w st \<Rightarrow> bool" +
  assumes R_UpsertAIModelCatalog: "rel R (q_UpsertAIModelCatalog E k model display modality status meta)"
begin

lemma rel_SyncAIProviderModelsByName: "rel R (SyncAIProviderModelsByName E c name)"
  unfolding SyncAIProviderModelsByName_def sync_model_def by (intro audit_rules R_UpsertAIModelCatalog)

end

locale rules_rel = models_rel R for R :: "'w st \<Rightarrow> 'w st \<Rightarrow> bool" +
  assumes R_CreateAIBudget: "rel R (q_CreateAIBudget E tenant scope ref limit period soft hard)"
    and R_UpdateAIBudget: "rel R (q_UpdateAIBudget E k scope ref limit period soft hard)"
    and R_DeleteAIBudget: "rel R (q_DeleteAIBudget E k)"
    and R_CreateAIQuota: "rel R (q_CreateAIQuota E service tenant metric limit period enforcement)"
    and R_UpdateAIQuota: "rel R (q_UpdateAIQuota E k limit period enforcement)"
    and R_DeleteAIQuota: "rel R (q_DeleteAIQuota E k)"
    and R_CreateAIAccessPolicy: "rel R (q_CreateAIAccessPolicy E name tenant rules status)"
    and R_UpdateAIAccessPolicy: "rel R (q_UpdateAIAccessPolicy E k rules status)"
    and R_DeleteAIAccessPolicy: "rel R (q_DeleteAIAccessPolicy E k)"
begin

lemma rel_guards: "rel R (raise e)" "rel R (aiTenantGuard c t)"
  unfolding raise_def aiTenantGuard_def by (intro audit_rules)+

lemma rel_budgets:
  "rel R (CreateAIBudget E c i)" "rel R (UpdateAIBudget E c k i)" "rel R (DeleteAIBudget E c k)"
  unfolding CreateAIBudget_def UpdateAIBudget_def DeleteAIBudget_def
  by (intro audit_rules rel_guards R_CreateAIBudget R_UpdateAIBudget R_DeleteAIBudget)+

lemma rel_quotas:
  "rel R (CreateAIQuota E c q)" "rel R (UpdateAIQuota E c k limit period enforcement)" "rel R (DeleteAIQuota E c k)"
  unfolding CreateAIQuota_def UpdateAIQuota_def DeleteAIQuota_def
  by (intro audit_rules rel_guards R_CreateAIQuota R_UpdateAIQuota R_DeleteAIQuota)+

lemma rel_policies:
  "rel R (CreateAIAccessPolicy E c p)" "rel R (UpdateAIAccessPolicy E c k rules status)"
  "rel R (DeleteAIAccessPolicy E c k)"
  unfolding CreateAIAccessPolicy_def UpdateAIAccessPolicy_def DeleteAIAccessPolicy_def
  by (intro audit_rules rel_guards R_CreateAIAccessPolicy R_UpdateAIAccessPolicy R_DeleteAIAccessPolicy)+

lemmas rules_rules = rel_budgets rel_quotas rel_policies rel_SyncAIProviderModelsByName

end

end
