(* ===== verification/AdminOps.thy ===== *)
theory AdminOps
  imports Governance
begin

text \<open>
  Administration of a provider's organization and its projects (\<open>internal/orchestrator/ai_admin.go\<close>)
  and the role rules of \<open>internal/aiproviders/admin.go\<close>. Every write is audited with its outcome.
\<close>

section \<open>Role rules\<close>

definition RoleComboAllowed :: "string \<Rightarrow> string \<Rightarrow> bool" where
  "RoleComboAllowed org ws =
     (if ws = ''workspace_billing'' then False
      else if org = ''billing'' then ws = ''workspace_admin''
      else True)"

definition InheritedWorkspaceRole :: "string \<Rightarrow> string" where
  "InheritedWorkspaceRole org = (if org = ''admin'' then ''workspace_admin''
     else if org = ''billing'' then ''workspace_billing'' else [])"

section \<open>Resolving the provider and a user\<close>

definition adminFor :: "'w env \<Rightarrow> string \<Rightarrow> ('w st, AiProvider \<times> 'w AdminProvisioner \<times> AdminContext) op" where
  "adminFor E name =
     bindE (wrap ''ai provider not found'' (q_GetAIProviderByName E name)) (\<lambda>p.
     bindE (lift (aiProvider E (p_Type p))) (\<lambda>prov.
     case pv_Admin prov of
       None \<Rightarrow> fail (NotFound ''ai provider does not support org administration'' (p_Name p))
     | Some admin \<Rightarrow> bindE (aiCredentials E p) (\<lambda>creds.
         ret (p, admin, \<lparr>ac_Credentials = creds, ac_Config = aiProviderConfig p\<rparr>))))"

definition resolveUserRef :: "'w AdminProvisioner \<Rightarrow> AdminContext \<Rightarrow> string \<Rightarrow> ('w, string) op" where
  "resolveUserRef admin ac ref0 =
     (let ref = TrimSpace ref0 in
      if \<not> Contains ref [CHR 0x40] then ret ref
      else bindE (wrap (''resolving '' @ quoted ref) (ad_ListOrgUsers admin ac)) (\<lambda>users.
        case List.find (\<lambda>u. EqualFold (ou_Email u) ref) users of
          Some u \<Rightarrow> ret (ou_ID u)
        | None \<Rightarrow> fail (NotFound ''no organization user with email'' ref)))"

section \<open>Reads\<close>

definition ListAIOrgUsers :: "'w env \<Rightarrow> string \<Rightarrow> ('w st, OrgUser list) op" where
  "ListAIOrgUsers E provider = bindE (adminFor E provider) (\<lambda>(p, admin, ac). on_world (ad_ListOrgUsers admin ac))"

definition ListAIWorkspaces :: "'w env \<Rightarrow> string \<Rightarrow> ('w st, OrgWorkspace list) op" where
  "ListAIWorkspaces E provider = bindE (adminFor E provider) (\<lambda>(p, admin, ac). on_world (ad_ListWorkspaces admin ac))"

definition ListAIInvites :: "'w env \<Rightarrow> string \<Rightarrow> ('w st, InviteResult list) op" where
  "ListAIInvites E provider = bindE (adminFor E provider) (\<lambda>(p, admin, ac). on_world (ad_ListInvites admin ac))"

definition AIWorkspaceAccess :: "'w env \<Rightarrow> string \<Rightarrow> string \<Rightarrow> ('w st, WorkspaceAccess list) op" where
  "AIWorkspaceAccess E provider workspaceID =
     bindE (adminFor E provider) (\<lambda>(p, admin, ac). on_world (ad_EffectiveWorkspaceAccess admin ac workspaceID))"

section \<open>Writes\<close>

text \<open>The shape all writes share: the call, then an audit event for its failure or its success.\<close>

definition audited ::
  "'w env \<Rightarrow> ctx \<Rightarrow> AiProvider \<Rightarrow> ('w, 'a) op \<Rightarrow> string \<Rightarrow> string \<Rightarrow> string \<Rightarrow> obj \<Rightarrow> ('a \<Rightarrow> obj) \<Rightarrow> ('w st, 'a) op" where
  "audited E c p act failed done text flds extra =
     (let all = (''provider'', JStr (p_Name p)) # flds in
      bindE (attempt (on_world act)) (\<lambda>r.
      case r of
        Inl e \<Rightarrow> bindE (emitAIAudit E c ''ai_provider'' (p_ID p) failed (ErrorText e) all []) (\<lambda>_. fail e)
      | Inr x \<Rightarrow> bindE (emitAIAudit E c ''ai_provider'' (p_ID p) done (Text text) (all @ extra x) []) (\<lambda>_. ret x)))"

definition InviteAIOrgUser :: "'w env \<Rightarrow> ctx \<Rightarrow> string \<Rightarrow> string \<Rightarrow> string \<Rightarrow> ('w st, InviteResult) op" where
  "InviteAIOrgUser E c provider email role = bindE (adminFor E provider) (\<lambda>(p, admin, ac).
     audited E c p (ad_InviteUser admin ac email role) ''org_invite_failed'' ''org_user_invited'' ''AI org user invited''
       [(''email'', JStr email), (''role'', JStr role)] (\<lambda>res. [(''invite_id'', JStr (iv_InviteID res))]))"

definition SetAIOrgRole :: "'w env \<Rightarrow> ctx \<Rightarrow> string \<Rightarrow> string \<Rightarrow> string \<Rightarrow> ('w st, OrgUser) op" where
  "SetAIOrgRole E c provider userID role = bindE (adminFor E provider) (\<lambda>(p, admin, ac).
     audited E c p (ad_SetOrgRole admin ac userID role) ''org_role_change_failed'' ''org_role_changed'' ''AI org role changed''
       [(''user_id'', JStr userID), (''role'', JStr role)] (\<lambda>_. []))"

definition RemoveAIOrgUser :: "'w env \<Rightarrow> ctx \<Rightarrow> string \<Rightarrow> string \<Rightarrow> ('w st, unit) op" where
  "RemoveAIOrgUser E c provider userID = bindE (adminFor E provider) (\<lambda>(p, admin, ac).
     audited E c p (ad_RemoveOrgUser admin ac userID) ''org_user_remove_failed'' ''org_user_removed'' ''AI org user removed''
       [(''user_id'', JStr userID)] (\<lambda>_. []))"

definition CreateAIWorkspace :: "'w env \<Rightarrow> ctx \<Rightarrow> string \<Rightarrow> string \<Rightarrow> ('w st, OrgWorkspace) op" where
  "CreateAIWorkspace E c provider name = bindE (adminFor E provider) (\<lambda>(p, admin, ac).
     audited E c p (ad_CreateWorkspace admin ac name) ''workspace_create_failed'' ''workspace_created'' ''AI workspace created''
       [(''name'', JStr name)] (\<lambda>ws. [(''workspace_id'', JStr (ow_ID ws))]))"

definition ArchiveAIWorkspace :: "'w env \<Rightarrow> ctx \<Rightarrow> string \<Rightarrow> string \<Rightarrow> ('w st, unit) op" where
  "ArchiveAIWorkspace E c provider workspaceID = bindE (adminFor E provider) (\<lambda>(p, admin, ac).
     audited E c p (ad_ArchiveWorkspace admin ac workspaceID) ''workspace_archive_failed'' ''workspace_archived''
       ''AI workspace archived'' [(''workspace_id'', JStr workspaceID)] (\<lambda>_. []))"

text \<open>The failed reference is audited as the empty string: \<open>userID\<close> has been overwritten by then.\<close>

definition GrantAIWorkspaceAccess ::
  "'w env \<Rightarrow> ctx \<Rightarrow> string \<Rightarrow> string \<Rightarrow> string \<Rightarrow> string \<Rightarrow> ('w st, unit) op" where
  "GrantAIWorkspaceAccess E c provider workspaceID userRef role = bindE (adminFor E provider) (\<lambda>(p, admin, ac).
     bindE (attempt (on_world (resolveUserRef admin ac userRef))) (\<lambda>r.
     case r of
       Inl e \<Rightarrow> bindE (emitAIAudit E c ''ai_provider'' (p_ID p) ''workspace_grant_failed'' (ErrorText e)
          [(''provider'', JStr (p_Name p)), (''workspace_id'', JStr workspaceID), (''user_ref'', JStr []),
           (''role'', JStr role)] []) (\<lambda>_. fail e)
     | Inr userID \<Rightarrow>
         audited E c p (ad_GrantWorkspaceAccess admin ac workspaceID userID role) ''workspace_grant_failed''
           ''workspace_access_granted'' ''AI workspace access granted''
           [(''workspace_id'', JStr workspaceID), (''user_id'', JStr userID), (''role'', JStr role)] (\<lambda>_. [])))"

definition RemoveAIWorkspaceMember :: "'w env \<Rightarrow> ctx \<Rightarrow> string \<Rightarrow> string \<Rightarrow> string \<Rightarrow> ('w st, unit) op" where
  "RemoveAIWorkspaceMember E c provider workspaceID userRef = bindE (adminFor E provider) (\<lambda>(p, admin, ac).
     bindE (on_world (resolveUserRef admin ac userRef)) (\<lambda>userID.
     audited E c p (ad_RemoveWorkspaceMember admin ac workspaceID userID) ''workspace_member_remove_failed''
       ''workspace_member_removed'' ''AI workspace member removed''
       [(''workspace_id'', JStr workspaceID), (''user_id'', JStr userID)] (\<lambda>_. [])))"

section \<open>Project controls\<close>

definition projectControlsFor ::
  "'w env \<Rightarrow> string \<Rightarrow> ('w st, AiProvider \<times> 'w ProjectControlsProvisioner \<times> AdminContext) op" where
  "projectControlsFor E name =
     bindE (wrap ''ai provider not found'' (q_GetAIProviderByName E name)) (\<lambda>p.
     bindE (lift (aiProvider E (p_Type p))) (\<lambda>prov.
     case pv_Controls prov of
       None \<Rightarrow> fail (NotFound ''ai provider does not support project controls'' (p_Name p))
     | Some controls \<Rightarrow> bindE (aiCredentials E p) (\<lambda>creds.
         ret (p, controls, \<lparr>ac_Credentials = creds, ac_Config = aiProviderConfig p\<rparr>))))"

definition ListAIProjectAPIKeys :: "'w env \<Rightarrow> string \<Rightarrow> string \<Rightarrow> ('w st, ProjectAPIKey list) op" where
  "ListAIProjectAPIKeys E provider projectID = bindE (projectControlsFor E provider) (\<lambda>(p, ctl, ac).
     on_world (pc_ListProjectAPIKeys ctl ac projectID))"

definition ListAIProjectRateLimits :: "'w env \<Rightarrow> string \<Rightarrow> string \<Rightarrow> ('w st, ProjectRateLimit list) op" where
  "ListAIProjectRateLimits E provider projectID = bindE (projectControlsFor E provider) (\<lambda>(p, ctl, ac).
     on_world (pc_ListProjectRateLimits ctl ac projectID))"

definition GetAIProjectModelPermissions :: "'w env \<Rightarrow> string \<Rightarrow> string \<Rightarrow> ('w st, ProjectModelPermissions) op" where
  "GetAIProjectModelPermissions E provider projectID = bindE (projectControlsFor E provider) (\<lambda>(p, ctl, ac).
     on_world (pc_GetProjectModelPermissions ctl ac projectID))"

definition GetAIProjectHostedToolPermissions ::
  "'w env \<Rightarrow> string \<Rightarrow> string \<Rightarrow> ('w st, ProjectHostedToolPermissions) op" where
  "GetAIProjectHostedToolPermissions E provider projectID = bindE (projectControlsFor E provider) (\<lambda>(p, ctl, ac).
     on_world (pc_GetProjectHostedToolPermissions ctl ac projectID))"

definition GetAIProjectDataRetention :: "'w env \<Rightarrow> string \<Rightarrow> string \<Rightarrow> ('w st, string) op" where
  "GetAIProjectDataRetention E provider projectID = bindE (projectControlsFor E provider) (\<lambda>(p, ctl, ac).
     on_world (pc_GetProjectDataRetention ctl ac projectID))"

definition ListAIProjectSpendAlerts :: "'w env \<Rightarrow> string \<Rightarrow> string \<Rightarrow> ('w st, ProjectSpendAlert list) op" where
  "ListAIProjectSpendAlerts E provider projectID = bindE (projectControlsFor E provider) (\<lambda>(p, ctl, ac).
     on_world (pc_ListProjectSpendAlerts ctl ac projectID))"

definition DeleteAIProjectAPIKey :: "'w env \<Rightarrow> ctx \<Rightarrow> string \<Rightarrow> string \<Rightarrow> string \<Rightarrow> ('w st, unit) op" where
  "DeleteAIProjectAPIKey E c provider projectID keyID = bindE (projectControlsFor E provider) (\<lambda>(p, ctl, ac).
     audited E c p (pc_DeleteProjectAPIKey ctl ac projectID keyID) ''project_api_key_delete_failed''
       ''project_api_key_deleted'' ''AI project API key deleted''
       [(''project_id'', JStr projectID), (''api_key_id'', JStr keyID)] (\<lambda>_. []))"

definition UpdateAIProjectRateLimit ::
  "'w env \<Rightarrow> ctx \<Rightarrow> string \<Rightarrow> string \<Rightarrow> string \<Rightarrow> ProjectRateLimitUpdate \<Rightarrow> ('w st, ProjectRateLimit) op" where
  "UpdateAIProjectRateLimit E c provider projectID rateLimitID req = bindE (projectControlsFor E provider) (\<lambda>(p, ctl, ac).
     audited E c p (pc_UpdateProjectRateLimit ctl ac projectID rateLimitID req) ''project_rate_limit_update_failed''
       ''project_rate_limit_updated'' ''AI project rate limit updated''
       [(''project_id'', JStr projectID), (''rate_limit_id'', JStr rateLimitID)] (\<lambda>_. []))"

definition SetAIProjectModelPermissions ::
  "'w env \<Rightarrow> ctx \<Rightarrow> string \<Rightarrow> string \<Rightarrow> ProjectModelPermissions \<Rightarrow> ('w st, ProjectModelPermissions) op" where
  "SetAIProjectModelPermissions E c provider projectID req = bindE (projectControlsFor E provider) (\<lambda>(p, ctl, ac).
     audited E c p (pc_SetProjectModelPermissions ctl ac projectID req) ''project_model_permissions_update_failed''
       ''project_model_permissions_updated'' ''AI project model permissions updated''
       [(''project_id'', JStr projectID), (''mode'', JStr (pm_Mode req)),
        (''model_ids'', JArr (map JStr (pm_ModelIDs req)))] (\<lambda>_. []))"

definition DeleteAIProjectModelPermissions :: "'w env \<Rightarrow> ctx \<Rightarrow> string \<Rightarrow> string \<Rightarrow> ('w st, unit) op" where
  "DeleteAIProjectModelPermissions E c provider projectID = bindE (projectControlsFor E provider) (\<lambda>(p, ctl, ac).
     audited E c p (pc_DeleteProjectModelPermissions ctl ac projectID) ''project_model_permissions_delete_failed''
       ''project_model_permissions_deleted'' ''AI project model permissions deleted''
       [(''project_id'', JStr projectID)] (\<lambda>_. []))"

definition SetAIProjectHostedToolPermissions ::
  "'w env \<Rightarrow> ctx \<Rightarrow> string \<Rightarrow> string \<Rightarrow> ProjectHostedToolPermissions \<Rightarrow> ('w st, ProjectHostedToolPermissions) op" where
  "SetAIProjectHostedToolPermissions E c provider projectID req = bindE (projectControlsFor E provider) (\<lambda>(p, ctl, ac).
     audited E c p (pc_SetProjectHostedToolPermissions ctl ac projectID req) ''project_tool_permissions_update_failed''
       ''project_tool_permissions_updated'' ''AI project hosted tool permissions updated''
       [(''project_id'', JStr projectID)] (\<lambda>_. []))"

definition SetAIProjectDataRetention ::
  "'w env \<Rightarrow> ctx \<Rightarrow> string \<Rightarrow> string \<Rightarrow> string \<Rightarrow> ('w st, string) op" where
  "SetAIProjectDataRetention E c provider projectID ty = bindE (projectControlsFor E provider) (\<lambda>(p, ctl, ac).
     audited E c p (pc_SetProjectDataRetention ctl ac projectID ty) ''project_data_retention_update_failed''
       ''project_data_retention_updated'' ''AI project data retention updated''
       [(''project_id'', JStr projectID), (''type'', JStr ty)] (\<lambda>_. []))"

definition CreateAIProjectSpendAlert ::
  "'w env \<Rightarrow> ctx \<Rightarrow> string \<Rightarrow> string \<Rightarrow> ProjectSpendAlertInput \<Rightarrow> ('w st, ProjectSpendAlert) op" where
  "CreateAIProjectSpendAlert E c provider projectID req = bindE (projectControlsFor E provider) (\<lambda>(p, ctl, ac).
     audited E c p (pc_CreateProjectSpendAlert ctl ac projectID req) ''project_spend_alert_create_failed''
       ''project_spend_alert_created'' ''AI project spend alert created'' [(''project_id'', JStr projectID)]
       (\<lambda>res. [(''alert_id'', JStr (sa_ID res)), (''threshold_cents'', JNum (si_ThresholdCents req))]))"

text \<open>The failure is audited with the alert asked for, the success with the alert returned.\<close>

definition UpdateAIProjectSpendAlert ::
  "'w env \<Rightarrow> ctx \<Rightarrow> string \<Rightarrow> string \<Rightarrow> string \<Rightarrow> ProjectSpendAlertInput \<Rightarrow> ('w st, ProjectSpendAlert) op" where
  "UpdateAIProjectSpendAlert E c provider projectID alertID req = bindE (projectControlsFor E provider) (\<lambda>(p, ctl, ac).
     bindE (attempt (on_world (pc_UpdateProjectSpendAlert ctl ac projectID alertID req))) (\<lambda>r.
     case r of
       Inl e \<Rightarrow> bindE (emitAIAudit E c ''ai_provider'' (p_ID p) ''project_spend_alert_update_failed'' (ErrorText e)
          [(''provider'', JStr (p_Name p)), (''project_id'', JStr projectID), (''alert_id'', JStr alertID)] []) (\<lambda>_. fail e)
     | Inr res \<Rightarrow> bindE (emitAIAudit E c ''ai_provider'' (p_ID p) ''project_spend_alert_updated''
          (Text ''AI project spend alert updated'')
          [(''provider'', JStr (p_Name p)), (''project_id'', JStr projectID), (''alert_id'', JStr (sa_ID res)),
           (''threshold_cents'', JNum (si_ThresholdCents req))] []) (\<lambda>_. ret res)))"

definition DeleteAIProjectSpendAlert :: "'w env \<Rightarrow> ctx \<Rightarrow> string \<Rightarrow> string \<Rightarrow> string \<Rightarrow> ('w st, unit) op" where
  "DeleteAIProjectSpendAlert E c provider projectID alertID = bindE (projectControlsFor E provider) (\<lambda>(p, ctl, ac).
     audited E c p (pc_DeleteProjectSpendAlert ctl ac projectID alertID) ''project_spend_alert_delete_failed''
       ''project_spend_alert_deleted'' ''AI project spend alert deleted''
       [(''project_id'', JStr projectID), (''alert_id'', JStr alertID)] (\<lambda>_. []))"

section \<open>Organization administration only audits\<close>

context audit_rel
begin

lemma rel_adminFor: "rel R (adminFor E name)"
  unfolding adminFor_def by (intro audit_rules)

lemma rel_projectControlsFor: "rel R (projectControlsFor E name)"
  unfolding projectControlsFor_def by (intro audit_rules)

lemma rel_audited: "rel R (audited E c p act failed done text flds extra)"
  unfolding audited_def Let_def by (intro audit_rules)

lemma rel_admin_ops:
  "rel R (InviteAIOrgUser E c provider email role)" "rel R (SetAIOrgRole E c provider user role)"
  "rel R (RemoveAIOrgUser E c provider user)" "rel R (CreateAIWorkspace E c provider name)"
  "rel R (ArchiveAIWorkspace E c provider ws)" "rel R (GrantAIWorkspaceAccess E c provider ws ref role)"
  "rel R (RemoveAIWorkspaceMember E c provider ws ref)"
  unfolding InviteAIOrgUser_def SetAIOrgRole_def RemoveAIOrgUser_def CreateAIWorkspace_def
    ArchiveAIWorkspace_def GrantAIWorkspaceAccess_def RemoveAIWorkspaceMember_def
  by (intro audit_rules rel_adminFor rel_audited)+

lemma rel_control_ops:
  "rel R (DeleteAIProjectAPIKey E c provider ws key)" "rel R (UpdateAIProjectRateLimit E c provider ws k upd)"
  "rel R (SetAIProjectModelPermissions E c provider ws pm)" "rel R (DeleteAIProjectModelPermissions E c provider ws)"
  "rel R (SetAIProjectHostedToolPermissions E c provider ws ht)" "rel R (SetAIProjectDataRetention E c provider ws ty)"
  "rel R (CreateAIProjectSpendAlert E c provider ws si)" "rel R (UpdateAIProjectSpendAlert E c provider ws alert si)"
  "rel R (DeleteAIProjectSpendAlert E c provider ws alert)"
  unfolding DeleteAIProjectAPIKey_def UpdateAIProjectRateLimit_def SetAIProjectModelPermissions_def
    DeleteAIProjectModelPermissions_def SetAIProjectHostedToolPermissions_def SetAIProjectDataRetention_def
    CreateAIProjectSpendAlert_def UpdateAIProjectSpendAlert_def DeleteAIProjectSpendAlert_def
  by (intro audit_rules rel_projectControlsFor rel_audited)+

lemmas admin_rules = rel_admin_ops rel_control_ops

end

end
