(* ===== verification/CostImport.thy ===== *)
theory CostImport
  imports AdminOps
begin

text \<open>
  The importers of authoritative spend (\<open>internal/orchestrator/ai_governance.go\<close>): OpenAI costs,
  Anthropic cost reports and the spend of LiteLLM keys. The HTTP exchange is the environment's;
  what is sent, how the answer is decoded and what is stored is the code's.
\<close>

section \<open>Storing one imported row once\<close>

record ImportResult =
  ir_ProviderName :: string
  ir_Imported :: nat
  ir_Skipped :: nat
  ir_PeriodStart :: time
  ir_PeriodEnd :: time

text \<open>A row whose import key is already stored is skipped; any other failure of the lookup stops the
  import. The counters are the imported and the skipped rows.\<close>

definition import_row ::
  "'w env \<Rightarrow> AiProvider \<Rightarrow> time \<Rightarrow> time \<Rightarrow> string \<Rightarrow> float64 \<Rightarrow> obj \<Rightarrow> nat \<times> nat \<Rightarrow> ('w st, nat \<times> nat) op" where
  "import_row E p ps pe key usd flds acc =
     (case acc of (imported, skipped) \<Rightarrow>
      bindE (attempt (q_FindAIUsageRecordByImportKey E (p_ID p) ps pe ''cost_usd'' key)) (\<lambda>r.
      case r of
        Inr _ \<Rightarrow> ret (imported, Suc skipped)
      | Inl e \<Rightarrow>
          if e \<noteq> NoRows then fail (Wrap ''checking ai usage import key'' e)
          else bindE (wrap ''creating cost usage record'' (q_CreateAIUsageRecord E None (p_ID p) ps pe ''cost_usd'' usd
                 ''usd'' usd (JObj ([(''import_key'', JStr key)] @ flds)))) (\<lambda>_.
               ret (Suc imported, skipped))))"

definition trim_slashes :: "string \<Rightarrow> string" where
  "trim_slashes = TrimRight (\<lambda>c. c = CHR ''/'')"

definition base_url :: "obj \<Rightarrow> string \<Rightarrow> string" where
  "base_url cfg d = (case str_at cfg ''base_url'' of
     Some v \<Rightarrow> if TrimSpace v \<noteq> [] then TrimSpace v else d | None \<Rightarrow> d)"

text \<open>The window of an import: the last seven days unless given.\<close>

definition import_window :: "time \<Rightarrow> time option \<Rightarrow> time option \<Rightarrow> time \<times> time" where
  "import_window now start end' =
     ((case start of None \<Rightarrow> AddDays now (-7) | Some t \<Rightarrow> t), (case end' of None \<Rightarrow> now | Some t \<Rightarrow> t))"

text \<open>The part both report imports start with: the provider of the expected type and its key.\<close>

definition import_provider :: "'w env \<Rightarrow> string \<Rightarrow> string \<Rightarrow> string list \<Rightarrow> ('w st, AiProvider \<times> kv \<times> string) op" where
  "import_provider E name0 ty keys =
     (let name = TrimSpace name0 in
      bindE (guardE (name \<noteq> []) (Msg ''provider name is required'')) (\<lambda>_.
      bindE (wrap ''ai provider not found'' (q_GetAIProviderByName E name)) (\<lambda>p.
      bindE (guardE (p_Type p = ty) (BadStatus (p_Name p) (p_Type p))) (\<lambda>_.
      bindE (aiCredentials E p) (\<lambda>creds.
      let key = firstNonEmpty (map (kv_at creds) keys) in
      bindE (guardE (key \<noteq> []) (Msg ''admin api key missing in secret_ref'')) (\<lambda>_.
      ret (p, creds, key)))))))"

section \<open>OpenAI costs\<close>

record CostItem =
  ci_Value :: float64
  ci_Currency :: string
  ci_LineItem :: string
  ci_ProjectID :: string

record CostBucket =
  cb_StartTime :: int
  cb_EndTime :: int
  cb_Results :: "CostItem list"

definition dec_cost_item :: "obj \<Rightarrow> CostItem option" where
  "dec_cost_item m =
     Option.bind (dec_field (dec_struct (\<lambda>a. Option.bind (dec_num ''value'' a 0) (\<lambda>v.
        map_option (Pair v) (dec_string ''currency'' a [])))) ''amount'' m (0, [])) (\<lambda>(v, cur).
     Option.bind (dec_string ''line_item'' m []) (\<lambda>li. Option.bind (dec_string ''project_id'' m []) (\<lambda>pid.
     Some \<lparr>ci_Value = v, ci_Currency = cur, ci_LineItem = li, ci_ProjectID = pid\<rparr>)))"

definition dec_cost_bucket :: "obj \<Rightarrow> CostBucket option" where
  "dec_cost_bucket m =
     Option.bind (dec_field dec_int ''start_time'' m 0) (\<lambda>a. Option.bind (dec_field dec_int ''end_time'' m 0) (\<lambda>b.
     Option.bind (dec_field (dec_array (dec_struct dec_cost_item)) ''results'' m []) (\<lambda>rs.
     Some \<lparr>cb_StartTime = a, cb_EndTime = b, cb_Results = rs\<rparr>)))"

definition openAICostsPayload :: "json \<Rightarrow> CostBucket list option" where
  "openAICostsPayload = dec_struct (\<lambda>m. dec_field (dec_array (dec_struct dec_cost_bucket)) ''data'' m [])"

definition unix :: "int \<Rightarrow> time" where "unix sec = sec * 1000000000"

definition openai_import_key :: "CostBucket \<Rightarrow> nat \<Rightarrow> CostItem \<Rightarrow> string" where
  "openai_import_key b idx i = ''openai-costs:'' @ show_int (cb_StartTime b) @ '':'' @ show_int (cb_EndTime b) @ '':''
     @ ci_ProjectID i @ '':'' @ ci_LineItem i @ '':'' @ show_nat idx"

definition import_openai_item :: "'w env \<Rightarrow> AiProvider \<Rightarrow> CostBucket \<Rightarrow> nat \<times> nat \<Rightarrow> nat \<times> CostItem \<Rightarrow> ('w st, nat \<times> nat) op" where
  "import_openai_item E p b acc ni = (case ni of (idx, i) \<Rightarrow>
     import_row E p (unix (cb_StartTime b)) (unix (cb_EndTime b)) (openai_import_key b idx i) (ci_Value i)
       [(''source'', JStr ''openai_costs_api''), (''currency'', JStr (ci_Currency i)),
        (''project_id'', JStr (ci_ProjectID i)), (''line_item'', JStr (ci_LineItem i))] acc)"

definition import_openai_bucket :: "'w env \<Rightarrow> AiProvider \<Rightarrow> nat \<times> nat \<Rightarrow> CostBucket \<Rightarrow> ('w st, nat \<times> nat) op" where
  "import_openai_bucket E p acc b = foldE (import_openai_item E p b) acc (List.enumerate 0 (cb_Results b))"

definition openai_costs_request :: "obj \<Rightarrow> string \<Rightarrow> time \<Rightarrow> time \<Rightarrow> HttpRequest" where
  "openai_costs_request cfg key start end' =
     \<lparr>hq_Method = ''GET'',
      hq_URL = trim_slashes (base_url cfg ''https://api.openai.com'') @ ''/v1/organization/costs'',
      hq_Query = [(''start_time'', show_int (start div 1000000000)), (''end_time'', show_int (end' div 1000000000)),
        (''bucket_width'', ''1d''), (''limit'', ''180'')],
      hq_Headers = [(''Authorization'', ''Bearer '' @ key), (''Content-Type'', ''application/json'')],
      hq_Body = None\<rparr>"

text \<open>The error of \<open>url.Parse\<close> is dropped and the nil URL dereferenced.\<close>

definition ImportOpenAICosts :: "'w env \<Rightarrow> ctx \<Rightarrow> string \<Rightarrow> time option \<Rightarrow> time option \<Rightarrow> ('w st, ImportResult) op" where
  "ImportOpenAICosts E c name start0 end0 =
     bindE (import_provider E name ''openai'' [''admin_api_key'', ''api_key'', ''openai_api_key'', ''token'']) (\<lambda>(p, creds, key).
     bindE (gets (\<lambda>s. import_window (st_now s) start0 end0)) (\<lambda>(start, end').
     bindE (guardE (start < end') (Msg ''end must be after start'')) (\<lambda>_.
     let req = openai_costs_request (aiProviderConfig p) key start end' in
     bindE (guardE (env_url_ok E (hq_URL req)) (Panic ''nil URL'')) (\<lambda>_.
     bindE (wrap ''openai costs import failed'' (on_world (env_http E req))) (\<lambda>resp.
     bindE (guardE (status_ok resp) (Upstream ''openai costs import'')) (\<lambda>_.
     case decode_body openAICostsPayload (hr_Body resp) of
       None \<Rightarrow> fail (Msg ''decoding openai costs'')
     | Some buckets \<Rightarrow>
         bindE (foldE (import_openai_bucket E p) (0, 0) buckets) (\<lambda>(imported, skipped).
         bindE (emitAIAudit E c ''ai_provider'' (p_ID p) ''usage_imported'' (Text ''OpenAI costs imported'')
            [(''provider'', JStr (p_Name p)), (''imported'', JNum (of_count (int imported))),
             (''skipped'', JNum (of_count (int skipped)))] []) (\<lambda>_.
         ret \<lparr>ir_ProviderName = p_Name p, ir_Imported = imported, ir_Skipped = skipped,
              ir_PeriodStart = start, ir_PeriodEnd = end'\<rparr>))))))))"

section \<open>Anthropic cost reports\<close>

text \<open>\<open>strconv.ParseFloat\<close> on decimal notation; the spellings of infinities, NaN and hexadecimal
  numbers are outside the model, and a magnitude out of range is an error.\<close>

definition parse_sign :: "string \<Rightarrow> int \<times> string" where
  "parse_sign s = (case s of c # r \<Rightarrow> if c = CHR ''-'' then (-1, r) else if c = CHR ''+'' then (1, r) else (1, s)
     | [] \<Rightarrow> (1, s))"

definition parse_exp :: "string \<Rightarrow> int option" where
  "parse_exp s = (case s of
     [] \<Rightarrow> Some 0
   | c # r \<Rightarrow> if c = CHR ''e'' \<or> c = CHR ''E'' then
       (case parse_sign r of (sg, ds) \<Rightarrow> if ds \<noteq> [] \<and> list_all is_digit ds then Some (sg * digits_val ds) else None)
     else None)"

definition ParseFloat :: "string \<Rightarrow> float64 option" where
  "ParseFloat s =
     (case parse_sign s of (sg, r) \<Rightarrow>
      let ip = takeWhile is_digit r; r1 = dropWhile is_digit r;
          dot = (r1 \<noteq> [] \<and> hd r1 = CHR ''.'');
          fp = (if dot then takeWhile is_digit (tl r1) else []);
          r2 = (if dot then dropWhile is_digit (tl r1) else r1) in
      if ip @ fp = [] then None
      else (case parse_exp r2 of
              None \<Rightarrow> None
            | Some e \<Rightarrow>
                let v = of_int (digits_val (ip @ fp)) * 10 powi (e - int (length fp)) in
                if v < 2 ^ 1024 - 2 ^ 970 then Some (of_int sg * fl64 v) else None))"

record ReportItem =
  ri_Amount :: string
  ri_Currency :: string
  ri_CostType :: string
  ri_Description :: string
  ri_Model :: string
  ri_WorkspaceID :: string
  ri_TokenType :: string

record ReportBucket =
  rb_StartingAt :: string
  rb_EndingAt :: string
  rb_Results :: "ReportItem list"

record CostReport =
  rp_Data :: "ReportBucket list"
  rp_HasMore :: bool
  rp_NextPage :: string

definition dec_report_item :: "obj \<Rightarrow> ReportItem option" where
  "dec_report_item m =
     Option.bind (dec_string ''amount'' m []) (\<lambda>a. Option.bind (dec_string ''currency'' m []) (\<lambda>b.
     Option.bind (dec_string ''cost_type'' m []) (\<lambda>c. Option.bind (dec_string ''description'' m []) (\<lambda>d.
     Option.bind (dec_string ''model'' m []) (\<lambda>e. Option.bind (dec_string ''workspace_id'' m []) (\<lambda>f.
     Option.bind (dec_string ''token_type'' m []) (\<lambda>g.
     Some \<lparr>ri_Amount = a, ri_Currency = b, ri_CostType = c, ri_Description = d, ri_Model = e,
           ri_WorkspaceID = f, ri_TokenType = g\<rparr>)))))))"

definition dec_report_bucket :: "obj \<Rightarrow> ReportBucket option" where
  "dec_report_bucket m =
     Option.bind (dec_string ''starting_at'' m []) (\<lambda>a. Option.bind (dec_string ''ending_at'' m []) (\<lambda>b.
     Option.bind (dec_field (dec_array (dec_struct dec_report_item)) ''results'' m []) (\<lambda>rs.
     Some \<lparr>rb_StartingAt = a, rb_EndingAt = b, rb_Results = rs\<rparr>)))"

definition anthropicCostReport :: "json \<Rightarrow> CostReport option" where
  "anthropicCostReport = dec_struct (\<lambda>m.
     Option.bind (dec_field (dec_array (dec_struct dec_report_bucket)) ''data'' m []) (\<lambda>d.
     Option.bind (dec_field dec_bool ''has_more'' m False) (\<lambda>h. Option.bind (dec_string ''next_page'' m []) (\<lambda>n.
     Some \<lparr>rp_Data = d, rp_HasMore = h, rp_NextPage = n\<rparr>))))"

text \<open>\<open>time.Parse\<close> with its error dropped: the zero time.\<close>

definition parse_or_zero :: "string \<Rightarrow> time" where
  "parse_or_zero s = (case ParseRFC3339 s of Some t \<Rightarrow> t | None \<Rightarrow> Date 1 1 1)"

definition anthropic_import_key :: "ReportBucket \<Rightarrow> nat \<Rightarrow> ReportItem \<Rightarrow> string" where
  "anthropic_import_key b idx i = ''anthropic-cost:'' @ rb_StartingAt b @ '':'' @ ri_WorkspaceID i @ '':''
     @ ri_Description i @ '':'' @ ri_CostType i @ '':'' @ ri_TokenType i @ '':'' @ show_nat idx"

definition import_anthropic_item ::
  "'w env \<Rightarrow> AiProvider \<Rightarrow> kv \<Rightarrow> ReportBucket \<Rightarrow> nat \<times> nat \<Rightarrow> nat \<times> ReportItem \<Rightarrow> ('w st, nat \<times> nat) op" where
  "import_anthropic_item E p names b acc ni = (case ni of (idx, i) \<Rightarrow>
     (case ParseFloat (TrimSpace (ri_Amount i)) of
        None \<Rightarrow> ret acc
      | Some cents \<Rightarrow>
          import_row E p (parse_or_zero (rb_StartingAt b)) (parse_or_zero (rb_EndingAt b))
            (anthropic_import_key b idx i) (fdiv cents 100)
            [(''source'', JStr ''anthropic_cost_report''), (''currency'', JStr (ri_Currency i)),
             (''workspace_id'', JStr (ri_WorkspaceID i)), (''workspace'', JStr (kv_at names (ri_WorkspaceID i))),
             (''description'', JStr (ri_Description i)), (''model'', JStr (ri_Model i)),
             (''cost_type'', JStr (ri_CostType i))] acc))"

definition import_anthropic_bucket :: "'w env \<Rightarrow> AiProvider \<Rightarrow> kv \<Rightarrow> nat \<times> nat \<Rightarrow> ReportBucket \<Rightarrow> ('w st, nat \<times> nat) op" where
  "import_anthropic_bucket E p names acc b =
     foldE (import_anthropic_item E p names b) acc (List.enumerate 0 (rb_Results b))"

definition anthropic_report_request :: "obj \<Rightarrow> string \<Rightarrow> time \<Rightarrow> time \<Rightarrow> string \<Rightarrow> HttpRequest" where
  "anthropic_report_request cfg key start end' page =
     \<lparr>hq_Method = ''GET'',
      hq_URL = trim_slashes (base_url cfg ''https://api.anthropic.com'') @ ''/v1/organizations/cost_report'',
      hq_Query = [(''starting_at'', FormatRFC3339 start), (''ending_at'', FormatRFC3339 end'),
        (''bucket_width'', ''1d''), (''group_by[]'', ''workspace_id''), (''group_by[]'', ''description''),
        (''limit'', ''31'')] @ (if page = [] then [] else [(''page'', page)]),
      hq_Headers = [(''x-api-key'', key), (''anthropic-version'', ''2023-06-01''),
        (''Content-Type'', ''application/json'')],
      hq_Body = None\<rparr>"

text \<open>The page loop, at most 40 times round.\<close>

fun anthropic_pages ::
  "'w env \<Rightarrow> AiProvider \<Rightarrow> kv \<Rightarrow> (string \<Rightarrow> HttpRequest) \<Rightarrow> nat \<Rightarrow> string \<Rightarrow> nat \<times> nat \<Rightarrow> ('w st, nat \<times> nat) op" where
  "anthropic_pages E p names request 0 page acc = ret acc"
| "anthropic_pages E p names request (Suc n) page acc =
     bindE (guardE (env_url_ok E (hq_URL (request page))) (Panic ''nil URL'')) (\<lambda>_.
     bindE (wrap ''anthropic cost import failed'' (on_world (env_http E (request page)))) (\<lambda>resp.
     bindE (guardE (status_ok resp) (Upstream ''anthropic cost import'')) (\<lambda>_.
     case decode_body anthropicCostReport (hr_Body resp) of
       None \<Rightarrow> fail (Msg ''decoding anthropic cost report'')
     | Some report \<Rightarrow>
         bindE (foldE (import_anthropic_bucket E p names) acc (rp_Data report)) (\<lambda>acc'.
         if \<not> rp_HasMore report \<or> TrimSpace (rp_NextPage report) = [] then ret acc'
         else anthropic_pages E p names request n (rp_NextPage report) acc'))))"

text \<open>Workspace names by identifier, when the provider can list them.\<close>

definition workspace_names :: "'w env \<Rightarrow> AiProvider \<Rightarrow> kv \<Rightarrow> ('w st, kv) op" where
  "workspace_names E p creds =
     (case aiProvider E (p_Type p) of
        Inl _ \<Rightarrow> ret []
      | Inr prov \<Rightarrow>
          (case pv_Admin prov of
             None \<Rightarrow> ret []
           | Some admin \<Rightarrow>
               bindE (attempt (on_world (ad_ListWorkspaces admin
                  \<lparr>ac_Credentials = creds, ac_Config = aiProviderConfig p\<rparr>))) (\<lambda>r.
               ret (case r of Inl _ \<Rightarrow> []
                    | Inr ws \<Rightarrow> foldl (\<lambda>m w. AList.update (ow_ID w) (ow_Name w) m) [] ws))))"

definition ImportAnthropicCosts :: "'w env \<Rightarrow> ctx \<Rightarrow> string \<Rightarrow> time option \<Rightarrow> time option \<Rightarrow> ('w st, ImportResult) op" where
  "ImportAnthropicCosts E c name start0 end0 =
     bindE (import_provider E name ''anthropic'' [''admin_api_key'', ''api_key'', ''anthropic_api_key'', ''token'']) (\<lambda>(p, creds, key).
     bindE (gets (\<lambda>s. import_window (st_now s) start0 end0)) (\<lambda>(start, end').
     bindE (guardE (start < end') (Msg ''end must be after start'')) (\<lambda>_.
     bindE (workspace_names E p creds) (\<lambda>names.
     bindE (anthropic_pages E p names (anthropic_report_request (aiProviderConfig p) key start end') 40 [] (0, 0)) (\<lambda>(imported, skipped).
     bindE (emitAIAudit E c ''ai_provider'' (p_ID p) ''usage_imported'' (Text ''Anthropic costs imported'')
        [(''provider'', JStr (p_Name p)), (''imported'', JNum (of_count (int imported))),
         (''skipped'', JNum (of_count (int skipped)))] []) (\<lambda>_.
     ret \<lparr>ir_ProviderName = p_Name p, ir_Imported = imported, ir_Skipped = skipped,
          ir_PeriodStart = start, ir_PeriodEnd = end'\<rparr>))))))"

section \<open>LiteLLM spend\<close>

record LiteLLMSpendImportResult =
  ls_ProviderName :: string
  ls_Keys :: nat
  ls_TotalUSD :: float64

text \<open>One key's spend: the stored row is updated in place, or created; failures are dropped.\<close>

definition store_spend :: "'w env \<Rightarrow> AiProvider \<Rightarrow> AiServiceInstanceRow \<Rightarrow> float64 \<Rightarrow> ('w st, unit) op" where
  "store_spend E p inst spend =
     bindE (attempt (q_FindAIKeySpendRecord E (i_ID inst))) (\<lambda>r.
     case r of
       Inr existing \<Rightarrow> ignore (q_UpdateAIUsageRecordCost E (u_ID existing) spend)
     | Inl _ \<Rightarrow> bindE (gets st_now) (\<lambda>now.
         ignore (q_CreateAIUsageRecord E (Some (i_ID inst)) (p_ID p) now now ''cost_usd'' spend ''usd'' spend
           (JObj [(''source'', JStr ''litellm_spend''), (''key_alias'', JStr (i_ProviderAccessID inst))]))))"

definition import_key_spend ::
  "'w env \<Rightarrow> AiProvider \<Rightarrow> 'w Provider \<Rightarrow> kv \<Rightarrow> nat \<times> float64 \<Rightarrow> AiServiceInstanceRow \<Rightarrow> ('w st, nat \<times> float64) op" where
  "import_key_spend E p prov creds0 acc inst =
     (case acc of (keys, tally) \<Rightarrow>
      if i_ProviderName inst \<noteq> p_Name p \<or> i_Status inst \<noteq> ''active'' then ret acc
      else
        bindE (readMintedKey E (mintedKeyPath (i_Observed inst))) (\<lambda>key.
        let creds = (if key \<noteq> [] then AList.update ''minted_key'' key creds0 else creds0) in
        bindE (attempt (on_world (pv_GetUsage prov \<lparr>uq_ProviderAccessID = i_ProviderAccessID inst,
           uq_PeriodStart = None, uq_PeriodEnd = None, uq_Credentials = creds,
           uq_Config = aiProviderConfig p\<rparr>))) (\<lambda>r.
        case r of
          Inl _ \<Rightarrow> ret acc
        | Inr [] \<Rightarrow> ret acc
        | Inr (rec0 # _) \<Rightarrow>
            bindE (store_spend E p inst (ur_CostUSD rec0)) (\<lambda>_.
            ret (Suc keys, fadd tally (ur_CostUSD rec0))))))"

definition ImportLiteLLMSpend :: "'w env \<Rightarrow> ctx \<Rightarrow> string \<Rightarrow> ('w st, LiteLLMSpendImportResult) op" where
  "ImportLiteLLMSpend E c name =
     bindE (wrap ''ai provider not found'' (q_GetAIProviderByName E name)) (\<lambda>p.
     bindE (guardE (p_Type p = ''litellm'') (BadStatus (p_Name p) (p_Type p))) (\<lambda>_.
     bindE (lift (aiProvider E (p_Type p))) (\<lambda>prov.
     bindE (q_ListAIServiceInstances E) (\<lambda>instances.
     bindE (aiCredentials E p) (\<lambda>creds.
     bindE (foldE (import_key_spend E p prov creds) (0, 0) instances) (\<lambda>(keys, tally).
     bindE (emitAIAudit E c ''ai_provider'' (p_ID p) ''spend_imported'' (Text ''LiteLLM spend imported'')
        [(''provider'', JStr (p_Name p)), (''keys'', JNum (of_count (int keys))), (''total_usd'', JNum tally)] []) (\<lambda>_.
     ret \<lparr>ls_ProviderName = p_Name p, ls_Keys = keys, ls_TotalUSD = tally\<rparr>)))))))"

section \<open>The contract of the importers\<close>

locale import_rel = usage_rel R for R :: "'w st \<Rightarrow> 'w st \<Rightarrow> bool" +
  assumes R_UpdateAIUsageRecordCost: "rel R (q_UpdateAIUsageRecordCost E k cost)"
begin

lemma rel_import_row: "rel R (import_row E p ps pe key usd flds acc)"
  unfolding import_row_def by (intro audit_rules R_CreateAIUsageRecord)

lemma rel_import_provider: "rel R (import_provider E name ty keys)"
  unfolding import_provider_def Let_def by (intro audit_rules)

lemma rel_ImportOpenAICosts: "rel R (ImportOpenAICosts E c name start stop)"
  unfolding ImportOpenAICosts_def Let_def import_openai_bucket_def import_openai_item_def
  by (intro audit_rules rel_import_provider rel_import_row)

lemma rel_anthropic_pages: "rel R (anthropic_pages E p names request n page acc)"
proof (induction n arbitrary: page acc)
  case (Suc n)
  show ?case
    unfolding anthropic_pages.simps import_anthropic_bucket_def import_anthropic_item_def
    by (intro audit_rules rel_import_row Suc)
qed (simp add: rel_ret)

lemma rel_ImportAnthropicCosts: "rel R (ImportAnthropicCosts E c name start stop)"
  unfolding ImportAnthropicCosts_def workspace_names_def
  by (intro audit_rules rel_import_provider rel_anthropic_pages)

lemma rel_ImportLiteLLMSpend: "rel R (ImportLiteLLMSpend E c name)"
proof -
  have "rel R (import_key_spend E p prov creds acc inst)" for p prov creds acc inst
    unfolding import_key_spend_def store_spend_def Let_def list.case_eq_if
    by (auto split: list.split prod.split intro!: audit_rules R_CreateAIUsageRecord R_UpdateAIUsageRecordCost)
  then show ?thesis
    unfolding ImportLiteLLMSpend_def by (intro audit_rules)
qed

lemmas import_rules = rel_ImportOpenAICosts rel_ImportAnthropicCosts rel_ImportLiteLLMSpend

end

end
