(* ===== verification/Pricing.thy ===== *)
theory Pricing
  imports GoNum
begin

text \<open>
  Pricing of a model call (\<open>internal/orchestrator/ai_pricing.go\<close>): the ordered price table, the
  match with its gate for the bare Claude family keywords, and the cost of a call. A decimal
  constant of the source is the \<open>float64\<close> nearest to it.
\<close>

record modelPrice =
  mp_match :: string
  mp_inPerM :: float64
  mp_outPerM :: float64

definition price :: "string \<Rightarrow> rat \<Rightarrow> rat \<Rightarrow> modelPrice" where
  "price m i out = \<lparr>mp_match = m, mp_inPerM = fl64 i, mp_outPerM = fl64 out\<rparr>"

definition aiModelPrices :: "modelPrice list" where
  "aiModelPrices =
    [price ''gpt-4o-mini'' (15/100) (6/10),
     price ''gpt-4o'' (25/10) 10,
     price ''gpt-4-turbo'' 10 30,
     price ''gpt-4.1-mini'' (4/10) (16/10),
     price ''gpt-4.1'' 2 8,
     price ''gpt-4'' 30 60,
     price ''gpt-3.5'' (5/10) (15/10),
     price ''o1-mini'' (11/10) (44/10),
     price ''o1'' 15 60,
     price ''o3-mini'' (11/10) (44/10),
     price ''o3'' 10 40,
     price ''claude-opus'' 15 75,
     price ''claude-sonnet'' 3 15,
     price ''claude-haiku'' (8/10) 4,
     price ''claude-3-opus'' 15 75,
     price ''claude-3-5-sonnet'' 3 15,
     price ''claude-3-haiku'' (25/100) (125/100),
     price ''claude-fable'' 5 25,
     price ''gemini-1.5-pro'' (125/100) 5,
     price ''gemini-1.5-flash'' (75/1000) (3/10),
     price ''gemini'' 1 3,
     price ''mock'' 0 0,
     price ''haiku'' (8/10) 4,
     price ''sonnet'' 3 15,
     price ''opus'' 15 75]"

definition claudeFamilyKeyword :: "string \<Rightarrow> bool" where
  "claudeFamilyKeyword m \<longleftrightarrow> m = ''haiku'' \<or> m = ''sonnet'' \<or> m = ''opus''"

definition aiDefaultPrice :: modelPrice where
  "aiDefaultPrice = price [] 1 3"

fun price_loop :: "string \<Rightarrow> modelPrice list \<Rightarrow> modelPrice" where
  "price_loop m [] = aiDefaultPrice"
| "price_loop m (p # ps) =
     (if mp_match p = [] \<or> \<not> Contains m (mp_match p) then price_loop m ps
      else if claudeFamilyKeyword (mp_match p) \<and> \<not> HasPrefix m ''claude'' then price_loop m ps
      else p)"

definition priceFor :: "string \<Rightarrow> modelPrice" where
  "priceFor model = price_loop (ToLower (TrimSpace model)) aiModelPrices"

definition estimateAICost :: "string \<Rightarrow> float64 \<Rightarrow> float64 \<Rightarrow> float64" where
  "estimateAICost model inTokens outTokens =
     (let p = priceFor model in
      fadd (fmul (fdiv inTokens 1000000) (mp_inPerM p)) (fmul (fdiv outTokens 1000000) (mp_outPerM p)))"

definition estimateAICostTotal :: "string \<Rightarrow> float64 \<Rightarrow> float64" where
  "estimateAICostTotal model totalTokens =
     (let p = priceFor model in
      fdiv (fmul (fdiv totalTokens 1000000) (fadd (mp_inPerM p) (mp_outPerM p))) 2)"

section \<open>What the match guarantees\<close>

lemma price_loop_cases:
  "price_loop m ps = aiDefaultPrice \<or>
   (price_loop m ps \<in> set ps \<and> mp_match (price_loop m ps) \<noteq> [] \<and> Contains m (mp_match (price_loop m ps))
    \<and> (claudeFamilyKeyword (mp_match (price_loop m ps)) \<longrightarrow> HasPrefix m ''claude''))"
  by (induction m ps rule: price_loop.induct) auto

lemma prices_nonneg: "p \<in> set (aiDefaultPrice # aiModelPrices) \<Longrightarrow> 0 \<le> mp_inPerM p \<and> 0 \<le> mp_outPerM p"
  by (auto simp: aiModelPrices_def aiDefaultPrice_def price_def)

lemma priceFor_nonneg: "0 \<le> mp_inPerM (priceFor m)" "0 \<le> mp_outPerM (priceFor m)"
  using price_loop_cases [of "ToLower (TrimSpace m)" aiModelPrices] prices_nonneg [of "priceFor m"]
  by (auto simp: priceFor_def)

definition applicable_name :: "string \<Rightarrow> string \<Rightarrow> bool" where
  "applicable_name m name \<longleftrightarrow> name \<noteq> [] \<and> Contains m name
     \<and> (claudeFamilyKeyword name \<longrightarrow> HasPrefix m ''claude'')"

definition applicable :: "string \<Rightarrow> modelPrice \<Rightarrow> bool" where
  "applicable m p \<longleftrightarrow> applicable_name m (mp_match p)"

text \<open>The loop returns the first applicable row, and the default only when there is none.\<close>

lemma price_loop_find:
  "price_loop m ps = (case List.find (applicable m) ps of None \<Rightarrow> aiDefaultPrice | Some p \<Rightarrow> p)"
  by (induction m ps rule: price_loop.induct) (auto simp: applicable_def applicable_name_def)

text \<open>The rows are ordered so that no row hides a later one: each name resolves to its own row, the
  three bare family keywords to the default price. The names alone decide it.\<close>

definition price_names :: "string list" where
  "price_names = [''gpt-4o-mini'', ''gpt-4o'', ''gpt-4-turbo'', ''gpt-4.1-mini'', ''gpt-4.1'', ''gpt-4'',
     ''gpt-3.5'', ''o1-mini'', ''o1'', ''o3-mini'', ''o3'', ''claude-opus'', ''claude-sonnet'',
     ''claude-haiku'', ''claude-3-opus'', ''claude-3-5-sonnet'', ''claude-3-haiku'', ''claude-fable'',
     ''gemini-1.5-pro'', ''gemini-1.5-flash'', ''gemini'', ''mock'', ''haiku'', ''sonnet'', ''opus'']"

lemma price_names: "map mp_match aiModelPrices = price_names"
  by (simp add: aiModelPrices_def price_names_def price_def)

lemma price_names_resolve:
  "list_all (\<lambda>m. List.find (applicable_name (ToLower (TrimSpace m))) price_names =
     (if claudeFamilyKeyword m then None else Some m)) price_names"
  by code_simp

lemma find_map_distinct:
  "distinct (map f ps) \<Longrightarrow> p \<in> set ps \<Longrightarrow> List.find P (map f ps) = Some (f p) \<Longrightarrow> List.find (\<lambda>q. P (f q)) ps = Some p"
  by (induction ps) (auto split: if_splits simp: image_iff dest: find_SomeD)

lemma find_map_None: "List.find P (map f ps) = None \<Longrightarrow> List.find (\<lambda>q. P (f q)) ps = None"
  by (induction ps) (auto split: if_splits)

lemma price_rows_reachable:
  assumes "p \<in> set aiModelPrices"
  shows "priceFor (mp_match p) = (if claudeFamilyKeyword (mp_match p) then aiDefaultPrice else p)"
proof -
  let ?m = "ToLower (TrimSpace (mp_match p))"
  have "distinct price_names" by (simp add: price_names_def)
  moreover have "mp_match p \<in> set price_names" using assms by (simp flip: price_names)
  with price_names_resolve have "List.find (applicable_name ?m) price_names
      = (if claudeFamilyKeyword (mp_match p) then None else Some (mp_match p))"
    by (simp add: list_all_iff)
  ultimately have "List.find (\<lambda>q. applicable_name ?m (mp_match q)) aiModelPrices =
      (if claudeFamilyKeyword (mp_match p) then None else Some p)"
    using assms find_map_distinct [of mp_match aiModelPrices p "applicable_name ?m"]
      find_map_None [of "applicable_name ?m" mp_match aiModelPrices]
    by (auto simp: price_names)
  then show ?thesis by (simp add: priceFor_def price_loop_find applicable_def [abs_def])
qed

lemma estimateAICost_nonneg: "0 \<le> i \<Longrightarrow> 0 \<le> out \<Longrightarrow> 0 \<le> estimateAICost m i out"
  by (simp add: estimateAICost_def Let_def fadd_nonneg fmul_nonneg fdiv_nonneg priceFor_nonneg)

lemma estimateAICost_mono:
  "i \<le> i' \<Longrightarrow> out \<le> out' \<Longrightarrow> estimateAICost m i out \<le> estimateAICost m i' out'"
  by (simp add: estimateAICost_def Let_def fadd_mono fmul_mono fdiv_mono priceFor_nonneg)

lemma estimateAICostTotal_nonneg: "0 \<le> n \<Longrightarrow> 0 \<le> estimateAICostTotal m n"
  by (simp add: estimateAICostTotal_def Let_def fadd_nonneg fmul_nonneg fdiv_nonneg priceFor_nonneg)

end
