(* ===== verification/Dlp.thy ===== *)
theory Dlp
  imports Json
begin

text \<open>
  Redaction of sensitive values at the gateway (\<open>internal/orchestrator/ai_dlp.go\<close>). The patterns
  are RE2 expressions; \<open>re_matches\<close> gives the ends of all matches of an expression at a position in
  the order RE2 prefers them, and \<open>replace_all\<close> is \<open>ReplaceAllStringFunc\<close>: leftmost matches,
  left to right, the first preference at each position. The counters of one redaction are an
  association list from pattern names to counts.
\<close>

section \<open>Regular expressions\<close>

text \<open>A position is the character before it (if any) and the text after it.\<close>

type_synonym pos = "char option \<times> string"

datatype re =
    Cls "char \<Rightarrow> bool"
  | Many nat "char \<Rightarrow> bool"
  | Opt "char \<Rightarrow> bool"
  | Boundary
  | Seq re re
  | Alt re re
  | Emp

definition word_char :: "char \<Rightarrow> bool" where
  "word_char c \<longleftrightarrow> (let n = (of_char c :: nat) in
     (48 \<le> n \<and> n \<le> 57) \<or> (65 \<le> n \<and> n \<le> 90) \<or> (97 \<le> n \<and> n \<le> 122) \<or> n = 95)"

definition at_boundary :: "pos \<Rightarrow> bool" where
  "at_boundary p = (case p of (prev, s) \<Rightarrow>
     (case prev of None \<Rightarrow> False | Some c \<Rightarrow> word_char c) \<noteq>
     (case s of [] \<Rightarrow> False | c # _ \<Rightarrow> word_char c))"

text \<open>Greedy repetition of a character class: the longest match first.\<close>

fun many :: "nat \<Rightarrow> (char \<Rightarrow> bool) \<Rightarrow> char option \<Rightarrow> string \<Rightarrow> pos list" where
  "many n f prev [] = (if n = 0 then [(prev, [])] else [])"
| "many n f prev (c # s) = (if f c then many (n - 1) f (Some c) s else []) @ (if n = 0 then [(prev, c # s)] else [])"

primrec re_matches :: "re \<Rightarrow> pos \<Rightarrow> pos list" where
  "re_matches (Cls f) p = (case p of (prev, []) \<Rightarrow> [] | (prev, c # s) \<Rightarrow> if f c then [(Some c, s)] else [])"
| "re_matches (Many n f) p = many n f (fst p) (snd p)"
| "re_matches (Opt f) p = (case p of (prev, []) \<Rightarrow> [p]
     | (prev, c # s) \<Rightarrow> if f c then [(Some c, s), p] else [p])"
| "re_matches Boundary p = (if at_boundary p then [p] else [])"
| "re_matches (Seq a b) p = concat (map (re_matches b) (re_matches a p))"
| "re_matches (Alt a b) p = re_matches a p @ re_matches b p"
| "re_matches Emp p = [p]"

definition lit :: "string \<Rightarrow> re" where
  "lit s = foldr (\<lambda>c r. Seq (Cls (\<lambda>d. d = c)) r) s Emp"

fun times :: "nat \<Rightarrow> re \<Rightarrow> re" where
  "times 0 r = Emp"
| "times (Suc n) r = Seq r (times n r)"

fun seqs :: "re list \<Rightarrow> re" where
  "seqs [] = Emp"
| "seqs (r # rs) = Seq r (seqs rs)"

section \<open>Character classes of the patterns\<close>

definition in_range :: "char \<Rightarrow> char \<Rightarrow> char \<Rightarrow> bool" where
  "in_range a b c \<longleftrightarrow> (of_char a :: nat) \<le> of_char c \<and> (of_char c :: nat) \<le> of_char b"

definition digit09 :: "char \<Rightarrow> bool" where "digit09 = in_range (CHR ''0'') (CHR ''9'')"
definition upper_digit :: "char \<Rightarrow> bool" where
  "upper_digit c \<longleftrightarrow> digit09 c \<or> in_range (CHR ''A'') (CHR ''Z'') c"
definition letter :: "char \<Rightarrow> bool" where
  "letter c \<longleftrightarrow> in_range (CHR ''A'') (CHR ''Z'') c \<or> in_range (CHR ''a'') (CHR ''z'') c"
definition alnum :: "char \<Rightarrow> bool" where "alnum c \<longleftrightarrow> letter c \<or> digit09 c"
definition token_char :: "char \<Rightarrow> bool" where
  "token_char c \<longleftrightarrow> alnum c \<or> c = CHR ''_'' \<or> c = CHR ''-''"
definition local_char :: "char \<Rightarrow> bool" where
  "local_char c \<longleftrightarrow> alnum c \<or> c \<in> {CHR ''.'', CHR ''_'', CHR 0x25, CHR ''+'', CHR ''-''}"
definition domain_char :: "char \<Rightarrow> bool" where
  "domain_char c \<longleftrightarrow> alnum c \<or> c = CHR ''.'' \<or> c = CHR ''-''"
definition separator :: "char \<Rightarrow> bool" where
  "separator c \<longleftrightarrow> c = CHR '' '' \<or> c = CHR ''-''"

section \<open>The patterns\<close>

definition dlpPatterns :: "(string \<times> re) list" where
  "dlpPatterns =
    [(''aws_access_key'', seqs [Boundary, Alt (lit ''AKIA'') (lit ''ASIA''), times 16 (Cls upper_digit), Boundary]),
     (''private_key'', seqs [lit ''-----BEGIN '',
        Alt (lit ''RSA '') (Alt (lit ''EC '') (Alt (lit ''OPENSSH '') Emp)), lit ''PRIVATE KEY-----'']),
     (''anthropic_key'', seqs [Boundary, lit ''sk-ant-'', Many 20 token_char, Boundary]),
     (''openai_key'', seqs [Boundary, lit ''sk-'', Many 20 token_char, Boundary]),
     (''github_token'', seqs [Boundary, lit ''gh'', Cls (\<lambda>c. c \<in> set ''pousr''), lit ''_'', Many 20 alnum, Boundary]),
     (''jwt'', seqs [Boundary, lit ''eyJ'', Many 10 token_char, lit ''.'', Many 10 token_char, lit ''.'',
        Many 10 token_char, Boundary]),
     (''ssn'', seqs [Boundary, times 3 (Cls digit09), lit ''-'', times 2 (Cls digit09), lit ''-'',
        times 4 (Cls digit09), Boundary]),
     (''email'', seqs [Boundary, Many 1 local_char, lit [CHR 0x40], Many 1 domain_char, lit ''.'',
        Many 2 letter, Boundary])]"

definition creditCardRe :: re where
  "creditCardRe = Alt
     (seqs [Boundary, times 3 (Seq (times 4 (Cls digit09)) (Opt separator)), times 4 (Cls digit09), Boundary])
     (seqs [Boundary, times 4 (Cls digit09), Opt separator, times 6 (Cls digit09), Opt separator,
        times 5 (Cls digit09), Boundary])"

section \<open>Replacing matches\<close>

type_synonym hits = "(string \<times> nat) list"

definition hit :: "string \<Rightarrow> hits \<Rightarrow> hits" where
  "hit k h = AList.update k (Suc (case map_of h k of None \<Rightarrow> 0 | Some n \<Rightarrow> n)) h"

text \<open>What a match is replaced by: \<open>None\<close> leaves the matched text.\<close>

type_synonym verdict = "string \<Rightarrow> string option"

text \<open>The text after the first preferred match at a position, when it is not empty.\<close>

definition match_end :: "re \<Rightarrow> char option \<Rightarrow> string \<Rightarrow> string option" where
  "match_end r prev s = (case re_matches r (prev, s) of
     [] \<Rightarrow> None
   | (q, t) # _ \<Rightarrow> if length t < length s then Some t else None)"

function replace_all :: "re \<Rightarrow> string \<Rightarrow> verdict \<Rightarrow> char option \<Rightarrow> string \<Rightarrow> hits \<Rightarrow> string \<times> hits" where
  "replace_all r name f prev s h =
     (case match_end r prev s of
        Some t \<Rightarrow>
          let m = take (length s - length t) s in
          (case f m of
             Some token \<Rightarrow> (case replace_all r name f (Some (last m)) t (hit name h) of (o', h') \<Rightarrow> (token @ o', h'))
           | None \<Rightarrow> (case replace_all r name f (Some (last m)) t h of (o', h') \<Rightarrow> (m @ o', h')))
      | None \<Rightarrow>
          (case s of
             [] \<Rightarrow> ([], h)
           | c # s' \<Rightarrow> (case replace_all r name f (Some c) s' h of (o', h') \<Rightarrow> (c # o', h'))))"
  by pat_completeness auto
termination
  by (relation "measure (\<lambda>(r, name, f, prev, s, h). length s)")
     (auto simp: match_end_def split: list.splits prod.splits if_splits)

declare replace_all.simps [simp del]

definition token_for :: "string \<Rightarrow> string" where
  "token_for name = ''[REDACTED:'' @ name @ '']''"

section \<open>The Luhn check\<close>

definition luhn_digit :: "bool \<Rightarrow> nat \<Rightarrow> nat" where
  "luhn_digit alt d = (if alt then (if 9 < 2 * d then 2 * d - 9 else 2 * d) else d)"

text \<open>The loop runs from the last character to the first.\<close>

fun luhn_loop :: "string \<Rightarrow> bool \<Rightarrow> nat \<Rightarrow> nat \<Rightarrow> nat \<times> nat" where
  "luhn_loop [] alt tally n = (tally, n)"
| "luhn_loop (c # cs) alt tally n =
     (if \<not> digit09 c then luhn_loop cs alt tally n
      else luhn_loop cs (\<not> alt) (tally + luhn_digit alt (of_char c - 48)) (Suc n))"

definition luhnValid :: "string \<Rightarrow> bool" where
  "luhnValid s = (case luhn_loop (rev s) False 0 0 of (tally, n) \<Rightarrow> 13 \<le> n \<and> tally mod 10 = 0)"

section \<open>Redacting a payload\<close>

fun redact_patterns :: "(string \<times> re) list \<Rightarrow> string \<Rightarrow> hits \<Rightarrow> string \<times> hits" where
  "redact_patterns [] s h = (s, h)"
| "redact_patterns ((name, r) # ps) s h =
     (case replace_all r name (\<lambda>_. Some (token_for name)) None s h of (s', h') \<Rightarrow> redact_patterns ps s' h')"

definition card_verdict :: verdict where
  "card_verdict m = (if luhnValid m then Some (token_for ''credit_card'') else None)"

definition redactDLPString :: "string \<Rightarrow> hits \<Rightarrow> string \<times> hits" where
  "redactDLPString s h =
     (case redact_patterns dlpPatterns s h of (s', h') \<Rightarrow>
        replace_all creditCardRe ''credit_card'' card_verdict None s' h')"

fun walkRedact :: "json \<Rightarrow> hits \<Rightarrow> json \<times> hits"
  and walk_list :: "json list \<Rightarrow> hits \<Rightarrow> json list \<times> hits"
  and walk_obj :: "(string \<times> json) list \<Rightarrow> hits \<Rightarrow> (string \<times> json) list \<times> hits" where
  "walkRedact (JStr s) h = (case redactDLPString s h of (s', h') \<Rightarrow> (JStr s', h'))"
| "walkRedact (JArr vs) h = (case walk_list vs h of (vs', h') \<Rightarrow> (JArr vs', h'))"
| "walkRedact (JObj kvs) h = (case walk_obj kvs h of (kvs', h') \<Rightarrow> (JObj kvs', h'))"
| "walkRedact v h = (v, h)"
| "walk_list [] h = ([], h)"
| "walk_list (v # vs) h = (case walkRedact v h of (v', h') \<Rightarrow>
     (case walk_list vs h' of (vs', h'') \<Rightarrow> (v' # vs', h'')))"
| "walk_obj [] h = ([], h)"
| "walk_obj ((k, v) # kvs) h = (case walkRedact v h of (v', h') \<Rightarrow>
     (case walk_obj kvs h' of (kvs', h'') \<Rightarrow> ((k, v') # kvs', h'')))"

text \<open>The flag is false when the redacted document cannot be encoded; a document that was decoded
  always can.\<close>

definition redactDLP :: "payload \<Rightarrow> payload \<times> hits \<times> bool" where
  "redactDLP p = (case p of
     Bytes b \<Rightarrow> (p, [], True)
   | Doc j \<Rightarrow> (case walkRedact j [] of (j', h) \<Rightarrow> if h = [] then (p, h, True) else (Doc j', h, True)))"

definition truthy :: "json option \<Rightarrow> bool" where
  "truthy v = (case v of Some (JBool b) \<Rightarrow> b | Some (JStr s) \<Rightarrow> EqualFold (TrimSpace s) ''true'' | _ \<Rightarrow> False)"

definition dlpEnabled :: "obj \<Rightarrow> bool" where
  "dlpEnabled cfg \<longleftrightarrow> list_ex (\<lambda>k. truthy (map_of cfg k)) [''dlp'', ''dlp_redaction'']"

section \<open>The Luhn check detects a mistyped digit\<close>

lemma luhn_loop_acc:
  "luhn_loop cs alt t n = (t + fst (luhn_loop cs alt 0 0), n + snd (luhn_loop cs alt 0 0))"
proof (induction cs arbitrary: alt t n)
  case (Cons c cs)
  show ?case
    using Cons [of alt t n] Cons [of "\<not> alt" "t + luhn_digit alt (of_char c - 48)" "Suc n"]
      Cons [of "\<not> alt" "luhn_digit alt (of_char c - 48)" 1]
    by (simp split: prod.splits)
qed simp

fun alt_after :: "bool \<Rightarrow> string \<Rightarrow> bool" where
  "alt_after alt [] = alt"
| "alt_after alt (c # cs) = alt_after (if digit09 c then \<not> alt else alt) cs"

lemma luhn_loop_append:
  "luhn_loop (a @ b) alt t n =
     luhn_loop b (alt_after alt a) (fst (luhn_loop a alt t n)) (snd (luhn_loop a alt t n))"
  by (induction a alt t n rule: luhn_loop.induct) auto

lemma luhn_digit_less: "d < 10 \<Longrightarrow> luhn_digit alt d < 10"
  by (auto simp: luhn_digit_def)

lemma luhn_digit_inj:
  assumes "d < 10" "d' < 10" "luhn_digit alt d mod 10 = luhn_digit alt d' mod 10"
  shows "d = d'"
proof -
  have "luhn_digit alt d = luhn_digit alt d'"
    using assms luhn_digit_less [of d alt] luhn_digit_less [of d' alt] by simp
  then show ?thesis
    by (cases alt; cases "9 < 2 * d"; cases "9 < 2 * d'") (simp_all add: luhn_digit_def, presburger+)
qed

lemma mod_shift: "(t + a + r) mod 10 = 0 \<Longrightarrow> (t + b + r) mod 10 = 0 \<Longrightarrow> a mod 10 = b mod (10::nat)"
proof -
  assume "(t + a + r) mod 10 = 0" "(t + b + r) mod 10 = 0"
  then obtain k l where "t + a + r = 10 * k" "t + b + r = 10 * l" by (auto elim!: dvdE simp flip: dvd_eq_mod_eq_0)
  then have "a + 10 * l = b + 10 * k" by linarith
  then have "(a + 10 * l) mod 10 = (b + 10 * k) mod 10" by simp
  then show ?thesis by simp
qed

lemma digit09_value: "digit09 c \<Longrightarrow> 48 \<le> (of_char c :: nat) \<and> (of_char c :: nat) - 48 < 10"
  by (simp add: digit09_def in_range_def) linarith

lemma luhn_single_digit:
  assumes "luhnValid (a @ c # b)" "digit09 c" "digit09 c'" "c' \<noteq> c"
  shows "\<not> luhnValid (a @ c' # b)"
proof
  assume valid': "luhnValid (a @ c' # b)"
  define alt where "alt = alt_after False (rev b)"
  define t where "t = fst (luhn_loop (rev b) False 0 0)"
  define n where "n = snd (luhn_loop (rev b) False 0 0)"
  define r where "r = fst (luhn_loop (rev a) (\<not> alt) 0 0)"
  have sum: "fst (luhn_loop (rev (a @ x # b)) False 0 0) = t + luhn_digit alt (of_char x - 48) + r"
    if "digit09 x" for x
  proof -
    have "luhn_loop (rev (a @ x # b)) False 0 0 = luhn_loop (x # rev a) alt t n"
      using luhn_loop_append [of "rev b" "x # rev a" False 0 0] by (simp add: alt_def t_def n_def)
    also have "\<dots> = luhn_loop (rev a) (\<not> alt) (t + luhn_digit alt (of_char x - 48)) (Suc n)"
      using that by simp
    finally show ?thesis
      by (subst (asm) luhn_loop_acc) (simp add: r_def)
  qed
  have "(t + luhn_digit alt (of_char c - 48) + r) mod 10 = 0"
    "(t + luhn_digit alt (of_char c' - 48) + r) mod 10 = 0"
    using assms(1) valid' sum [OF assms(2)] sum [OF assms(3)]
    by (auto simp: luhnValid_def split: prod.splits)
  then have "luhn_digit alt (of_char c - 48) mod 10 = luhn_digit alt (of_char c' - 48) mod 10"
    by (rule mod_shift)
  then have "(of_char c :: nat) - 48 = of_char c' - 48"
    using luhn_digit_inj digit09_value assms(2,3) by blast
  then have "(of_char c :: nat) = of_char c'"
    using digit09_value [OF assms(2)] digit09_value [OF assms(3)] by linarith
  with assms(4) show False by simp
qed

section \<open>Redaction touches only what it counts\<close>

definition hits_total :: "hits \<Rightarrow> nat" where
  "hits_total h = sum_list (map snd h)"

lemma hits_total_hit [simp]: "hits_total (hit k h) = Suc (hits_total h)"
proof -
  have "sum_list (map snd (AList.update k v h)) + (case map_of h k of None \<Rightarrow> 0 | Some n \<Rightarrow> n)
      = sum_list (map snd h) + v" for v
    by (induction h) auto
  from this [of "Suc (case map_of h k of None \<Rightarrow> 0 | Some n \<Rightarrow> n)"] show ?thesis
    by (simp add: hits_total_def hit_def)
qed

text \<open>A pass either counts at least one hit, or returns the text and the counters it was given.\<close>

definition honest :: "'a \<Rightarrow> 'a \<Rightarrow> hits \<Rightarrow> hits \<Rightarrow> bool" where
  "honest x x' h h' \<longleftrightarrow> hits_total h < hits_total h' \<or> (h' = h \<and> x' = x)"

lemma match_end_suffix: "match_end r prev s = Some t \<Longrightarrow> length t < length s"
  by (auto simp: match_end_def split: list.splits prod.splits if_splits)

lemma many_suffix: "(q, t) \<in> set (many n f prev s) \<Longrightarrow> suffix t s"
  by (induction n f prev s rule: many.induct) (auto split: if_splits intro: suffix_ConsI)

lemma re_matches_suffix: "(q, t) \<in> set (re_matches r p) \<Longrightarrow> suffix t (snd p)"
proof (induction r arbitrary: p q t)
  case (Many n f)
  then show ?case using many_suffix by (cases p) auto
next
  case (Seq a b)
  then obtain p' where "p' \<in> set (re_matches a p)" "(q, t) \<in> set (re_matches b p')" by auto
  then show ?case using Seq.IH by (metis prod.collapse suffix_order.order_trans)
next
  case (Opt f)
  then show ?case by (cases p; cases "snd p") (auto split: if_splits intro: suffix_ConsI)
next
  case (Cls f)
  then show ?case by (cases p; cases "snd p") (auto split: if_splits intro: suffix_ConsI)
qed (auto split: if_splits)

lemma match_end_split: "match_end r prev s = Some t \<Longrightarrow> take (length s - length t) s @ t = s"
proof -
  assume m: "match_end r prev s = Some t"
  then obtain q where "(q, t) \<in> set (re_matches r (prev, s))"
    by (auto simp: match_end_def split: list.splits prod.splits if_splits)
  then have "suffix t s" using re_matches_suffix by fastforce
  then show ?thesis by (auto simp: suffix_def)
qed

lemma replace_all_honest:
  "replace_all r name f prev s h = (s', h') \<Longrightarrow> honest s s' h h'"
proof (induction r name f prev s h arbitrary: s' h' rule: replace_all.induct)
  case (1 r name f prev s h)
  show ?case
  proof (cases "match_end r prev s")
    case None
    with 1 show ?thesis
      by (cases s) (auto simp: honest_def replace_all.simps [of r name f prev] split: prod.splits)
  next
    case (Some t)
    let ?m = "take (length s - length t) s"
    show ?thesis
    proof (cases "f ?m")
      case None
      with Some "1.prems" obtain o' where o': "replace_all r name f (Some (last ?m)) t h = (o', h')" "s' = ?m @ o'"
        by (auto simp: replace_all.simps [of r name f prev] Let_def split: prod.splits)
      from "1.IH"(2) [OF Some refl None o'(1)] o'(2) match_end_split [OF Some] show ?thesis
        by (auto simp: honest_def)
    next
      case (Some token)
      with \<open>match_end r prev s = Some t\<close> "1.prems" obtain o' where
        o': "replace_all r name f (Some (last ?m)) t (hit name h) = (o', h')"
        by (auto simp: replace_all.simps [of r name f prev] Let_def split: prod.splits)
      from "1.IH"(3) [OF \<open>match_end r prev s = Some t\<close> refl Some o'] show ?thesis
        by (auto simp: honest_def)
    qed
  qed
qed

lemma honest_refl: "honest x x h h"
  by (simp add: honest_def)

lemma honest_trans: "honest x y h h' \<Longrightarrow> honest y z h' h'' \<Longrightarrow> honest x z h h''"
  by (auto simp: honest_def)

lemma redact_patterns_honest: "redact_patterns ps s h = (s', h') \<Longrightarrow> honest s s' h h'"
  by (induction ps s h arbitrary: s' h' rule: redact_patterns.induct)
     (auto simp: honest_refl split: prod.splits intro: honest_trans [OF replace_all_honest])

lemma redactDLPString_honest: "redactDLPString s h = (s', h') \<Longrightarrow> honest s s' h h'"
  by (auto simp: redactDLPString_def split: prod.splits
      intro: honest_trans [OF redact_patterns_honest replace_all_honest])

lemma walkRedact_honest:
  "walkRedact j h = (j', h') \<Longrightarrow> honest j j' h h'"
  "walk_list vs h = (vs', h') \<Longrightarrow> honest vs vs' h h'"
  "walk_obj kvs h = (kvs', h') \<Longrightarrow> honest kvs kvs' h h'"
proof (induction j h and vs h and kvs h arbitrary: j' h' and vs' h' and kvs' h'
    rule: walkRedact_walk_list_walk_obj.induct)
  case (1 s h)
  then show ?case by (auto simp: honest_def split: prod.splits dest!: redactDLPString_honest)
qed (fastforce simp: honest_def split: prod.splits)+

text \<open>The shape of a document: everything but the contents of its strings.\<close>

fun shape :: "json \<Rightarrow> json" where
  "shape (JStr s) = JStr []"
| "shape (JArr vs) = JArr (map shape vs)"
| "shape (JObj kvs) = JObj (map (\<lambda>(k, v). (k, shape v)) kvs)"
| "shape v = v"

lemma walkRedact_shape:
  "shape (fst (walkRedact j h)) = shape j"
  "map shape (fst (walk_list vs h)) = map shape vs"
  "map (\<lambda>(k, v). (k, shape v)) (fst (walk_obj kvs h)) = map (\<lambda>(k, v). (k, shape v)) kvs"
  by (induction j h and vs h and kvs h rule: walkRedact_walk_list_walk_obj.induct)
     (auto split: prod.splits)

end
