(* ===== verification/Gateway.thy ===== *)
theory Gateway
  imports CostImport Pricing Dlp
begin

text \<open>
  The gateways (\<open>internal/orchestrator/ai_governance.go\<close>): a model call is checked against the
  budgets, redacted, forwarded with the provider's inference key and metered.
\<close>

record AIGatewayResponse =
  gr_StatusCode :: nat
  gr_ContentType :: string
  gr_Body :: payload

section \<open>Metering\<close>

record GatewayUsage =
  gu_Model :: string
  gu_Input :: float64
  gu_Output :: float64
  gu_Total :: float64

text \<open>The usage block with its aliases resolved.\<close>

definition dec_gateway_usage :: "json \<Rightarrow> GatewayUsage option" where
  "dec_gateway_usage = dec_struct (\<lambda>m.
     Option.bind (dec_string ''model'' m []) (\<lambda>model.
     Option.bind (dec_field (dec_struct (\<lambda>u.
        Option.bind (dec_num ''input_tokens'' u 0) (\<lambda>i. Option.bind (dec_num ''output_tokens'' u 0) (\<lambda>out.
        Option.bind (dec_num ''total_tokens'' u 0) (\<lambda>t. Option.bind (dec_num ''prompt_tokens'' u 0) (\<lambda>pt.
        Option.bind (dec_num ''completion_tokens'' u 0) (\<lambda>ct. Some (i, out, t, pt, ct)))))))) ''usage'' m (0, 0, 0, 0, 0))
        (\<lambda>(i, out, t, pt, ct).
     let i' = (if i = 0 then pt else i); out' = (if out = 0 then ct else out);
         t' = (if t = 0 then fadd i' out' else t) in
     Some \<lparr>gu_Model = model, gu_Input = i', gu_Output = out', gu_Total = t'\<rparr>)))"

definition gateway_cost :: "GatewayUsage \<Rightarrow> float64" where
  "gateway_cost u = (if gu_Input u = 0 \<and> gu_Output u = 0 then estimateAICostTotal (gu_Model u) (gu_Total u)
     else estimateAICost (gu_Model u) (gu_Input u) (gu_Output u))"

definition recordGatewayUsage :: "'w env \<Rightarrow> uuid \<Rightarrow> err + payload \<Rightarrow> ('w st, unit) op" where
  "recordGatewayUsage E provider body =
     (case decode_body dec_gateway_usage body of
        None \<Rightarrow> ret ()
      | Some u \<Rightarrow>
          if gu_Total u = 0 then ret ()
          else bindE (gets st_now) (\<lambda>now.
            ignore (q_CreateAIUsageRecord E None provider now now ''tokens'' (gu_Total u) ''tokens'' (gateway_cost u)
              (JObj [(''source'', JStr ''opord_gateway_lite''), (''model'', JStr (gu_Model u)),
                (''input_tokens'', JNum (gu_Input u)), (''output_tokens'', JNum (gu_Output u)),
                (''cost_basis'', JStr ''estimated'')]))))"

section \<open>Redaction\<close>

definition applyGatewayDLP :: "'w env \<Rightarrow> ctx \<Rightarrow> AiProvider \<Rightarrow> obj \<Rightarrow> payload \<Rightarrow> ('w st, payload) op" where
  "applyGatewayDLP E c p cfg pl =
     (if \<not> dlpEnabled cfg then ret pl
      else (case redactDLP pl of (redacted, h, ok) \<Rightarrow>
        let n = hits_total h in
        if \<not> ok then
          bindE (emitAIAudit E c ''ai_gateway'' 0 ''dlp_redaction_failed''
             (TextN ''sensitive values could not be redacted - request blocked'' (int n))
             [(''provider'', JStr (p_Name p)), (''total'', JNum (of_count (int n)))] []) (\<lambda>_.
          fail (Blocked [RDlp]))
        else if h = [] then ret pl
        else
          bindE (emitAIAudit E c ''ai_gateway'' 0 ''dlp_redacted''
             (TextN ''sensitive values redacted before forwarding'' (int n))
             ([(''provider'', JStr (p_Name p))] @ map (\<lambda>(k, v). (k, JNum (of_count (int v)))) h
               @ [(''total'', JNum (of_count (int n)))]) []) (\<lambda>_.
          ret redacted)))"

section \<open>Forwarding\<close>

text \<open>What both gateways do once the request is built.\<close>

definition forward :: "'w env \<Rightarrow> ctx \<Rightarrow> AiProvider \<Rightarrow> string \<Rightarrow> HttpRequest \<Rightarrow> ('w st, AIGatewayResponse) op" where
  "forward E c p label req =
     bindE (guardE (env_url_ok E (hq_URL req)) (Msg ''invalid url'')) (\<lambda>_.
     bindE (attempt (on_world (env_http E req))) (\<lambda>r.
     case r of
       Inl e \<Rightarrow> bindE (emitAIAudit E c ''ai_gateway'' 0 ''request_failed'' (ErrorText e)
                  [(''provider'', JStr (p_Name p))] []) (\<lambda>_. fail (Wrap (ToLower label @ '' gateway request failed'') e))
     | Inr resp \<Rightarrow>
         (case hr_Body resp of
            Inl e \<Rightarrow> fail (Wrap (''reading '' @ ToLower label @ '' gateway response'') e)
          | Inr body \<Rightarrow>
              let ct = (if hr_ContentType resp = [] then ''application/json'' else hr_ContentType resp);
                  flds = [(''provider'', JStr (p_Name p)), (''status_code'', JNum (of_count (int (hr_StatusCode resp))))] in
              bindE (if status_ok resp then
                  bindE (recordGatewayUsage E (p_ID p) (hr_Body resp)) (\<lambda>_.
                  emitAIAudit E c ''ai_gateway'' 0 ''request_completed'' (Text (label @ '' gateway request completed'')) flds [])
                else emitAIAudit E c ''ai_gateway'' 0 ''request_rejected''
                  (Text (label @ '' gateway request returned an error'')) flds []) (\<lambda>_.
              ret \<lparr>gr_StatusCode = hr_StatusCode resp, gr_ContentType = ct, gr_Body = body\<rparr>))))"

text \<open>What both gateways do before it: the provider, its type, its inference key and the gate.\<close>

definition gateway_provider :: "'w env \<Rightarrow> ctx \<Rightarrow> string \<Rightarrow> string \<Rightarrow> string list \<Rightarrow> ('w st, AiProvider \<times> string) op" where
  "gateway_provider E c name ty keys =
     bindE (wrap ''ai provider not found'' (q_GetAIProviderByName E name)) (\<lambda>p.
     bindE (guardE (p_Type p = ty) (BadStatus (p_Name p) (p_Type p))) (\<lambda>_.
     bindE (aiCredentials E p) (\<lambda>creds.
     let key = firstNonEmpty (map (kv_at creds) keys) in
     bindE (guardE (key \<noteq> []) (Msg ''inference api key missing in secret_ref'')) (\<lambda>_.
     bindE (evaluateGatewayBudget E c (p_Name p)) (\<lambda>_.
     ret (p, key))))))"

definition openai_responses_request :: "obj \<Rightarrow> string \<Rightarrow> payload \<Rightarrow> HttpRequest" where
  "openai_responses_request cfg key pl =
     \<lparr>hq_Method = ''POST'', hq_URL = trim_slashes (base_url cfg ''https://api.openai.com'') @ ''/v1/responses'',
      hq_Query = [], hq_Headers = [(''Authorization'', ''Bearer '' @ key), (''Content-Type'', ''application/json'')],
      hq_Body = Some pl\<rparr>"

definition anthropic_messages_request :: "obj \<Rightarrow> string \<Rightarrow> payload \<Rightarrow> HttpRequest" where
  "anthropic_messages_request cfg key pl =
     \<lparr>hq_Method = ''POST'', hq_URL = trim_slashes (base_url cfg ''https://api.anthropic.com'') @ ''/v1/messages'',
      hq_Query = [],
      hq_Headers = [(''x-api-key'', key),
        (''anthropic-version'', case str_at cfg ''anthropic_version'' of
            Some v \<Rightarrow> if TrimSpace v \<noteq> [] then TrimSpace v else ''2023-06-01'' | None \<Rightarrow> ''2023-06-01''),
        (''Content-Type'', ''application/json'')],
      hq_Body = Some pl\<rparr>"

definition GatewayOpenAIResponses :: "'w env \<Rightarrow> ctx \<Rightarrow> string \<Rightarrow> payload \<Rightarrow> ('w st, AIGatewayResponse) op" where
  "GatewayOpenAIResponses E c providerName pl =
     bindE (gateway_provider E c (or_default ''openai-main'' providerName) ''openai''
        [''api_key'', ''openai_api_key'', ''token'']) (\<lambda>(p, key).
     bindE (applyGatewayDLP E c p (aiProviderConfig p) pl) (\<lambda>pl'.
     forward E c p ''OpenAI'' (openai_responses_request (aiProviderConfig p) key pl')))"

definition GatewayAnthropicMessages :: "'w env \<Rightarrow> ctx \<Rightarrow> string \<Rightarrow> payload \<Rightarrow> ('w st, AIGatewayResponse) op" where
  "GatewayAnthropicMessages E c providerName pl =
     bindE (gateway_provider E c (or_default ''anthropic-main'' providerName) ''anthropic''
        [''api_key'', ''anthropic_api_key'', ''token'']) (\<lambda>(p, key).
     bindE (applyGatewayDLP E c p (aiProviderConfig p) pl) (\<lambda>pl'.
     forward E c p ''Anthropic'' (anthropic_messages_request (aiProviderConfig p) key pl')))"

section \<open>The gateways under the importers' contract\<close>

context usage_rel
begin

lemma rel_recordGatewayUsage: "rel R (recordGatewayUsage E p body)"
  unfolding recordGatewayUsage_def by (intro audit_rules R_CreateAIUsageRecord)

lemma rel_applyGatewayDLP: "rel R (applyGatewayDLP E c p cfg pl)"
  unfolding applyGatewayDLP_def Let_def by (intro audit_rules)

lemma rel_forward: "rel R (forward E c p label req)"
  unfolding forward_def Let_def by (intro audit_rules rel_recordGatewayUsage)

lemma rel_gateway_provider: "rel R (gateway_provider E c name ty keys)"
  unfolding gateway_provider_def Let_def by (intro audit_rules rel_evaluateGatewayBudget)

lemma rel_gateways:
  "rel R (GatewayOpenAIResponses E c name pl)" "rel R (GatewayAnthropicMessages E c name pl)"
  unfolding GatewayOpenAIResponses_def GatewayAnthropicMessages_def
  by (intro audit_rules rel_gateway_provider rel_applyGatewayDLP rel_forward)+

end

end
