(* ===== verification/Mcp.thy ===== *)
theory Mcp
  imports Service
begin

text \<open>
  Governance of MCP servers (\<open>internal/orchestrator/mcp.go\<close>): the registry, the life of a grant
  (requested, active, revoked, rejected) and the authorization an agent runtime asks for before it
  connects. Every decision is written to the audit log.
\<close>

section \<open>The registry\<close>

record MCPServerInput =
  mi_Name :: string
  mi_Transport :: string
  mi_Endpoint :: string
  mi_Description :: string
  mi_RiskTier :: string
  mi_AllowedTools :: "string list"

definition RegisterMCPServer :: "'w env \<Rightarrow> ctx \<Rightarrow> MCPServerInput \<Rightarrow> ('w st, McpServer) op" where
  "RegisterMCPServer E c i =
     (let name = TrimSpace (mi_Name i);
          transport0 = ToLower (TrimSpace (mi_Transport i));
          transport = (if transport0 = [] then ''stdio'' else transport0);
          risk0 = ToLower (TrimSpace (mi_RiskTier i));
          risk = (if risk0 = [] then ''medium'' else risk0) in
      bindE (guardE (name \<noteq> []) (Msg ''mcp server name is required'')) (\<lambda>_.
      bindE (wrap ''registering mcp server'' (q_CreateMCPServer E name transport (TrimSpace (mi_Endpoint i))
         (TrimSpace (mi_Description i)) risk (JArr (map JStr (mi_AllowedTools i))) (tenantForCreate c))) (\<lambda>srv.
      bindE (emitAIAudit E c ''mcp_server'' (ms_ID srv) ''registered'' (Text ''MCP server registered'')
         [(''name'', JStr name), (''transport'', JStr transport), (''risk_tier'', JStr risk)] []) (\<lambda>_.
      ret srv))))"

definition ListMCPServers :: "'w env \<Rightarrow> ctx \<Rightarrow> ('w st, McpServer list) op" where
  "ListMCPServers E c = bindE (wrap ''listing mcp servers'' (q_ListMCPServers E))
     (\<lambda>rows. ret (visible_rows c ms_TenantID rows))"

definition SetMCPServerStatus :: "'w env \<Rightarrow> ctx \<Rightarrow> string \<Rightarrow> string \<Rightarrow> ('w st, McpServer) op" where
  "SetMCPServerStatus E c name status =
     bindE (wrap ''mcp server not found'' (q_GetMCPServerByName E name)) (\<lambda>srv.
     bindE (q_UpdateMCPServerStatus E (ms_ID srv) status) (\<lambda>updated.
     bindE (emitAIAudit E c ''mcp_server'' (ms_ID srv) ''status_changed'' (Text ''MCP server status changed'')
        [(''name'', JStr name), (''status'', JStr status)] []) (\<lambda>_.
     ret updated)))"

definition DeleteMCPServer :: "'w env \<Rightarrow> ctx \<Rightarrow> string \<Rightarrow> ('w st, unit) op" where
  "DeleteMCPServer E c name =
     bindE (wrap ''mcp server not found'' (q_GetMCPServerByName E name)) (\<lambda>srv.
     bindE (q_DeleteMCPServer E (ms_ID srv)) (\<lambda>_.
     emitAIAudit E c ''mcp_server'' (ms_ID srv) ''deleted'' (Text ''MCP server deleted'') [(''name'', JStr name)] []))"

section \<open>Grants\<close>

definition grant_fields :: "string \<Rightarrow> string \<Rightarrow> McpServer \<Rightarrow> obj" where
  "grant_fields server owner srv = [(''server'', JStr server), (''owner'', JStr owner), (''risk_tier'', JStr (ms_RiskTier srv))]"

definition GrantMCPAccess ::
  "'w env \<Rightarrow> ctx \<Rightarrow> string \<Rightarrow> string \<Rightarrow> time option \<Rightarrow> string \<Rightarrow> ('w st, McpGrant) op" where
  "GrantMCPAccess E c server owner0 expires grantedBy =
     (let owner = TrimSpace owner0 in
      bindE (guardE (owner \<noteq> []) (Msg ''owner is required'')) (\<lambda>_.
      bindE (wrap ''mcp server not found'' (q_GetMCPServerByName E server)) (\<lambda>srv.
      bindE (guardE (ms_Status srv = ''active'') (BadStatus server (ms_Status srv))) (\<lambda>_.
      bindE (attempt (q_FindActiveMCPGrant E (ms_ID srv) owner)) (\<lambda>found.
      case found of
        Inr existing \<Rightarrow> ret existing
      | Inl _ \<Rightarrow>
          bindE (wrap ''granting mcp access'' (q_CreateMCPGrant E (ms_ID srv) owner expires grantedBy
             (tenantForCreate c) ''active'')) (\<lambda>grant.
          bindE (emitAIAudit E c ''mcp_grant'' (g_ID grant) ''granted'' (Text ''MCP access granted'')
             (grant_fields server owner srv) grantedBy) (\<lambda>_.
          ret grant)))))))"

definition RequestMCPAccess :: "'w env \<Rightarrow> ctx \<Rightarrow> string \<Rightarrow> string \<Rightarrow> string \<Rightarrow> ('w st, McpGrant) op" where
  "RequestMCPAccess E c server owner0 requester =
     (let owner = TrimSpace owner0 in
      bindE (guardE (owner \<noteq> []) (Msg ''owner is required'')) (\<lambda>_.
      bindE (wrap ''mcp server not found'' (q_GetMCPServerByName E server)) (\<lambda>srv.
      bindE (attempt (q_FindLatestMCPGrant E (ms_ID srv) owner)) (\<lambda>found.
      let create =
          bindE (wrap ''requesting mcp access'' (q_CreateMCPGrant E (ms_ID srv) owner None requester
             (tenantForCreate c) ''requested'')) (\<lambda>grant.
          bindE (emitAIAudit E c ''mcp_grant'' (g_ID grant) ''requested'' (Text ''MCP access requested'')
             (grant_fields server owner srv) requester) (\<lambda>_.
          ret grant)) in
      case found of
        Inr existing \<Rightarrow> if g_Status existing \<in> {''active'', ''requested''} then ret existing else create
      | Inl _ \<Rightarrow> create))))"

definition decide_grant :: "'w env \<Rightarrow> ctx \<Rightarrow> ('w st, McpGrant) op \<Rightarrow> string \<Rightarrow> string \<Rightarrow> string \<Rightarrow> ('w st, McpGrant) op" where
  "decide_grant E c update action text actor =
     bindE update (\<lambda>g.
     bindE (emitAIAudit E c ''mcp_grant'' (g_ID g) action (Text text) [(''owner'', JStr (g_Owner g))] actor) (\<lambda>_.
     ret g))"

definition ApproveMCPGrant :: "'w env \<Rightarrow> ctx \<Rightarrow> uuid \<Rightarrow> string \<Rightarrow> ('w st, McpGrant) op" where
  "ApproveMCPGrant E c k actor = decide_grant E c (wrap ''approving mcp grant'' (q_SetMCPGrantStatus E k ''active''))
     ''approved'' ''MCP access approved'' actor"

definition RejectMCPGrant :: "'w env \<Rightarrow> ctx \<Rightarrow> uuid \<Rightarrow> string \<Rightarrow> ('w st, McpGrant) op" where
  "RejectMCPGrant E c k actor = decide_grant E c (wrap ''rejecting mcp grant'' (q_SetMCPGrantStatus E k ''rejected''))
     ''rejected'' ''MCP access rejected'' actor"

definition RevokeMCPGrant :: "'w env \<Rightarrow> ctx \<Rightarrow> uuid \<Rightarrow> string \<Rightarrow> ('w st, McpGrant) op" where
  "RevokeMCPGrant E c k actor = decide_grant E c (wrap ''revoking mcp grant'' (q_RevokeMCPGrant E k))
     ''revoked'' ''MCP access revoked'' actor"

definition ListMCPGrants :: "'w env \<Rightarrow> ctx \<Rightarrow> ('w st, McpGrantRow list) op" where
  "ListMCPGrants E c = bindE (wrap ''listing mcp grants'' (q_ListMCPGrants E))
     (\<lambda>rows. ret (visible_rows c g_TenantID rows))"

section \<open>Authorization\<close>

record MCPAuthorizeResult =
  mr_Allowed :: bool
  mr_Reason :: string
  mr_Server :: string
  mr_Owner :: string
  mr_Tool :: string
  mr_RiskTier :: string

definition containsFold :: "string list \<Rightarrow> string \<Rightarrow> bool" where
  "containsFold xs v \<longleftrightarrow> list_ex (\<lambda>x. EqualFold (TrimSpace x) (TrimSpace v)) xs"

text \<open>\<open>json.Unmarshal\<close> into a string slice whose error is dropped.\<close>

definition allowed_tools :: "McpServer \<Rightarrow> string list" where
  "allowed_tools srv = (case ms_AllowedTools srv of
     JArr xs \<Rightarrow> map (\<lambda>v. case v of JStr x \<Rightarrow> x | _ \<Rightarrow> []) xs | _ \<Rightarrow> [])"

definition auditMCPAuthz :: "'w env \<Rightarrow> ctx \<Rightarrow> uuid \<Rightarrow> MCPAuthorizeResult \<Rightarrow> ('w st, unit) op" where
  "auditMCPAuthz E c k res = emitAIAudit E c ''mcp_server'' k
     (if mr_Allowed res then ''authz_allowed'' else ''authz_denied'') (Text (mr_Reason res))
     [(''server'', JStr (mr_Server res)), (''owner'', JStr (mr_Owner res)), (''tool'', JStr (mr_Tool res))] (mr_Owner res)"

definition authz :: "'w env \<Rightarrow> ctx \<Rightarrow> uuid \<Rightarrow> MCPAuthorizeResult \<Rightarrow> ('w st, MCPAuthorizeResult) op" where
  "authz E c k res = bindE (auditMCPAuthz E c k res) (\<lambda>_. ret res)"

definition AuthorizeMCP :: "'w env \<Rightarrow> ctx \<Rightarrow> string \<Rightarrow> string \<Rightarrow> string \<Rightarrow> ('w st, MCPAuthorizeResult) op" where
  "AuthorizeMCP E c server owner tool =
     (let res = \<lparr>mr_Allowed = False, mr_Reason = [], mr_Server = server, mr_Owner = owner, mr_Tool = tool,
                 mr_RiskTier = []\<rparr> in
      bindE (attempt (q_GetMCPServerByName E server)) (\<lambda>r.
      case r of
        Inl _ \<Rightarrow> authz E c 0 (res\<lparr>mr_Reason := ''mcp server not registered in the governed catalog''\<rparr>)
      | Inr srv \<Rightarrow>
          let res = res\<lparr>mr_RiskTier := ms_RiskTier srv\<rparr> in
          if ms_Status srv \<noteq> ''active'' then
            authz E c (ms_ID srv) (res\<lparr>mr_Reason := ''mcp server is '' @ ms_Status srv\<rparr>)
          else
            bindE (attempt (q_FindActiveMCPGrant E (ms_ID srv) (TrimSpace owner))) (\<lambda>g.
            case g of
              Inl e \<Rightarrow> authz E c (ms_ID srv) (res\<lparr>mr_Reason :=
                 (if e = NoRows then ''no active grant for this owner - request access first''
                  else ''authorization lookup failed'')\<rparr>)
            | Inr grant \<Rightarrow>
                bindE (gets st_now) (\<lambda>now.
                if (case g_ExpiresAt grant of None \<Rightarrow> False | Some t \<Rightarrow> t < now) then
                  authz E c (ms_ID srv) (res\<lparr>mr_Reason := ''grant has expired''\<rparr>)
                else if TrimSpace tool \<noteq> [] \<and> allowed_tools srv \<noteq> [] \<and> \<not> containsFold (allowed_tools srv) tool then
                  authz E c (ms_ID srv) (res\<lparr>mr_Reason :=
                    ''tool '' @ quoted tool @ '' is not in the server's allow-list''\<rparr>)
                else
                  authz E c (ms_ID srv) (res\<lparr>mr_Allowed := True, mr_Reason := ''authorized''\<rparr>)))))"

section \<open>The contract of MCP governance\<close>

locale mcp_rel = audit_rel R for R :: "'w st \<Rightarrow> 'w st \<Rightarrow> bool" +
  assumes R_CreateMCPServer: "rel R (q_CreateMCPServer E name transport endpoint descr risk tools tenant)"
    and R_UpdateMCPServerStatus: "rel R (q_UpdateMCPServerStatus E k status)"
    and R_DeleteMCPServer: "rel R (q_DeleteMCPServer E k)"
    and R_CreateMCPGrant: "rel R (q_CreateMCPGrant E k owner expires by tenant status)"
    and R_SetMCPGrantStatus: "rel R (q_SetMCPGrantStatus E k status)"
    and R_RevokeMCPGrant: "rel R (q_RevokeMCPGrant E k)"
begin

lemma rel_servers:
  "rel R (RegisterMCPServer E c m)" "rel R (SetMCPServerStatus E c name status)" "rel R (DeleteMCPServer E c name)"
  unfolding RegisterMCPServer_def SetMCPServerStatus_def DeleteMCPServer_def Let_def
  by (intro audit_rules R_CreateMCPServer R_UpdateMCPServerStatus R_DeleteMCPServer)+

lemma rel_grants:
  "rel R (GrantMCPAccess E c server owner expires by)" "rel R (RequestMCPAccess E c server owner by)"
  "rel R (ApproveMCPGrant E c k actor)" "rel R (RejectMCPGrant E c k actor)" "rel R (RevokeMCPGrant E c k actor)"
  unfolding GrantMCPAccess_def RequestMCPAccess_def ApproveMCPGrant_def RejectMCPGrant_def
    RevokeMCPGrant_def decide_grant_def Let_def
  by (intro audit_rules R_CreateMCPGrant R_SetMCPGrantStatus R_RevokeMCPGrant)+

lemma rel_AuthorizeMCP: "rel R (AuthorizeMCP E c server owner tool)"
  unfolding AuthorizeMCP_def authz_def auditMCPAuthz_def Let_def by (intro audit_rules)

lemmas mcp_rules = rel_servers rel_grants rel_AuthorizeMCP

end

end
