(* ===== verification/Users.thy ===== *)
theory Users
  imports Service
begin

text \<open>
  Tenants, users and API keys (\<open>internal/orchestrator/auth.go\<close>). The random bytes of a new key are
  drawn from the world (\<open>crypto/rand\<close>); only its hash is stored.
\<close>

definition CreateTenant :: "'w env \<Rightarrow> string \<Rightarrow> ('w st, Tenant) op" where
  "CreateTenant E name =
     bindE (guardE (name \<noteq> []) (Msg ''tenant name is required'')) (\<lambda>_.
     wrap ''creating tenant'' (q_CreateTenant E name))"

definition ListTenants :: "'w env \<Rightarrow> ('w st, Tenant list) op" where
  "ListTenants E = q_ListTenants E"

text \<open>\<open>auth.GenerateAPIKey\<close>: the plaintext and its hash.\<close>

definition GenerateAPIKey :: "'w env \<Rightarrow> ('w st, string \<times> string) op" where
  "GenerateAPIKey E = bindE (on_world (env_RandRead E)) (\<lambda>b.
     let plain = ''opd_'' @ EncodeToString b in ret (plain, HashKey plain))"

definition CreateUser :: "'w env \<Rightarrow> string \<Rightarrow> string \<Rightarrow> string \<Rightarrow> ('w st, User \<times> string) op" where
  "CreateUser E email tenantName role =
     bindE (guardE (email \<noteq> []) (Msg ''email is required'')) (\<lambda>_.
     bindE (guardE (ValidRole role) (NotFound ''invalid role'' role)) (\<lambda>_.
     bindE (wrap ''tenant not found'' (q_GetTenantByName E tenantName)) (\<lambda>t.
     bindE (GenerateAPIKey E) (\<lambda>(plain, hash).
     bindE (wrap ''creating user'' (q_CreateUser E email (t_ID t) role hash)) (\<lambda>u.
     ret (u, plain))))))"

definition tenant_name :: "Tenant list \<Rightarrow> uuid \<Rightarrow> string" where
  "tenant_name ts k = (case List.find (\<lambda>t. t_ID t = k) (rev ts) of None \<Rightarrow> [] | Some t \<Rightarrow> t_Name t)"

definition ListUsers :: "'w env \<Rightarrow> ('w st, (User \<times> string) list) op" where
  "ListUsers E = bindE (q_ListUsers E) (\<lambda>users. bindE (q_ListTenants E) (\<lambda>tenants.
     ret (map (\<lambda>u. (u, tenant_name tenants (us_TenantID u))) users)))"

definition ResolveAPIKey :: "'w env \<Rightarrow> string \<Rightarrow> ('w st, Identity option) op" where
  "ResolveAPIKey E hash =
     (if hash = [] then ret None
      else bindE (attempt (q_GetUserByAPIKeyHash E hash)) (\<lambda>r.
        case r of
          Inl _ \<Rightarrow> ret None
        | Inr u \<Rightarrow> bindE (attempt (q_GetTenant E (us_TenantID u))) (\<lambda>rt.
            ret (Some \<lparr>id_email = us_Email u,
              id_tenant_name = (case rt of Inl _ \<Rightarrow> [] | Inr t \<Rightarrow> t_Name t),
              id_tenant = us_TenantID u, id_role = us_Role u\<rparr>))))"

definition EnsureInitialAdmin :: "'w env \<Rightarrow> ('w st, string) op" where
  "EnsureInitialAdmin E =
     bindE (wrap ''checking for existing users'' (q_ListUsers E)) (\<lambda>users.
     if users \<noteq> [] then ret []
     else
       bindE (attempt (q_GetTenantByName E ''default'')) (\<lambda>r.
       bindE (case r of
                Inr _ \<Rightarrow> ret ()
              | Inl _ \<Rightarrow> bindE (wrap ''creating default tenant'' (q_CreateTenant E ''default'')) (\<lambda>_. ret ())) (\<lambda>_.
       bindE (CreateUser E ''admin@opord.local'' ''default'' ''admin'') (\<lambda>(u, plain). ret plain))))"

section \<open>The API key of a request, resolved against the store\<close>

definition resolver :: "'w env \<Rightarrow> 'w st \<Rightarrow> string \<Rightarrow> Identity option" where
  "resolver E s hash = (case fst (ResolveAPIKey E hash s) of Inr i \<Rightarrow> i | Inl _ \<Rightarrow> None)"

lemma ResolveAPIKey_Some:
  "fst (ResolveAPIKey E hash s) = Inr (Some i) \<Longrightarrow>
     hash \<noteq> [] \<and> (\<exists>u \<in> set (st_users s). us_ApiKeyHash u = hash \<and> us_Email u = id_email i
       \<and> us_TenantID u = id_tenant i \<and> us_Role u = id_role i)"
  by (auto simp: ResolveAPIKey_def q_GetUserByAPIKeyHash_def op_defs
      split: if_splits prod.splits option.splits sum.splits dest!: find_SomeD)

section \<open>The contract of user administration\<close>

locale user_rel = audit_rel R for R :: "'w st \<Rightarrow> 'w st \<Rightarrow> bool" +
  assumes R_CreateTenant: "rel R (q_CreateTenant E name)"
    and R_CreateUser: "rel R (q_CreateUser E email tenant role hash)"
begin

lemma rel_users:
  "rel R (CreateTenant E name)" "rel R (CreateUser E email tenant role)" "rel R (ResolveAPIKey E hash)"
  unfolding CreateTenant_def CreateUser_def GenerateAPIKey_def ResolveAPIKey_def Let_def
  by (intro audit_rules R_CreateTenant R_CreateUser)+

lemma rel_EnsureInitialAdmin: "rel R (EnsureInitialAdmin E)"
  unfolding EnsureInitialAdmin_def by (intro audit_rules R_CreateTenant rel_users)

lemmas user_rules = rel_users rel_EnsureInitialAdmin

end

end
