(* ===== verification/System.thy ===== *)
theory System
  imports Gateway Mcp Users
begin

text \<open>
  The program as one system: every operation of the orchestrator is a command, a step runs one
  command for one caller (or lets time or the backends move), and \<open>reachable\<close> is what any sequence
  of steps makes of the migrated database. The environment (faults, backends, answers) is free to
  differ from step to step. The locale \<open>service_rel\<close> joins the contracts of the components: a
  relation that survives every query the program writes with survives every command.
\<close>

section \<open>Commands\<close>

datatype cmd =
    CreateProvider AIProviderInput
  | UpdateProvider string UpdateAIProviderInput
  | DeleteProvider string
  | SyncServices string
  | SyncModels string
  | CheckProvider string
  | CreateBudget AIBudgetInput
  | UpdateBudget uuid AIBudgetInput
  | DeleteBudget uuid
  | CreateQuota AIQuotaInput
  | UpdateQuota uuid float64 string string
  | DeleteQuota uuid
  | CreatePolicy AIAccessPolicyInput
  | UpdatePolicy uuid "obj option" string
  | DeletePolicy uuid
  | FileRequest CreateAIRequestInput
  | OpenRequest string string string string string string json
  | Approve string string string
  | Reject string string string string
  | Revoke uuid string
  | Reap
  | Recertify uuid int string
  | Reveal uuid string
  | ImportOpenAI string "time option" "time option"
  | ImportAnthropic string "time option" "time option"
  | ImportLiteLLM string
  | GatewayOpenAI string payload
  | GatewayAnthropic string payload
  | RegisterServer MCPServerInput
  | SetServerStatus string string
  | DeleteServer string
  | GrantMCP string string "time option" string
  | RequestMCP string string string
  | ApproveGrant uuid string
  | RejectGrant uuid string
  | RevokeGrant uuid string
  | AuthorizeTool string string string
  | AddTenant string
  | AddUser string string string
  | ResolveKey string
  | Bootstrap
  | InviteUser string string string
  | SetOrgRole string string string
  | RemoveOrgUser string string
  | CreateWorkspace string string
  | ArchiveWorkspace string string
  | GrantWorkspace string string string string
  | RemoveMember string string string
  | DeleteProjectKey string string string
  | UpdateRateLimit string string string ProjectRateLimitUpdate
  | SetModelPermissions string string ProjectModelPermissions
  | DeleteModelPermissions string string
  | SetToolPermissions string string ProjectHostedToolPermissions
  | SetDataRetention string string string
  | CreateSpendAlert string string ProjectSpendAlertInput
  | UpdateSpendAlert string string string ProjectSpendAlertInput
  | DeleteSpendAlert string string string

definition discard :: "('s, 'a) op \<Rightarrow> ('s, unit) op" where
  "discard m = bindE m (\<lambda>_. ret ())"

lemma snd_discard [simp]: "snd (discard m s) = snd (m s)"
  by (simp add: discard_def snd_bindE split: sum.splits)

fun run :: "'w env \<Rightarrow> ctx \<Rightarrow> cmd \<Rightarrow> ('w st, unit) op" where
  "run E c (CreateProvider i) = discard (CreateAIProvider E c i)"
| "run E c (UpdateProvider n i) = discard (UpdateAIProvider E c n i)"
| "run E c (DeleteProvider n) = DeleteAIProvider E c n"
| "run E c (SyncServices n) = SyncAIProviderServicesByName E c n"
| "run E c (SyncModels n) = SyncAIProviderModelsByName E c n"
| "run E c (CheckProvider n) = CheckAIProvider E c n"
| "run E c (CreateBudget i) = discard (CreateAIBudget E c i)"
| "run E c (UpdateBudget k i) = discard (UpdateAIBudget E c k i)"
| "run E c (DeleteBudget k) = DeleteAIBudget E c k"
| "run E c (CreateQuota i) = discard (CreateAIQuota E c i)"
| "run E c (UpdateQuota k l p e) = discard (UpdateAIQuota E c k l p e)"
| "run E c (DeleteQuota k) = DeleteAIQuota E c k"
| "run E c (CreatePolicy i) = discard (CreateAIAccessPolicy E c i)"
| "run E c (UpdatePolicy k r x) = discard (UpdateAIAccessPolicy E c k r x)"
| "run E c (DeletePolicy k) = DeleteAIAccessPolicy E c k"
| "run E c (FileRequest i) = discard (CreateAIRequest E c i)"
| "run E c (OpenRequest n e q k p b j) = discard (CreateRequest E c n e q k p b j)"
| "run E c (Approve n e by) = ApproveRequest E c n e by"
| "run E c (Reject n e by w) = RejectRequest E c n e by w"
| "run E c (Revoke k a) = discard (RevokeAIInstance E c k a)"
| "run E c Reap = discard (ReapExpiredAIInstances E c)"
| "run E c (Recertify k d a) = discard (RecertifyAIInstance E c k d a)"
| "run E c (Reveal k a) = discard (RevealAIInstanceSecret E c k a)"
| "run E c (ImportOpenAI n a b) = discard (ImportOpenAICosts E c n a b)"
| "run E c (ImportAnthropic n a b) = discard (ImportAnthropicCosts E c n a b)"
| "run E c (ImportLiteLLM n) = discard (ImportLiteLLMSpend E c n)"
| "run E c (GatewayOpenAI n p) = discard (GatewayOpenAIResponses E c n p)"
| "run E c (GatewayAnthropic n p) = discard (GatewayAnthropicMessages E c n p)"
| "run E c (RegisterServer i) = discard (RegisterMCPServer E c i)"
| "run E c (SetServerStatus n x) = discard (SetMCPServerStatus E c n x)"
| "run E c (DeleteServer n) = DeleteMCPServer E c n"
| "run E c (GrantMCP n ow ex by) = discard (GrantMCPAccess E c n ow ex by)"
| "run E c (RequestMCP n ow by) = discard (RequestMCPAccess E c n ow by)"
| "run E c (ApproveGrant k a) = discard (ApproveMCPGrant E c k a)"
| "run E c (RejectGrant k a) = discard (RejectMCPGrant E c k a)"
| "run E c (RevokeGrant k a) = discard (RevokeMCPGrant E c k a)"
| "run E c (AuthorizeTool n ow t) = discard (AuthorizeMCP E c n ow t)"
| "run E c (AddTenant n) = discard (CreateTenant E n)"
| "run E c (AddUser m t r) = discard (CreateUser E m t r)"
| "run E c (ResolveKey h) = discard (ResolveAPIKey E h)"
| "run E c Bootstrap = discard (EnsureInitialAdmin E)"
| "run E c (InviteUser p m r) = discard (InviteAIOrgUser E c p m r)"
| "run E c (SetOrgRole p u r) = discard (SetAIOrgRole E c p u r)"
| "run E c (RemoveOrgUser p u) = RemoveAIOrgUser E c p u"
| "run E c (CreateWorkspace p n) = discard (CreateAIWorkspace E c p n)"
| "run E c (ArchiveWorkspace p w) = ArchiveAIWorkspace E c p w"
| "run E c (GrantWorkspace p w u r) = GrantAIWorkspaceAccess E c p w u r"
| "run E c (RemoveMember p w u) = RemoveAIWorkspaceMember E c p w u"
| "run E c (DeleteProjectKey p w k) = DeleteAIProjectAPIKey E c p w k"
| "run E c (UpdateRateLimit p w k u) = discard (UpdateAIProjectRateLimit E c p w k u)"
| "run E c (SetModelPermissions p w m) = discard (SetAIProjectModelPermissions E c p w m)"
| "run E c (DeleteModelPermissions p w) = DeleteAIProjectModelPermissions E c p w"
| "run E c (SetToolPermissions p w h) = discard (SetAIProjectHostedToolPermissions E c p w h)"
| "run E c (SetDataRetention p w x) = discard (SetAIProjectDataRetention E c p w x)"
| "run E c (CreateSpendAlert p w i) = discard (CreateAIProjectSpendAlert E c p w i)"
| "run E c (UpdateSpendAlert p w a i) = discard (UpdateAIProjectSpendAlert E c p w a i)"
| "run E c (DeleteSpendAlert p w a) = DeleteAIProjectSpendAlert E c p w a"

section \<open>Steps and reachable states\<close>

inductive step :: "'w st \<Rightarrow> 'w st \<Rightarrow> bool" where
  command: "step s (snd (run E c k s))"
| clock: "st_now s \<le> t \<Longrightarrow> step s (s\<lparr>st_now := t\<rparr>)"
| outside: "step s (s\<lparr>st_world := w\<rparr>)"

inductive_cases stepE: "step s t"

text \<open>The database the migrations leave: the mock provider, its services and two of its models.\<close>

definition seed_service :: "uuid \<Rightarrow> Service \<Rightarrow> time \<Rightarrow> AiService" where
  "seed_service k v t = \<lparr>s_ID = k, s_ProviderID = 1, s_Name = sv_Name v, s_Slug = sv_Slug v,
     s_Category = sv_Category v, s_Description = sv_Description v, s_RequestSchema = JObj mock_schema,
     s_DefaultExpirationDays = sv_DefaultExpirationDays v, s_RequiresApproval = True,
     s_Status = ''active'', s_CreatedAt = t, s_UpdatedAt = t\<rparr>"

definition seed_model :: "uuid \<Rightarrow> string \<Rightarrow> string \<Rightarrow> string \<Rightarrow> time \<Rightarrow> AiModelCatalog" where
  "seed_model k m d mod' t = \<lparr>m_ID = k, m_ProviderID = 1, m_Model = m, m_DisplayName = d, m_Modality = mod',
     m_Status = ''active'', m_Metadata = JObj [(''mock'', JBool True)], m_CreatedAt = t, m_UpdatedAt = t\<rparr>"

definition initial :: "time \<Rightarrow> 'w \<Rightarrow> 'w st" where
  "initial t w = \<lparr>st_now = t, st_next = 7,
     st_providers = [\<lparr>p_ID = 1, p_Name = ''mock-ai'', p_Type = ''mock_ai'', p_Config = JObj [(''mvp'', JBool True)],
       p_Status = ''active'', p_TenantID = None, p_CreatedAt = t, p_UpdatedAt = t\<rparr>],
     st_credentials = [],
     st_services = map (\<lambda>(k, v). seed_service k v t) (zip [2, 3, 4] mock_services),
     st_instances = [], st_usage = [], st_budgets = [], st_quotas = [], st_policies = [],
     st_models = [seed_model 5 ''mock-gpt-4.1-mini'' ''Mock GPT-4.1 mini'' ''text'' t,
       seed_model 6 ''mock-embedding-small'' ''Mock Embedding Small'' ''embedding'' t],
     st_audit = [], st_requests = [], st_tenants = [], st_users = [], st_servers = [], st_grants = [],
     st_bus = [], st_world = w\<rparr>"

inductive reachable :: "'w st \<Rightarrow> bool" where
  start: "reachable (initial t w)"
| more: "reachable s \<Longrightarrow> step s s' \<Longrightarrow> reachable s'"

lemma reachable_invariant:
  assumes "reachable s"
    and "\<And>t w. P (initial t w)"
    and "\<And>s E c k. P s \<Longrightarrow> P (snd (run E c k s))"
    and "\<And>s t. P s \<Longrightarrow> st_now s \<le> t \<Longrightarrow> P (s\<lparr>st_now := t\<rparr>)"
    and "\<And>s w. P s \<Longrightarrow> P (s\<lparr>st_world := w\<rparr>)"
  shows "P s"
  using assms(1) by induction (use assms in \<open>auto elim!: stepE\<close>)

section \<open>The joined contracts\<close>

lemma rel_discard: "preorder_rel R \<Longrightarrow> rel R m \<Longrightarrow> rel R (discard m)"
  unfolding discard_def by (intro preorder_rel.rel_bindE preorder_rel.rel_ret)

text \<open>Everything but the approval workflow.\<close>

fun decides :: "cmd \<Rightarrow> bool" where
  "decides (FileRequest i) = True"
| "decides (OpenRequest n e q k p b j) = True"
| "decides (Approve n e by) = True"
| "decides (Reject n e by w) = True"
| "decides k = False"

fun approves :: "cmd \<Rightarrow> bool" where
  "approves (Approve n e by) = True"
| "approves k = False"

locale aside_rel = upkeep_rel R + catalog_rel R + rules_rel R + import_rel R + mcp_rel R + user_rel R
  for R :: "'w st \<Rightarrow> 'w st \<Rightarrow> bool"
begin

lemma rel_run_aside: "\<not> decides k \<Longrightarrow> rel R (run E c k)"
  by (cases k; simp only: run.simps decides.simps simp_thms;
      intro rel_discard preorder_rel_axioms upkeep_rules catalog_rules rules_rules import_rules
        rel_gateways mcp_rules user_rules admin_rules)

end

text \<open>Everything but the approval itself.\<close>

locale standing_rel = aside_rel R + filing_rel R + decision_rel R for R :: "'w st \<Rightarrow> 'w st \<Rightarrow> bool"
begin

lemma rel_run_standing: "\<not> approves k \<Longrightarrow> rel R (run E c k)"
proof (cases "decides k")
  case True
  assume "\<not> approves k"
  with True show ?thesis
    by (cases k) (simp_all add: rel_discard preorder_rel_axioms rel_CreateAIRequest rel_CreateRequest rel_RejectRequest)
qed (rule rel_run_aside)

end

text \<open>Everything.\<close>

locale service_rel = standing_rel R + request_rel R for R :: "'w st \<Rightarrow> 'w st \<Rightarrow> bool"
begin

lemma rel_run: "rel R (run E c k)"
proof (cases "approves k")
  case True
  then show ?thesis by (cases k) (simp_all add: rel_ApproveRequest)
qed (rule rel_run_standing)

lemma R_run: "R s (snd (run E c k s))"
  by (rule relD [OF rel_run])

end

text \<open>Everything but the governance rules, and everything but the registration of providers: the
  contracts of relations that hold of those operations only, not of their queries.\<close>

fun rules_cmd :: "cmd \<Rightarrow> bool" where
  "rules_cmd (CreateBudget i) = True"
| "rules_cmd (UpdateBudget n i) = True"
| "rules_cmd (DeleteBudget n) = True"
| "rules_cmd (CreateQuota i) = True"
| "rules_cmd (UpdateQuota n l p e) = True"
| "rules_cmd (DeleteQuota n) = True"
| "rules_cmd (CreatePolicy i) = True"
| "rules_cmd (UpdatePolicy n r x) = True"
| "rules_cmd (DeletePolicy n) = True"
| "rules_cmd k = False"

fun registers :: "cmd \<Rightarrow> bool" where
  "registers (CreateProvider i) = True"
| "registers (UpdateProvider n i) = True"
| "registers k = False"

locale unruled_rel = upkeep_rel R + catalog_rel R + models_rel R + import_rel R + mcp_rel R + user_rel R + request_rel R
  for R :: "'w st \<Rightarrow> 'w st \<Rightarrow> bool"
begin

lemma rel_run_unruled: "\<not> rules_cmd k \<Longrightarrow> rel R (run E c k)"
  by (cases k; simp only: run.simps rules_cmd.simps simp_thms;
      intro rel_discard preorder_rel_axioms upkeep_rules catalog_rules rel_SyncAIProviderModelsByName import_rules
        rel_gateways mcp_rules user_rules admin_rules rel_CreateAIRequest rel_CreateRequest rel_ApproveRequest rel_RejectRequest)

end

locale unregistered_rel = upkeep_rel R + offering_rel R + rules_rel R + import_rel R + mcp_rel R + user_rel R + request_rel R
  for R :: "'w st \<Rightarrow> 'w st \<Rightarrow> bool"
begin

lemma rel_run_unregistered: "\<not> registers k \<Longrightarrow> rel R (run E c k)"
  by (cases k; simp only: run.simps registers.simps simp_thms;
      intro rel_discard preorder_rel_axioms upkeep_rules offering_rules rel_SyncAIProviderModelsByName rules_rules import_rules
        rel_gateways mcp_rules user_rules admin_rules rel_CreateAIRequest rel_CreateRequest rel_ApproveRequest rel_RejectRequest)

end

end
