(* ===== verification/Wellformed.thy ===== *)
theory Wellformed
  imports System
begin

text \<open>
  The well-formed store: identifiers are fresh and unique, the unique keys of the schema hold,
  every reference resolves and the enumerated columns stay in their enumerations. Each part
  survives every query, hence every command.
\<close>

section \<open>Identifiers\<close>

definition fresh :: "uuid \<Rightarrow> uuid list \<Rightarrow> bool" where
  "fresh n ks \<longleftrightarrow> distinct ks \<and> (\<forall>k \<in> set ks. 0 < k \<and> k < n)"

definition wf_ids :: "'w st \<Rightarrow> bool" where
  "wf_ids s \<longleftrightarrow> 0 < st_next s
     \<and> fresh (st_next s) (map p_ID (st_providers s)) \<and> fresh (st_next s) (map c_ID (st_credentials s))
     \<and> fresh (st_next s) (map s_ID (st_services s)) \<and> fresh (st_next s) (map i_ID (st_instances s))
     \<and> fresh (st_next s) (map u_ID (st_usage s)) \<and> fresh (st_next s) (map b_ID (st_budgets s))
     \<and> fresh (st_next s) (map q_ID (st_quotas s)) \<and> fresh (st_next s) (map po_ID (st_policies s))
     \<and> fresh (st_next s) (map m_ID (st_models s)) \<and> fresh (st_next s) (map a_ID (st_audit s))
     \<and> fresh (st_next s) (map r_ID (st_requests s)) \<and> fresh (st_next s) (map t_ID (st_tenants s))
     \<and> fresh (st_next s) (map us_ID (st_users s)) \<and> fresh (st_next s) (map ms_ID (st_servers s))
     \<and> fresh (st_next s) (map g_ID (st_grants s))"

lemma fresh_snoc [simp]: "fresh n ks \<Longrightarrow> 0 < n \<Longrightarrow> fresh (Suc n) (ks @ [n])"
  by (auto simp: fresh_def)

lemma fresh_Suc [simp]: "fresh n ks \<Longrightarrow> fresh (Suc n) ks"
  by (auto simp: fresh_def)

lemma fresh_filter [simp]: "fresh n (map f xs) \<Longrightarrow> fresh n (map f (filter p xs))"
  by (auto simp: fresh_def distinct_map_filter)

lemma map_update_rows_id [simp]:
  "map p_ID (update_rows p (\<lambda>x. x\<lparr>p_Name := a, p_Type := b, p_Config := d, p_Status := e, p_UpdatedAt := t\<rparr>) xs) = map p_ID xs"
  by (rule update_rows_map_same) simp

lemmas query_defs =
  q_CreateAIProvider_def q_UpdateAIProvider_def q_CreateAIProviderCredential_def q_CreateAIService_def
  q_DeleteAIServiceInstancesByProvider_def q_DeleteAIProvider_def q_CreateAIServiceInstance_def
  q_RevokeAIServiceInstance_def q_RecertifyAIServiceInstance_def q_CreateAIUsageRecord_def
  q_UpdateAIUsageRecordCost_def q_CreateAIBudget_def q_UpdateAIBudget_def q_DeleteAIBudget_def
  q_CreateAIQuota_def q_UpdateAIQuota_def q_DeleteAIQuota_def q_CreateAIAccessPolicy_def
  q_UpdateAIAccessPolicy_def q_DeleteAIAccessPolicy_def q_UpsertAIModelCatalog_def
  q_CreateAIAuditEvent_def q_CreateRequest_def q_SetRequestTicket_def q_SetRequestResource_def
  q_DecideRequest_def q_CreateTenant_def q_CreateUser_def q_CreateMCPServer_def
  q_UpdateMCPServerStatus_def q_DeleteMCPServer_def q_CreateMCPGrant_def q_SetMCPGrantStatus_def
  q_RevokeMCPGrant_def

lemmas query_simps = rel_def query_defs op_defs Let_def

interpretation ids: service_rel "\<lambda>s t :: 'w st. wf_ids s \<longrightarrow> wf_ids t"
  by (unfold_locales; auto simp: wf_ids_def query_simps update_rows_map_same split: option.splits)

section \<open>Unique keys\<close>

definition wf_keys :: "'w st \<Rightarrow> bool" where
  "wf_keys s \<longleftrightarrow> distinct (map p_Name (st_providers s))
     \<and> distinct (map (\<lambda>v. (s_ProviderID v, s_Slug v)) (st_services s))
     \<and> distinct (map po_Name (st_policies s))
     \<and> distinct (map (\<lambda>m. (m_ProviderID m, m_Model m)) (st_models s))
     \<and> distinct (map (\<lambda>r. (r_Name r, r_Environment r)) (st_requests s))
     \<and> distinct (map t_Name (st_tenants s)) \<and> distinct (map us_Email (st_users s))
     \<and> distinct (map ms_Name (st_servers s))"

text \<open>Renaming the row with one identifier keeps the names distinct when no other row has the name.\<close>

lemma distinct_map_update_key:
  assumes "distinct (map g xs)" "distinct (map key xs)"
    and "\<And>x. x \<in> set xs \<Longrightarrow> g x = n \<Longrightarrow> key x = k" "\<And>x. g (f x) = n"
  shows "distinct (map g (update_rows (\<lambda>x. key x = k) f xs))"
proof -
  have inj: "inj_on g (set xs)" "inj_on key (set xs)" "distinct xs"
    using assms(1,2) by (auto simp: distinct_map)
  have "map g (update_rows (\<lambda>x. key x = k) f xs) = map (\<lambda>x. if key x = k then n else g x) xs"
    using assms(4) by (auto simp: update_rows_def)
  moreover have "inj_on (\<lambda>x. if key x = k then n else g x) (set xs)"
  proof (rule inj_onI)
    fix x y
    assume "x \<in> set xs" "y \<in> set xs" "(if key x = k then n else g x) = (if key y = k then n else g y)"
    then show "x = y"
      using inj assms(3) [of x] assms(3) [of y] by (auto simp: inj_on_def split: if_splits)
  qed
  ultimately show ?thesis using inj by (simp add: distinct_map)
qed

lemma update_provider_name:
  assumes "wf_ids s" "wf_keys s" "\<forall>p \<in> set (st_providers s). p_Name p = name \<longrightarrow> p_ID p = k"
  shows "distinct (map p_Name (update_rows (\<lambda>p. p_ID p = k) (\<lambda>p. p\<lparr>p_Name := name, p_Type := ty,
    p_Config := config, p_Status := status, p_UpdatedAt := t\<rparr>) (st_providers s)))"
  using assms by (intro distinct_map_update_key [where n = name]) (auto simp: wf_ids_def wf_keys_def fresh_def)

lemma distinct_map_filter_rows [simp]: "distinct (map f xs) \<Longrightarrow> distinct (map f (filter p xs))"
  by (rule distinct_map_filter)

lemma keys_UpdateAIProvider:
  "wf_ids s \<Longrightarrow> wf_keys s \<Longrightarrow> wf_keys (snd (q_UpdateAIProvider E k name ty config status s))"
  using update_provider_name [of s name k]
  by (simp add: query_simps split: option.splits) (simp add: wf_keys_def)

lemma keys_UpsertAIModelCatalog:
  "wf_keys s \<Longrightarrow> wf_keys (snd (q_UpsertAIModelCatalog E k model display modality status meta s))"
  by (auto simp: wf_keys_def query_simps update_rows_map_same find_None_iff split: option.splits)

lemma keys_rel: "(\<And>s. wf_ids s \<Longrightarrow> wf_keys s \<Longrightarrow> wf_keys (snd (m s))) \<Longrightarrow> rel (\<lambda>s t. wf_ids s \<longrightarrow> wf_ids t) m \<Longrightarrow>
  rel (\<lambda>s t. wf_ids s \<and> wf_keys s \<longrightarrow> wf_ids t \<and> wf_keys t) m"
  by (simp add: rel_def)

lemmas ids_queries = ids.R_audit ids.R_CreateAIUsageRecord ids.R_CreateAIServiceInstance
  ids.R_RevokeAIServiceInstance ids.R_RecertifyAIServiceInstance ids.R_CreateRequest
  ids.R_SetRequestTicket ids.R_SetRequestResource ids.R_DecideRequest ids.R_CreateAIProvider
  ids.R_UpdateAIProvider ids.R_CreateAIProviderCredential ids.R_CreateAIService
  ids.R_DeleteAIServiceInstancesByProvider ids.R_DeleteAIProvider ids.R_CreateAIBudget
  ids.R_UpdateAIBudget ids.R_DeleteAIBudget ids.R_CreateAIQuota ids.R_UpdateAIQuota
  ids.R_DeleteAIQuota ids.R_CreateAIAccessPolicy ids.R_UpdateAIAccessPolicy
  ids.R_DeleteAIAccessPolicy ids.R_UpsertAIModelCatalog ids.R_UpdateAIUsageRecordCost
  ids.R_CreateMCPServer ids.R_UpdateMCPServerStatus ids.R_DeleteMCPServer ids.R_CreateMCPGrant
  ids.R_SetMCPGrantStatus ids.R_RevokeMCPGrant ids.R_CreateTenant ids.R_CreateUser

interpretation keys: service_rel "\<lambda>s t :: 'w st. wf_ids s \<and> wf_keys s \<longrightarrow> wf_ids t \<and> wf_keys t"
  by (unfold_locales; (rule keys_rel, ((rule keys_UpdateAIProvider keys_UpsertAIModelCatalog; assumption)+)?, (rule ids_queries)?)?;
      (auto simp: wf_ids_def wf_keys_def query_simps update_rows_map_same image_iff split: option.splits; fail)?)

section \<open>References\<close>

definition refers :: "uuid list \<Rightarrow> uuid list \<Rightarrow> bool" where
  "refers xs ys \<longleftrightarrow> set xs \<subseteq> set ys"

definition wf_refs :: "'w st \<Rightarrow> bool" where
  "wf_refs s \<longleftrightarrow> refers (map s_ProviderID (st_services s)) (map p_ID (st_providers s))
     \<and> refers (map c_ProviderID (st_credentials s)) (map p_ID (st_providers s))
     \<and> refers (map m_ProviderID (st_models s)) (map p_ID (st_providers s))
     \<and> refers (map u_ProviderID (st_usage s)) (map p_ID (st_providers s))
     \<and> refers (map i_ServiceID (st_instances s)) (map s_ID (st_services s))
     \<and> refers (List.map_filter i_RequestID (st_instances s)) (map r_ID (st_requests s))
     \<and> refers (List.map_filter u_InstanceID (st_usage s)) (map i_ID (st_instances s))
     \<and> refers (List.map_filter q_ServiceID (st_quotas s)) (map s_ID (st_services s))
     \<and> refers (map us_TenantID (st_users s)) (map t_ID (st_tenants s))
     \<and> refers (map g_ServerID (st_grants s)) (map ms_ID (st_servers s))"

lemma refers_simps:
  "refers (xs @ [x]) ys \<longleftrightarrow> refers xs ys \<and> x \<in> set ys"
  "refers xs ys \<Longrightarrow> refers xs (ys @ [y])"
  "refers (map f zs) ys \<Longrightarrow> refers (map f (filter p zs)) ys"
  "refers (List.map_filter g us) ys \<Longrightarrow> refers (List.map_filter g (filter p us)) ys"
  "refers (map f zs) (map h ws) \<Longrightarrow> refers (map f (filter (\<lambda>x. f x \<noteq> k) zs)) (map h (filter (\<lambda>y. h y \<noteq> k) ws))"
  by (auto simp: refers_def List.map_filter_def)

lemma refersD: "refers (List.map_filter f xs) ys \<Longrightarrow> x \<in> set xs \<Longrightarrow> f x = Some k \<Longrightarrow> k \<in> set ys"
  by (force simp: refers_def List.map_filter_def)

lemma map_filter_simps:
  "List.map_filter g (xs @ [x]) = List.map_filter g xs @ (case g x of None \<Rightarrow> [] | Some y \<Rightarrow> [y])"
  by (auto simp: List.map_filter_def split: option.split)

lemma map_filter_update_rows:
  "(\<And>x. g (f x) = g x) \<Longrightarrow> List.map_filter g (update_rows p f xs) = List.map_filter g xs"
  by (induction xs) (auto simp: update_rows_def List.map_filter_def)

lemma in_map_filter: "k \<in> set (List.map_filter f xs) \<longleftrightarrow> (\<exists>x \<in> set xs. f x = Some k)"
  by (rule set_map_filter)

lemma refs_DeleteAIServiceInstancesByProvider:
  "wf_refs s \<Longrightarrow> wf_refs (snd (q_DeleteAIServiceInstancesByProvider E k s))"
  by (simp add: wf_refs_def query_simps refers_simps)
     (force simp: refers_def [of "List.map_filter _ (filter _ (st_usage s))"] in_map_filter dest: refersD split: option.splits)

lemma image_filter_rest:
  "k \<in> f ` set xs \<Longrightarrow> k \<notin> f ` {v \<in> set xs. g v = a} \<Longrightarrow> k \<in> f ` {v \<in> set xs. g v \<noteq> a}"
  by auto

lemma refs_DeleteAIProvider:
  assumes wf: "wf_refs s"
  shows "wf_refs (snd (q_DeleteAIProvider E k s))"
proof (cases "env_fault E ''DeleteAIProvider'' \<or> \<not> (\<forall>i \<in> set (st_instances s). i_ServiceID i \<notin> provider_services s k)")
  case True
  with wf show ?thesis by (auto simp: query_simps)
next
  case False
  have insts: "refers (map i_ServiceID (st_instances s)) (map s_ID (filter (\<lambda>v. s_ProviderID v \<noteq> k) (st_services s)))"
  proof -
    have "i_ServiceID i \<in> s_ID ` {v \<in> set (st_services s). s_ProviderID v \<noteq> k}" if "i \<in> set (st_instances s)" for i
      using False wf that by (intro image_filter_rest) (auto simp: wf_refs_def refers_def provider_services_def)
    then show ?thesis by (auto simp: refers_def)
  qed
  have quotas: "refers (List.map_filter q_ServiceID (filter (\<lambda>q. case q_ServiceID q of None \<Rightarrow> True
      | Some j \<Rightarrow> j \<notin> provider_services s k) (st_quotas s))) (map s_ID (filter (\<lambda>v. s_ProviderID v \<noteq> k) (st_services s)))"
  proof -
    have "j \<in> s_ID ` {v \<in> set (st_services s). s_ProviderID v \<noteq> k}"
      if "q \<in> set (st_quotas s)" "q_ServiceID q = Some j" "j \<notin> provider_services s k" for q j
      using wf that by (intro image_filter_rest) (auto simp: wf_refs_def provider_services_def dest: refersD)
    then show ?thesis by (auto simp: refers_def in_map_filter split: option.splits)
  qed
  show ?thesis
    using False wf insts quotas
    by (simp add: query_simps wf_refs_def refers_simps)
qed

lemma imp_rel: "(\<And>s. P s \<Longrightarrow> P (snd (m s))) \<Longrightarrow> rel (\<lambda>s t. P s \<longrightarrow> P t) m"
  by (simp add: rel_def)

interpretation refs: service_rel "\<lambda>s t :: 'w st. wf_refs s \<longrightarrow> wf_refs t"
  by (unfold_locales; (rule imp_rel, (rule refs_DeleteAIServiceInstancesByProvider refs_DeleteAIProvider; assumption)?)?;
      (simp add: wf_refs_def query_simps update_rows_map_same map_filter_update_rows map_filter_simps refers_simps
         split: option.splits; fail)?)

section \<open>Enumerated columns\<close>

definition wf_values :: "'w st \<Rightarrow> bool" where
  "wf_values s \<longleftrightarrow> list_all (\<lambda>p. validAIProviderType (p_Type p) \<and> p_Status p \<in> set active_disabled) (st_providers s)
     \<and> list_all (\<lambda>i. i_Status i \<in> set instance_statuses) (st_instances s)
     \<and> list_all (\<lambda>q. q_Enforcement q \<in> {''warn'', ''block''}) (st_quotas s)
     \<and> list_all (\<lambda>p. po_Status p \<in> set active_disabled) (st_policies s)
     \<and> list_all (\<lambda>m. m_Status m \<in> set active_disabled) (st_models s)
     \<and> list_all (\<lambda>r. r_Kind r \<in> set request_kinds \<and> r_Status r \<in> set request_statuses) (st_requests s)
     \<and> list_all (\<lambda>u. ValidRole (us_Role u)) (st_users s)
     \<and> list_all (\<lambda>m. ms_Status m \<in> set active_disabled \<and> ms_Transport m \<in> set mcp_transports
          \<and> ms_RiskTier m \<in> set mcp_risk_tiers) (st_servers s)
     \<and> list_all (\<lambda>g. g_Status g \<in> set grant_statuses) (st_grants s)"

lemma list_all_filter: "list_all P xs \<Longrightarrow> list_all P (filter Q xs)"
  by (auto simp: list_all_iff)

lemma list_all_update_rows:
  "list_all P xs \<Longrightarrow> (\<And>x. P x \<Longrightarrow> P (f x)) \<Longrightarrow> list_all P (update_rows q f xs)"
  by (auto simp: list_all_iff update_rows_def)

lemma status_constants:
  "''active'' \<in> set active_disabled" "''revoked'' \<in> set instance_statuses" "''active'' \<in> set instance_statuses"
  "''pending_approval'' \<in> set request_statuses" "''revoked'' \<in> set grant_statuses"
  by (simp_all add: active_disabled_def instance_statuses_def request_statuses_def grant_statuses_def)

interpretation vals: service_rel "\<lambda>s t :: 'w st. wf_values s \<longrightarrow> wf_values t"
  by (unfold_locales; (rule imp_rel)?;
      (simp add: wf_values_def query_simps list_all_filter list_all_update_rows status_constants split: option.splits; fail)?;
      (auto simp: wf_values_def query_simps list_all_iff set_update_rows split: option.splits; fail)?)

section \<open>The well-formed store\<close>

definition wf :: "'w st \<Rightarrow> bool" where
  "wf s \<longleftrightarrow> wf_ids s \<and> wf_keys s \<and> wf_refs s \<and> wf_values s"

lemma wf_run: "wf s \<Longrightarrow> wf (snd (run E c k s))"
  using keys.R_run refs.R_run vals.R_run unfolding wf_def by blast

lemma wf_initial: "wf (initial t w)"
  by (simp add: wf_def initial_def wf_ids_def wf_keys_def wf_refs_def wf_values_def fresh_def refers_def
      mock_services_def seed_service_def seed_model_def active_disabled_def validAIProviderType_def
      List.map_filter_def)

lemma wf_time_world [simp]: "wf (s\<lparr>st_now := t\<rparr>) = wf s" "wf (s\<lparr>st_world := w\<rparr>) = wf s"
  by (simp_all add: wf_def wf_ids_def wf_keys_def wf_refs_def wf_values_def)

lemma wf_reachable: "reachable s \<Longrightarrow> wf s"
  by (erule reachable_invariant) (simp_all add: wf_initial wf_run)

end
