(* ===== verification/Lifecycle.thy ===== *)
theory Lifecycle
  imports Wellformed
begin

text \<open>
  How the store evolves under commands: the audit log only grows, requests move along the edges of
  their state machine, and every access grant stems from one approved request.
\<close>

section \<open>The audit trail, the clock and the identifiers\<close>

definition trail :: "'w st \<Rightarrow> 'w st \<Rightarrow> bool" where
  "trail s t \<longleftrightarrow> prefix (st_audit s) (st_audit t) \<and> st_now t = st_now s \<and> st_next s \<le> st_next t"

interpretation trail: service_rel trail
  by (unfold_locales; (fastforce simp: trail_def query_simps split: option.splits intro: prefix_order.trans; fail)?)

section \<open>The states of a request\<close>

text \<open>What never changes of a request once it is filed.\<close>

definition req_core :: "Request \<Rightarrow> uuid \<times> string \<times> string \<times> string \<times> string \<times> json \<times> uuid option \<times> time" where
  "req_core r = (r_ID r, r_Name r, r_Environment r, r_Requester r, r_Kind r, r_Spec r, r_TenantID r, r_CreatedAt r)"

text \<open>Only the request \<open>k\<close> changes, and only to a status in \<open>S\<close>.\<close>

definition only_moves :: "uuid \<Rightarrow> string set \<Rightarrow> Request \<Rightarrow> Request \<Rightarrow> bool" where
  "only_moves k S r r' \<longleftrightarrow> req_core r' = req_core r \<and> (r_Status r' = r_Status r \<or> (r_ID r = k \<and> r_Status r' \<in> S))"

definition moves :: "uuid \<Rightarrow> string set \<Rightarrow> 'w st \<Rightarrow> 'w st \<Rightarrow> bool" where
  "moves k S s t \<longleftrightarrow> list_all2 (only_moves k S) (st_requests s) (st_requests t)"

lemma only_moves_refl [simp]: "only_moves k S r r"
  by (simp add: only_moves_def)

lemma only_moves_trans: "only_moves k S r r' \<Longrightarrow> only_moves k S r' r'' \<Longrightarrow> only_moves k S r r''"
  by (auto simp: only_moves_def req_core_def)

interpretation moves: preorder_rel "moves k S" for k S
proof
  show "moves k S s s" for s :: "'w st"
    by (simp add: moves_def list_all2_refl)
  show "moves k S s t \<Longrightarrow> moves k S t u \<Longrightarrow> moves k S s u" for s t u :: "'w st"
    unfolding moves_def by (rule list_all2_trans [OF only_moves_trans])
qed

lemma moves_same: "st_requests t = st_requests s \<Longrightarrow> moves k S s t"
  by (simp add: moves_def list_all2_refl)

lemma moves_update_rows:
  "(\<And>r. r_ID r = k \<Longrightarrow> only_moves k S r (f r)) \<Longrightarrow>
   list_all2 (only_moves k S) rs (update_rows (\<lambda>r. r_ID r = k) f rs)"
  by (induction rs) (auto simp: update_rows_def)

lemma moves_DecideRequest: "status \<in> S \<Longrightarrow> rel (moves k S) (q_DecideRequest E k status by reason)"
  by (auto simp: query_simps moves_same split: option.splits)
     (auto simp: moves_def only_moves_def req_core_def intro: moves_update_rows)

lemma moves_SetRequestResource: "status \<in> S \<Longrightarrow> rel (moves k S) (q_SetRequestResource E k resource status)"
  by (auto simp: query_simps moves_same split: option.splits)
     (auto simp: moves_def only_moves_def req_core_def intro: moves_update_rows)

text \<open>Everything outside the approval workflow leaves the requests alone, provisioning included.\<close>

interpretation reqs: aside_rel "\<lambda>s t. st_requests t = st_requests s"
  by (unfold_locales; simp add: query_simps split: option.splits)

interpretation reqs: instance_rel "\<lambda>s t. st_requests t = st_requests s"
  by (unfold_locales; simp add: query_simps split: option.splits)

lemma rel_moves_same: "rel (\<lambda>s t. st_requests t = st_requests s) m \<Longrightarrow> rel (moves k S) m"
  by (erule rel_weaken) (rule moves_same)

lemma provisionRequest_completed:
  "fst (provisionRequest E c req s) = Inr (ref, status) \<Longrightarrow> status = ''completed''"
  by (auto simp: provisionRequest_def run_simps split: if_splits sum.splits)

lemma find_request_same: "snd (find_request E c name environment s) = s"
  by (simp add: find_request_def run_simps q_GetRequestByName_def query_def one_def split: option.splits sum.splits)

lemma find_requestD:
  "fst (find_request E c name environment s) = Inr req \<Longrightarrow>
     req \<in> set (st_requests s) \<and> r_Name req = name \<and> r_Environment req = environment \<and> in_scope c (r_TenantID req)"
  by (auto simp: find_request_def run_simps q_GetRequestByName_def query_def one_def
      split: option.splits sum.splits if_splits dest: find_SomeD)

lemma moves_approve_pending:
  "rel (moves (r_ID req) {''approved'', ''completed'', ''failed''}) (approve_pending E c environment by req)"
  (is "rel ?R _")
proof -
  have emit: "rel ?R (emit E kind action name environment provider msg)" for kind action name environment provider msg
    by (rule rel_moves_same) (rule reqs.rel_emit)
  have prov: "rel ?R (provisionRequest E c req)"
    unfolding provisionRequest_def
    by (rule rel_moves_same) (intro same.rel_intros reqs.rel_ProvisionAIRequest)
  have settle: "rel ?R (case outcome of
       Inl e \<Rightarrow>
         bindE (ignore (q_SetRequestResource E (r_ID req) (r_Name req) ''failed'')) (\<lambda>_.
         bindE (emit E ''request'' ''failed'' (r_Name req) environment (r_Provider req) (ErrorText e)) (\<lambda>_.
         fail (Wrap ''provisioning approved request'' e)))
     | Inr (ref, status) \<Rightarrow>
         bindE (ignore (q_SetRequestResource E (r_ID req) (if ref = [] then r_Name req else ref)
           (if status = [] then ''provisioning'' else status))) (\<lambda>_.
         emit E ''request'' ''approved'' (r_Name req) environment (r_Provider req)
           (Text (r_Kind req @ '' approved by '' @ by))))"
    if "fst (attempt (provisionRequest E c req) s) = Inr outcome" for s outcome
    using that provisionRequest_completed [of E c req s]
    by (cases outcome)
       (auto intro!: moves.rel_bindE moves.rel_ignore moves_SetRequestResource emit moves.rel_fail)
  show ?thesis
    unfolding approve_pending_def Let_def
    by (rule moves.rel_bindE, rule moves.rel_wrap, rule moves_DecideRequest, simp,
        rule moves.rel_bindE_dep, rule moves.rel_attempt, rule prov, rule settle)
qed

text \<open>One approval, one rejection.\<close>

lemma ApproveRequest_moves:
  "st_requests (snd (ApproveRequest E c name environment by s)) = st_requests s
   \<or> (\<exists>req \<in> set (st_requests s). r_Status req = ''pending_approval'' \<and> in_scope c (r_TenantID req)
        \<and> moves (r_ID req) {''approved'', ''completed'', ''failed''} s (snd (ApproveRequest E c name environment by s)))"
proof (cases "fst (find_request E c name (default_env environment) s)")
  case (Inl e)
  then show ?thesis by (simp add: ApproveRequest_def Let_def run_simps find_request_same)
next
  case (Inr req)
  with relD [OF moves_approve_pending, where s = s] find_requestD [OF Inr] show ?thesis
    by (cases "r_Status req = ''pending_approval''")
       (auto simp: ApproveRequest_def Let_def run_simps find_request_same)
qed

lemma RejectRequest_moves:
  "st_requests (snd (RejectRequest E c name environment by why s)) = st_requests s
   \<or> (\<exists>req \<in> set (st_requests s). r_Status req = ''pending_approval'' \<and> in_scope c (r_TenantID req)
        \<and> moves (r_ID req) {''rejected''} s (snd (RejectRequest E c name environment by why s)))"
proof (cases "fst (find_request E c name (default_env environment) s)")
  case (Inl e)
  then show ?thesis by (simp add: RejectRequest_def Let_def run_simps find_request_same)
next
  case (Inr req)
  have emit: "rel (moves (r_ID req) {''rejected''}) (emit E kind action name environment provider msg)"
    for kind action name environment provider msg
    by (rule rel_moves_same) (rule reqs.rel_emit)
  have "rel (moves (r_ID req) {''rejected''})
     (bindE (wrap ''recording rejection'' (q_DecideRequest E (r_ID req) ''rejected'' by why)) (\<lambda>_.
      emit E ''request'' ''rejected'' (r_Name req) (default_env environment) (r_Provider req)
        (Text (TrimSpace (''rejected by '' @ by @ '': '' @ why)))))"
    by (intro moves.rel_bindE moves.rel_wrap moves_DecideRequest emit) simp
  from relD [OF this, where s = s] find_requestD [OF Inr] Inr show ?thesis
    by (cases "r_Status req = ''pending_approval''")
       (auto simp: RejectRequest_def Let_def run_simps find_request_same)
qed

text \<open>Filing only appends, and what it appends is pending.\<close>

definition filed :: "'w st \<Rightarrow> 'w st \<Rightarrow> bool" where
  "filed s t \<longleftrightarrow> (\<exists>new. map (\<lambda>r. (req_core r, r_Status r)) (st_requests t)
      = map (\<lambda>r. (req_core r, r_Status r)) (st_requests s) @ new \<and> (\<forall>(c, st) \<in> set new. st = ''pending_approval''))"

interpretation filed: filing_rel filed
proof (unfold_locales, goal_cases)
  case (2 s t u)
  then show ?case unfolding filed_def by (metis (no_types, lifting) Un_iff append.assoc set_append)
next
  case (7 E k ticket)
  have "map (\<lambda>r. (req_core r, r_Status r)) (update_rows (\<lambda>r. r_ID r = k) (\<lambda>r. r\<lparr>r_TicketRef := ticket, r_UpdatedAt := now\<rparr>) rs)
      = map (\<lambda>r. (req_core r, r_Status r)) rs" for now rs
    by (rule update_rows_map_same) (simp add: req_core_def)
  then show ?case by (auto simp: query_simps filed_def split: option.splits)
qed (auto simp: query_simps filed_def req_core_def)

section \<open>The state machine of a request, per command\<close>

fun request_edge :: "cmd \<Rightarrow> string \<Rightarrow> string \<Rightarrow> bool" where
  "request_edge (Approve n e by) a b \<longleftrightarrow> a = ''pending_approval'' \<and> b \<in> {''approved'', ''completed'', ''failed''}"
| "request_edge (Reject n e by w) a b \<longleftrightarrow> a = ''pending_approval'' \<and> b = ''rejected''"
| "request_edge k a b \<longleftrightarrow> False"

definition request_step :: "cmd \<Rightarrow> Request \<Rightarrow> Request \<Rightarrow> bool" where
  "request_step k r r' \<longleftrightarrow> req_core r' = req_core r \<and> (r_Status r' = r_Status r \<or> request_edge k (r_Status r) (r_Status r'))"

lemma moves_request_step:
  assumes "moves (r_ID req) S s t" "wf_ids s" "req \<in> set (st_requests s)"
    and "\<And>x. x \<in> S \<Longrightarrow> request_edge k (r_Status req) x"
  shows "list_all2 (request_step k) (st_requests s) (st_requests t)"
proof -
  have "distinct (map r_ID (st_requests s))" using assms(2) by (simp add: wf_ids_def fresh_def)
  then have "r = req" if "r \<in> set (st_requests s)" "r_ID r = r_ID req" for r
    using that assms(3) by (metis distinct_map inj_onD)
  then have "request_step k r r'" if "only_moves (r_ID req) S r r'" "r \<in> set (st_requests s)" for r r'
    using that assms(4) by (auto simp: only_moves_def request_step_def)
  with assms(1) show ?thesis
    unfolding moves_def by (rule list.rel_mono_strong)
qed

lemma map_eq_list_all2:
  "map f ys = map f xs \<Longrightarrow> (\<And>x y. f y = f x \<Longrightarrow> P x y) \<Longrightarrow> list_all2 P xs ys"
  by (induction xs arbitrary: ys) auto

lemma run_requests:
  assumes "wf_ids s"
  shows "\<exists>old new. st_requests (snd (run E c k s)) = old @ new \<and> list_all2 (request_step k) (st_requests s) old
    \<and> list_all (\<lambda>r. r_Status r = ''pending_approval'') new"
proof (cases "decides k")
  case False
  then have "st_requests (snd (run E c k s)) = st_requests s"
    using relD [OF reqs.rel_run_aside] by blast
  then show ?thesis
    by (intro exI [of _ "st_requests s"] exI [of _ "[]"]) (simp add: list_all2_refl request_step_def)
next
  case True
  have files: ?thesis if "filed s (snd (run E c k s))"
  proof -
    from that obtain old new where
      "st_requests (snd (run E c k s)) = old @ new"
      "map (\<lambda>r. (req_core r, r_Status r)) old = map (\<lambda>r. (req_core r, r_Status r)) (st_requests s)"
      "\<forall>r \<in> set new. r_Status r = ''pending_approval''"
      unfolding filed_def map_eq_append_conv by auto
    moreover have "list_all2 (request_step k) (st_requests s) old"
      using calculation(2) by (rule map_eq_list_all2) (simp add: request_step_def)
    ultimately show ?thesis
      by (intro exI [of _ old] exI [of _ new]) (simp add: list_all_iff)
  qed
  from True show ?thesis
  proof (cases k)
    case (FileRequest i)
    show ?thesis using relD [OF filed.rel_CreateAIRequest] by (intro files) (simp add: FileRequest)
  next
    case (OpenRequest n e q ki p b j)
    show ?thesis using relD [OF filed.rel_CreateRequest] by (intro files) (simp add: OpenRequest)
  next
    case (Approve n e a)
    with ApproveRequest_moves [of E c n e a s] show ?thesis
      using moves_request_step [OF _ assms, where k = k]
      by (intro exI [of _ "st_requests (snd (run E c k s))"] exI [of _ "[]"])
         (auto simp: list_all2_refl request_step_def)
  next
    case (Reject n e a w)
    with RejectRequest_moves [of E c n e a w s] show ?thesis
      using moves_request_step [OF _ assms, where k = k]
      by (intro exI [of _ "st_requests (snd (run E c k s))"] exI [of _ "[]"])
         (auto simp: list_all2_refl request_step_def)
  qed simp_all
qed

section \<open>Grants stem from approvals\<close>

text \<open>What ties an instance to its request.\<close>

definition inst_core :: "AiServiceInstance \<Rightarrow> uuid \<times> uuid option \<times> uuid option \<times> json" where
  "inst_core i = (i_ID i, i_RequestID i, i_TenantID i, i_Spec i)"

text \<open>No command but an approval adds an instance.\<close>

definition shrinks :: "'w st \<Rightarrow> 'w st \<Rightarrow> bool" where
  "shrinks s t \<longleftrightarrow> subseq (map inst_core (st_instances t)) (map inst_core (st_instances s))"

lemma shrinks_same: "st_instances t = st_instances s \<Longrightarrow> shrinks s t"
  by (simp add: shrinks_def)

lemma shrinks_update:
  "(\<And>i. inst_core (f i) = inst_core i) \<Longrightarrow> st_instances t = update_rows p f (st_instances s) \<Longrightarrow> shrinks s t"
  by (simp add: shrinks_def update_rows_map_same)

interpretation shrinks: standing_rel shrinks
proof (unfold_locales, goal_cases)
  case (2 s t u)
  then show ?case unfolding shrinks_def by (meson subseq_order.order_trans)
next
  case (6 E k)
  show ?case
    by (auto simp: query_simps shrinks_same split: option.splits intro: shrinks_update) (auto simp: shrinks_def update_rows_map_same inst_core_def)
next
  case (7 E k expires)
  show ?case
    by (auto simp: query_simps shrinks_same split: option.splits intro: shrinks_update) (auto simp: shrinks_def update_rows_map_same inst_core_def)
qed (simp_all add: query_simps shrinks_def subseq_map subseq_filter_left split: option.splits)

text \<open>Shared effects leave the instances alone.\<close>

interpretation insts: usage_rel "\<lambda>s t. st_instances t = st_instances s"
  by (unfold_locales; simp add: query_simps split: option.splits)

lemma fst_recordAIUsage [simp]: "fst (recordAIUsage E p i prov access s) = Inr ()"
  by (auto simp: recordAIUsage_def run_simps fst_forE_total split: sum.split)

lemma fst_emit [simp]: "fst (emit E kind action name environment provider msg s) = Inr ()"
  by (simp add: emit_def ret_def modify_def)

lemma fst_announce_instance [simp]: "fst (announce_instance E c req p access inst s) = Inr ()"
  by (simp add: announce_instance_def run_simps)

lemma resolve_plan_same: "snd (resolve_plan E req s) = s"
  using relD [OF ro.rel_resolve_plan] .

lemma aiCredentials_same: "snd (aiCredentials E p s) = s"
  using relD [OF ro.rel_aiCredentials] .

lemma or_audit_result: "fst (or_audit E c req action m s) = fst (m s)"
  by (simp add: or_audit_def run_simps split: sum.split)

text \<open>An operation that grants: it adds the one instance it returns, or nothing.\<close>

definition grants :: "(AiServiceInstance \<Rightarrow> bool) \<Rightarrow> 'w st \<Rightarrow> (err + AiServiceInstance) \<times> 'w st \<Rightarrow> bool" where
  "grants P s out \<longleftrightarrow> (case out of (Inl e, t) \<Rightarrow> st_instances t = st_instances s
     | (Inr inst, t) \<Rightarrow> st_instances t = st_instances s @ [inst] \<and> P inst)"

lemma grants_bindE:
  "st_instances (snd (m s)) = st_instances s \<Longrightarrow>
   (\<And>x. fst (m s) = Inr x \<Longrightarrow> grants P (snd (m s)) (f x (snd (m s)))) \<Longrightarrow> grants P s (bindE m f s)"
  by (cases "m s") (auto simp: grants_def bindE_def split: sum.splits prod.splits)

lemma grants_announce:
  "grants P s (m s) \<Longrightarrow> (\<And>x u. fst (f x u) = Inr ()) \<Longrightarrow> (\<And>x u. st_instances (snd (f x u)) = st_instances u) \<Longrightarrow>
   grants P s (bindE m (\<lambda>x. bindE (f x) (\<lambda>_. ret x)) s)"
  by (cases "m s") (auto simp: grants_def bindE_def ret_def split: sum.splits prod.splits; metis fst_conv snd_conv old.sum.exhaust sum.distinct(1))

definition granted_by :: "Request \<Rightarrow> 'w Plan \<Rightarrow> AiServiceInstance \<Rightarrow> bool" where
  "granted_by req p i \<longleftrightarrow> i_RequestID i = Some (r_ID req) \<and> i_TenantID i = r_TenantID req
     \<and> i_Spec i = r_Spec req \<and> i_Status i = ''active'' \<and> i_Owner i = pl_Owner p
     \<and> i_ServiceID i = s_ID (pl_Service p) \<and> i_ExpiresAt i = pl_ExpiresAt p
     \<and> sealed (to_obj (i_Observed i))"

lemma store_instance_grants: "grants (granted_by req p) s (store_instance E req p res s)"
  unfolding store_instance_def
  by (rule grants_bindE, rule relD [OF insts.rel_stripMintedSecret], clarify, rule grants_bindE)
     (auto dest: stripMintedSecret_sealed simp: to_obj_def grants_def granted_by_def wrap_def q_CreateAIServiceInstance_def query_def check_def bindE_def
      fail_def insert_row_def Let_def split: prod.splits sum.splits if_splits)

text \<open>Provisioning grants for the request and its plan, and only after the gate has passed.\<close>

lemma ProvisionAIRequest_grants:
  "grants (\<lambda>i. \<exists>p. fst (resolve_plan E req s) = Inr p \<and> gov_hard E c (plan_facts req p) s = [] \<and> granted_by req p i)
     s (ProvisionAIRequest E c req s)"
  (is "grants ?P s _")
  unfolding ProvisionAIRequest_def
proof (rule grants_bindE, goal_cases)
  case 1
  then show ?case by (simp add: resolve_plan_same)
next
  case (2 p)
  let ?gate = "or_audit E c req ''provision_blocked'' (evaluateAIGovernance E c (plan_facts req p))"
  show ?case
    unfolding resolve_plan_same
  proof (rule grants_bindE, goal_cases)
    case 1
    show ?case by (rule relD [OF insts.rel_or_audit]) (rule insts.rel_evaluateAIGovernance)
  next
    case (2 u)
    then have P: "granted_by req p i \<Longrightarrow> ?P i" for i
      using \<open>fst (resolve_plan E req s) = Inr p\<close>
      by (auto simp: or_audit_result evaluateAIGovernance_result split: if_splits)
    show ?case
    proof (rule grants_bindE, goal_cases)
      case (2 creds)
      show ?case
      proof (rule grants_bindE, goal_cases)
        case 1
        show ?case by (rule relD [OF insts.rel_or_audit]) (rule insts.rel_provision_call)
      next
        case (2 res)
        have "grants ?P t (store_instance E req p res t)" for t :: "'a st"
          using store_instance_grants [of req p t E res] P by (auto simp: grants_def split: prod.splits sum.splits)
        then show ?case
          by (rule grants_announce) (simp_all add: relD [OF insts.rel_announce_instance])
      qed
    qed (simp add: aiCredentials_same)
  qed
qed

text \<open>Provisioning leaves the requests alone.\<close>

lemma provisionRequest_grants:
  "case provisionRequest E c req s of
     (Inl e, t) \<Rightarrow> st_instances t = st_instances s
   | (Inr (ref, status), t) \<Rightarrow> status = ''completed'' \<and> (\<exists>i p. st_instances t = st_instances s @ [i]
       \<and> ref = env_uuid_string E (i_ID i) \<and> fst (resolve_plan E req s) = Inr p
       \<and> gov_hard E c (plan_facts req p) s = [] \<and> granted_by req p i)"
  using ProvisionAIRequest_grants [of E req s c]
  by (auto simp: provisionRequest_def grants_def bindE_def ret_def fail_def split: prod.splits sum.splits)

end
