(* ===== verification/Grants.thy ===== *)
theory Grants
  imports Lifecycle
begin

text \<open>
  Where access comes from: what an approval leaves behind on every branch, and the invariant that
  every access instance in the store belongs to one approved request.
\<close>

section \<open>An approval, branch by branch\<close>

interpretation insts: decision_rel "\<lambda>s t. st_instances t = st_instances s"
  by (unfold_locales; simp add: query_simps split: option.splits)

text \<open>The gate and the plan do not look at the requests.\<close>

lemma service_row_requests [simp]: "service_row (st_requests_update f s) = service_row s"
  by (simp add: fun_eq_iff service_row_def)

lemma instance_row_requests [simp]: "instance_row (st_requests_update f s) = instance_row s"
  by (simp add: fun_eq_iff instance_row_def cong: option.case_cong)

lemma usage_row_requests [simp]: "usage_row (st_requests_update f s) = usage_row s"
  by (simp add: fun_eq_iff usage_row_def cong: option.case_cong)

lemma views_requests [simp]:
  "policies_view E c (st_requests_update f s) = policies_view E c s"
  "quotas_view E c (st_requests_update f s) = quotas_view E c s"
  "instances_view E c (st_requests_update f s) = instances_view E c s"
  "usage_view c (st_requests_update f s) = usage_view c s"
  by (simp_all add: policies_view_def quotas_view_def instances_view_def usage_view_def)

lemma budgets_view_requests [simp]: "budgets_view E c (st_requests_update f s) = budgets_view E c s"
  by (simp add: budgets_view_def)

lemma gov_hard_requests [simp]: "gov_hard E c rc (st_requests_update f s) = gov_hard E c rc s"
  unfolding gov_hard_def by (simp only: views_requests budgets_view_requests)

text \<open>An operation that reads without looking at the requests.\<close>

definition unseen :: "('w st \<Rightarrow> 'w st) \<Rightarrow> ('w st, 'a) op \<Rightarrow> bool" where
  "unseen g m \<longleftrightarrow> (\<forall>s. snd (m s) = s \<and> fst (m (g s)) = fst (m s))"

lemma unseen_bindE: "unseen g m \<Longrightarrow> (\<And>x. unseen g (h x)) \<Longrightarrow> unseen g (bindE m h)"
  by (simp add: unseen_def fst_bindE snd_bindE split: sum.split)

lemma unseen_one: "(\<And>s. p (g s) = p s) \<Longrightarrow> unseen g (one p)"
  by (simp add: unseen_def one_def split: option.split)

lemma unseen_wrap: "unseen g m \<Longrightarrow> unseen g (wrap c m)"
  by (simp add: unseen_def fst_wrap)

lemma unseen_ret: "unseen g (ret x)"
  by (simp add: unseen_def)

lemma unseen_fail: "unseen g (fail e)"
  by (simp add: unseen_def)

lemma unseen_guardE: "unseen g (guardE b e)"
  by (simp add: guardE_def unseen_ret unseen_fail)

lemma unseen_lift: "unseen g (lift r)"
  by (simp add: lift_def unseen_ret unseen_fail split: sum.split)

lemma unseen_query: "unseen g m \<Longrightarrow> unseen g (query E n m)"
  by (simp add: query_def unseen_fail)

lemmas unseen_intros = unseen_one unseen_wrap unseen_ret unseen_fail unseen_guardE unseen_lift unseen_query

lemma unseen_services:
  "unseen (st_requests_update f) (q_GetAIService E k)" "unseen (st_requests_update f) (q_GetAIServiceBySlug E slug)"
  unfolding q_GetAIService_def q_GetAIServiceBySlug_def
  by (rule unseen_query, rule unseen_one, simp)+

lemma unseen_lookupAIService: "unseen (st_requests_update f) (lookupAIService E spec)"
  unfolding lookupAIService_def
  by (split if_split option.split)+ (intro conjI impI allI unseen_intros unseen_services)

lemma unseen_resolve_plan: "unseen (st_requests_update f) (resolve_plan E req)"
  unfolding resolve_plan_def q_GetAIProvider_def
  by (intro unseen_bindE unseen_wrap unseen_ret unseen_guardE unseen_lift unseen_lookupAIService unseen_query unseen_one)
     simp

lemma resolve_plan_requests [simp]: "fst (resolve_plan E req (st_requests_update f s)) = fst (resolve_plan E req s)"
  using unseen_resolve_plan [of f E req] by (simp add: unseen_def)

definition decided :: "string \<Rightarrow> time \<Rightarrow> Request \<Rightarrow> Request" where
  "decided approvedBy now r = r\<lparr>r_Status := ''approved'', r_DecidedBy := approvedBy, r_Reason := [], r_UpdatedAt := now\<rparr>"

lemma run_update_row:
  "fst (query E n (bindE (one g) (\<lambda>_. bindE (check (\<lambda>_. ok) e) (\<lambda>_. update_row get upd key k f))) s) = Inr r \<Longrightarrow>
   snd (query E n (bindE (one g) (\<lambda>_. bindE (check (\<lambda>_. ok) e) (\<lambda>_. update_row get upd key k f))) s) = upd (update_rows (\<lambda>r. key r = k) (f (st_now s))) s"
  by (auto simp: query_def fst_bindE snd_bindE one_def check_def update_row_def split: if_splits option.splits)

lemma q_DecideRequest_approved:
  "fst (q_DecideRequest E k ''approved'' a [] s) = Inr r \<Longrightarrow>
     snd (q_DecideRequest E k ''approved'' a [] s) = st_requests_update (update_rows (\<lambda>r. r_ID r = k) (decided a (st_now s))) s"
  unfolding q_DecideRequest_def decided_def [abs_def] by (rule run_update_row)

lemma provisionRequest_requests [simp]: "st_requests (snd (provisionRequest E c req s)) = st_requests s"
  unfolding provisionRequest_def
  by (rule relD) (intro same.rel_intros reqs.rel_ProvisionAIRequest)

lemma effects_instances [simp]:
  "st_instances (snd (emit E kind action name environment provider msg s)) = st_instances s"
  "st_instances (snd (q_SetRequestResource E k resource status s)) = st_instances s"
  "st_instances (snd (q_DecideRequest E k status who why s)) = st_instances s"
  by (rule relD, rule insts.rel_emit, rule relD, rule insts.R_SetRequestResource, rule relD, rule insts.R_DecideRequest)

lemma emit_requests [simp]: "st_requests (snd (emit E kind action name environment provider msg s)) = st_requests s"
  using relD [OF reqs.rel_emit] .

text \<open>The state after the decision is recorded, in which the request is provisioned.\<close>

definition after_decision :: "'w env \<Rightarrow> string \<Rightarrow> Request \<Rightarrow> 'w st \<Rightarrow> 'w st" where
  "after_decision E a req s = snd (q_DecideRequest E (r_ID req) ''approved'' a [] s)"

lemma approve_pending_value:
  "fst (approve_pending E c environment a req s) = (case fst (q_DecideRequest E (r_ID req) ''approved'' a [] s) of
     Inl e \<Rightarrow> Inl (Wrap ''recording approval'' e)
   | Inr r \<Rightarrow> (case fst (provisionRequest E c req (after_decision E a req s)) of
       Inl e \<Rightarrow> Inl (Wrap ''provisioning approved request'' e) | Inr v \<Rightarrow> Inr ()))"
  by (simp add: approve_pending_def run_simps after_decision_def Let_def split: sum.split prod.split)

lemma approve_pending_instances:
  "st_instances (snd (approve_pending E c environment a req s)) =
     (case fst (q_DecideRequest E (r_ID req) ''approved'' a [] s) of
        Inl e \<Rightarrow> st_instances s
      | Inr r \<Rightarrow> st_instances (snd (provisionRequest E c req (after_decision E a req s))))"
  by (simp add: approve_pending_def run_simps after_decision_def Let_def split: sum.split prod.split)

lemma approve_pending_requests:
  "fst (approve_pending E c environment a req s) = Inr u \<Longrightarrow>
   \<exists>ref. st_requests (snd (approve_pending E c environment a req s)) =
     st_requests (snd (q_SetRequestResource E (r_ID req) ref ''completed''
       (snd (provisionRequest E c req (after_decision E a req s)))))"
  using provisionRequest_completed [of E c req "after_decision E a req s"]
  by (auto simp: approve_pending_def run_simps after_decision_def Let_def split: sum.splits prod.splits)

text \<open>A decision that is recorded leaves the row of the request approved and signed; settling it keeps
  both up to the final status.\<close>

definition signed :: "uuid \<Rightarrow> string \<Rightarrow> 'w st \<Rightarrow> bool" where
  "signed k a s \<longleftrightarrow> (\<exists>r \<in> set (st_requests s). r_ID r = k \<and> r_Status r \<in> {''approved'', ''completed''} \<and> r_DecidedBy r = a)"

lemma signed_after_decision:
  assumes "fst (q_DecideRequest E (r_ID req) ''approved'' a [] s) = Inr r" "req \<in> set (st_requests s)"
  shows "signed (r_ID req) a (after_decision E a req s)"
  using assms(2) unfolding signed_def after_decision_def q_DecideRequest_approved [OF assms(1)]
  by (intro bexI [of _ "decided a (st_now s) req"]) (auto simp: set_update_rows decided_def)

lemma signed_SetRequestResource:
  assumes "signed k a s"
  shows "signed k a (snd (q_SetRequestResource E k ref ''completed'' s))"
proof -
  let ?f = "\<lambda>r. r\<lparr>r_ResourceRef := ref, r_Status := ''completed'', r_UpdatedAt := st_now s\<rparr>"
  let ?t = "snd (q_SetRequestResource E k ref ''completed'' s)"
  obtain r where r: "r \<in> set (st_requests s)" "r_ID r = k" "r_DecidedBy r = a"
    using assms by (auto simp: signed_def)
  have "st_requests ?t = st_requests s \<or> st_requests ?t = update_rows (\<lambda>r. r_ID r = k) ?f (st_requests s)"
    by (auto simp: query_simps split: option.splits)
  then show ?thesis
  proof
    assume "st_requests ?t = update_rows (\<lambda>r. r_ID r = k) ?f (st_requests s)"
    then show ?thesis
      unfolding signed_def using r by (intro bexI [of _ "?f r"]) (auto simp: set_update_rows)
  qed (use assms in \<open>simp add: signed_def\<close>)
qed

section \<open>What an approval grants\<close>

definition grant_for :: "'w env \<Rightarrow> ctx \<Rightarrow> Request \<Rightarrow> 'w st \<Rightarrow> AiServiceInstance \<Rightarrow> bool" where
  "grant_for E c req s i \<longleftrightarrow> (\<exists>p. fst (resolve_plan E req s) = Inr p
     \<and> gov_hard E c (plan_facts req p) s = [] \<and> granted_by req p i)"

lemma approve_pending_adds:
  assumes "fst (approve_pending E c environment a req s) = Inr u"
  shows "\<exists>i. st_instances (snd (approve_pending E c environment a req s)) = st_instances s @ [i] \<and> grant_for E c req s i"
proof -
  obtain r v where dec: "fst (q_DecideRequest E (r_ID req) ''approved'' a [] s) = Inr r"
    and prov: "fst (provisionRequest E c req (after_decision E a req s)) = Inr v"
    using assms by (auto simp: approve_pending_value split: sum.splits)
  have s1: "after_decision E a req s = st_requests_update (update_rows (\<lambda>r. r_ID r = r_ID req) (decided a (st_now s))) s"
    using q_DecideRequest_approved [OF dec] by (simp add: after_decision_def)
  have "st_instances (after_decision E a req s) = st_instances s" by (simp add: s1)
  moreover obtain i p where "st_instances (snd (provisionRequest E c req (after_decision E a req s)))
      = st_instances (after_decision E a req s) @ [i]"
    "fst (resolve_plan E req s) = Inr p" "gov_hard E c (plan_facts req p) s = []" "granted_by req p i"
    using provisionRequest_grants [where E = E and c = c and req = req and s = "after_decision E a req s"] prov
    by (cases "provisionRequest E c req (after_decision E a req s)"; cases v) (auto simp: s1)
  ultimately show ?thesis
    by (auto simp: approve_pending_instances dec grant_for_def)
qed

lemma approve_pending_signs:
  assumes "fst (approve_pending E c environment a req s) = Inr u" "req \<in> set (st_requests s)"
  shows "signed (r_ID req) a (snd (approve_pending E c environment a req s))"
proof -
  obtain r where dec: "fst (q_DecideRequest E (r_ID req) ''approved'' a [] s) = Inr r"
    using assms(1) by (auto simp: approve_pending_value split: sum.splits)
  obtain ref where reqs: "st_requests (snd (approve_pending E c environment a req s)) =
      st_requests (snd (q_SetRequestResource E (r_ID req) ref ''completed'' (snd (provisionRequest E c req (after_decision E a req s)))))"
    using approve_pending_requests [OF assms(1)] by blast
  have "signed (r_ID req) a (snd (provisionRequest E c req (after_decision E a req s)))"
    using signed_after_decision [OF dec assms(2)] by (simp add: signed_def)
  from signed_SetRequestResource [OF this] show ?thesis
    using reqs by (simp add: signed_def)
qed

lemma approve_pending_refused:
  assumes "fst (approve_pending E c environment a req s) = Inl e"
  shows "st_instances (snd (approve_pending E c environment a req s)) = st_instances s"
proof (cases "fst (q_DecideRequest E (r_ID req) ''approved'' a [] s)")
  case (Inr r)
  have "st_instances (after_decision E a req s) = st_instances s" by (simp add: after_decision_def)
  moreover obtain e' where "fst (provisionRequest E c req (after_decision E a req s)) = Inl e'"
    using assms Inr by (auto simp: approve_pending_value split: sum.splits)
  then have "st_instances (snd (provisionRequest E c req (after_decision E a req s))) = st_instances (after_decision E a req s)"
    using provisionRequest_grants [where E = E and c = c and req = req and s = "after_decision E a req s"]
    by (cases "provisionRequest E c req (after_decision E a req s)") auto
  ultimately show ?thesis by (simp add: approve_pending_instances Inr)
qed (simp add: approve_pending_instances)

text \<open>The approval itself: found, pending and in scope, or refused without a trace among the instances.\<close>

lemma ApproveRequest_cases:
  obtains (refused) e where "fst (ApproveRequest E c name environment a s) = Inl e"
      "st_instances (snd (ApproveRequest E c name environment a s)) = st_instances s"
  | (granted) req i where "fst (ApproveRequest E c name environment a s) = Inr ()"
      "req \<in> set (st_requests s)" "r_Name req = name" "r_Environment req = default_env environment"
      "r_Status req = ''pending_approval''" "in_scope c (r_TenantID req)"
      "st_instances (snd (ApproveRequest E c name environment a s)) = st_instances s @ [i]" "grant_for E c req s i"
      "signed (r_ID req) a (snd (ApproveRequest E c name environment a s))"
proof (cases "fst (find_request E c name (default_env environment) s)")
  case (Inl e)
  then show thesis by (intro refused) (simp_all add: ApproveRequest_def Let_def run_simps find_request_same)
next
  case (Inr req)
  note found = find_requestD [OF Inr]
  show thesis
  proof (cases "r_Status req = ''pending_approval''")
    case False
    with Inr show thesis by (intro refused) (simp_all add: ApproveRequest_def Let_def run_simps find_request_same)
  next
    case True
    with Inr have run: "ApproveRequest E c name environment a s = approve_pending E c (default_env environment) a req s"
      by (intro prod_eqI) (simp_all add: ApproveRequest_def Let_def run_simps find_request_same)
    show thesis
    proof (cases "fst (approve_pending E c (default_env environment) a req s)")
      case Inl': (Inl e)
      then show thesis using approve_pending_refused [OF Inl'] by (intro refused) (simp_all add: run)
    next
      case Inr': (Inr u)
      then show thesis using approve_pending_adds [OF Inr'] approve_pending_signs [OF Inr'] found True granted [of req] by (auto simp: run)
    qed
  qed
qed

section \<open>Every instance belongs to one approved request\<close>

definition settled :: "string \<Rightarrow> bool" where
  "settled x \<longleftrightarrow> x = ''approved'' \<or> x = ''completed''"

definition backs :: "Request \<Rightarrow> uuid option \<times> uuid option \<times> json \<Rightarrow> bool" where
  "backs r core \<longleftrightarrow> settled (r_Status r) \<and> core = (Some (r_ID r), r_TenantID r, r_Spec r)"

definition backing :: "AiServiceInstance \<Rightarrow> uuid option \<times> uuid option \<times> json" where
  "backing i = (i_RequestID i, i_TenantID i, i_Spec i)"

definition grounded :: "'w st \<Rightarrow> bool" where
  "grounded s \<longleftrightarrow> (\<forall>i \<in> set (st_instances s). \<exists>r \<in> set (st_requests s). backs r (backing i))
     \<and> distinct (map i_RequestID (st_instances s))"

lemma groundedD: "grounded s \<Longrightarrow> i \<in> set (st_instances s) \<Longrightarrow> \<exists>r \<in> set (st_requests s). backs r (backing i)"
  by (simp add: grounded_def)

text \<open>A settled request stays settled, whatever the command.\<close>

lemma list_all2_step_origin:
  assumes "list_all2 (request_step k) rs ts" "t \<in> set ts"
  shows "\<exists>r \<in> set rs. req_core t = req_core r"
proof -
  obtain n where n: "n < length ts" "ts ! n = t" using assms(2) by (auto simp: in_set_conv_nth)
  then have "request_step k (rs ! n) t" "n < length rs"
    using assms(1) by (auto simp: list_all2_conv_all_nth)
  then show ?thesis by (auto simp: request_step_def)
qed

lemma request_edge_pending: "request_edge k a b \<Longrightarrow> a = ''pending_approval''"
  by (cases k) simp_all

lemma settled_not_pending: "\<not> settled ''pending_approval''"
  by (simp add: settled_def)

lemma request_step_backs: "request_step k r r' \<Longrightarrow> backs r core \<Longrightarrow> backs r' core"
  using request_edge_pending [of k "r_Status r" "r_Status r'"] settled_not_pending
  unfolding request_step_def backs_def req_core_def by force

lemma subseq_distinct: "subseq xs ys \<Longrightarrow> distinct ys \<Longrightarrow> distinct xs"
  by (metis distinct_nthsI subseq_conv_nths)

lemma subseq_subset: "subseq xs ys \<Longrightarrow> set xs \<subseteq> set ys"
  by (metis set_nths_subset subseq_conv_nths)

lemma backs_run:
  assumes "wf_ids s" "r \<in> set (st_requests s)" "backs r core"
  shows "\<exists>r' \<in> set (st_requests (snd (run E c k s))). backs r' core"
proof -
  obtain old new where t: "st_requests (snd (run E c k s)) = old @ new"
    and steps: "list_all2 (request_step k) (st_requests s) old"
    using run_requests [OF assms(1)] by blast
  obtain n where n: "n < length (st_requests s)" "st_requests s ! n = r"
    using assms(2) by (auto simp: in_set_conv_nth)
  with steps have "request_step k r (old ! n)" "n < length old"
    by (auto simp: list_all2_conv_all_nth)
  then show ?thesis
    using request_step_backs [OF _ assms(3)] by (intro bexI [of _ "old ! n"]) (auto simp: t)
qed

lemma shrinks_backing: "shrinks s t \<Longrightarrow> subseq (map backing (st_instances t)) (map backing (st_instances s))"
proof -
  let ?f = "\<lambda>(a, b, c, d). (b, c, d)"
  assume "shrinks s t"
  then have "subseq (map ?f (map inst_core (st_instances t))) (map ?f (map inst_core (st_instances s)))"
    unfolding shrinks_def by (rule subseq_map)
  moreover have "map ?f (map inst_core is) = map backing is" for "is"
    by (simp add: inst_core_def backing_def)
  ultimately show ?thesis by metis
qed

lemma grounded_subseq:
  assumes "wf_ids s" "grounded s" "subseq (map backing (st_instances (snd (run E c k s)))) (map backing (st_instances s))"
  shows "grounded (snd (run E c k s))"
proof -
  let ?t = "snd (run E c k s)"
  have "set (map backing (st_instances ?t)) \<subseteq> set (map backing (st_instances s))"
    using assms(3) by (rule subseq_subset)
  then have "\<exists>r \<in> set (st_requests s). backs r (backing i)" if "i \<in> set (st_instances ?t)" for i
    using that assms(2) by (fastforce simp: grounded_def)
  then have "\<exists>r \<in> set (st_requests ?t). backs r (backing i)" if "i \<in> set (st_instances ?t)" for i
    using that backs_run [OF assms(1)] by blast
  moreover have "subseq (map fst (map backing (st_instances ?t))) (map fst (map backing (st_instances s)))"
    using assms(3) by (rule subseq_map)
  then have "distinct (map i_RequestID (st_instances ?t))"
    using assms(2) subseq_distinct by (fastforce simp: grounded_def backing_def comp_def)
  ultimately show ?thesis by (simp add: grounded_def)
qed

lemma grounded_approve:
  assumes "wf_ids s" "grounded s"
  shows "grounded (snd (ApproveRequest E c name environment a s))"
proof (cases rule: ApproveRequest_cases [of E c name environment a s])
  case (refused e)
  then show ?thesis
    using grounded_subseq [OF assms, of E c "Approve name environment a"] by simp
next
  case (granted req i)
  let ?t = "snd (ApproveRequest E c name environment a s)"
  have core: "backing i = (Some (r_ID req), r_TenantID req, r_Spec req)"
    using granted(8) by (auto simp: grant_for_def granted_by_def backing_def)
  have old: "\<exists>r \<in> set (st_requests ?t). backs r (backing j)" if j: "j \<in> set (st_instances s)" for j
  proof -
    obtain r where "r \<in> set (st_requests s)" "backs r (backing j)" using groundedD [OF assms(2) j] ..
    from backs_run [OF assms(1) this, of E c "Approve name environment a"] show ?thesis by simp
  qed
  obtain r where r: "r \<in> set (st_requests ?t)" "r_ID r = r_ID req" "settled (r_Status r)"
    using granted(9) by (auto simp: signed_def settled_def)
  obtain old' new where t: "st_requests ?t = old' @ new"
    and steps: "list_all2 (request_step (Approve name environment a)) (st_requests s) old'"
    and pending: "list_all (\<lambda>r. r_Status r = ''pending_approval'') new"
    using run_requests [OF assms(1), of E c "Approve name environment a"] by auto
  have "r \<in> set old'" using r t pending by (auto simp: list_all_iff settled_def)
  then obtain r0 where r0: "r0 \<in> set (st_requests s)" "req_core r = req_core r0"
    using list_all2_step_origin [OF steps] by blast
  have inj: "x = y" if "x \<in> set (st_requests s)" "y \<in> set (st_requests s)" "r_ID x = r_ID y" for x y
    using that assms(1) by (auto simp: wf_ids_def fresh_def distinct_map inj_on_def)
  have "r0 = req" using r0 r(2) granted(2) by (intro inj) (auto simp: req_core_def)
  then have "backs r (backing i)" using r r0 by (simp add: backs_def core req_core_def)
  moreover have "i_RequestID j \<noteq> i_RequestID i" if j: "j \<in> set (st_instances s)" for j
  proof
    assume "i_RequestID j = i_RequestID i"
    then obtain x where "x \<in> set (st_requests s)" "settled (r_Status x)" "r_ID x = r_ID req"
      using groundedD [OF assms(2) j] core by (auto simp: backs_def backing_def)
    then show False using inj [of x req] granted(2,5) by (auto simp: settled_def)
  qed
  ultimately have "i_RequestID i \<notin> i_RequestID ` set (st_instances s)" "\<exists>r \<in> set (st_requests ?t). backs r (backing i)"
    using r(1) by (force simp: image_iff, blast)
  then show ?thesis
    using old assms(2) by (auto simp: grounded_def granted(7))
qed

lemma grounded_run: "wf_ids s \<Longrightarrow> grounded s \<Longrightarrow> grounded (snd (run E c k s))"
proof (cases "approves k")
  case True
  assume "wf_ids s" "grounded s"
  with True show ?thesis by (cases k) (simp_all add: grounded_approve)
next
  case False
  assume "wf_ids s" "grounded s"
  then show ?thesis
    by (rule grounded_subseq) (rule shrinks_backing, rule relD [OF shrinks.rel_run_standing [OF False]])
qed

lemma grounded_reachable: "reachable s \<Longrightarrow> wf_ids s \<and> grounded s"
proof (erule reachable_invariant)
  fix t :: time and w :: 'a
  show "wf_ids (initial t w) \<and> grounded (initial t w)"
    using wf_initial [of t w] by (simp add: wf_def grounded_def initial_def)
next
  fix s :: "'a st" and E c k
  assume "wf_ids s \<and> grounded s"
  then show "wf_ids (snd (run E c k s)) \<and> grounded (snd (run E c k s))"
    using grounded_run ids.R_run by blast
qed (simp_all add: wf_ids_def grounded_def)

end
