(* ===== verification/Outcome.thy ===== *)
theory Outcome
  imports Grants
begin

text \<open>
  What single operations do, branch by branch. \<open>post Q m s\<close> says that running \<open>m\<close> in \<open>s\<close> ends with a
  result and a state that satisfy \<open>Q\<close>; its rules follow the combinators, so an operation is unfolded
  and walked from the first guard to the last effect. \<open>quiet\<close> is the frame of the shared effects:
  audit events, published events, calls into the world and the identifiers they use.
\<close>

section \<open>Outcomes\<close>

definition post :: "(err + 'a \<Rightarrow> 's \<Rightarrow> bool) \<Rightarrow> ('s, 'a) op \<Rightarrow> 's \<Rightarrow> bool" where
  "post Q m s \<longleftrightarrow> Q (fst (m s)) (snd (m s))"

lemma post_ret: "Q (Inr x) s \<Longrightarrow> post Q (ret x) s"
  by (simp add: post_def)

lemma post_fail: "Q (Inl e) s \<Longrightarrow> post Q (fail e) s"
  by (simp add: post_def)

lemma post_bindE: "post (\<lambda>r t. case r of Inl e \<Rightarrow> Q (Inl e) t | Inr x \<Rightarrow> post Q (f x) t) m s \<Longrightarrow> post Q (bindE m f) s"
  by (simp add: post_def run_simps split: sum.splits)

lemma post_guardE: "(b \<Longrightarrow> post Q (f ()) s) \<Longrightarrow> (\<not> b \<Longrightarrow> Q (Inl e) s) \<Longrightarrow> post Q (bindE (guardE b e) f) s"
  by (simp add: post_def run_simps)

lemma post_gets: "post Q (f (g s)) s \<Longrightarrow> post Q (bindE (gets g) f) s"
  by (simp add: post_def run_simps)

lemma post_attempt: "post (\<lambda>r t. post Q (f r) t) m s \<Longrightarrow> post Q (bindE (attempt m) f) s"
  by (simp add: post_def run_simps)

lemma post_ignore: "post (\<lambda>r t. post Q (f ()) t) m s \<Longrightarrow> post Q (bindE (ignore m) f) s"
  by (simp add: post_def run_simps)

text \<open>A first operation that only reads.\<close>

lemma post_read:
  assumes "rel (\<lambda>s t. t = s) m" "\<And>x. fst (m s) = Inr x \<Longrightarrow> post Q (f x) s" "\<And>e. fst (m s) = Inl e \<Longrightarrow> Q (Inl e) s"
  shows "post Q (bindE m f) s"
  using assms(2,3) relD [OF assms(1), of s] by (cases "fst (m s)") (simp_all add: post_def run_simps)

text \<open>A first operation of which only a frame is known.\<close>

lemma post_frame:
  assumes "rel R m" "\<And>x t. R s t \<Longrightarrow> post Q (f x) t" "\<And>e t. R s t \<Longrightarrow> Q (Inl e) t"
  shows "post Q (bindE m f) s"
  using assms(2,3) relD [OF assms(1), of s] by (cases "fst (m s)") (simp_all add: post_def run_simps)

lemma post_frame_last:
  assumes "rel R m" "\<And>r t. R s t \<Longrightarrow> Q r t"
  shows "post Q m s"
  using assms(2) relD [OF assms(1), of s] by (simp add: post_def)

lemma post_iff: "post Q m s \<longleftrightarrow> (case m s of (r, t) \<Rightarrow> Q r t)"
  by (cases "m s") (simp add: post_def)

section \<open>The frame of the shared effects\<close>

definition quiet :: "'w st \<Rightarrow> 'w st \<Rightarrow> bool" where
  "quiet s t \<longleftrightarrow> st_now t = st_now s \<and> st_providers t = st_providers s \<and> st_credentials t = st_credentials s
     \<and> st_services t = st_services s \<and> st_instances t = st_instances s \<and> st_usage t = st_usage s
     \<and> st_budgets t = st_budgets s \<and> st_quotas t = st_quotas s \<and> st_policies t = st_policies s
     \<and> st_models t = st_models s \<and> st_requests t = st_requests s \<and> st_tenants t = st_tenants s
     \<and> st_users t = st_users s \<and> st_servers t = st_servers s \<and> st_grants t = st_grants s"

interpretation quiet: audit_rel quiet
  by (unfold_locales; simp add: quiet_def query_simps)

lemma quiet_refl [simp]: "quiet s s"
  by (simp add: quiet_def)

lemma quietD:
  assumes "quiet s t"
  shows "st_instances t = st_instances s" "st_requests t = st_requests s" "st_now t = st_now s"
    "st_providers t = st_providers s" "st_services t = st_services s" "st_usage t = st_usage s"
    "st_budgets t = st_budgets s" "st_quotas t = st_quotas s" "st_policies t = st_policies s"
    "st_models t = st_models s" "st_credentials t = st_credentials s" "st_grants t = st_grants s"
    "st_servers t = st_servers s" "st_users t = st_users s" "st_tenants t = st_tenants s"
  using assms by (simp_all add: quiet_def)

lemmas quiet_rules = quiet.audit_rules

text \<open>An update of one row, its result and its failure.\<close>

lemma post_update_row:
  assumes "\<And>r. List.find (\<lambda>r. key r = k) (get s) = Some r \<Longrightarrow> Q (Inr (f (st_now s) r)) (upd (update_rows (\<lambda>r. key r = k) (f (st_now s))) s)"
    and "\<And>e. Q (Inl e) s"
  shows "post Q (query E n (update_row get upd key k f)) s"
  using assms by (auto simp: post_def query_def update_row_def split: option.split)

lemma post_wrap: "post (\<lambda>r t. case r of Inl e \<Rightarrow> Q (Inl (Wrap c e)) t | Inr x \<Rightarrow> Q (Inr x) t) m s \<Longrightarrow> post Q (wrap c m) s"
  by (simp add: post_def fst_wrap split: sum.splits)

text \<open>The shared effects always return.\<close>

lemma post_total:
  assumes "rel quiet m" "\<And>s. fst (m s) = Inr ()" "\<And>t. quiet s t \<Longrightarrow> post Q (f ()) t"
  shows "post Q (bindE m f) s"
  using assms(3) relD [OF assms(1), of s] assms(2) [of s] by (simp add: post_def run_simps)

lemmas post_audit = post_total [OF quiet.rel_emitAIAudit fst_emitAIAudit]
lemmas post_emit = post_total [OF quiet.rel_emit fst_emit]

lemma post_last_audit:
  "(\<And>t. quiet s t \<Longrightarrow> Q (Inr ()) t) \<Longrightarrow> post Q (emitAIAudit E c sty sid action msg flds fallback) s"
  using relD [OF quiet.rel_emitAIAudit] by (simp add: post_def) blast

section \<open>Revocation\<close>

definition revoked_at :: "time \<Rightarrow> AiServiceInstance \<Rightarrow> AiServiceInstance" where
  "revoked_at t i = i\<lparr>i_Status := ''revoked'', i_RevokedAt := Some t, i_UpdatedAt := t\<rparr>"

definition with_instance :: "uuid \<Rightarrow> (AiServiceInstance \<Rightarrow> AiServiceInstance) \<Rightarrow> 'w st \<Rightarrow> AiServiceInstance list" where
  "with_instance k f s = update_rows (\<lambda>i. i_ID i = k) f (st_instances s)"

definition live_in_scope :: "ctx \<Rightarrow> uuid \<Rightarrow> 'w st \<Rightarrow> AiServiceInstance \<Rightarrow> bool" where
  "live_in_scope c k s i \<longleftrightarrow> List.find (\<lambda>i. i_ID i = k) (st_instances s) = Some i
     \<and> in_scope c (i_TenantID i) \<and> live_status (i_Status i)"

lemma reads_instance: "fst (q_GetAIServiceInstance E k s) = Inr i \<Longrightarrow> List.find (\<lambda>i. i_ID i = k) (st_instances s) = Some i"
  by (auto simp: q_GetAIServiceInstance_def query_def one_def split: if_splits option.splits)

lemma read_wrap: "fst (wrap c m s) = Inr x \<Longrightarrow> fst (m s) = Inr x"
  by (auto simp: fst_wrap split: sum.splits)

lemma post_q_Revoke:
  assumes "\<And>i. List.find (\<lambda>i. i_ID i = k) (st_instances s) = Some i \<Longrightarrow>
      Q (Inr (revoked_at (st_now s) i)) (st_instances_update (update_rows (\<lambda>i. i_ID i = k) (revoked_at (st_now s))) s)"
    and "\<And>e. Q (Inl e) s"
  shows "post Q (q_RevokeAIServiceInstance E k) s"
  unfolding q_RevokeAIServiceInstance_def using assms
  by (intro post_update_row) (simp_all add: revoked_at_def [abs_def])

definition revocation :: "ctx \<Rightarrow> uuid \<Rightarrow> 'w st \<Rightarrow> err + AiServiceInstance \<Rightarrow> 'w st \<Rightarrow> bool" where
  "revocation c k s r t \<longleftrightarrow> (case r of
     Inl e \<Rightarrow> st_instances t = st_instances s
   | Inr x \<Rightarrow> \<exists>i. live_in_scope c k s i \<and> x = revoked_at (st_now s) i
       \<and> st_instances t = with_instance k (revoked_at (st_now s)) s)"

lemma revocation_fail: "st_instances t = st_instances s \<Longrightarrow> revocation c k s (Inl e) t"
  by (simp add: revocation_def)

lemma revocation_ok:
  "live_in_scope c k s i \<Longrightarrow> st_instances t = with_instance k (revoked_at (st_now s)) s \<Longrightarrow>
   revocation c k s (Inr (revoked_at (st_now s) i)) t"
  by (auto simp: revocation_def)

lemma post_RevokeAIInstance: "post (revocation c k s) (RevokeAIInstance E c k actor) s"
  unfolding RevokeAIInstance_def Let_def
proof (rule post_read, goal_cases)
  case (2 i)
  then have i: "List.find (\<lambda>i. i_ID i = k) (st_instances s) = Some i"
    by (rule reads_instance [OF read_wrap])
  then have k: "i_ID i = k" by (auto dest: find_SomeD)
  have update: "post (revocation c k s) (bindE (wrap ''recording ai revoke'' (q_RevokeAIServiceInstance E (i_ID i))) (\<lambda>revoked.
      bindE (emit E ''ai_service'' ''revoked'' (env_uuid_string E (i_ID i)) [] pn m) (\<lambda>_.
      bindE (emitAIAudit E c ''ai_instance'' (i_ID i) ''revoked'' m' flds actor) (\<lambda>_. ret revoked)))) t"
    if "live_in_scope c k s i" "quiet s t" for t :: "'a st" and pn m m' flds
    unfolding k
    by (rule post_bindE, rule post_wrap, rule post_q_Revoke)
       (use that i in \<open>auto intro!: post_emit post_audit post_ret revocation_ok revocation_fail simp: quietD with_instance_def\<close>)
  show ?case
    by (rule post_guardE, rule post_guardE, (rule post_read, (intro ro.query_rules; fail))+,
        rule post_attempt, rule post_frame_last [OF quiet.rel_on_world])
       (auto intro!: update post_audit post_fail revocation_fail simp: quietD live_in_scope_def i split: sum.split)
qed (auto intro!: ro.query_rules revocation_fail)

section \<open>Recertification\<close>

definition recertified :: "int \<Rightarrow> time \<Rightarrow> AiServiceInstance \<Rightarrow> AiServiceInstance" where
  "recertified days t i = i\<lparr>i_ExpiresAt := Some (AddDays t (if days \<le> 0 then 90 else days)), i_UpdatedAt := t\<rparr>"

definition recertification :: "ctx \<Rightarrow> uuid \<Rightarrow> int \<Rightarrow> 'w st \<Rightarrow> err + AiServiceInstance \<Rightarrow> 'w st \<Rightarrow> bool" where
  "recertification c k days s r t \<longleftrightarrow> (case r of
     Inl e \<Rightarrow> st_instances t = st_instances s
   | Inr x \<Rightarrow> \<exists>i. live_in_scope c k s i \<and> x = recertified days (st_now s) i
       \<and> st_instances t = with_instance k (recertified days (st_now s)) s)"

lemma recertification_fail: "st_instances t = st_instances s \<Longrightarrow> recertification c k days s (Inl e) t"
  by (simp add: recertification_def)

lemma recertification_ok:
  "live_in_scope c k s i \<Longrightarrow> st_instances t = with_instance k (recertified days (st_now s)) s \<Longrightarrow>
   recertification c k days s (Inr (recertified days (st_now s) i)) t"
  by (auto simp: recertification_def)

lemma post_q_Recertify:
  assumes "\<And>i. List.find (\<lambda>i. i_ID i = k) (st_instances s) = Some i \<Longrightarrow>
      Q (Inr (recertified days (st_now s) i)) (st_instances_update (update_rows (\<lambda>i. i_ID i = k) (recertified days (st_now s))) s)"
    and "\<And>e. Q (Inl e) s"
  shows "post Q (q_RecertifyAIServiceInstance E k (Some (AddDays (st_now s) (if days \<le> 0 then 90 else days)))) s"
  unfolding q_RecertifyAIServiceInstance_def using assms
  by (intro post_update_row) (simp_all add: recertified_def [abs_def])

lemma post_RecertifyAIInstance: "post (recertification c k days s) (RecertifyAIInstance E c k days actor) s"
  unfolding RecertifyAIInstance_def Let_def
proof (rule post_read, goal_cases)
  case (2 i)
  then have i: "List.find (\<lambda>i. i_ID i = k) (st_instances s) = Some i"
    by (rule reads_instance [OF read_wrap])
  show ?case
    by (rule post_guardE, rule post_guardE, rule post_gets, rule post_bindE, rule post_wrap, rule post_q_Recertify)
       (use i in \<open>auto intro!: post_audit post_ret recertification_ok recertification_fail
          simp: quietD with_instance_def live_in_scope_def\<close>)
qed (auto intro!: ro.query_rules recertification_fail)

section \<open>The reaper\<close>

text \<open>What the reaper may do to an instance: leave it, or revoke it when it is live and expired.\<close>

definition reaped :: "time \<Rightarrow> AiServiceInstance \<Rightarrow> AiServiceInstance \<Rightarrow> bool" where
  "reaped now i i' \<longleftrightarrow> i' = i \<or> (live_status (i_Status i) \<and> expired_now now (i_ExpiresAt i) \<and> i' = revoked_at now i)"

definition reaping :: "'w st \<Rightarrow> 'w st \<Rightarrow> bool" where
  "reaping s t \<longleftrightarrow> st_now t = st_now s \<and> list_all2 (reaped (st_now s)) (st_instances s) (st_instances t)"

lemma reaping_refl: "reaping s s"
  by (simp add: reaping_def reaped_def list_all2_refl)

lemma reaping_quiet: "reaping s t \<Longrightarrow> quiet t u \<Longrightarrow> reaping s u"
  by (simp add: reaping_def quietD)

lemma reaped_ID: "reaped now i i' \<Longrightarrow> i_ID i' = i_ID i"
  by (auto simp: reaped_def revoked_at_def)

lemma reaping_revoke:
  assumes "reaping s t" "\<And>i. i \<in> set (st_instances s) \<Longrightarrow> i_ID i = k \<Longrightarrow> live_status (i_Status i) \<and> expired_now (st_now s) (i_ExpiresAt i)"
    and "st_instances u = with_instance k (revoked_at (st_now t)) t" "st_now u = st_now t"
  shows "reaping s u"
proof -
  have now: "st_now t = st_now s" using assms(1) by (simp add: reaping_def)
  have step: "reaped (st_now s) i (if i_ID i' = k then revoked_at (st_now t) i' else i')"
    if "reaped (st_now s) i i'" "i \<in> set (st_instances s)" for i i'
    using that assms(2) [of i] reaped_ID [OF that(1)] now by (auto simp: reaped_def revoked_at_def)
  have "list_all2 (\<lambda>i i'. reaped (st_now s) i (if i_ID i' = k then revoked_at (st_now t) i' else i')) (st_instances s) (st_instances t)"
    using assms(1) step unfolding reaping_def by (elim conjE) (rule list.rel_mono_strong)
  then show ?thesis
    unfolding reaping_def assms(3,4) now with_instance_def update_rows_def list_all2_map2 by blast
qed

lemma revoke_now: "rel (\<lambda>s t. st_now t = st_now s) (RevokeAIInstance E c k actor)"
  using trail.rel_RevokeAIInstance by (rule rel_weaken) (simp add: trail_def)

lemma post_conj_rel: "post Q m s \<Longrightarrow> rel R m \<Longrightarrow> post (\<lambda>r t. Q r t \<and> R s t) m s"
  by (simp add: post_def relD)

lemma post_weaken: "post Q m s \<Longrightarrow> (\<And>r t. Q r t \<Longrightarrow> P r t) \<Longrightarrow> post P m s"
  by (simp add: post_def)

lemma post_foldE:
  "I s \<Longrightarrow> (\<And>acc x t. x \<in> set xs \<Longrightarrow> I t \<Longrightarrow> post (\<lambda>r u. I u) (f acc x) t) \<Longrightarrow> post (\<lambda>r u. I u) (foldE f acc xs) s"
proof (induction xs arbitrary: acc s)
  case (Cons x xs)
  have "post (\<lambda>r u. I u) (f acc x) s" using Cons.prems by simp
  moreover have "post (\<lambda>r u. I u) (foldE f acc' xs) u" if "I u" for acc' u
    using Cons.prems(2) that by (intro Cons.IH) auto
  ultimately show ?case
    unfolding foldE.simps by (intro post_bindE) (erule post_weaken, auto split: sum.split)
qed (simp add: post_ret)

lemma instance_rows_due:
  assumes "wf_ids s" "r \<in> set (List.map_filter (instance_row s) (rev (st_instances s)))" "reap_due (st_now s) r"
    and "i \<in> set (st_instances s)" "i_ID i = i_ID r"
  shows "live_status (i_Status i) \<and> expired_now (st_now s) (i_ExpiresAt i)"
proof -
  obtain j where j: "j \<in> set (st_instances s)" "instance_row s j = Some r"
    using assms(2) by (auto simp: set_map_filter)
  then have r: "i_ID r = i_ID j" "i_Status r = i_Status j" "i_ExpiresAt r = i_ExpiresAt j"
    by (auto simp: instance_row_def AiServiceInstance.defs split: option.splits)
  have "i = j" using assms(1,4,5) j r by (auto simp: wf_ids_def fresh_def distinct_map inj_on_def)
  then show ?thesis using assms(3) r by (simp add: reap_due_def)
qed

lemma post_reap_one:
  assumes "wf_ids s" "r \<in> set (List.map_filter (instance_row s) (rev (st_instances s)))" "reaping s t"
  shows "post (\<lambda>r u. reaping s u) (reap_one E c (st_now s) acc r) t"
proof (cases "reap_due (st_now s) r")
  case True
  have now: "st_now t = st_now s" using assms(3) by (simp add: reaping_def)
  have step: "reaping s v" if "revocation c (i_ID r) t x u" "st_now u = st_now t" "quiet u v" for x u v
    using that reaping_revoke [OF assms(3)] instance_rows_due [OF assms(1,2) True] assms(3)
    by (auto simp: revocation_def reaping_def quietD split: sum.splits)
  with True show ?thesis
    unfolding reap_one_def
    by (auto intro!: post_attempt post_weaken [OF post_conj_rel [OF post_RevokeAIInstance revoke_now]]
        post_ret post_audit intro: step split: sum.split)
qed (simp add: reap_one_def post_ret assms(3))

lemma reap_rows:
  "fst (wrap w (q_ListAIServiceInstances E) s) = Inr rows \<Longrightarrow> rows = List.map_filter (instance_row s) (rev (st_instances s))"
  by (auto simp: fst_wrap q_ListAIServiceInstances_def query_def run_simps split: if_splits sum.splits)

lemma post_ReapExpiredAIInstances:
  assumes "wf_ids s"
  shows "post (\<lambda>r t. reaping s t) (ReapExpiredAIInstances E c) s"
  unfolding ReapExpiredAIInstances_def
proof (rule post_read, goal_cases)
  case (2 rows)
  then show ?case
    using post_reap_one [OF assms] reap_rows [OF 2] by (intro post_gets post_foldE [where I = "reaping s"]) (auto simp: reaping_refl)
qed (auto intro!: ro.query_rules reaping_refl)

end
