(* ===== verification/Effects.thy ===== *)
theory Effects
  imports Outcome
begin

text \<open>
  What the other operations leave behind: filing a request, deleting a provider, importing a cost
  report twice, bootstrapping the first admin and authorizing a tool call.
\<close>

section \<open>Filing a request\<close>

definition filed_as :: "ctx \<Rightarrow> CreateAIRequestInput \<Rightarrow> Request \<Rightarrow> bool" where
  "filed_as c i r \<longleftrightarrow> r_Name r = in_Name i \<and> r_Environment r = ''dev'' \<and> r_Requester r = in_Requester i
     \<and> r_Kind r = ''ai_service'' \<and> r_Status r = ''pending_approval'' \<and> r_TenantID r = tenantForCreate c
     \<and> r_DecidedBy r = []"

definition filing :: "'w env \<Rightarrow> ctx \<Rightarrow> CreateAIRequestInput \<Rightarrow> 'w st \<Rightarrow> err + Request \<Rightarrow> 'w st \<Rightarrow> bool" where
  "filing E c i s r t \<longleftrightarrow> st_instances t = st_instances s \<and> (case r of
     Inl e \<Rightarrow> st_requests t = st_requests s
   | Inr q \<Rightarrow> (\<exists>v. fst (lookupAIService E (lookup_spec i) s) = Inr v \<and> gov_hard E c (request_facts c i v) s = []
       \<and> aiRequestSpecOf (r_Spec q) = aiRequestSpecOf (marshal_spec (input_spec E i v)))
       \<and> filed_as c i q \<and> st_requests t = st_requests s @ [q])"

lemma post_insert_row:
  assumes "Q (Inr (mk (st_next s) (st_now s))) ((upd (\<lambda>rows. rows @ [mk (st_next s) (st_now s)]) s)\<lparr>st_next := Suc (st_next s)\<rparr>)"
  shows "post Q (insert_row upd mk) s"
  using assms by (simp add: post_def insert_row_def Let_def)

lemma post_query: "Q (Inl Fault) s \<Longrightarrow> post Q m s \<Longrightarrow> post Q (query E n m) s"
  by (simp add: query_def post_fail)

lemma post_check: "(p s \<Longrightarrow> post Q (f ()) s) \<Longrightarrow> (\<not> p s \<Longrightarrow> Q (Inl e) s) \<Longrightarrow> post Q (bindE (check p e) f) s"
  by (simp add: post_def check_def run_simps)

lemma post_one: "(\<And>r. f s = Some r \<Longrightarrow> post Q (g r) s) \<Longrightarrow> Q (Inl NoRows) s \<Longrightarrow> post Q (bindE (one f) g) s"
  by (simp add: post_def one_def run_simps split: option.split)

lemma find_last: "\<forall>r \<in> set rows. key r \<noteq> key q \<Longrightarrow> List.find (\<lambda>r. key r = key q) (rows @ [q]) = Some q"
  by (induction rows) auto

text \<open>Opening a ticket only touches the row of the request it is for.\<close>

definition ticketed :: "Request \<Rightarrow> Request \<Rightarrow> bool" where
  "ticketed q q' \<longleftrightarrow> req_core q' = req_core q \<and> r_Status q' = r_Status q \<and> r_DecidedBy q' = r_DecidedBy q"

lemma ticketed_intros: "ticketed q q" "ticketed q (q\<lparr>r_TicketRef := k, r_UpdatedAt := now\<rparr>)"
  by (simp_all add: ticketed_def req_core_def)

lemma post_open_ticket:
  assumes "st_requests s = rows @ [q]" "\<forall>r \<in> set rows. r_ID r \<noteq> r_ID q"
  shows "post (\<lambda>r t. \<exists>q'. r = Inr q' \<and> st_requests t = rows @ [q'] \<and> st_instances t = st_instances s
      \<and> ticketed q q') (open_ticket E environment q) s"
  (is "post ?Q _ _")
proof (cases "env_CreateTicket E")
  case None
  then show ?thesis using assms by (simp add: open_ticket_def post_ret ticketed_intros)
next
  case (Some create)
  have same: "?Q (Inr q) t" if "quiet s t" for t using that assms by (simp add: quietD ticketed_intros)
  have rows: "update_rows (\<lambda>r. r_ID r = r_ID q) f rows = rows" for f
    using assms(2) by (induction rows) (auto simp: update_rows_def)
  have ticket: "post (\<lambda>r u. post ?Q (case r of Inl _ \<Rightarrow> ret q | Inr updated \<Rightarrow> ret updated) u) (q_SetRequestTicket E (r_ID q) ticket) t"
    if t: "quiet s t" for t ticket
  proof -
    have found: "List.find (\<lambda>r. r_ID r = r_ID q) (st_requests t) = Some q"
      using find_last [OF assms(2)] assms(1) t by (simp add: quietD)
    show ?thesis
      unfolding q_SetRequestTicket_def
      by (rule post_update_row) (use assms t found same [OF t] in \<open>auto intro!: post_ret ticketed_intros simp: quietD update_rows_def [of _ _ "_ @ _"] rows [unfolded update_rows_def]\<close>)
  qed
  show ?thesis
    unfolding open_ticket_def Some option.case Let_def
    by (rule post_attempt, rule post_frame_last [OF quiet.rel_on_world])
       (auto intro!: post_ret same post_attempt ticket split: sum.split)
qed

lemma post_CreateRequest:
  assumes "wf_ids s"
  shows "post (\<lambda>r t. st_instances t = st_instances s \<and> (case r of
       Inl e \<Rightarrow> st_requests t = st_requests s
     | Inr q \<Rightarrow> r_Name q = name \<and> r_Environment q = default_env environment \<and> r_Requester q = requester \<and> r_Kind q = kind
         \<and> r_Status q = ''pending_approval'' \<and> r_TenantID q = tenantForCreate c \<and> r_DecidedBy q = [] \<and> r_Spec q = spec
         \<and> st_requests t = st_requests s @ [q]))
     (CreateRequest E c name environment requester kind provider blueprint spec) s" (is "post ?Q _ _")
proof -
  let ?row = "\<lambda>i t. \<lparr>r_ID = i, r_Name = name, r_Environment = default_env environment,
        r_Requester = requester, r_Kind = kind, r_Provider = provider, r_Blueprint = blueprint,
        r_Spec = spec, r_Status = ''pending_approval'', r_TicketRef = [], r_ResourceRef = [],
        r_DecidedBy = [], r_Reason = [], r_TenantID = tenantForCreate c, r_CreatedAt = t, r_UpdatedAt = t\<rparr>"
  have new: "\<forall>r \<in> set (st_requests s). r_ID r \<noteq> st_next s" using assms by (auto simp: wf_ids_def fresh_def)
  have rest: "post ?Q (bindE (open_ticket E (default_env environment) (?row (st_next s) (st_now s))) (\<lambda>req.
      bindE (emit E ''request'' ''created'' (r_Name req) (default_env environment) (r_Provider req) (m req)) (\<lambda>_. ret req)))
      ((st_requests_update (\<lambda>rows. rows @ [?row (st_next s) (st_now s)]) s)\<lparr>st_next := Suc (st_next s)\<rparr>)" for m
    by (rule post_bindE, rule post_weaken [OF post_open_ticket [where rows = "st_requests s"]])
       (use new in \<open>auto intro!: post_emit post_ret simp: quietD ticketed_def req_core_def\<close>)
  show ?thesis
    unfolding CreateRequest_def Let_def q_CreateRequest_def
    by (rule post_guardE, rule post_guardE, rule post_bindE, rule post_wrap, rule post_query, simp,
        rule post_check, rule post_check, rule post_check, rule post_insert_row)
       (auto intro: rest)
qed

lemma post_CreateAIRequest:
  assumes "wf_ids s"
  shows "post (filing E c i s) (CreateAIRequest E c i) s"
  unfolding CreateAIRequest_def
proof (rule post_guardE, rule post_read, goal_cases)
  case (2 x)
  show ?case
  proof (rule post_read, goal_cases)
    case (2 v)
    then have v: "fst (lookupAIService E (lookup_spec i) s) = Inr v" by (rule read_wrap)
    let ?gate = "evaluateAIGovernance E c (request_facts c i v)"
    have frame: "quiet s (snd (?gate s))" by (rule relD [OF quiet.rel_evaluateAIGovernance])
    have ids: "wf_ids (snd (?gate s))" using relD [OF ids.rel_evaluateAIGovernance] assms by blast
    have create: "post (filing E c i s) (bindE (CreateRequest E c (in_Name i) [] (in_Requester i) ''ai_service''
        (s_ProviderName v) [] (marshal_spec (input_spec E i v))) (\<lambda>req.
        bindE (emitAIAudit E c ''ai_request'' (r_ID req) ''created'' m (fl req) (in_Requester i)) (\<lambda>_. ret req))) (snd (?gate s))"
      if "gov_hard E c (request_facts c i v) s = []" for m fl
      by (rule post_bindE, rule post_weaken [OF post_CreateRequest [OF ids]])
         (use frame v that in \<open>auto intro!: post_audit post_ret
            simp: filing_def filed_as_def quietD default_env_def split: sum.splits\<close>)
    show ?case
      by (rule post_bindE) (use evaluateAIGovernance_result [of E c "request_facts c i v" s] frame in
        \<open>auto simp: post_def [of _ ?gate] filing_def quietD intro!: create split: if_splits\<close>)
  qed (auto intro!: ro.query_rules ro.rel_lookupAIService simp: filing_def)
qed (auto intro!: ro.query_rules simp: filing_def)

section \<open>Importing a report twice\<close>

text \<open>An item of a loop that leaves a mark, and whose second run only sees the mark.\<close>

locale marked_step =
  fixes f :: "'b \<Rightarrow> 'a \<Rightarrow> ('s, 'b) op" and mark :: "'a \<Rightarrow> 's \<Rightarrow> bool" and skip :: "'a \<Rightarrow> 'b \<Rightarrow> 'b"
  assumes marks: "f acc x s = (Inr a, t) \<Longrightarrow> mark x t"
    and keeps: "mark x s \<Longrightarrow> mark x (snd (f acc y s))"
    and skips: "mark x s \<Longrightarrow> f acc x s = (Inr (skip x acc), s)"
begin

lemma fold_keeps: "mark x s \<Longrightarrow> mark x (snd (foldE f acc xs s))"
proof (induction xs arbitrary: acc s)
  case (Cons y ys)
  then have "mark x (snd (f acc y s))" by (simp add: keeps)
  then show ?case using Cons by (simp add: run_simps split: sum.split)
qed simp

lemma fold_marks: "foldE f acc xs s = (Inr a, t) \<Longrightarrow> x \<in> set xs \<Longrightarrow> mark x t"
proof (induction xs arbitrary: acc s)
  case (Cons y ys)
  from Cons.prems(1) obtain b u where y: "f acc y s = (Inr b, u)" and rest: "foldE f b ys u = (Inr a, t)"
    unfolding foldE.simps bindE_Inr_iff by blast
  show ?case
  proof (cases "x \<in> set ys")
    case False
    then have "mark x u" using Cons.prems(2) marks [OF y] by simp
    then show ?thesis using fold_keeps [of x u b ys] rest by simp
  qed (rule Cons.IH [OF rest])
qed simp

lemma fold_skips: "(\<And>x. x \<in> set xs \<Longrightarrow> mark x s) \<Longrightarrow> foldE f acc xs s = (Inr (fold skip xs acc), s)"
proof (induction xs arbitrary: acc)
  case (Cons y ys)
  then have "f acc y s = (Inr (skip y acc), s)" "foldE f (skip y acc) ys s = (Inr (fold skip ys (skip y acc)), s)"
    by (auto intro: skips)
  then show ?case by (simp add: bindE_def)
qed (simp add: ret_def)

lemma fold_again: "foldE f acc xs s = (Inr a, t) \<Longrightarrow> foldE f acc' xs t = (Inr (fold skip xs acc'), t)"
  by (rule fold_skips) (rule fold_marks)

end

text \<open>The mark of an import is its row.\<close>

definition imported_row :: "'w env \<Rightarrow> AiProvider \<Rightarrow> time \<Rightarrow> time \<Rightarrow> string \<Rightarrow> 'w st \<Rightarrow> bool" where
  "imported_row E p ps pe key s \<longleftrightarrow> (\<exists>u. fst (q_FindAIUsageRecordByImportKey E (p_ID p) ps pe ''cost_usd'' key s) = Inr u)"

definition skip_one :: "nat \<times> nat \<Rightarrow> nat \<times> nat" where
  "skip_one acc = (fst acc, Suc (snd acc))"

lemma find_import_same: "snd (q_FindAIUsageRecordByImportKey E k ps pe metric key s) = s"
  by (rule relD [OF ro.rel_reads(12)])

lemma import_row_skips: "imported_row E p ps pe key s \<Longrightarrow> import_row E p ps pe key usd flds acc s = (Inr (skip_one acc), s)"
  by (intro prod_eqI) (auto simp: imported_row_def import_row_def skip_one_def run_simps find_import_same split: prod.split)

text \<open>No operation of the importer removes a usage row.\<close>

definition grows :: "'w st \<Rightarrow> 'w st \<Rightarrow> bool" where
  "grows s t \<longleftrightarrow> prefix (st_usage s) (st_usage t)"

interpretation grows: usage_rel grows
  by (unfold_locales; (fastforce simp: grows_def query_simps split: option.splits intro: prefix_order.trans; fail)?)

lemma find_prefix: "prefix xs ys \<Longrightarrow> List.find p xs = Some x \<Longrightarrow> List.find p ys = Some x"
proof -
  have "List.find p (xs @ zs) = Some x" if "List.find p xs = Some x" for zs
    using that by (induction xs) (auto split: if_splits)
  then show "prefix xs ys \<Longrightarrow> List.find p xs = Some x \<Longrightarrow> List.find p ys = Some x" by (auto simp: prefix_def)
qed

lemma imported_row_grows: "imported_row E p ps pe key s \<Longrightarrow> grows s t \<Longrightarrow> imported_row E p ps pe key t"
  by (auto simp: imported_row_def grows_def q_FindAIUsageRecordByImportKey_def query_def one_def
      split: if_splits option.splits dest: find_prefix)

lemma grows_import_row: "rel grows (import_row E p ps pe key usd flds acc)"
  unfolding import_row_def by (intro grows.audit_rules grows.R_CreateAIUsageRecord)

lemma grows_import_item: "rel grows (import_openai_item E p b acc ni)"
  unfolding import_openai_item_def by (intro grows.audit_rules grows_import_row)

lemma grows_import_bucket: "rel grows (import_openai_bucket E p acc b)"
  unfolding import_openai_bucket_def by (intro grows.audit_rules grows_import_item)

lemma import_row_marks:
  assumes "import_row E p ps pe key usd flds acc s = (Inr a, t)"
  shows "imported_row E p ps pe key t"
proof (cases "fst (q_FindAIUsageRecordByImportKey E (p_ID p) ps pe ''cost_usd'' key s)")
  case (Inr u)
  then have "imported_row E p ps pe key s" by (auto simp: imported_row_def)
  then show ?thesis using import_row_skips assms by (metis Pair_inject)
next
  case (Inl e)
  obtain n m where acc: "acc = (n, m)" by fastforce
  let ?raw = "JObj ([(''import_key'', JStr key)] @ flds)"
  have e: "e = NoRows" using assms Inl by (auto simp: import_row_def acc bindE_attempt fail_def split: if_splits)
  have ok: "\<not> env_fault E ''FindAIUsageRecordByImportKey''"
    using Inl e by (auto simp: q_FindAIUsageRecordByImportKey_def query_def)
  have "\<exists>u. q_CreateAIUsageRecord E None (p_ID p) ps pe ''cost_usd'' usd ''usd'' usd ?raw s = (Inr u, t)"
    using assms Inl e by (auto simp: import_row_def acc bindE_attempt find_import_same bindE_Inr_iff)
  then obtain i tm where rows: "st_usage t = st_usage s @ [\<lparr>u_ID = i, u_InstanceID = None, u_ProviderID = p_ID p,
        u_PeriodStart = ps, u_PeriodEnd = pe, u_Metric = ''cost_usd'', u_Quantity = usd, u_Unit = ''usd'',
        u_CostUsd = usd, u_Raw = ?raw, u_CreatedAt = tm\<rparr>]"
    by (auto simp: q_CreateAIUsageRecord_def query_def check_def bindE_def insert_row_def fail_def Let_def split: if_splits)
  have "List.find (\<lambda>u. u_ProviderID u = p_ID p \<and> u_PeriodStart u = ps \<and> u_PeriodEnd u = pe
        \<and> u_Metric u = ''cost_usd'' \<and> str_at (to_obj (u_Raw u)) ''import_key'' = Some key) (st_usage t) \<noteq> None"
    unfolding find_None_iff not_not
    by (rule exI [of _ "last (st_usage t)"]) (simp add: rows to_obj_def str_at_def)
  then show ?thesis
    using ok by (auto simp: imported_row_def q_FindAIUsageRecordByImportKey_def query_def one_def split: option.split)
qed

text \<open>So an item, a bucket and a whole report imported again only count as skipped.\<close>

definition item_mark :: "'w env \<Rightarrow> AiProvider \<Rightarrow> CostBucket \<Rightarrow> nat \<times> CostItem \<Rightarrow> 'w st \<Rightarrow> bool" where
  "item_mark E p b ni s \<longleftrightarrow> imported_row E p (unix (cb_StartTime b)) (unix (cb_EndTime b))
     (openai_import_key b (fst ni) (snd ni)) s"

definition bucket_mark :: "'w env \<Rightarrow> AiProvider \<Rightarrow> CostBucket \<Rightarrow> 'w st \<Rightarrow> bool" where
  "bucket_mark E p b s \<longleftrightarrow> list_all (\<lambda>ni. item_mark E p b ni s) (List.enumerate 0 (cb_Results b))"

interpretation openai_item: marked_step "import_openai_item E p b" "item_mark E p b" "\<lambda>_. skip_one" for E p b
proof (unfold_locales, goal_cases)
  case (1 acc x s a t)
  then show ?case by (cases x) (simp add: item_mark_def import_openai_item_def import_row_marks)
next
  case (2 x s acc y)
  then show ?case unfolding item_mark_def by (rule imported_row_grows) (rule relD [OF grows_import_item])
next
  case (3 x s acc)
  then show ?case by (cases x) (simp add: item_mark_def import_openai_item_def import_row_skips)
qed

lemma fold_skip_one: "fold (\<lambda>_. skip_one) xs acc = (fst acc, snd acc + length xs)"
  by (induction xs arbitrary: acc) (auto simp: skip_one_def)

interpretation openai_bucket: marked_step "import_openai_bucket E p" "bucket_mark E p"
  "\<lambda>b acc. (fst acc, snd acc + length (cb_Results b))" for E p
proof (unfold_locales, goal_cases)
  case (1 acc x s a t)
  then show ?case by (auto simp: bucket_mark_def list_all_iff import_openai_bucket_def intro: openai_item.fold_marks)
next
  case (2 x s acc y)
  then have "list_all (\<lambda>ni. item_mark E p x ni s) (List.enumerate 0 (cb_Results x))" by (simp add: bucket_mark_def)
  moreover have "item_mark E p x ni (snd (import_openai_bucket E p acc y s))" if "item_mark E p x ni s" for ni
    using that unfolding item_mark_def by (rule imported_row_grows) (rule relD [OF grows_import_bucket])
  ultimately show ?case by (auto simp: bucket_mark_def list_all_iff)
next
  case (3 x s acc)
  then show ?case
    by (simp add: import_openai_bucket_def bucket_mark_def list_all_iff openai_item.fold_skips fold_skip_one)
qed

lemma import_again:
  assumes "foldE (import_openai_bucket E p) acc bs s = (Inr a, t)"
  shows "foldE (import_openai_bucket E p) (0, 0) bs t = (Inr (0, sum_list (map (length \<circ> cb_Results) bs)), t)"
proof -
  have "fold (\<lambda>b acc. (fst acc, snd acc + length (cb_Results b))) bs x = (fst x, snd x + sum_list (map (length \<circ> cb_Results) bs))"
    for x :: "nat \<times> nat" by (induction bs arbitrary: x) auto
  then show ?thesis using openai_bucket.fold_again [OF assms] by simp
qed

end
