(* ===== verification/Isolation.thy ===== *)
theory Isolation
  imports Effects
begin

text \<open>
  Tenant isolation: what a list shows a caller, and which budgets, quotas and access policies a
  command of a caller can touch. Registration and rule commands are walked operation by operation;
  for the rest the contract of the system carries the frame.
\<close>

section \<open>Lists\<close>

lemma visible_rows_filter: "visible_rows c tn rows = filter (\<lambda>r. in_scope c (tn r)) rows"
  by (simp add: visible_rows_def in_scope_def split: option.split)

text \<open>A list operation: one query, then the rows of the caller's scope.\<close>

definition listed :: "bool \<Rightarrow> string \<Rightarrow> ctx \<Rightarrow> ('a \<Rightarrow> uuid option) \<Rightarrow> 'a list \<Rightarrow> err + 'a list \<Rightarrow> bool" where
  "listed fault what c tn rows r \<longleftrightarrow>
     r = (if fault then Inl (Wrap what Fault) else Inr (filter (\<lambda>x. in_scope c (tn x)) rows))"

lemma listed_query:
  "listed (env_fault E n) what c tn (f s)
     (fst (bindE (wrap what (query E n (gets f))) (\<lambda>rows. ret (visible_rows c tn rows)) s))"
  by (simp add: listed_def query_def run_simps visible_rows_filter)

lemma lists_show:
  "listed (env_fault E ''ListAIServiceInstances'') ''listing ai instances'' c i_TenantID
     (List.map_filter (instance_row s) (rev (st_instances s))) (fst (ListAIInstances E c s))"
  "listed (env_fault E ''ListRequests'') ''listing requests'' c r_TenantID (rev (st_requests s)) (fst (ListRequests E c s))"
  unfolding ListAIInstances_def q_ListAIServiceInstances_def ListRequests_def q_ListRequests_def
  by (rule listed_query)+

section \<open>The rows outside a caller's scope\<close>

definition outside :: "ctx \<Rightarrow> ('a \<Rightarrow> uuid option) \<Rightarrow> 'a list \<Rightarrow> 'a list" where
  "outside c tn rows = filter (\<lambda>r. \<not> in_scope c (tn r)) rows"

lemma in_scope_create: "in_scope c (tenantForCreate c)"
  by (auto simp: in_scope_def scopeTenant_def tenantForCreate_def tenantVisible_def split: option.split)

lemma outside_snoc: "tn x = tenantForCreate c \<Longrightarrow> outside c tn (rows @ [x]) = outside c tn rows"
  by (simp add: outside_def in_scope_create)

lemma unique_key:
  "distinct (map key rows) \<Longrightarrow> List.find (\<lambda>r. key r = k) rows = Some x \<Longrightarrow> y \<in> set rows \<Longrightarrow> key y = k \<Longrightarrow> y = x"
  by (auto simp: distinct_map inj_on_def dest: find_SomeD)

lemma outside_update:
  assumes "distinct (map key rows)" "List.find (\<lambda>r. key r = k) rows = Some x" "in_scope c (tn x)"
    and "\<And>y. tn (f y) = tn y"
  shows "outside c tn (update_rows (\<lambda>r. key r = k) f rows) = outside c tn rows"
proof -
  have "outside c tn (update_rows (\<lambda>r. key r = k) f ys) = outside c tn ys" if "set ys \<subseteq> set rows" for ys
    using that
  proof (induction ys)
    case (Cons y ys)
    then show ?case
      using unique_key [OF assms(1,2), of y] assms(3,4) by (auto simp: outside_def update_rows_def)
  qed (simp add: outside_def update_rows_def)
  then show ?thesis by blast
qed

lemma outside_delete:
  assumes "distinct (map key rows)" "List.find (\<lambda>r. key r = k) rows = Some x" "in_scope c (tn x)"
  shows "outside c tn (filter (\<lambda>r. key r \<noteq> k) rows) = outside c tn rows"
  using unique_key [OF assms(1,2)] assms(3) unfolding outside_def filter_filter by (intro filter_cong) auto

definition spares :: "ctx \<Rightarrow> 'w st \<Rightarrow> 'w st \<Rightarrow> bool" where
  "spares c s t \<longleftrightarrow> outside c b_TenantID (st_budgets t) = outside c b_TenantID (st_budgets s)
     \<and> outside c q_TenantID (st_quotas t) = outside c q_TenantID (st_quotas s)
     \<and> outside c po_TenantID (st_policies t) = outside c po_TenantID (st_policies s)"

lemma spares_quiet: "spares c s t \<Longrightarrow> quiet t u \<Longrightarrow> spares c s u"
  by (simp add: spares_def quietD)

lemma spares_refl [simp]: "spares c s s"
  by (simp add: spares_def)

text \<open>A stored budget has a positive limit and ordered, positive thresholds; a stored quota a
  positive limit.\<close>

definition valid_rules :: "'w st \<Rightarrow> bool" where
  "valid_rules s \<longleftrightarrow> list_all (\<lambda>b. 0 < b_LimitUsd b \<and> 0 < b_SoftThresholdPct b
       \<and> b_SoftThresholdPct b \<le> b_HardThresholdPct b) (st_budgets s)
     \<and> list_all (\<lambda>q. 0 < q_LimitQuantity q) (st_quotas s)"

definition ruled :: "ctx \<Rightarrow> 'w st \<Rightarrow> err + 'a \<Rightarrow> 'w st \<Rightarrow> bool" where
  "ruled c s r t \<longleftrightarrow> spares c s t \<and> (valid_rules s \<longrightarrow> valid_rules t)"

lemma ruled_refl [simp]: "ruled c s r s"
  by (simp add: ruled_def)

lemma ruled_quiet: "ruled c s r t \<Longrightarrow> quiet t u \<Longrightarrow> ruled c s x u"
  by (simp add: ruled_def spares_def valid_rules_def quietD)

lemma ruled_weaken: "ruled c s r t \<Longrightarrow> ruled c s x t"
  by (simp add: ruled_def)

lemma thresholds_valid: "validateAIBudgetThresholds soft hard = None \<longleftrightarrow> 0 < soft \<and> soft \<le> hard"
  by (auto simp: validateAIBudgetThresholds_def)

lemma post_raise: "(v = None \<Longrightarrow> post Q (f ()) s) \<Longrightarrow> (\<And>e. Q (Inl e) s) \<Longrightarrow> post Q (bindE (raise v) f) s"
  by (cases v) (auto simp: raise_def post_def run_simps)

lemma post_modify: "Q (Inr ()) (g s) \<Longrightarrow> post Q (modify g) s"
  by (simp add: post_def modify_def)

text \<open>After the write every operation audits and returns.\<close>

lemma ruled_finish:
  assumes "post (ruled c s) m t" "\<And>x u. rel quiet (f x)"
  shows "post (ruled c s) (bindE (wrap what m) f) t"
  using assms(1) relD [OF assms(2)] ruled_quiet by (auto simp: post_def run_simps split: sum.splits intro: ruled_weaken) blast+

lemma ruled_ops_finish: "post (ruled c s) m t \<Longrightarrow> post (ruled c s) (bindE (wrap what m) (\<lambda>x.
    bindE (emitAIAudit E c' sty (sid x) action msg (flds x) fb) (\<lambda>_. ret x))) t"
  by (rule ruled_finish) (auto intro: quiet_rules)

lemma ruled_insert_budget: "\<lbrakk>0 < limit; 0 < soft; soft \<le> hard\<rbrakk> \<Longrightarrow>
    post (ruled c s) (q_CreateAIBudget E (tenantForCreate c) scope ref limit period soft hard) s"
  unfolding q_CreateAIBudget_def
  by (intro post_query post_check post_insert_row) (simp_all add: ruled_def spares_def valid_rules_def outside_snoc)

lemma ruled_insert_quota:
  "0 < limit \<Longrightarrow> post (ruled c s) (q_CreateAIQuota E service (tenantForCreate c) metric limit period enforcement) s"
  unfolding q_CreateAIQuota_def
  by (intro post_query post_check post_insert_row) (simp_all add: ruled_def spares_def valid_rules_def outside_snoc)

lemma ruled_insert_policy: "post (ruled c s) (q_CreateAIAccessPolicy E name (tenantForCreate c) rules status) s"
  unfolding q_CreateAIAccessPolicy_def
  by (intro post_query post_check post_insert_row) (simp_all add: ruled_def spares_def valid_rules_def outside_snoc)

lemma create_ruled:
  "post (ruled c s) (CreateAIBudget E c i) s"
  "post (ruled c s) (CreateAIQuota E c q) s"
  "post (ruled c s) (CreateAIAccessPolicy E c p) s"
proof -
  show "post (ruled c s) (CreateAIBudget E c i) s"
    unfolding CreateAIBudget_def Let_def
    by (rule post_guardE, rule post_raise, rule ruled_ops_finish, rule ruled_insert_budget)
       (auto simp: thresholds_valid)
  show "post (ruled c s) (CreateAIQuota E c q) s"
    unfolding CreateAIQuota_def Let_def
    by (rule post_guardE, rule post_read, (intro ro.query_rules; fail), rule ruled_ops_finish, rule ruled_insert_quota) auto
  show "post (ruled c s) (CreateAIAccessPolicy E c p) s"
    unfolding CreateAIAccessPolicy_def Let_def
    by (rule post_guardE, rule ruled_ops_finish, rule ruled_insert_policy) simp
qed

text \<open>An updated or deleted row was found and passed the tenant guard.\<close>

lemma found_rule:
  "fst (wrap w (q_GetAIBudget E k) s) = Inr b \<Longrightarrow> List.find (\<lambda>b. b_ID b = k) (st_budgets s) = Some b"
  "fst (wrap w (q_GetAIQuota E k) s) = Inr q \<Longrightarrow> List.find (\<lambda>q. q_ID q = k) (st_quotas s) = Some q"
  "fst (wrap w (q_GetAIAccessPolicy E k) s) = Inr p \<Longrightarrow> List.find (\<lambda>p. po_ID p = k) (st_policies s) = Some p"
  by (auto simp: fst_wrap q_GetAIBudget_def q_GetAIQuota_def q_GetAIAccessPolicy_def query_def one_def
      split: sum.splits option.splits if_splits)

lemma wf_ids_rules:
  assumes "wf_ids s"
  shows "distinct (map b_ID (st_budgets s))" "distinct (map q_ID (st_quotas s))" "distinct (map po_ID (st_policies s))"
  using assms by (simp_all add: wf_ids_def fresh_def)

lemma post_tenant_guard:
  "(in_scope c t \<Longrightarrow> post Q (f ()) s) \<Longrightarrow> (\<And>e. Q (Inl e) s) \<Longrightarrow> post Q (bindE (aiTenantGuard c t) f) s"
  unfolding aiTenantGuard_def by (rule post_guardE)

lemma list_all_update_new: "list_all P rows \<Longrightarrow> (\<And>x. P (f x)) \<Longrightarrow> list_all P (update_rows q f rows)"
  by (auto simp: list_all_iff update_rows_def)

lemma post_update:
  assumes "\<And>r. List.find (\<lambda>r. key r = k) (get s) = Some r \<Longrightarrow> Q (Inr (f (st_now s) r)) (upd (update_rows (\<lambda>r. key r = k) (f (st_now s))) s)"
    and "\<And>e. Q (Inl e) s"
  shows "post Q (update_row get upd key k f) s"
  using assms by (auto simp: post_def update_row_def split: option.split)

lemma ruled_update_budget:
  assumes "wf_ids s" "List.find (\<lambda>b. b_ID b = k) (st_budgets s) = Some b" "in_scope c (b_TenantID b)"
    and "0 < limit" "0 < soft" "soft \<le> hard"
  shows "post (ruled c s) (q_UpdateAIBudget E k scope ref limit period soft hard) s"
  unfolding q_UpdateAIBudget_def
  by (rule post_query, simp, rule post_update)
     (use assms in \<open>auto simp: ruled_def spares_def valid_rules_def intro!: outside_update [OF wf_ids_rules(1)] list_all_update_new\<close>)

lemma ruled_update_quota:
  assumes "wf_ids s" "List.find (\<lambda>q. q_ID q = k) (st_quotas s) = Some q" "in_scope c (q_TenantID q)" "0 < limit"
  shows "post (ruled c s) (q_UpdateAIQuota E k limit period enforcement) s"
  unfolding q_UpdateAIQuota_def
  by (rule post_query, simp, rule post_one, rule post_check, rule post_update)
     (use assms in \<open>auto simp: ruled_def spares_def valid_rules_def intro!: outside_update [OF wf_ids_rules(2)] list_all_update_new\<close>)

lemma ruled_update_policy:
  assumes "wf_ids s" "List.find (\<lambda>p. po_ID p = k) (st_policies s) = Some p" "in_scope c (po_TenantID p)"
  shows "post (ruled c s) (q_UpdateAIAccessPolicy E k rules status) s"
  unfolding q_UpdateAIAccessPolicy_def
  by (rule post_query, simp, rule post_one, rule post_check, rule post_update)
     (use assms in \<open>auto simp: ruled_def spares_def valid_rules_def intro!: outside_update [OF wf_ids_rules(3)]\<close>)

lemma ruled_deletes:
  assumes "wf_ids s"
  shows "List.find (\<lambda>b. b_ID b = k) (st_budgets s) = Some b \<Longrightarrow> in_scope c (b_TenantID b) \<Longrightarrow>
      post (ruled c s) (q_DeleteAIBudget E k) s"
    and "List.find (\<lambda>q. q_ID q = k) (st_quotas s) = Some q \<Longrightarrow> in_scope c (q_TenantID q) \<Longrightarrow>
      post (ruled c s) (q_DeleteAIQuota E k) s"
    and "List.find (\<lambda>p. po_ID p = k) (st_policies s) = Some p \<Longrightarrow> in_scope c (po_TenantID p) \<Longrightarrow>
      post (ruled c s) (q_DeleteAIAccessPolicy E k) s"
  unfolding q_DeleteAIBudget_def q_DeleteAIQuota_def q_DeleteAIAccessPolicy_def
  by (rule post_query, simp, rule post_modify,
      auto simp: ruled_def spares_def valid_rules_def list_all_filter
        intro: outside_delete [OF wf_ids_rules(1) [OF assms]] outside_delete [OF wf_ids_rules(2) [OF assms]]
          outside_delete [OF wf_ids_rules(3) [OF assms]])+

text \<open>The walk all updates and deletions share: load, tenant guard, write, audit.\<close>

lemma ruled_load:
  assumes "rel (\<lambda>s t. t = s) m" "\<And>x. fst (m s) = Inr x \<Longrightarrow> in_scope c (tn x) \<Longrightarrow> post (ruled c s) (f x) s"
  shows "post (ruled c s) (bindE m (\<lambda>x. bindE (aiTenantGuard c (tn x)) (\<lambda>_. f x))) s"
  by (rule post_read [OF assms(1)], rule post_tenant_guard) (auto intro: assms(2))

lemma update_ruled:
  assumes "wf_ids s"
  shows "post (ruled c s) (UpdateAIBudget E c k i) s"
    and "post (ruled c s) (UpdateAIQuota E c k limit period enforcement) s"
    and "post (ruled c s) (UpdateAIAccessPolicy E c k rules status) s"
proof -
  show "post (ruled c s) (UpdateAIBudget E c k i) s"
    unfolding UpdateAIBudget_def Let_def
    by (rule post_guardE, rule ruled_load, intro ro.query_rules, rule post_raise, rule ruled_ops_finish,
        rule ruled_update_budget [OF assms found_rule(1)], assumption, assumption)
       (auto simp: thresholds_valid)
  show "post (ruled c s) (UpdateAIQuota E c k limit period enforcement) s"
    unfolding UpdateAIQuota_def Let_def
    by (rule post_guardE, rule ruled_load, intro ro.query_rules, rule ruled_ops_finish,
        rule ruled_update_quota [OF assms found_rule(2)], assumption, assumption) auto
  show "post (ruled c s) (UpdateAIAccessPolicy E c k rules status) s"
    unfolding UpdateAIAccessPolicy_def Let_def
    by (rule ruled_load, intro ro.query_rules, rule ruled_ops_finish,
        rule ruled_update_policy [OF assms found_rule(3)])
qed

lemma ruled_delete_finish: "post (ruled c s) m t \<Longrightarrow> post (ruled c s) (bindE (wrap what m) (\<lambda>x.
    emitAIAudit E c' sty sid action msg flds fb)) t"
  by (rule ruled_finish) (auto intro: quiet_rules)

lemma delete_ruled:
  assumes "wf_ids s"
  shows "post (ruled c s) (DeleteAIBudget E c k) s"
    and "post (ruled c s) (DeleteAIQuota E c k) s"
    and "post (ruled c s) (DeleteAIAccessPolicy E c k) s"
  unfolding DeleteAIBudget_def DeleteAIQuota_def DeleteAIAccessPolicy_def
  by (rule ruled_load, intro ro.query_rules, rule ruled_delete_finish,
      rule ruled_deletes(1) [OF assms found_rule(1)] ruled_deletes(2) [OF assms found_rule(2)]
        ruled_deletes(3) [OF assms found_rule(3)]; assumption)+

section \<open>Every command\<close>

text \<open>The other commands leave budgets and policies alone; deleting a provider cascades to the quotas
  of its services, whoever owns them.\<close>

interpretation unruled: unruled_rel "\<lambda>s t. st_budgets t = st_budgets s \<and> st_policies t = st_policies s
    \<and> subseq (st_quotas t) (st_quotas s)"
  by (unfold_locales; (auto simp: query_simps subseq_filter_left split: option.splits intro: subseq_order.order_trans; fail)?)

lemma ruled_snd: "post (ruled c s) m s \<Longrightarrow> ruled c s (Inr ()) (snd (m s))"
  by (simp add: post_def ruled_def)

lemma rules_cmd_ruled:
  assumes "wf_ids s" "rules_cmd k"
  shows "ruled c s (Inr ()) (snd (run E c k s))"
  using assms(2)
  by (cases k)
     (simp_all add: create_ruled [THEN ruled_snd] update_ruled [OF assms(1), THEN ruled_snd] delete_ruled [OF assms(1), THEN ruled_snd])

lemma valid_rules_shrink:
  "valid_rules s \<Longrightarrow> st_budgets t = st_budgets s \<Longrightarrow> subseq (st_quotas t) (st_quotas s) \<Longrightarrow> valid_rules t"
  using subseq_subset by (fastforce simp: valid_rules_def list_all_iff)

lemma run_spares:
  assumes "wf_ids s"
  shows "outside c b_TenantID (st_budgets (snd (run E c k s))) = outside c b_TenantID (st_budgets s)
    \<and> outside c po_TenantID (st_policies (snd (run E c k s))) = outside c po_TenantID (st_policies s)"
  using rules_cmd_ruled [OF assms, of k c E] relD [OF unruled.rel_run_unruled, of k E c s]
  by (cases "rules_cmd k") (simp_all add: ruled_def spares_def)

lemma run_valid_rules:
  assumes "wf_ids s" "valid_rules s"
  shows "valid_rules (snd (run E c k s))"
proof (cases "rules_cmd k")
  case True
  then show ?thesis using rules_cmd_ruled [OF assms(1), of k c E] assms(2) by (simp add: ruled_def)
next
  case False
  then show ?thesis
    using relD [OF unruled.rel_run_unruled, of k E c s] valid_rules_shrink [OF assms(2)] by blast
qed

lemma reachable_wf_ids: "reachable s \<Longrightarrow> wf_ids s"
  using grounded_reachable by blast

lemma valid_rules_reachable: "reachable s \<Longrightarrow> valid_rules s"
proof -
  assume "reachable s"
  then have "wf_ids s \<and> valid_rules s"
  proof (rule reachable_invariant, goal_cases)
    case (1 t w)
    then show ?case using wf_initial [of t w] by (simp add: wf_def valid_rules_def initial_def)
  next
    case (2 s E c k)
    then show ?case using ids.R_run run_valid_rules by blast
  qed (simp_all add: wf_ids_def valid_rules_def)
  then show ?thesis by simp
qed

end
