(* ===== verification/Custody.thy ===== *)
theory Custody
  imports Isolation
begin

text \<open>
  What the store holds of secrets, and what deleting a provider removes. Provider configurations
  never carry a key that names a secret, and the observed state of an instance never carries a raw
  minted key: at most where it is kept and its mask.
\<close>

section \<open>Provider configurations\<close>

definition clean_config :: "obj \<Rightarrow> bool" where
  "clean_config m \<longleftrightarrow> list_all (\<lambda>(k, v). \<not> isSensitiveAIConfigKey k) m"

definition clean_configs :: "'w st \<Rightarrow> bool" where
  "clean_configs s \<longleftrightarrow> list_all (\<lambda>p. clean_config (to_obj (p_Config p))) (st_providers s)"

lemma rejectAIProviderSecretConfig_None: "rejectAIProviderSecretConfig cfg = None \<longleftrightarrow> clean_config cfg"
  by (auto simp: rejectAIProviderSecretConfig_def clean_config_def list_all_iff find_None_iff split: option.split dest!: find_SomeD)

lemma clean_update: "clean_config m \<Longrightarrow> \<not> isSensitiveAIConfigKey k \<Longrightarrow> clean_config (AList.update k v m)"
  by (induction m) (auto simp: clean_config_def)

lemma clean_delete: "clean_config m \<Longrightarrow> clean_config (AList.delete k m)"
  by (auto simp: clean_config_def AList.delete_eq list_all_iff)

lemma merge_clean: "clean_config cfg \<Longrightarrow> clean_config new \<Longrightarrow> clean_config (merge_config cfg new)"
proof (induction cfg new rule: merge_config.induct)
  case (2 cfg k v r)
  have "clean_config (if v = JNull then AList.delete k cfg else AList.update k v cfg)"
    using 2 clean_update [of cfg k v] by (auto simp: clean_delete) (simp add: clean_config_def)
  then show ?case using 2 by (simp add: clean_config_def)
qed (simp add: clean_config_def)

definition cleaned :: "'w st \<Rightarrow> 'w st \<Rightarrow> bool" where
  "cleaned s t \<longleftrightarrow> (clean_configs s \<longrightarrow> clean_configs t)"

lemma clean_filter: "list_all P xs \<Longrightarrow> list_all P (filter Q xs)"
  by (auto simp: list_all_iff)

interpretation cleaned: unregistered_rel cleaned
  by (unfold_locales; (auto simp: cleaned_def clean_configs_def clean_filter query_simps split: option.splits; fail)?)

lemma post_cleaned: "post (\<lambda>r t. cleaned s t) m s \<longleftrightarrow> cleaned s (snd (m s))"
  by (simp add: post_def)

lemma clean_found: "fst (wrap w (q_GetAIProviderByName E n) s) = Inr p \<Longrightarrow> clean_configs s \<Longrightarrow> clean_config (aiProviderConfig p)"
  by (auto simp: fst_wrap q_GetAIProviderByName_def query_def one_def clean_configs_def list_all_iff aiProviderConfig_def
      split: sum.splits option.splits if_splits dest!: find_SomeD)

text \<open>The write of a clean configuration, then anything that keeps configurations clean.\<close>

lemma cleaned_then:
  assumes "post (\<lambda>r t. cleaned s t) m t" "\<And>x. rel cleaned (f x)"
  shows "post (\<lambda>r t. cleaned s t) (bindE (wrap w m) f) t"
  using assms(1) relD [OF assms(2)] cleaned.R_trans by (auto simp: post_def run_simps split: sum.splits) blast

lemma post_reject:
  "(clean_config cfg \<Longrightarrow> post Q (f ()) s) \<Longrightarrow> (\<And>e. Q (Inl e) s) \<Longrightarrow>
   post Q (bindE (case rejectAIProviderSecretConfig cfg of Some e \<Rightarrow> fail e | None \<Rightarrow> ret ()) f) s"
  using rejectAIProviderSecretConfig_None [of cfg] by (cases "rejectAIProviderSecretConfig cfg") (auto simp: post_def run_simps)

lemma cleaned_CreateAIProvider: "cleaned s (snd (CreateAIProvider E c i s))"
  unfolding post_cleaned [symmetric] CreateAIProvider_def Let_def
proof (rule post_guardE, rule post_guardE, rule post_reject, rule cleaned_then, goal_cases)
  case 1
  then show ?case
    unfolding q_CreateAIProvider_def
    by (intro post_query post_check post_insert_row) (simp_all add: cleaned_def clean_configs_def to_obj_def)
next
  case (2 x)
  show ?case
    by (intro cleaned.audit_rules cleaned.rel_SyncAIProviderServices cleaned.R_CreateAIProviderCredential)
qed (simp_all add: cleaned_def)

lemma cleaned_UpdateAIProvider: "cleaned s (snd (UpdateAIProvider E c n i s))"
  unfolding post_cleaned [symmetric] UpdateAIProvider_def Let_def provider_guard_def
proof (rule post_read, intro ro.query_rules, goal_cases)
  case (1 p)
  have stored: "post (\<lambda>r t. cleaned s t) (q_UpdateAIProvider E (p_ID p) (p_Name p) (p_Type p) (JObj cfg) status) s"
    if "clean_configs s \<Longrightarrow> clean_config cfg" for cfg status
    unfolding q_UpdateAIProvider_def
    by (rule post_query, simp add: cleaned_def, rule post_one, rule post_check, rule post_check, rule post_update)
       (use that in \<open>auto simp: cleaned_def clean_configs_def to_obj_def intro!: list_all_update_rows\<close>)
  show ?case
    by (rule post_guardE, rule post_reject, rule post_guardE, rule cleaned_then, rule stored)
       (auto simp: cleaned_def merge_clean clean_found [OF 1]
         intro!: cleaned.audit_rules cleaned.R_CreateAIProviderCredential)
qed (simp add: cleaned_def)

lemma clean_run: "clean_configs s \<Longrightarrow> clean_configs (snd (run E c k s))"
proof (cases "registers k")
  case True
  assume "clean_configs s"
  with True show ?thesis
    by (cases k) (simp_all add: cleaned_CreateAIProvider [unfolded cleaned_def, THEN mp]
        cleaned_UpdateAIProvider [unfolded cleaned_def, THEN mp])
next
  case False
  assume "clean_configs s"
  then show ?thesis
    using relD [OF cleaned.rel_run_unregistered [OF False]] unfolding cleaned_def by blast
qed

lemma clean_reachable: "reachable s \<Longrightarrow> clean_configs s"
proof (erule reachable_invariant, goal_cases)
  case (1 t w)
  show ?case by (simp add: initial_def clean_configs_def clean_config_def to_obj_def) code_simp
qed (simp_all add: clean_run, simp_all add: clean_configs_def)

section \<open>Minted keys\<close>

text \<open>Only an approval adds an instance, and what it adds is sealed; nothing rewrites an observed state.\<close>

definition sealed_instances :: "'w st \<Rightarrow> bool" where
  "sealed_instances s \<longleftrightarrow> list_all (\<lambda>i. sealed (to_obj (i_Observed i))) (st_instances s)"

interpretation sealed: standing_rel "\<lambda>s t. sealed_instances s \<longrightarrow> sealed_instances t"
  by (unfold_locales; (auto simp: sealed_instances_def list_all_filter list_all_update_rows query_simps split: option.splits; fail)?)

lemma sealed_approve: "sealed_instances s \<Longrightarrow> sealed_instances (snd (ApproveRequest E c name environment a s))"
  by (cases rule: ApproveRequest_cases [of E c name environment a s])
     (auto simp: sealed_instances_def grant_for_def granted_by_def)

lemma sealed_run: "sealed_instances s \<Longrightarrow> sealed_instances (snd (run E c k s))"
proof (cases "approves k")
  case True
  assume "sealed_instances s"
  with True show ?thesis by (cases k) (simp_all add: sealed_approve)
next
  case False
  assume "sealed_instances s"
  then show ?thesis using relD [OF sealed.rel_run_standing [OF False]] by blast
qed

lemma sealed_reachable: "reachable s \<Longrightarrow> sealed_instances s"
  by (erule reachable_invariant) (auto simp: sealed_run, simp_all add: sealed_instances_def initial_def)

text \<open>What stripping does to an observed state.\<close>

lemma stripMintedSecret_value:
  assumes "fst (stripMintedSecret E k m s) = Inr (raw, m')"
  shows "if sealed m then raw = [] \<and> m' = m
    else str_at m ''virtual_key'' = Some raw \<and> str_at m' ''virtual_key'' = None
      \<and> str_at m' ''virtual_key_preview'' = Some (maskKey raw) \<and> length (maskKey raw) \<le> 11
      \<and> (\<forall>j. j \<in> {''virtual_key'', ''virtual_key_preview'', ''virtual_key_secret''} \<or> map_of m' j = map_of m j)"
proof (cases "sealed m")
  case True
  then show ?thesis
    using assms by (auto simp: stripMintedSecret_def sealed_def run_simps split: option.splits if_splits)
next
  case False
  then obtain v where v: "str_at m ''virtual_key'' = Some v" "TrimSpace v \<noteq> []"
    by (auto simp: sealed_def split: option.splits)
  then show ?thesis
    using assms False
    by (auto simp: stripMintedSecret_def Let_def run_simps str_at_update str_at_delete map_of_AList_update
        map_of_AList_delete maskKey_bound split: option.splits sum.splits if_splits)
qed

section \<open>Deleting a provider\<close>

text \<open>On every branch the live instances survive; a success removes the provider, its services and
  their instances, and only those.\<close>

definition live_instances :: "'w st \<Rightarrow> AiServiceInstance list" where
  "live_instances s = filter (\<lambda>i. live_status (i_Status i)) (st_instances s)"

definition offered :: "'w st \<Rightarrow> AiProvider \<Rightarrow> AiServiceInstance \<Rightarrow> bool" where
  "offered s p i \<longleftrightarrow> i_ServiceID i \<in> provider_services s (p_ID p)"

definition removal :: "ctx \<Rightarrow> string \<Rightarrow> 'w st \<Rightarrow> err + unit \<Rightarrow> 'w st \<Rightarrow> bool" where
  "removal c name s r t \<longleftrightarrow> live_instances t = live_instances s \<and> (case r of
     Inl e \<Rightarrow> st_providers t = st_providers s \<and> st_services t = st_services s
   | Inr u \<Rightarrow> (\<exists>p. List.find (\<lambda>p. p_Name p = name) (st_providers s) = Some p \<and> in_scope_or_global c (p_TenantID p)
       \<and> st_providers t = filter (\<lambda>q. p_ID q \<noteq> p_ID p) (st_providers s)
       \<and> st_services t = filter (\<lambda>v. s_ProviderID v \<noteq> p_ID p) (st_services s)
       \<and> st_instances t = filter (\<lambda>i. \<not> offered s p i) (st_instances s)))"

lemma removal_quiet: "removal c name s r t \<Longrightarrow> quiet t u \<Longrightarrow> removal c name s r u"
  by (cases r) (simp_all add: removal_def quietD live_instances_def)

lemma removal_refused: "removal c name s (Inl e) s"
  by (simp add: removal_def)

lemma removal_done:
  assumes "removal c name s (Inr ()) t"
  shows "post (removal c name s) (bindE (emit E kind action n environment provider msg) (\<lambda>_.
    emitAIAudit E c' sty sid act txt flds fb)) t"
  by (rule post_emit, rule post_last_audit) (use assms removal_quiet quiet.R_trans in blast)

lemma post_DeleteAIProvider: "post (removal c name s) (DeleteAIProvider E c name) s"
  unfolding DeleteAIProvider_def provider_guard_def
proof (rule post_read, intro ro.query_rules, goal_cases)
  case (1 p)
  then have p: "List.find (\<lambda>p. p_Name p = name) (st_providers s) = Some p"
    by (auto simp: fst_wrap q_GetAIProviderByName_def query_def one_def split: sum.splits option.splits if_splits)
  show ?case
  proof (rule post_guardE, rule post_read, intro ro.query_rules, rule post_guardE, goal_cases)
    case (1 n)
    then have idle: "\<not> live_status (i_Status i)" if "i \<in> set (st_instances s)" "offered s p i" for i
      using that by (auto simp: fst_wrap q_CountActiveAIInstancesByProvider_def query_def run_simps filter_empty_conv offered_def
          split: sum.splits if_splits)
    let ?s1 = "\<lambda>x. s\<lparr>st_instances := filter (\<lambda>i. \<not> offered s p i) (st_instances s), st_usage := x\<rparr>"
    have live: "live_instances (?s1 x) = live_instances s" for x
      unfolding live_instances_def by (auto intro!: filter_cong dest: idle)
    have second: "post (removal c name s) (bindE (wrap w (q_DeleteAIProvider E (p_ID p))) (\<lambda>_.
        bindE (emit E kind action n environment provider msg) (\<lambda>_. emitAIAudit E c' sty sid act words flds fb))) (?s1 x)"
      for x w kind action n environment provider msg c' sty sid act words flds fb
      unfolding q_DeleteAIProvider_def
      by (rule post_bindE, rule post_wrap, rule post_query, simp add: removal_def live, rule post_check, rule post_modify)
         (use p 1 live in \<open>auto simp: removal_def Let_def live_instances_def intro!: removal_done\<close>)
    show ?case
      unfolding q_DeleteAIServiceInstancesByProvider_def
      by (rule post_bindE, rule post_wrap, rule post_query, simp add: removal_refused, rule post_modify)
         (simp add: second offered_def [symmetric])
  qed (auto simp: removal_refused)
qed (simp add: removal_refused)

end
