(* ===== verification/Endpoints.thy ===== *)
theory Endpoints
  imports Custody
begin

text \<open>
  What the program answers at its edges: the authorization of a tool call and its record in the audit
  log, the key of a new user and the identity it opens, and the gateways, which reach a model only
  through the budget gate and the redaction.
\<close>

section \<open>Authorizing a tool call\<close>

definition expired :: "time \<Rightarrow> time option \<Rightarrow> bool" where
  "expired now e \<longleftrightarrow> (case e of None \<Rightarrow> False | Some t \<Rightarrow> t < now)"

definition tool_allowed :: "McpServer \<Rightarrow> string \<Rightarrow> bool" where
  "tool_allowed srv tool \<longleftrightarrow> TrimSpace tool = [] \<or> allowed_tools srv = [] \<or> containsFold (allowed_tools srv) tool"

definition permitted :: "'w env \<Rightarrow> string \<Rightarrow> string \<Rightarrow> string \<Rightarrow> 'w st \<Rightarrow> bool" where
  "permitted E server owner tool s \<longleftrightarrow> (\<exists>srv g. fst (q_GetMCPServerByName E server s) = Inr srv \<and> ms_Status srv = ''active''
     \<and> fst (q_FindActiveMCPGrant E (ms_ID srv) (TrimSpace owner) s) = Inr g
     \<and> \<not> expired (st_now s) (g_ExpiresAt g) \<and> tool_allowed srv tool)"

text \<open>The event an audit call appends, unless the insert fails.\<close>

definition audited_as :: "'w env \<Rightarrow> ctx \<Rightarrow> string \<Rightarrow> string \<Rightarrow> 'w st \<Rightarrow> 'w st \<Rightarrow> bool" where
  "audited_as E c action actor s t \<longleftrightarrow>
     (if env_fault E ''CreateAIAuditEvent'' \<or> \<not> fk_tenant (tenantForCreate c) s then t = s
      else \<exists>a. st_audit t = st_audit s @ [a] \<and> a_Action a = action \<and> a_Actor a = audit_actor c actor
        \<and> a_TenantID a = tenantForCreate c)"

lemma emitAIAudit_audited: "audited_as E c action fb s (snd (emitAIAudit E c sty sid action msg flds fb s))"
  by (auto simp: audited_as_def emitAIAudit_def q_CreateAIAuditEvent_def query_def check_def insert_row_def run_simps Let_def)

definition authorization :: "'w env \<Rightarrow> ctx \<Rightarrow> string \<Rightarrow> bool \<Rightarrow> 'w st \<Rightarrow> err + MCPAuthorizeResult \<Rightarrow> 'w st \<Rightarrow> bool" where
  "authorization E c owner ok s r t \<longleftrightarrow> (\<exists>res. r = Inr res \<and> mr_Allowed res = ok
     \<and> audited_as E c (if ok then ''authz_allowed'' else ''authz_denied'') owner s t \<and> quiet s t)"

lemma post_authz:
  "mr_Allowed res = ok \<Longrightarrow> mr_Owner res = owner \<Longrightarrow> post (authorization E c owner ok s) (authz E c k res) s"
  using emitAIAudit_audited [of E c _ _ s] relD [OF quiet.rel_emitAIAudit]
  by (auto simp: post_def authorization_def authz_def auditMCPAuthz_def run_simps)

lemma mcp_reads:
  "q_GetMCPServerByName E server s = (fst (q_GetMCPServerByName E server s), s)"
  "q_FindActiveMCPGrant E k owner s = (fst (q_FindActiveMCPGrant E k owner s), s)"
  using relD [OF ro.rel_reads(30)] relD [OF ro.rel_reads(33)] by (simp_all add: prod_eq_iff)

lemma post_attempt_read:
  assumes "m s = (r, s)" "post Q (f r) s"
  shows "post Q (bindE (attempt m) f) s"
  using assms by (simp add: post_def run_simps)

lemma post_AuthorizeMCP: "post (authorization E c owner (permitted E server owner tool s) s) (AuthorizeMCP E c server owner tool) s"
  unfolding AuthorizeMCP_def Let_def
proof (rule post_attempt_read, rule mcp_reads(1), goal_cases)
  case 1
  show ?case
  proof (cases "fst (q_GetMCPServerByName E server s)")
    case (Inr srv)
    show ?thesis
    proof (cases "ms_Status srv = ''active''")
      case True
      have step: "post (authorization E c owner (permitted E server owner tool s) s) (case r of
              Inl e \<Rightarrow> authz E c (ms_ID srv) (res\<lparr>mr_Reason := why e\<rparr>)
            | Inr grant \<Rightarrow> bindE (gets st_now) (\<lambda>now.
                if (case g_ExpiresAt grant of None \<Rightarrow> False | Some t \<Rightarrow> t < now) then
                  authz E c (ms_ID srv) (res\<lparr>mr_Reason := why1\<rparr>)
                else if TrimSpace tool \<noteq> [] \<and> allowed_tools srv \<noteq> [] \<and> \<not> containsFold (allowed_tools srv) tool then
                  authz E c (ms_ID srv) (res\<lparr>mr_Reason := why2\<rparr>)
                else authz E c (ms_ID srv) (res\<lparr>mr_Allowed := True, mr_Reason := why3\<rparr>))) s"
        if "fst (q_FindActiveMCPGrant E (ms_ID srv) (TrimSpace owner) s) = r" "mr_Owner res = owner" "\<not> mr_Allowed res"
        for r res why why1 why2 why3
        using that Inr True
        by (cases r) (auto simp: permitted_def expired_def tool_allowed_def intro!: post_gets post_authz)
      show ?thesis
        by (simp only: Inr sum.case True simp_thms if_False, rule post_attempt_read [OF mcp_reads(2)], rule step) simp_all
    next
      case False
      with Inr show ?thesis by (auto simp: permitted_def intro!: post_authz)
    qed
  qed (auto simp: permitted_def intro!: post_authz)
qed

section \<open>The key of a new user\<close>

definition opd_key :: "string \<Rightarrow> bool" where
  "opd_key plain \<longleftrightarrow> (\<exists>b. plain = ''opd_'' @ EncodeToString b)"

lemma opd_key [simp]: "opd_key (''opd_'' @ EncodeToString b)"
  by (auto simp: opd_key_def)

definition minted :: "'w env \<Rightarrow> string \<Rightarrow> string \<Rightarrow> string \<Rightarrow> 'w st \<Rightarrow> err + User \<times> string \<Rightarrow> 'w st \<Rightarrow> bool" where
  "minted E email tenantName role s r t \<longleftrightarrow> (case r of
     Inl e \<Rightarrow> st_users t = st_users s
   | Inr (u, plain) \<Rightarrow> us_Email u = email \<and> us_Role u = role \<and> ValidRole role
       \<and> (\<exists>tn. List.find (\<lambda>tn. t_Name tn = tenantName) (st_tenants s) = Some tn \<and> us_TenantID u = t_ID tn)
       \<and> us_ApiKeyHash u = HashKey plain \<and> opd_key plain
       \<and> st_users t = st_users s @ [u] \<and> st_tenants t = st_tenants s)"

lemma post_CreateUser: "post (minted E email tenantName role s) (CreateUser E email tenantName role) s"
  unfolding CreateUser_def
proof (rule post_guardE, rule post_guardE, rule post_read, intro ro.query_rules, goal_cases)
  case (1 tn)
  then have tn: "List.find (\<lambda>tn. t_Name tn = tenantName) (st_tenants s) = Some tn"
    by (auto simp: fst_wrap q_GetTenantByName_def query_def one_def split: sum.splits option.splits if_splits)
  have key: "post (\<lambda>r t. quiet s t \<and> (\<forall>plain hash. r = Inr (plain, hash) \<longrightarrow>
      hash = HashKey plain \<and> opd_key plain)) (GenerateAPIKey E) s"
    unfolding GenerateAPIKey_def Let_def
    by (rule post_frame, rule quiet.rel_on_world) (auto intro!: post_ret simp del: append_Cons append_Nil)
  show ?case
  proof (rule post_bindE, rule post_weaken [OF key], goal_cases)
    case (1 r t)
    then show ?case
    proof (cases r)
      case (Inr kh)
      obtain plain hash where kh: "kh = (plain, hash)" by fastforce
      show ?thesis
        unfolding Inr kh sum.case prod.case q_CreateUser_def
        by (rule post_bindE, rule post_wrap, rule post_query)
           (use 1 Inr kh tn \<open>ValidRole role\<close> in \<open>auto simp: minted_def quietD intro!: post_check post_insert_row post_ret\<close>)
    qed (simp add: minted_def quietD)
  qed
qed (simp_all add: minted_def)

lemma TrimSpace_solid: "list_all (\<lambda>c. \<not> is_space c) s \<Longrightarrow> TrimSpace s = s"
proof -
  assume "list_all (\<lambda>c. \<not> is_space c) s"
  then have "dropWhile is_space s = s" "dropWhile is_space (rev s) = rev s"
    by (auto simp: list_all_iff dropWhile_eq_self_iff hd_rev)
  then show ?thesis by (simp add: TrimSpace_def TrimLeft_def TrimRight_def)
qed

lemma hex_digit_solid: "n < 16 \<Longrightarrow> \<not> is_space (hex_digit n)"
proof -
  have "list_all (\<lambda>n. \<not> is_space (hex_digit n)) [0..<16]" by code_simp
  then show "n < 16 \<Longrightarrow> \<not> is_space (hex_digit n)" by (simp add: list_all_iff)
qed

lemma EncodeToString_solid: "list_all (\<lambda>c. \<not> is_space c) (EncodeToString b)"
proof -
  have "of_char x div 16 < (16 :: nat)" for x :: char
    using nat_of_char_less_256 [of x] by linarith
  then show ?thesis
    by (induction b) (simp_all add: EncodeToString_def hex_digit_solid)
qed

lemma bearer_key: "bearer (''Bearer '' @ ''opd_'' @ EncodeToString b) = ''opd_'' @ EncodeToString b"
proof -
  have "list_all (\<lambda>c. \<not> is_space c) (''opd_'' @ EncodeToString b)"
    using EncodeToString_solid [of b] by (simp add: list_all_iff) (simp add: is_space_def)
  then have "TrimSpace (''opd_'' @ EncodeToString b) = ''opd_'' @ EncodeToString b" by (rule TrimSpace_solid)
  then show ?thesis by (simp add: bearer_def HasPrefix_def TrimPrefix_def)
qed

lemma find_snoc_new: "\<forall>x \<in> set xs. \<not> P x \<Longrightarrow> P y \<Longrightarrow> List.find P (xs @ [y]) = Some y"
  by (induction xs) auto

text \<open>The identity a stored user has.\<close>

definition identity_of :: "'w env \<Rightarrow> User \<Rightarrow> 'w st \<Rightarrow> Identity" where
  "identity_of E u s = \<lparr>id_email = us_Email u,
     id_tenant_name = (case fst (q_GetTenant E (us_TenantID u) s) of Inl _ \<Rightarrow> [] | Inr t \<Rightarrow> t_Name t),
     id_tenant = us_TenantID u, id_role = us_Role u\<rparr>"

lemma resolver_find:
  assumes "\<not> env_fault E ''GetUserByAPIKeyHash''" "hash \<noteq> []"
    and "List.find (\<lambda>u. us_ApiKeyHash u = hash) (st_users s) = Some u"
  shows "resolver E s hash = Some (identity_of E u s)"
  using assms by (simp add: resolver_def ResolveAPIKey_def q_GetUserByAPIKeyHash_def query_def one_def run_simps identity_of_def)

lemma new_key_opens:
  assumes "CreateUser E email tenantName role s = (Inr (u, plain), t)"
    and "\<not> env_fault E ''GetUserByAPIKeyHash''"
    and "\<forall>x \<in> set (st_users s). us_ApiKeyHash x \<noteq> HashKey plain"
  shows "Middleware (resolver E t) True (''Bearer '' @ plain) = Pass (Some (identity_of E u t))"
proof -
  have m: "minted E email tenantName role s (Inr (u, plain)) t"
    using post_CreateUser [of E email tenantName role s] assms(1) by (simp add: post_iff)
  then obtain b where b: "plain = ''opd_'' @ EncodeToString b" by (auto simp: minted_def opd_key_def)
  have "List.find (\<lambda>x. us_ApiKeyHash x = HashKey plain) (st_users t) = Some u"
    using m assms(3) by (auto simp: minted_def intro!: find_snoc_new)
  then have "resolver E t (HashKey plain) = Some (identity_of E u t)"
    by (rule resolver_find [OF assms(2) HashKey_not_Nil])
  moreover have "bearer (''Bearer '' @ plain) = plain" unfolding b by (rule bearer_key)
  ultimately show ?thesis by (simp add: Middleware_def b)
qed

section \<open>The first administrator\<close>

definition bootstrapped :: "'w env \<Rightarrow> 'w st \<Rightarrow> err + string \<Rightarrow> 'w st \<Rightarrow> bool" where
  "bootstrapped E s r t \<longleftrightarrow> (case r of
     Inl e \<Rightarrow> st_users t = st_users s
   | Inr plain \<Rightarrow> if st_users s \<noteq> [] then plain = [] \<and> t = s
       else \<exists>u. st_users t = [u] \<and> us_Email u = ''admin@opord.local'' \<and> us_Role u = RoleAdmin
         \<and> us_ApiKeyHash u = HashKey plain \<and> opd_key plain)"

lemma post_EnsureInitialAdmin: "post (bootstrapped E s) (EnsureInitialAdmin E) s"
  unfolding EnsureInitialAdmin_def
proof (rule post_read, intro ro.query_rules, goal_cases)
  case (1 users)
  then have users: "users = rev (st_users s)"
    by (auto simp: fst_wrap q_ListUsers_def query_def run_simps split: sum.splits if_splits)
  have admin: "post (bootstrapped E s) (bindE (CreateUser E ''admin@opord.local'' ''default'' ''admin'') (\<lambda>(u, plain). ret plain)) t"
    if "st_users t = []" "st_users s = []" for t :: "'a st"
    by (rule post_bindE, rule post_weaken [OF post_CreateUser])
       (use that in \<open>auto simp: bootstrapped_def minted_def RoleAdmin_def intro!: post_ret split: sum.splits\<close>)
  have tenant: "rel (\<lambda>s t. st_users t = st_users s) (case r of Inr _ \<Rightarrow> ret ()
      | Inl _ \<Rightarrow> bindE (wrap ''creating default tenant'' (q_CreateTenant E ''default'')) (\<lambda>_. ret ()))" for r :: "err + Tenant"
    by (auto simp: rel_def query_simps run_simps split: sum.split)
  show ?case
  proof (cases "st_users s = []")
    case True
    then show ?thesis
      by (simp add: users, intro post_attempt post_frame_last [OF ro.rel_reads(24)] post_frame [OF tenant])
         (auto intro!: admin simp: bootstrapped_def)
  qed (simp add: users post_ret bootstrapped_def)
qed (simp add: bootstrapped_def)

section \<open>The gateways\<close>

text \<open>What the backends see of a gateway call: nothing, or the one request built from the provider
  and its key once the budget gate has passed, with the payload redacted when the provider asks for it.\<close>

definition sent_payload :: "obj \<Rightarrow> payload \<Rightarrow> payload option" where
  "sent_payload cfg pl = (if \<not> dlpEnabled cfg then Some pl
     else case redactDLP pl of (redacted, h, ok) \<Rightarrow> if \<not> ok then None else if h = [] then Some pl else Some redacted)"

definition gateway_call :: "'w env \<Rightarrow> ctx \<Rightarrow> string \<Rightarrow> string \<Rightarrow> string list \<Rightarrow> (obj \<Rightarrow> string \<Rightarrow> payload \<Rightarrow> HttpRequest) \<Rightarrow>
    payload \<Rightarrow> 'w st \<Rightarrow> 'w st \<Rightarrow> bool" where
  "gateway_call E c name ty keys build pl s t \<longleftrightarrow> st_world t = st_world s
     \<or> (\<exists>p creds pl'. List.find (\<lambda>p. p_Name p = name) (st_providers s) = Some p \<and> p_Type p = ty
          \<and> fst (aiCredentials E p s) = Inr creds \<and> firstNonEmpty (map (kv_at creds) keys) \<noteq> []
          \<and> fst (evaluateGatewayBudget E c name s) = Inr ()
          \<and> sent_payload (aiProviderConfig p) pl = Some pl'
          \<and> st_world t = snd (env_http E (build (aiProviderConfig p) (firstNonEmpty (map (kv_at creds) keys)) pl') (st_world s)))"

text \<open>Reads, audit events and the gates do not touch the backends.\<close>

definition still :: "'w st \<Rightarrow> 'w st \<Rightarrow> bool" where
  "still s t \<longleftrightarrow> st_world t = st_world s \<and> st_providers t = st_providers s"

interpretation still: query_rel still
  by unfold_locales (simp_all add: still_def)

lemma still_emitAIAudit: "rel still (emitAIAudit E c sty sid action msg flds fb)"
  unfolding emitAIAudit_def by (intro still.rel_intros) (simp add: query_simps still_def)

lemma still_evaluateGatewayBudget: "rel still (evaluateGatewayBudget E c name)"
  unfolding evaluateGatewayBudget_def Let_def ListAIQuotas_def ListAIUsageRecords_def ListAIBudgetSummaries_def
  by (intro still.query_rules still_emitAIAudit)

lemma still_applyGatewayDLP: "rel still (applyGatewayDLP E c p cfg pl)"
  unfolding applyGatewayDLP_def Let_def by (intro still.query_rules still_emitAIAudit)

lemma still_recordGatewayUsage: "rel still (recordGatewayUsage E p body)"
  unfolding recordGatewayUsage_def by (intro still.query_rules) (simp add: query_simps still_def)

lemma applyGatewayDLP_value: "fst (applyGatewayDLP E c p cfg pl s) = Inr pl' \<Longrightarrow> sent_payload cfg pl = Some pl'"
  by (auto simp: applyGatewayDLP_def sent_payload_def Let_def run_simps split: if_splits prod.splits)

lemma gateway_provider_value:
  assumes "fst (gateway_provider E c name ty keys s) = Inr (p, key)"
  shows "\<exists>creds. List.find (\<lambda>p. p_Name p = name) (st_providers s) = Some p \<and> p_Type p = ty
    \<and> fst (aiCredentials E p s) = Inr creds \<and> key = firstNonEmpty (map (kv_at creds) keys) \<and> key \<noteq> []
    \<and> fst (evaluateGatewayBudget E c name s) = Inr ()"
  using assms
  by (auto simp: gateway_provider_def Let_def run_simps aiCredentials_same q_GetAIProviderByName_def query_def one_def
      split: sum.splits if_splits option.splits dest: find_SomeD)

text \<open>The gate, with its three ways to fail open.\<close>

definition gateway_facts :: "string \<Rightarrow> aiReqContext" where
  "gateway_facts name = \<lparr>rc_ServiceID = 0, rc_ServiceSlug = [], rc_ServiceCategory = [], rc_ProviderName = name,
     rc_ProviderType = [], rc_Owner = [], rc_Workspace = [], rc_Tenant = None\<rparr>"

definition gateway_open :: "'w env \<Rightarrow> ctx \<Rightarrow> string \<Rightarrow> 'w st \<Rightarrow> bool" where
  "gateway_open E c name s \<longleftrightarrow> env_fault E ''ListAIBudgets'' \<or> env_fault E ''ListAIUsageRecords''
     \<or> (list_all (\<lambda>b. \<not> gateway_budget_hit E (gateway_facts name) b) (budgets_view E c s)
        \<and> list_all (\<lambda>q. \<not> gateway_quota_hit (st_now s) (usage_view c s) q) (quotas_view E c s))"

lemma list_results:
  "fst (ListAIBudgetSummaries E c s) = (if env_fault E ''ListAIBudgets'' then Inl (Wrap ''listing ai budgets'' Fault)
     else if env_fault E ''ListAIUsageRecords'' then Inl Fault else Inr (budgets_view E c s))"
  "fst (ListAIQuotas E c s) = (if env_fault E ''ListAIQuotas'' then Inl (Wrap ''listing ai quotas'' Fault)
     else Inr (quotas_view E c s))"
  "fst (ListAIUsageRecords E c s) = (if env_fault E ''ListAIUsageRecords'' then Inl Fault
     else Inr (usage_view c s))"
  by (simp_all add: ListAIBudgetSummaries_def ListAIUsageRecords_def ListAIQuotas_def q_ListAIBudgets_def q_ListAIQuotas_def
      q_ListAIUsageRecords_def budgets_view_def quotas_view_def usage_view_def op_defs)

lemma find_None_all: "List.find P xs = None \<longleftrightarrow> list_all (\<lambda>x. \<not> P x) xs"
  by (auto simp: find_None_iff list_all_iff)

lemma ListAIUsageRecords_same: "snd (ListAIUsageRecords E c s) = s"
  by (simp add: ListAIUsageRecords_def q_ListAIUsageRecords_def op_defs)

lemma evaluateGatewayBudget_exact: "fst (evaluateGatewayBudget E c name s) = Inr () \<longleftrightarrow> gateway_open E c name s"
  unfolding evaluateGatewayBudget_def gateway_facts_def [symmetric]
  by (simp add: run_simps Let_def list_results gate_reads ListAIUsageRecords_same gateway_open_def find_None_all [symmetric] split: option.split)
     (auto simp: quotas_view_def find_None_all)

section \<open>A gateway call, end to end\<close>

lemma post_on_world:
  "Q (fst (m (st_world s))) (s\<lparr>st_world := snd (m (st_world s))\<rparr>) \<Longrightarrow> post Q (on_world m) s"
  by (cases "m (st_world s)") (simp add: post_def on_world_def)

lemma post_forward:
  "post (\<lambda>r t. st_world t = st_world s \<or> st_world t = snd (env_http E req (st_world s))) (forward E c p label req) s"
proof -
  let ?Q = "\<lambda>r t. st_world t = st_world s \<or> st_world t = snd (env_http E req (st_world s))"
  have keep: "post ?Q m t" if "rel still m" "st_world t = snd (env_http E req (st_world s))" for m :: "('a st, 'b) op" and t
    using that relD [OF that(1), of t] by (simp add: post_def still_def)
  show ?thesis
    unfolding forward_def Let_def
    by (rule post_guardE, rule post_attempt, rule post_on_world, rule keep)
       (auto intro!: still.query_rules still_emitAIAudit still_recordGatewayUsage)
qed

lemma gateway_call_intro:
  assumes "fst (gateway_provider E c name ty keys s) = Inr (p, key)" "sent_payload (aiProviderConfig p) pl = Some pl'"
    and "st_world t = st_world s \<or> st_world t = snd (env_http E (build (aiProviderConfig p) key pl') (st_world s))"
  shows "gateway_call E c name ty keys build pl s t"
  using gateway_provider_value [OF assms(1)] assms(2,3) unfolding gateway_call_def by blast

lemma gateway_call_still: "still s t \<Longrightarrow> gateway_call E c name ty keys build pl s t"
  by (simp add: gateway_call_def still_def)

lemma still_gateway_provider: "rel still (gateway_provider E c name ty keys)"
  unfolding gateway_provider_def Let_def by (intro still.query_rules still_evaluateGatewayBudget)

lemma post_gateway:
  "post (\<lambda>r t. gateway_call E c name ty keys build pl s t)
     (bindE (gateway_provider E c name ty keys) (\<lambda>(p, key).
      bindE (applyGatewayDLP E c p (aiProviderConfig p) pl) (\<lambda>pl'.
      forward E c p label (build (aiProviderConfig p) key pl')))) s" (is "post ?Q _ _")
proof -
  let ?s1 = "snd (gateway_provider E c name ty keys s)"
  have one: "still s ?s1" by (rule relD [OF still_gateway_provider])
  show ?thesis
  proof (cases "fst (gateway_provider E c name ty keys s)")
    case (Inr pk)
    obtain p key where pk: "pk = (p, key)" by fastforce
    let ?d = "applyGatewayDLP E c p (aiProviderConfig p) pl ?s1"
    have two: "still s (snd ?d)" using one relD [OF still_applyGatewayDLP] still.R_trans by blast
    have sent: "?Q r t" if "fst ?d = Inr pl'" "st_world t = st_world (snd ?d)
        \<or> st_world t = snd (env_http E (build (aiProviderConfig p) key pl') (st_world (snd ?d)))" for r t pl'
      using that two Inr pk applyGatewayDLP_value [OF that(1)]
      by (intro gateway_call_intro [where p = p and key = key and pl' = pl']) (auto simp: still_def)
    show ?thesis
    proof (cases "fst ?d")
      case (Inr pl')
      have "?Q (fst (forward E c p label req (snd ?d))) (snd (forward E c p label req (snd ?d)))"
        if "req = build (aiProviderConfig p) key pl'" for req
        by (rule sent [OF Inr]) (use post_forward [of "snd ?d" E req c p label] that in \<open>simp add: post_def\<close>)
      then show ?thesis using \<open>fst (gateway_provider E c name ty keys s) = Inr pk\<close> pk Inr
        by (simp add: post_def run_simps)
    qed (use Inr pk two gateway_call_still in \<open>simp add: post_def run_simps\<close>)
  qed (use one gateway_call_still in \<open>simp add: post_def run_simps\<close>)
qed

end
