(* ===== verification/Progress.thy ===== *)
theory Progress
  imports Endpoints
begin

text \<open>
  What does happen: an approval that nothing forbids succeeds, and the reaper revokes every access
  grant that has expired when the backends accept.
\<close>

section \<open>An approval that nothing forbids\<close>

lemma fst_aiCredentials: "\<exists>creds. fst (aiCredentials E p s) = Inr creds"
  by (auto simp: aiCredentials_def run_simps split: option.split sum.split)

lemma fst_stripMintedSecret: "\<exists>x. fst (stripMintedSecret E k m s) = Inr x"
  by (auto simp: stripMintedSecret_def Let_def run_simps split: option.split sum.split)

lemma service_row_ID: "service_row s v = Some row \<Longrightarrow> s_ID row = s_ID v"
  by (auto simp: service_row_def AiService.defs split: option.splits)

lemma lookupAIService_stored: "fst (lookupAIService E spec s) = Inr v \<Longrightarrow> s_ID v \<in> s_ID ` set (st_services s)"
  by (auto simp: lookupAIService_def q_GetAIService_def q_GetAIServiceBySlug_def query_def one_def bind_eq_Some_conv
      split: if_splits option.splits dest!: service_row_ID find_SomeD)

lemma resolve_plan_service: "fst (resolve_plan E req s) = Inr p \<Longrightarrow> s_ID (pl_Service p) \<in> s_ID ` set (st_services s)"
  by (auto simp: resolve_plan_def fst_bindE snd_bindE lift_def relD [OF ro.rel_lookupAIService]
      dest!: lookupAIService_stored split: sum.splits if_splits)

definition willing :: "'w Provider \<Rightarrow> bool" where
  "willing prov \<longleftrightarrow> (\<forall>r w. \<exists>res. fst (pv_ProvisionAccess prov r w) = Inr res)"

lemma fk_tenant_quiet: "quiet s t \<Longrightarrow> fk_tenant k t = fk_tenant k s"
  by (simp add: fk_tenant_def quietD cong: option.case_cong)

lemma store_instance_succeeds:
  assumes "env_fault E = (\<lambda>_. False)" "s_ID (pl_Service p) \<in> s_ID ` set (st_services s)"
    and "r_ID req \<in> r_ID ` set (st_requests s)" "fk_tenant (r_TenantID req) s"
  shows "\<exists>i. fst (store_instance E req p res s) = Inr i"
proof -
  obtain raw m where strip: "fst (stripMintedSecret E (r_ID req) (res_Observed res) s) = Inr (raw, m)"
    using fst_stripMintedSecret by (metis surj_pair)
  have "quiet s (snd (stripMintedSecret E (r_ID req) (res_Observed res) s))"
    by (rule relD [OF quiet.rel_stripMintedSecret])
  with assms strip show ?thesis
    by (simp add: store_instance_def run_simps q_CreateAIServiceInstance_def query_def check_def insert_row_def
        Let_def fk_tenant_quiet quietD instance_statuses_def)
qed

lemma provision_call_succeeds: "willing (pl_Backend p) \<Longrightarrow> \<exists>res. fst (provision_call req p creds s) = Inr res"
  by (auto simp: willing_def provision_call_def on_world_def split: prod.split) (metis fst_conv)

lemma ProvisionAIRequest_succeeds:
  assumes "env_fault E = (\<lambda>_. False)" "fst (resolve_plan E req s) = Inr p" "gov_hard E c (plan_facts req p) s = []"
    and "willing (pl_Backend p)" "r_ID req \<in> r_ID ` set (st_requests s)" "fk_tenant (r_TenantID req) s"
  shows "\<exists>i. fst (ProvisionAIRequest E c req s) = Inr i"
proof -
  let ?gate = "or_audit E c req ''provision_blocked'' (evaluateAIGovernance E c (plan_facts req p))"
  obtain creds where creds: "fst (aiCredentials E (pl_Provider p) (snd (?gate s))) = Inr creds"
    using fst_aiCredentials by blast
  let ?call = "or_audit E c req ''provision_failed'' (provision_call req p creds)"
  obtain res where res: "fst (?call (snd (?gate s))) = Inr res"
    using provision_call_succeeds [OF assms(4)] by (fastforce simp: or_audit_result)
  have q: "quiet s (snd (?call (snd (?gate s))))"
    using relD [OF quiet.rel_or_audit [OF quiet.rel_evaluateAIGovernance]] relD [OF quiet.rel_or_audit [OF quiet.rel_provision_call]]
      quiet.R_trans by blast
  then have "\<exists>i. fst (store_instance E req p res (snd (?call (snd (?gate s))))) = Inr i"
    using assms resolve_plan_service [OF assms(2)] by (intro store_instance_succeeds) (simp_all add: quietD fk_tenant_quiet)
  then show ?thesis
    using creds res assms(2,3)
    by (auto simp: ProvisionAIRequest_def run_simps resolve_plan_same aiCredentials_same or_audit_result evaluateAIGovernance_result)
qed

lemma approve_pending_succeeds:
  assumes "env_fault E = (\<lambda>_. False)" "r_ID req \<in> r_ID ` set (st_requests s)"
    and "r_Kind req = ''ai_service''" "fst (resolve_plan E req s) = Inr p"
    and "gov_hard E c (plan_facts req p) s = []" "willing (pl_Backend p)" "fk_tenant (r_TenantID req) s"
  shows "fst (approve_pending E c environment a req s) = Inr ()"
proof -
  have "List.find (\<lambda>r. r_ID r = r_ID req) (st_requests s) \<noteq> None"
    using assms(2) by (auto simp: find_None_iff)
  then have "\<exists>r. fst (q_DecideRequest E (r_ID req) ''approved'' a [] s) = Inr r"
    using assms(1)
    by (auto simp: q_DecideRequest_def query_def one_def check_def update_row_def run_simps request_statuses_def split: option.split)
  then obtain r where dec: "fst (q_DecideRequest E (r_ID req) ''approved'' a [] s) = Inr r" ..
  let ?s1 = "after_decision E a req s"
  have s1: "?s1 = st_requests_update (update_rows (\<lambda>r. r_ID r = r_ID req) (decided a (st_now s))) s"
    using q_DecideRequest_approved [OF dec] by (simp add: after_decision_def)
  have "map r_ID (st_requests ?s1) = map r_ID (st_requests s)"
    by (simp add: s1 update_rows_map_same decided_def)
  then have "r_ID req \<in> r_ID ` set (st_requests ?s1)"
    using assms(2) by (metis list.set_map)
  then have "\<exists>i. fst (ProvisionAIRequest E c req ?s1) = Inr i"
    using assms by (intro ProvisionAIRequest_succeeds [where p = p]) (simp_all add: s1 fk_tenant_def cong: option.case_cong)
  then obtain v where "fst (provisionRequest E c req ?s1) = Inr v"
    using assms(3) by (auto simp: provisionRequest_def run_simps)
  then show ?thesis
    using dec by (auto simp: approve_pending_value)
qed

text \<open>An approval that finds its request pending is what follows the checks.\<close>

lemma ApproveRequest_pending:
  assumes "fst (find_request E c name (default_env environment) s) = Inr req" "r_Status req = ''pending_approval''"
  shows "ApproveRequest E c name environment a s = approve_pending E c (default_env environment) a req s"
  using assms by (intro prod_eqI) (simp_all add: ApproveRequest_def Let_def run_simps find_request_same)

lemma ApproveRequest_succeeds:
  assumes "env_fault E = (\<lambda>_. False)" "fst (find_request E c name (default_env environment) s) = Inr req"
    and "r_Status req = ''pending_approval''" "r_Kind req = ''ai_service''" "fst (resolve_plan E req s) = Inr p"
    and "gov_hard E c (plan_facts req p) s = []" "willing (pl_Backend p)" "fk_tenant (r_TenantID req) s"
  shows "fst (ApproveRequest E c name environment a s) = Inr ()"
  unfolding ApproveRequest_pending [OF assms(2,3)]
  by (rule approve_pending_succeeds [OF assms(1) _ assms(4-8)]) (use find_requestD [OF assms(2)] in simp)

section \<open>A sweep that cannot fail\<close>

lemma foldE_sweep:
  assumes "I s" "\<And>acc x t. x \<in> set xs \<Longrightarrow> I t \<Longrightarrow> \<exists>a u. f acc x t = (Inr a, u) \<and> I u \<and> D x u \<and> (\<forall>y. D y t \<longrightarrow> D y u)"
  shows "\<exists>a u. foldE f acc xs s = (Inr a, u) \<and> I u \<and> (\<forall>x \<in> set xs. D x u) \<and> (\<forall>y. D y s \<longrightarrow> D y u)"
  using assms
proof (induction xs arbitrary: acc s)
  case (Cons x xs)
  obtain a t where x: "f acc x s = (Inr a, t)" "I t" "D x t" "\<forall>y. D y s \<longrightarrow> D y t"
    using Cons.prems(2) [of x s acc] Cons.prems(1) by auto
  obtain b u where "foldE f a xs t = (Inr b, u)" "I u" "\<forall>x \<in> set xs. D x u" "\<forall>y. D y t \<longrightarrow> D y u"
    using Cons.IH [of t a] Cons.prems(2) x(2) by auto
  with x show ?case by (auto simp: bindE_def)
qed (simp add: ret_def)

section \<open>The reaper revokes whatever has expired\<close>

text \<open>A registry that knows every provider type and whose backends accept every revocation.\<close>

definition revoking :: "'w env \<Rightarrow> bool" where
  "revoking E \<longleftrightarrow> (\<forall>ty. validAIProviderType ty \<longrightarrow> (\<exists>prov. aiProvider E ty = Inr prov
     \<and> (\<forall>r w. fst (pv_RevokeAccess prov r w) = Inr ())))"

definition gone :: "uuid \<Rightarrow> 'w st \<Rightarrow> bool" where
  "gone k s \<longleftrightarrow> (\<forall>i \<in> set (st_instances s). i_ID i = k \<longrightarrow> \<not> live_status (i_Status i))"

lemma gone_revoked:
  assumes "st_instances t = with_instance k (revoked_at now) s"
  shows "gone k t" and "gone j s \<Longrightarrow> gone j t"
proof -
  have "\<exists>x \<in> set (st_instances s). i_ID i = i_ID x \<and> (if i_ID x = k then i_Status i = ''revoked'' else i = x)"
    if "i \<in> set (st_instances t)" for i
    using that assms by (auto simp: with_instance_def update_rows_def revoked_at_def)
  then show "gone k t" and "gone j s \<Longrightarrow> gone j t"
    unfolding gone_def by (fastforce simp: live_status_def split: if_splits)+
qed

definition same_catalog :: "'w st \<Rightarrow> 'w st \<Rightarrow> bool" where
  "same_catalog s t \<longleftrightarrow> st_services t = st_services s \<and> st_providers t = st_providers s"

interpretation same_catalog: upkeep_rel same_catalog
  by (unfold_locales; auto simp: same_catalog_def query_simps split: option.splits)

lemma fst_readMintedKey: "\<exists>key. fst (readMintedKey E path s) = Inr key"
  by (auto simp: readMintedKey_def run_simps split: option.split)

lemma readMintedKey_same: "snd (readMintedKey E path s) = s"
  by (rule relD [OF ro.rel_readMintedKey])

lemma RevokeAIInstance_succeeds:
  assumes "env_fault E = (\<lambda>_. False)" "revoking E" "live_in_scope c k s i"
    and "instance_row s i = Some row" "validAIProviderType (i_ProviderType row)"
  shows "\<exists>x. fst (RevokeAIInstance E c k actor s) = Inr x"
proof -
  have i: "List.find (\<lambda>i. i_ID i = k) (st_instances s) = Some i" "in_scope c (i_TenantID i)" "live_status (i_Status i)" "i_ID i = k"
    using assms(3) by (auto simp: live_in_scope_def dest: find_SomeD)
  obtain v p where v: "List.find (\<lambda>v. s_ID v = i_ServiceID i) (st_services s) = Some v"
    "List.find (\<lambda>p. p_ID p = s_ProviderID v) (st_providers s) = Some p" "i_ProviderType row = p_Type p"
    using assms(4) by (auto simp: instance_row_def AiServiceInstance.defs AiServiceInstanceRow.defs split: option.splits)
  obtain sv where sv: "service_row s v = Some sv" "s_ProviderID sv = s_ProviderID v"
    using v(2) by (auto simp: service_row_def AiService.defs AiServiceRow.defs)
  obtain prov where prov: "aiProvider E (p_Type p) = Inr prov" "\<forall>r w. fst (pv_RevokeAccess prov r w) = Inr ()"
    using assms(2,5) v(3) by (auto simp: revoking_def)
  obtain creds where creds: "fst (aiCredentials E p s) = Inr creds" using fst_aiCredentials by blast
  obtain key where key: "fst (readMintedKey E (mintedKeyPath (i_Observed i)) s) = Inr key" using fst_readMintedKey by blast
  have call: "fst (on_world (pv_RevokeAccess prov r) s) = Inr ()" for r
    using prov(2) by (simp add: on_world_def split: prod.split) (metis fst_conv)
  have world: "st_instances (snd (on_world m s)) = st_instances s" for m
    by (simp add: on_world_def split: prod.split)
  show ?thesis
    using assms(1) i v sv prov(1) creds key call
    by (simp add: RevokeAIInstance_def run_simps Let_def q_GetAIServiceInstance_def q_GetAIService_def q_GetAIProvider_def
        q_RevokeAIServiceInstance_def query_def one_def update_row_def lift_def aiCredentials_same readMintedKey_same world)
qed

text \<open>What is left to sweep of one row.\<close>

definition swept :: "ctx \<Rightarrow> time \<Rightarrow> AiServiceInstanceRow \<Rightarrow> 'w st \<Rightarrow> bool" where
  "swept c now r s \<longleftrightarrow> (reap_due now r \<and> in_scope c (i_TenantID r) \<longrightarrow> gone (i_ID r) s)"

lemma instance_row_catalog: "same_catalog s t \<Longrightarrow> instance_row t i = instance_row s i"
  by (simp add: instance_row_def same_catalog_def cong: option.case_cong)

lemma instance_row_fields:
  "instance_row s i = Some r \<Longrightarrow> i_ID r = i_ID i \<and> i_Status r = i_Status i \<and> i_ExpiresAt r = i_ExpiresAt i \<and> i_TenantID r = i_TenantID i"
  by (auto simp: instance_row_def AiServiceInstance.defs split: option.splits)

lemma instance_row_type:
  assumes "wf_refs s" "wf_values s" "i \<in> set (st_instances s)"
  shows "\<exists>r. instance_row s i = Some r \<and> validAIProviderType (i_ProviderType r)"
proof -
  have "i_ServiceID i \<in> s_ID ` set (st_services s)" using assms(1,3) by (auto simp: wf_refs_def refers_def)
  then obtain v where v: "List.find (\<lambda>v. s_ID v = i_ServiceID i) (st_services s) = Some v"
    by (cases "List.find (\<lambda>v. s_ID v = i_ServiceID i) (st_services s)") (auto simp: find_None_iff)
  then have "s_ProviderID v \<in> p_ID ` set (st_providers s)"
    using assms(1) by (auto simp: wf_refs_def refers_def dest!: find_SomeD)
  then obtain p where p: "List.find (\<lambda>p. p_ID p = s_ProviderID v) (st_providers s) = Some p"
    by (cases "List.find (\<lambda>p. p_ID p = s_ProviderID v) (st_providers s)") (auto simp: find_None_iff)
  then have "validAIProviderType (p_Type p)" using assms(2) by (auto simp: wf_values_def list_all_iff dest!: find_SomeD)
  then show ?thesis
    using v p by (simp add: instance_row_def AiServiceInstance.defs AiServiceInstanceRow.defs)
qed

lemma reaping_IDs: "reaping s t \<Longrightarrow> map i_ID (st_instances t) = map i_ID (st_instances s)"
proof -
  assume "reaping s t"
  then have "list_all2 (reaped (st_now s)) (st_instances s) (st_instances t)" by (simp add: reaping_def)
  then show ?thesis by (induction rule: list_all2_induct) (simp_all add: reaped_ID)
qed

lemma find_distinct: "distinct (map key rows) \<Longrightarrow> x \<in> set rows \<Longrightarrow> List.find (\<lambda>y. key y = key x) rows = Some x"
  by (induction rows) auto

lemma gone_reaped:
  assumes "wf_ids s" "reaping s t" "i \<in> set (st_instances s)" "i \<notin> set (st_instances t)"
  shows "gone (i_ID i) t"
proof -
  have all2: "list_all2 (reaped (st_now s)) (st_instances s) (st_instances t)" and d: "distinct (map i_ID (st_instances s))"
    using assms(1,2) by (simp_all add: reaping_def wf_ids_def fresh_def)
  have "\<not> live_status (i_Status j)" if j: "j \<in> set (st_instances t)" "i_ID j = i_ID i" for j
  proof -
    obtain x where x: "x \<in> set (st_instances s)" "reaped (st_now s) x j"
      using all2 j(1) by (metis list_all2_conv_all_nth in_set_conv_nth)
    then have "x = i" using d assms(3) j(2) reaped_ID [OF x(2)] by (auto simp: distinct_map inj_on_def)
    then show ?thesis using x(2) j(1) assms(4) by (auto simp: reaped_def revoked_at_def live_status_def)
  qed
  then show ?thesis by (simp add: gone_def)
qed

lemma reap_one_sweeps:
  assumes E: "env_fault E = (\<lambda>_. False)" "revoking E" and wf: "wf_ids s" "wf_refs s" "wf_values s"
    and r: "i \<in> set (st_instances s)" "instance_row s i = Some r" and inv: "reaping s t" "same_catalog s t"
  shows "\<exists>n u. reap_one E c (st_now s) acc r t = (Inr n, u) \<and> (reaping s u \<and> same_catalog s u)
    \<and> swept c (st_now s) r u \<and> (\<forall>y. swept c (st_now s) y t \<longrightarrow> swept c (st_now s) y u)"
proof (cases "reap_due (st_now s) r")
  case False
  then show ?thesis using inv by (simp add: reap_one_def ret_def swept_def)
next
  case True
  let ?rev = "RevokeAIInstance E c (i_ID r) ''system-expiry'' t"
  let ?u = "snd (reap_one E c (st_now s) acc r t)"
  have u: "quiet (snd ?rev) ?u" "\<exists>n. fst (reap_one E c (st_now s) acc r t) = Inr n"
    using True relD [OF quiet.rel_emitAIAudit] by (auto simp: reap_one_def run_simps split: sum.split)
  have rv: "revocation c (i_ID r) t (fst ?rev) (snd ?rev)"
    using post_RevokeAIInstance by (simp add: post_def)
  have keep: "gone k t \<Longrightarrow> gone k ?u" for k
    using rv u(1) gone_revoked(2) by (fastforce simp: revocation_def gone_def quietD split: sum.splits)
  have "reaping s ?u"
    using post_reap_one [OF wf(1) _ inv(1)] r by (force simp: post_def set_map_filter)
  moreover have "same_catalog s ?u"
    using inv(2) relD [OF same_catalog.rel_RevokeAIInstance, where s = t] u(1)
    by (simp add: same_catalog_def quietD)
  moreover have "gone (i_ID r) ?u" if scope: "in_scope c (i_TenantID r)"
  proof (cases "i \<in> set (st_instances t)")
    case False
    then show ?thesis using gone_reaped [OF wf(1) inv(1) r(1)] keep instance_row_fields [OF r(2)] by simp
  next
    case True': True
    have d: "distinct (map i_ID (st_instances t))"
      using reaping_IDs [OF inv(1)] wf(1) by (simp add: wf_ids_def fresh_def)
    have "live_in_scope c (i_ID r) t i"
      using find_distinct [OF d True'] True scope instance_row_fields [OF r(2)]
      by (simp add: live_in_scope_def reap_due_def)
    moreover have "instance_row t i = Some r" "validAIProviderType (i_ProviderType r)"
      using instance_row_catalog [OF inv(2)] instance_row_type [OF wf(2,3) r(1)] r(2) by simp_all
    ultimately obtain x where "fst ?rev = Inr x"
      using RevokeAIInstance_succeeds [OF E] by blast
    then have "gone (i_ID r) (snd ?rev)" using rv gone_revoked(1) by (fastforce simp: revocation_def)
    then show ?thesis using u(1) by (simp add: gone_def quietD)
  qed
  ultimately show ?thesis using u(2) keep by (cases "reap_one E c (st_now s) acc r t") (auto simp: swept_def)
qed

lemma ReapExpiredAIInstances_complete:
  assumes E: "env_fault E = (\<lambda>_. False)" "revoking E" and wf: "wf_ids s" "wf_refs s" "wf_values s"
  obtains n t where "ReapExpiredAIInstances E c s = (Inr n, t)" "reaping s t"
    "\<And>i. i \<in> set (st_instances t) \<Longrightarrow> in_scope c (i_TenantID i) \<Longrightarrow> live_status (i_Status i) \<Longrightarrow>
      \<not> expired_now (st_now s) (i_ExpiresAt i)"
proof -
  let ?rows = "List.map_filter (instance_row s) (rev (st_instances s))"
  have "\<exists>n t. foldE (reap_one E c (st_now s)) 0 ?rows s = (Inr n, t) \<and> (reaping s t \<and> same_catalog s t)
      \<and> (\<forall>r \<in> set ?rows. swept c (st_now s) r t) \<and> (\<forall>y. swept c (st_now s) y s \<longrightarrow> swept c (st_now s) y t)"
  proof (rule foldE_sweep)
    fix acc r t
    assume "r \<in> set ?rows" "reaping s t \<and> same_catalog s t"
    then show "\<exists>n u. reap_one E c (st_now s) acc r t = (Inr n, u) \<and> (reaping s u \<and> same_catalog s u)
        \<and> swept c (st_now s) r u \<and> (\<forall>y. swept c (st_now s) y t \<longrightarrow> swept c (st_now s) y u)"
      using reap_one_sweeps [OF E wf] by (auto simp: set_map_filter)
  qed (simp add: reaping_refl same_catalog_def)
  then obtain n t where run: "foldE (reap_one E c (st_now s)) 0 ?rows s = (Inr n, t)" and inv: "reaping s t"
    and swept: "\<forall>r \<in> set ?rows. swept c (st_now s) r t" by blast
  have "\<not> expired_now (st_now s) (i_ExpiresAt j)"
    if j: "j \<in> set (st_instances t)" "in_scope c (i_TenantID j)" "live_status (i_Status j)" for j
  proof
    assume exp: "expired_now (st_now s) (i_ExpiresAt j)"
    have "list_all2 (reaped (st_now s)) (st_instances s) (st_instances t)" using inv by (simp add: reaping_def)
    then obtain i where "i \<in> set (st_instances s)" "reaped (st_now s) i j"
      using j(1) by (metis list_all2_conv_all_nth in_set_conv_nth)
    then have i: "j \<in> set (st_instances s)" using j(3) by (auto simp: reaped_def revoked_at_def live_status_def)
    obtain r where r: "instance_row s j = Some r" using instance_row_type [OF wf(2,3) i] by blast
    then have "r \<in> set ?rows" using i by (auto simp: set_map_filter)
    then have "gone (i_ID r) t" using swept r j exp instance_row_fields [OF r] by (auto simp: swept_def reap_due_def)
    then show False using j instance_row_fields [OF r] by (simp add: gone_def)
  qed
  moreover have "ReapExpiredAIInstances E c s = (Inr n, t)"
    using run E(1) by (simp add: ReapExpiredAIInstances_def q_ListAIServiceInstances_def query_def wrap_def bindE_def gets_def)
  ultimately show thesis using that inv by blast
qed

end
