(* ===== verification/Demo.thy ===== *)
theory Demo
  imports Progress
begin

text \<open>
  A concrete deployment: the migrated database, the MockAI backend, no faults and no secret store.
  It shows that the hypotheses of the properties can hold together.
\<close>

definition demo_parse :: "string \<Rightarrow> uuid option" where
  "demo_parse s = (if s \<noteq> [] \<and> list_all is_digit s then Some (nat (digits_val s)) else None)"

definition demo :: "unit env" where
  "demo = \<lparr>env_fault = (\<lambda>_. False), env_uuid_string = show_nat, env_uuid_parse = demo_parse, env_creds = None,
     env_ai = Some [(''mock_ai'', mock_provider show_nat)], env_events = True,
     env_CreateTicket = None, env_RandRead = ret (replicate 32 (CHR 0x2A)), env_url_ok = (\<lambda>_. True),
     env_http = (\<lambda>_. fail (Upstream ''no network''))\<rparr>"

definition demo0 :: "unit st" where "demo0 = initial 0 ()"

lemma demo0_reachable: "reachable demo0"
  unfolding demo0_def by (rule reachable.start)

text \<open>A request for the mock service, filed and approved.\<close>

definition demo_input :: CreateAIRequestInput where
  "demo_input = \<lparr>in_Name = ''req-1'', in_Requester = ''ann@corp.io'', in_ServiceID = [], in_ServiceSlug = ''openai-api-mock'',
     in_Owner = [], in_Workspace = ''lab'', in_Justification = ''test'', in_ExpiresAt = [], in_Metadata = []\<rparr>"

definition demo1 :: "unit st" where
  "demo1 = snd (run demo None (FileRequest demo_input) demo0)"

definition demo2 :: "unit st" where
  "demo2 = snd (run demo None (Approve ''req-1'' [] ''bob@corp.io'') demo1)"

lemma demo_reachable: "reachable demo1" "reachable demo2"
  unfolding demo2_def demo1_def by (rule reachable.more [OF _ step.command] demo0_reachable)+

text \<open>The same request as a row, waiting for its decision.\<close>

definition demo_request :: Request where
  "demo_request = \<lparr>r_ID = 7, r_Name = ''req-1'', r_Environment = ''dev'', r_Requester = ''ann@corp.io'',
     r_Kind = ''ai_service'', r_Provider = ''mock-ai'', r_Blueprint = [],
     r_Spec = JObj [(''service_slug'', JStr ''openai-api-mock'')], r_Status = ''pending_approval'',
     r_TicketRef = [], r_ResourceRef = [], r_DecidedBy = [], r_Reason = [], r_TenantID = None,
     r_CreatedAt = 0, r_UpdatedAt = 0\<rparr>"

definition demo_pending :: "unit st" where
  "demo_pending = demo0\<lparr>st_requests := [demo_request]\<rparr>"

lemma demo_found: "fst (find_request demo None ''req-1'' (default_env []) demo_pending) = Inr demo_request"
  by (simp add: find_request_def q_GetRequestByName_def query_def one_def run_simps demo_pending_def demo_request_def
      default_env_def demo_def in_scope_def scopeTenant_def)

lemma demo_plan: "\<exists>p. fst (resolve_plan demo demo_request demo_pending) = Inr p"
proof -
  have "case fst (resolve_plan demo demo_request demo_pending) of Inl e \<Rightarrow> False | Inr p \<Rightarrow> True"
    by code_simp
  then show ?thesis by (simp split: sum.splits)
qed

lemma demo_willing: "fst (resolve_plan demo req s) = Inr p \<Longrightarrow> willing (pl_Backend p)"
  by (auto simp: resolve_plan_def fst_bindE lift_def aiProvider_def Registry_Get_def demo_def willing_def
      mock_provider_def mock_ProvisionAccess_def Let_def split: sum.splits if_splits)

lemma demo_gate: "gov_hard demo None rc demo_pending = []"
  by (simp add: gov_hard_def policies_view_def quotas_view_def budgets_view_def demo_pending_def demo0_def initial_def
      visible_rows_def scopeTenant_def)

text \<open>A registry that knows every provider type and accepts every revocation.\<close>

definition demo_all :: "unit env" where
  "demo_all = demo\<lparr>env_ai := Some (map (\<lambda>t. (t, (mock_provider show_nat)\<lparr>pv_RevokeAccess := \<lambda>_. ret ()\<rparr>))
     [''mock_ai'', ''openai'', ''anthropic'', ''gemini'', ''github_copilot'', ''cursor'', ''litellm''])\<rparr>"

lemma demo_revoking: "revoking demo_all" "env_fault demo_all = (\<lambda>_. False)"
  by (auto simp: revoking_def validAIProviderType_def aiProvider_def Registry_Get_def demo_all_def demo_def)

end
