(* ===== verification/Races.thy ===== *)
theory Races
  imports Demo
begin

text \<open>
  Two callers at once. The model runs an operation as a whole; the program runs two approvals of one request
  side by side, and both read the row before either writes. The part of an approval that follows its checks is a
  definition of its own, so that schedule can be written down: a second approval that goes on with the row it
  has read. Nothing in the queries or the schema stops it.
\<close>

text \<open>What the plan of a request depends on.\<close>

lemma service_row_catalog: "same_catalog s t \<Longrightarrow> service_row t = service_row s"
  by (simp add: same_catalog_def fun_eq_iff service_row_def)

lemma lookupAIService_catalog:
  assumes "same_catalog s t"
  shows "fst (lookupAIService E spec t) = fst (lookupAIService E spec s)"
proof -
  have "st_services t = st_services s" using assms by (simp add: same_catalog_def)
  then show ?thesis
    by (simp add: lookupAIService_def q_GetAIService_def q_GetAIServiceBySlug_def query_def one_def fst_wrap
        service_row_catalog [OF assms] run_simps split: option.split)
qed

lemma GetAIProvider_catalog: "same_catalog s t \<Longrightarrow> fst (q_GetAIProvider E k t) = fst (q_GetAIProvider E k s)"
  by (simp add: q_GetAIProvider_def query_def one_def same_catalog_def fail_def split: option.split)

lemma bindE_sameI:
  assumes "fst (m t) = fst (m s)" "\<And>x. fst (f x (snd (m t))) = fst (f x (snd (m s)))"
  shows "fst (bindE m f t) = fst (bindE m f s)"
  using assms by (simp add: fst_bindE split: sum.split)

lemma lift_plain: "fst (lift r s) = r" "snd (lift r s) = s"
  by (simp_all add: lift_def ret_def fail_def split: sum.split)

lemma resolve_plan_catalog:
  assumes "same_catalog s t"
  shows "fst (resolve_plan E req t) = fst (resolve_plan E req s)"
  unfolding resolve_plan_def
  by (intro bindE_sameI)
     (simp_all add: lift_plain ret_def fst_wrap fst_guardE lookupAIService_catalog [OF assms] GetAIProvider_catalog [OF assms]
      relD [OF ro.rel_lookupAIService])

text \<open>What an approval leaves alone.\<close>

definition same_rules :: "'w st \<Rightarrow> 'w st \<Rightarrow> bool" where
  "same_rules s t \<longleftrightarrow> same_catalog s t \<and> st_tenants t = st_tenants s \<and> st_policies t = st_policies s
     \<and> st_quotas t = st_quotas s \<and> st_budgets t = st_budgets s"

interpretation same_rules: request_rel same_rules
  by (unfold_locales; auto simp: same_rules_def same_catalog_def query_simps split: option.splits)

lemma update_rows_image: "(\<And>x. key (f x) = key x) \<Longrightarrow> key ` set (update_rows p f rows) = key ` set rows"
  by (metis list.set_map update_rows_map_same)

interpretation request_ids: request_rel "\<lambda>s t. r_ID ` set (st_requests s) \<subseteq> r_ID ` set (st_requests t)"
  by (unfold_locales; auto simp: query_simps update_rows_image split: option.splits)

lemma unruled_gate:
  "st_policies s = [] \<Longrightarrow> st_quotas s = [] \<Longrightarrow> st_budgets s = [] \<Longrightarrow> gov_hard E c rc s = []"
  by (simp add: gov_hard_def policies_view_def quotas_view_def budgets_view_def visible_rows_def split: option.split)

text \<open>Where no rule is in force, both approvals succeed and the request has two live instances.\<close>

theorem approval_race:
  assumes "env_fault E = (\<lambda>_. False)" "fst (find_request E c name (default_env environment) s) = Inr req"
    and "r_Status req = ''pending_approval''" "r_Kind req = ''ai_service''" "fst (resolve_plan E req s) = Inr p"
    and "willing (pl_Backend p)" "fk_tenant (r_TenantID req) s"
    and "st_policies s = []" "st_quotas s = []" "st_budgets s = []"
  shows "case ApproveRequest E c name environment a s of (r, t) \<Rightarrow>
     case approve_pending E c (default_env environment) b req t of (r', u) \<Rightarrow>
       r = Inr () \<and> r' = Inr () \<and> (\<exists>i j. st_instances u = st_instances s @ [i, j]
         \<and> i_RequestID i = Some (r_ID req) \<and> i_RequestID j = Some (r_ID req) \<and> i_Status i = ''active'' \<and> i_Status j = ''active'')"
proof -
  note first = ApproveRequest_pending [OF assms(2,3), of a]
  let ?t = "snd (ApproveRequest E c name environment a s)"
  let ?u = "snd (approve_pending E c (default_env environment) b req ?t)"
  have ok: "fst (ApproveRequest E c name environment a s) = Inr ()"
    using assms by (intro ApproveRequest_succeeds [where p = p]) (simp_all add: unruled_gate)
  have same: "same_rules s ?t" by (rule relD [OF same_rules.rel_ApproveRequest])
  have "r_ID req \<in> set (map r_ID (st_requests s))" using find_requestD [OF assms(2)] by simp
  then have here: "r_ID req \<in> r_ID ` set (st_requests ?t)"
    using relD [OF request_ids.rel_ApproveRequest [of E c name environment a], of s] by auto
  then have plan: "fst (resolve_plan E req ?t) = Inr p" and unruled: "gov_hard E c (plan_facts req p) ?t = []"
    and tenant: "fk_tenant (r_TenantID req) ?t"
    using assms same by (simp_all add: same_rules_def resolve_plan_catalog [of s ?t] unruled_gate fk_tenant_def cong: option.case_cong)
  have ok': "fst (approve_pending E c (default_env environment) b req ?t) = Inr ()"
    by (rule approve_pending_succeeds [OF assms(1) here assms(4) plan unruled assms(6) tenant])
  obtain i where i: "st_instances ?t = st_instances s @ [i]" "grant_for E c req s i"
    using approve_pending_adds [of E c "default_env environment" a req s "()"] ok by (auto simp: first)
  obtain j where j: "st_instances ?u = st_instances ?t @ [j]" "grant_for E c req ?t j"
    using approve_pending_adds [OF ok'] by auto
  show ?thesis
    using ok ok' i j by (auto simp: grant_for_def granted_by_def split: prod.split)
qed

lemma demo_pending_fields [simp]:
  "st_policies demo_pending = []" "st_quotas demo_pending = []" "st_budgets demo_pending = []" "st_instances demo_pending = []"
  by (simp_all add: demo_pending_def demo0_def initial_def)

theorem approval_race_witness:
  "case ApproveRequest demo None ''req-1'' [] ''ann@corp.io'' demo_pending of (r, t) \<Rightarrow>
     case approve_pending demo None ''dev'' ''bob@corp.io'' demo_request t of (r', u) \<Rightarrow>
       r = Inr () \<and> r' = Inr () \<and> (\<exists>i j. st_instances u = [i, j] \<and> i_RequestID i = Some 7 \<and> i_RequestID j = Some 7
         \<and> i_Status i = ''active'' \<and> i_Status j = ''active'')"
proof -
  obtain p where p: "fst (resolve_plan demo demo_request demo_pending) = Inr p" using demo_plan by blast
  have "env_fault demo = (\<lambda>_. False)" by (simp add: demo_def)
  moreover have "r_Status demo_request = ''pending_approval''" "r_Kind demo_request = ''ai_service''"
    and "r_ID demo_request = 7" "fk_tenant (r_TenantID demo_request) demo_pending" "default_env [] = ''dev''"
    by (simp_all add: demo_request_def fk_tenant_def default_env_def)
  ultimately show ?thesis
    using approval_race [OF _ demo_found _ _ p demo_willing [OF p], of "''bob@corp.io''" "''ann@corp.io''"] by simp
qed

end
