(* ===== verification/Instants.thy ===== *)
theory Instants
  imports GoTime
begin

text \<open>
  Printing an instant and reading it back: \<open>FormatRFC3339\<close> and \<open>ParseRFC3339\<close> agree to the second on
  the years of four digits. The date of a day number is a date of the calendar, leap days included.
\<close>

section \<open>The date of a day is a date\<close>

lemma month_length_table:
  "list_all (\<lambda>doy. let mp = month_of_doy doy; d = doy - (153 * mp + 2) div 5 + 1; m = (if mp < 10 then mp + 3 else mp - 9)
      in if m = 2 then d \<le> 28 \<or> (d = 29 \<and> doy = 365) else d \<le> daysIn m 0) [0..365]"
  by code_simp

text \<open>Day 365 of a March-based year is the leap day of the next year.\<close>

lemma last_day_leap:
  assumes doe: "0 \<le> doe" "doe < 146097" and yd: "year_of_era doe = (yoe, 365)"
  shows "is_leap (yoe + 1 + 400 * era)"
proof -
  define c r q r' n where defs: "c = min 3 (doe div 36524)" "r = doe - 36524 * c"
    "q = r div 1461" "r' = r - 1461 * q" "n = min 3 (r' div 365)"
  have eq: "yoe = 100 * c + 4 * q + n" "365 = r' - 365 * n"
    using yd by (simp_all add: year_of_era_def Let_def defs)
  have c: "0 \<le> c" "c \<le> 3" "0 \<le> r" "c < 3 \<Longrightarrow> r < 36524" "r \<le> 36524"
    using doe by (auto simp: defs(1,2) min_def)
  have q: "0 \<le> q" "q \<le> 24" "0 \<le> r'" "r' < 1461" using c(3,5) by (auto simp: defs(3,4))
  have "r' div 365 = n + 1" using eq(2) by simp
  then have n: "n = 3" by (simp add: defs(5) min_def split: if_splits)
  then have r: "r = 1461 * q + 1460" using eq(2) by (simp add: defs(4))
  have "q = 24 \<Longrightarrow> c = 3" using c(2,4) r by (cases "c < 3") auto
  then consider "q \<le> 23" | "c = 3" "q = 24" using q(2) by linarith
  then show ?thesis
  proof cases
    case 1
    have y: "yoe + 1 + 400 * era = 4 * (q + 1) + 100 * (c + 4 * era)" using eq(1) n by simp
    have "(yoe + 1 + 400 * era) mod 100 = 4 * (q + 1)"
      using mod_mult_self2 [of "4 * (q + 1)" 100 "c + 4 * era"] 1 q(1) unfolding y by (simp add: mod_pos_pos_trivial)
    moreover have "(yoe + 1 + 400 * era) mod 4 = 0" unfolding y by presburger
    ultimately show ?thesis using q(1) by (simp add: is_leap_def)
  next
    case 2
    have "yoe + 1 + 400 * era = 400 * (1 + era)" using eq(1) n 2 by simp
    then show ?thesis unfolding is_leap_def by presburger
  qed
qed

lemma civil_of_days_valid:
  assumes "civil_of_days z = (y, m, d)"
  shows "d \<le> daysIn m y"
proof -
  obtain yoe doy where yd: "year_of_era ((z + 719468) mod 146097) = (yoe, doy)" by fastforce
  have doy: "0 \<le> doy" "doy \<le> 365" using year_of_era_spec(2) [OF _ _ yd] by auto
  define mp where "mp = month_of_doy doy"
  have m: "m = (if mp < 10 then mp + 3 else mp - 9)" and d: "d = doy - (153 * mp + 2) div 5 + 1"
    and y: "y = yoe + (z + 719468) div 146097 * 400 + (if m \<le> 2 then 1 else 0)"
    using assms by (auto simp: civil_of_days_def yd Let_def mp_def)
  have tab: "if m = 2 then d \<le> 28 \<or> (d = 29 \<and> doy = 365) else d \<le> daysIn m 0"
    using bspec [OF month_length_table [unfolded list_all_iff], of doy] doy unfolding m d mp_def Let_def by simp
  show ?thesis
  proof (cases "m = 2 \<and> d = 29")
    case True
    then have "doy = 365" using tab by simp
    then have "is_leap (yoe + 1 + 400 * ((z + 719468) div 146097))"
      using last_day_leap [of "(z + 719468) mod 146097"] yd by simp
    then have "is_leap y" using y True by (simp add: algebra_simps)
    then show ?thesis using True by (simp add: daysIn_def)
  next
    case False
    then show ?thesis using tab by (auto simp: daysIn_def split: if_splits)
  qed
qed

section \<open>The round trip\<close>

lemma getnum_pad2: "0 \<le> n \<Longrightarrow> n < 100 \<Longrightarrow> getnum fixed (pad2 n @ r) = Some (n, r)"
proof -
  assume n: "0 \<le> n" "n < 100"
  then have "n div 10 < 10" "0 \<le> n div 10" by linarith+
  then have "digit (digit_char (nat (n div 10 mod 10))) = Some (n div 10)" "digit (digit_char (nat (n mod 10))) = Some (n mod 10)"
    by (simp_all add: digit_digit_char)
  then show ?thesis using n by (simp add: pad2_def)
qed

lemma parse_printed:
  assumes "0 \<le> a" "a < 100" "0 \<le> b" "b < 100" "1 \<le> m" "m \<le> 12" "1 \<le> d" "d \<le> 31" "d \<le> daysIn m (100 * a + b)"
    and "0 \<le> hh" "hh < 24" "0 \<le> mi" "mi < 60" "0 \<le> sec" "sec < 60"
  shows "ParseRFC3339 (pad2 a @ pad2 b @ ''-'' @ pad2 m @ ''-'' @ pad2 d @ ''T'' @ pad2 hh @ '':'' @ pad2 mi @ '':'' @ pad2 sec @ ''Z'')
    = Some (Date (100 * a + b) m d + (hh * 3600 + mi * 60 + sec) * 1000000000)"
  using assms by (simp add: ParseRFC3339_def getdate_def getyear_def getnum_pad2 literal_def getfrac_def getzone_def)

lemma ParseRFC3339_FormatRFC3339:
  assumes "civil_of_days (day_number t) = (y, m, d)" "0 \<le> y" "y \<le> 9999"
  shows "ParseRFC3339 (FormatRFC3339 t) = Some (t - t mod 1000000000)"
proof -
  define sec where "sec = (t mod day_ns) div 1000000000"
  have sec: "0 \<le> sec" "sec < 86400" by (simp_all add: sec_def day_ns_def)
  have y: "100 * (y div 100) + y mod 100 = y" by simp
  have bounds: "0 \<le> y div 100" "y div 100 < 100" "0 \<le> y mod 100" "y mod 100 < 100"
    "0 \<le> sec div 3600" "sec div 3600 < 24" "0 \<le> sec div 60 mod 60" "sec div 60 mod 60 < 60" "0 \<le> sec mod 60" "sec mod 60 < 60"
    using assms(2,3) sec by (auto simp: pos_mod_bound intro: div_int_pos_iff [THEN iffD2])
  have "sec div 3600 = sec div 60 div 60" using zdiv_zmult2_eq [of 60 sec 60] by simp
  then have hms: "sec div 3600 * 3600 + sec div 60 mod 60 * 60 + sec mod 60 = sec"
    using div_mult_mod_eq [of "sec div 60" 60] div_mult_mod_eq [of sec 60] by linarith
  have day: "Date y m d = day_number t * day_ns"
    by (simp add: Date_def days_of_civil_of_days [OF assms(1)])
  have "t mod day_ns mod 1000000000 = t mod 1000000000"
    by (rule mod_mod_cancel) (simp add: day_ns_def)
  then have "t mod day_ns = sec * 1000000000 + t mod 1000000000"
    using div_mult_mod_eq [of "t mod day_ns" 1000000000] unfolding sec_def by linarith
  then have instant: "Date y m d + sec * 1000000000 = t - t mod 1000000000"
    using div_mult_mod_eq [of t day_ns] day unfolding day_number_def by linarith
  have "ParseRFC3339 (FormatRFC3339 t) = Some (Date y m d
      + (sec div 3600 * 3600 + sec div 60 mod 60 * 60 + sec mod 60) * 1000000000)"
    using parse_printed [OF bounds(1-4) civil_of_days_range [OF assms(1)] _ bounds(5-10)]
      civil_of_days_valid [OF assms(1)]
    unfolding FormatRFC3339_def assms(1) prod.case Let_def sec_def [symmetric] y by blast
  then show ?thesis unfolding hms instant .
qed

end
