(* ===== verification/SpecText.thy ===== *)
theory SpecText
  imports Endpoints Instants
begin

text \<open>
  The texts a request travels in: the stored form of its specification (\<open>json.Marshal\<close> of
  \<open>AIRequestSpec\<close> with its \<open>omitempty\<close> tags, and the decoding of it) and its expiry.
\<close>

lemma dec_string_append:
  "dec_string k (xs @ ys) acc = Option.bind (dec_string k xs acc) (dec_string k ys)"
  by (induction k xs acc rule: dec_string.induct) (auto split: json.split)

lemma dec_obj_append:
  "dec_obj k (xs @ ys) acc = Option.bind (dec_obj k xs acc) (dec_obj k ys)"
  by (induction k xs acc rule: dec_obj.induct) (auto split: json.split)

lemma dec_omitempty:
  "dec_string k (omitempty k' v) acc = Some (if EqualFold k' k \<and> v \<noteq> [] then v else acc)"
  "\<not> EqualFold k' k \<Longrightarrow> dec_obj k (omitempty k' v) m = Some m"
  by (simp_all add: omitempty_def)

text \<open>The seven tags are pairwise different, also when case is folded.\<close>

definition spec_keys :: "string list" where
  "spec_keys = [''service_id'', ''service_slug'', ''owner'', ''workspace'', ''justification'', ''expires_at'', ''metadata'']"

lemma spec_keys_differ: "list_all (\<lambda>a. list_all (\<lambda>b. EqualFold a b \<longleftrightarrow> a = b) spec_keys) spec_keys"
  by code_simp

lemmas spec_key_rules = spec_keys_differ [unfolded spec_keys_def list.pred_inject simp_thms]

lemma spec_marshalled: "aiRequestSpecOf (marshal_spec sp) = Inr sp"
  by (cases sp) (simp add: aiRequestSpecOf_def marshal_spec_def decode_spec_def dec_string_append dec_obj_append
      dec_omitempty spec_key_rules)

section \<open>The expiry of a request\<close>

lemma pad2_solid: "list_all (\<lambda>c. \<not> is_space c) (pad2 n)"
proof -
  have "list_all (\<lambda>n. \<not> is_space (digit_char n)) [0..<10]" by code_simp
  moreover have "nat (n div 10 mod 10) < 10" "nat (n mod 10) < 10"
    using pos_mod_bound [of 10 "n div 10"] pos_mod_bound [of 10 n] by linarith+
  ultimately show ?thesis by (simp add: pad2_def list_all_iff)
qed

lemma FormatRFC3339_solid: "list_all (\<lambda>c. \<not> is_space c) (FormatRFC3339 t)" "FormatRFC3339 t \<noteq> []"
  by (simp_all add: FormatRFC3339_def Let_def pad2_solid split: prod.split) (simp_all add: is_space_def pad2_def)

lemma aiExpiresAt_printed:
  assumes "civil_of_days (day_number t) = (y, m, d)" "0 \<le> y" "y \<le> 9999"
  shows "aiExpiresAt (FormatRFC3339 t) created days = Inr (Some (t - t mod 1000000000))"
  using FormatRFC3339_solid [of t] ParseRFC3339_FormatRFC3339 [OF assms]
  by (simp add: aiExpiresAt_def TrimSpace_solid)

end
