(* ===== verification/Clients.thy ===== *)
theory Clients
  imports CostImport
begin

text \<open>
  What the HTTP clients of the AI providers share (\<open>internal/aiproviders/anthropic\<close>, \<open>openai\<close>,
  \<open>litellm\<close>): the network and the process environment they run in, escaping of URL parts, one
  exchange, and the loop that pages through a list endpoint. A client is a \<open>Provider\<close> built over
  such a network; the rest of the program only sees the interface.
\<close>

section \<open>Escaping\<close>

text \<open>\<open>url.PathEscape\<close> and \<open>url.QueryEscape\<close>.\<close>

definition unreserved :: "char \<Rightarrow> bool" where
  "unreserved c \<longleftrightarrow> (let n = (of_char c :: nat) in
     (97 \<le> n \<and> n \<le> 122) \<or> (65 \<le> n \<and> n \<le> 90) \<or> (48 \<le> n \<and> n \<le> 57) \<or> c \<in> set ''-_.~'')"

definition hex_upper :: "nat \<Rightarrow> char" where
  "hex_upper n = char_of (if n < 10 then 48 + n else 55 + n)"

definition pct :: "char \<Rightarrow> string" where
  "pct c = [CHR ''%'', hex_upper (of_char c div 16), hex_upper (of_char c mod 16)]"

definition path_char :: "char \<Rightarrow> string" where
  "path_char c = (if unreserved c \<or> c \<in> set ''$&+:=@'' then [c] else pct c)"

definition query_char :: "char \<Rightarrow> string" where
  "query_char c = (if unreserved c then [c] else if c = CHR '' '' then ''+'' else pct c)"

definition PathEscape :: "string \<Rightarrow> string" where
  "PathEscape s = concat (map path_char s)"

definition QueryEscape :: "string \<Rightarrow> string" where
  "QueryEscape s = concat (map query_char s)"

section \<open>The network\<close>

text \<open>What a client does not read from its arguments: the HTTP transport (with the body of the answer
  as far as the client reads it), whether a URL parses, environment variables, the clock
  and the printing of a UUID.\<close>

record 'w Net =
  nt_http :: "HttpRequest \<Rightarrow> ('w, HttpResponse) op"
  nt_url_ok :: "string \<Rightarrow> bool"
  nt_getenv :: "string \<Rightarrow> string"
  nt_now :: "'w \<Rightarrow> time"
  nt_uuid_string :: "uuid \<Rightarrow> string"

text \<open>\<open>http.NewRequest\<close> and \<open>client.Do\<close>.\<close>

definition send :: "'w Net \<Rightarrow> string \<Rightarrow> HttpRequest \<Rightarrow> ('w, HttpResponse) op" where
  "send N label req =
     bindE (guardE (nt_url_ok N (hq_URL req)) (Msg ''invalid url'')) (\<lambda>_. wrap label (nt_http N req))"

text \<open>Where an answer goes: nowhere (a nil \<open>out\<close>), or through a decoder.\<close>

type_synonym 'a sink = "err + payload \<Rightarrow> 'a option"

definition no_out :: "unit sink" where "no_out b = Some ()"

definition into :: "(json \<Rightarrow> 'a option) \<Rightarrow> 'a sink" where "into f = decode_body f"

definition client_base :: "obj \<Rightarrow> string \<Rightarrow> string" where
  "client_base cfg d = trim_slashes (base_url cfg d)"

text \<open>The first credential of a list of names that is not blank.\<close>

definition first_cred :: "kv \<Rightarrow> string list \<Rightarrow> string" where
  "first_cred creds names = firstNonEmpty (map (\<lambda>k. TrimSpace (kv_at creds k)) names)"

text \<open>\<open>errors.As\<close> to an \<open>adminAPIError\<close>: its status and body.\<close>

fun as_api :: "err \<Rightarrow> (nat \<times> string) option" where
  "as_api (ApiError n body) = Some (n, body)"
| "as_api (Wrap c e) = as_api e"
| "as_api e = None"

text \<open>\<open>err.Error()\<close> of what a client's call returns, given the text of an \<open>adminAPIError\<close>; a transport error
  carries its own text, and the errors of the database do not occur there.\<close>

fun err_text :: "(nat \<Rightarrow> string \<Rightarrow> string) \<Rightarrow> err \<Rightarrow> string" where
  "err_text f (ApiError n body) = f n body"
| "err_text f (Wrap c e) = c @ '': '' @ err_text f e"
| "err_text f (Msg m) = m"
| "err_text f (Upstream m) = m"
| "err_text f e = []"

section \<open>Decoding\<close>

text \<open>Into a \<open>map[string]any\<close>, and into the values of a map.\<close>

definition dec_map :: "json \<Rightarrow> obj option" where
  "dec_map v = (case v of JObj m \<Rightarrow> Some m | JNull \<Rightarrow> Some [] | _ \<Rightarrow> None)"

fun dec_entries :: "(json \<Rightarrow> 'a option) \<Rightarrow> obj \<Rightarrow> (string \<times> 'a) list option" where
  "dec_entries f [] = Some []"
| "dec_entries f ((k, v) # r) =
     (case f v of None \<Rightarrow> None | Some x \<Rightarrow> map_option (Cons (k, x)) (dec_entries f r))"

text \<open>Into a pointer: \<open>null\<close> makes it nil.\<close>

fun dec_ptr :: "(json \<Rightarrow> 'a option) \<Rightarrow> string \<Rightarrow> obj \<Rightarrow> 'a option \<Rightarrow> 'a option option" where
  "dec_ptr f k [] acc = Some acc"
| "dec_ptr f k ((k', v) # r) acc =
     (if EqualFold k' k
      then (if v = JNull then dec_ptr f k r None
            else (case f v of Some x \<Rightarrow> dec_ptr f k r (Some x) | None \<Rightarrow> None))
      else dec_ptr f k r acc)"

section \<open>Request specifications\<close>

text \<open>The specification with its \<open>metadata\<close> merged over its top level.\<close>

definition flat_spec :: "json \<Rightarrow> obj" where
  "flat_spec spec =
     (let m = to_obj spec in
      case map_of m ''metadata'' of
        Some (JObj meta) \<Rightarrow> fold (\<lambda>(k, v). AList.update k v) meta m
      | _ \<Rightarrow> m)"

text \<open>The strings of a JSON array, trimmed, without the blank ones.\<close>

definition solid_strings :: "json list \<Rightarrow> string list" where
  "solid_strings xs = filter (\<lambda>s. s \<noteq> []) (map TrimSpace (List.map_filter (\<lambda>v. case v of JStr s \<Rightarrow> Some s | _ \<Rightarrow> None) xs))"

section \<open>Paged lists\<close>

record 'a Page =
  pg_Data :: "'a list"
  pg_HasMore :: bool
  pg_LastID :: string

definition dec_page :: "(json \<Rightarrow> 'a option) \<Rightarrow> json \<Rightarrow> 'a Page option" where
  "dec_page f = dec_struct (\<lambda>m.
     Option.bind (dec_field (dec_array f) ''data'' m []) (\<lambda>d.
     Option.bind (dec_field dec_bool ''has_more'' m False) (\<lambda>h. Option.bind (dec_string ''last_id'' m []) (\<lambda>l.
     Some \<lparr>pg_Data = d, pg_HasMore = h, pg_LastID = l\<rparr>))))"

text \<open>The page loops: at most \<open>n\<close> pages, each asked for with the last identifier of the one before.\<close>

fun pages :: "(string \<Rightarrow> ('w, 'a Page) op) \<Rightarrow> nat \<Rightarrow> string \<Rightarrow> 'a list \<Rightarrow> ('w, 'a list) op" where
  "pages get 0 after all = ret all"
| "pages get (Suc n) after all =
     bindE (get after) (\<lambda>p.
       if \<not> pg_HasMore p \<or> TrimSpace (pg_LastID p) = [] then ret (all @ pg_Data p)
       else pages get n (pg_LastID p) (all @ pg_Data p))"

text \<open>The path of one page.\<close>

definition page_path :: "string \<Rightarrow> string \<Rightarrow> string \<Rightarrow> string" where
  "page_path path cursor after =
     path @ (if Contains path ''?'' then ''&'' else ''?'') @ ''limit=100'' @
     (if after = [] then [] else ''&'' @ cursor @ ''='' @ QueryEscape after)"

section \<open>Values\<close>

definition requestSchema :: "string list \<Rightarrow> obj" where
  "requestSchema flds = [(''fields'', JArr (map JStr flds))]"

definition service_of :: "string \<Rightarrow> string \<Rightarrow> string \<Rightarrow> string \<Rightarrow> string list \<Rightarrow> int \<Rightarrow> Service" where
  "service_of name slug category description flds days =
     \<lparr>sv_Name = name, sv_Slug = slug, sv_Category = category, sv_Description = description,
      sv_RequestSchema = Some (requestSchema flds), sv_DefaultExpirationDays = days, sv_RequiresApproval = True\<rparr>"

fun join_with :: "string \<Rightarrow> string list \<Rightarrow> string" where
  "join_with sep [] = []"
| "join_with sep [x] = x"
| "join_with sep (x # y # r) = x @ sep @ join_with sep (y # r)"

definition hashedID :: "string \<Rightarrow> string list \<Rightarrow> string" where
  "hashedID p parts = p @ ''-'' @ take 16 (sha1_hex (join_with '':'' (p # parts)))"

text \<open>The usage a client reports that imports none, and the status every client reports.\<close>

definition no_usage :: "string \<Rightarrow> UsageRequest \<Rightarrow> UsageRecord list" where
  "no_usage message req = [\<lparr>ur_Metric = ''tokens'', ur_Quantity = 0, ur_Unit = ''tokens'', ur_CostUSD = 0,
     ur_Raw = [(''provider_access_id'', JStr (uq_ProviderAccessID req)), (''source'', JStr ''not_imported''),
       (''message'', JStr message)]\<rparr>]"

definition manual_status :: "string \<Rightarrow> StatusResult" where
  "manual_status accessID = \<lparr>sr_Status = ''active'', sr_Observed = [(''provider_access_id'', JStr accessID),
     (''external_provisioning'', JStr ''manual'')]\<rparr>"

end
