(* ===== verification/Anthropic.thy ===== *)
theory Anthropic
  imports Clients
begin

text \<open>
  The Anthropic client (\<open>internal/aiproviders/anthropic/anthropic.go\<close> and \<open>admin.go\<close>): credential
  checks, the model list, real workspace grants through the Admin API with their revocation, and the
  administration of the organization.
\<close>

section \<open>Keys and settings\<close>

definition anthropic_apiKey :: "'w Net \<Rightarrow> kv \<Rightarrow> string" where
  "anthropic_apiKey N creds =
     (let v = first_cred creds [''api_key'', ''anthropic_api_key'', ''token''] in
      if v \<noteq> [] then v else TrimSpace (nt_getenv N ''ANTHROPIC_API_KEY''))"

definition anthropic_adminKey :: "'w Net \<Rightarrow> kv \<Rightarrow> string" where
  "anthropic_adminKey N creds =
     (let v = TrimSpace (kv_at creds ''admin_api_key'') in
      if v \<noteq> [] then v else TrimSpace (nt_getenv N ''ANTHROPIC_ADMIN_KEY''))"

definition anthropicVersion :: "obj \<Rightarrow> string" where
  "anthropicVersion cfg = (case str_at cfg ''anthropic_version'' of
     Some v \<Rightarrow> if TrimSpace v \<noteq> [] then TrimSpace v else ''2023-06-01'' | None \<Rightarrow> ''2023-06-01'')"

definition anthropic_base :: "obj \<Rightarrow> string" where
  "anthropic_base cfg = client_base cfg ''https://api.anthropic.com''"

section \<open>Admin API calls\<close>

definition anthropic_request :: "string \<Rightarrow> obj \<Rightarrow> string \<Rightarrow> string \<Rightarrow> json option \<Rightarrow> HttpRequest" where
  "anthropic_request key cfg method path inp =
     \<lparr>hq_Method = method, hq_URL = anthropic_base cfg @ path, hq_Query = [],
      hq_Headers = [(''x-api-key'', key), (''anthropic-version'', anthropicVersion cfg)] @
        (if inp = None then [] else [(''Content-Type'', ''application/json'')]),
      hq_Body = map_option Doc inp\<rparr>"

definition anthropic_adminDo ::
  "'w Net \<Rightarrow> AdminContext \<Rightarrow> string \<Rightarrow> string \<Rightarrow> json option \<Rightarrow> 'a sink \<Rightarrow> ('w, 'a) op" where
  "anthropic_adminDo N ac method path inp out =
     (let key = anthropic_adminKey N (ac_Credentials ac) in
      bindE (guardE (key \<noteq> []) (Msg ''anthropic admin key missing'')) (\<lambda>_.
      bindE (send N ''anthropic admin api call failed'' (anthropic_request key (ac_Config ac) method path inp)) (\<lambda>resp.
      bindE (guardE (status_ok resp) (ApiError (hr_StatusCode resp) (TrimSpace (hr_Text resp)))) (\<lambda>_.
      case out (hr_Body resp) of
        None \<Rightarrow> fail (Msg ''decoding anthropic admin response'')
      | Some x \<Rightarrow> ret x))))"

definition anthropic_Error :: "err \<Rightarrow> string" where
  "anthropic_Error = err_text (\<lambda>n body. ''anthropic admin api returned '' @ show_nat n @ '': '' @ take 300 body)"

definition anthropic_adminList ::
  "'w Net \<Rightarrow> (json \<Rightarrow> 'a option) \<Rightarrow> AdminContext \<Rightarrow> string \<Rightarrow> ('w, 'a list) op" where
  "anthropic_adminList N f ac path =
     pages (\<lambda>after. anthropic_adminDo N ac ''GET'' (page_path path ''after_id'' after) None (into (dec_page f))) 50 [] []"

section \<open>The organization\<close>

definition wireUser :: "json \<Rightarrow> OrgUser option" where
  "wireUser = dec_struct (\<lambda>m.
     Option.bind (dec_string ''id'' m []) (\<lambda>i. Option.bind (dec_string ''email'' m []) (\<lambda>e.
     Option.bind (dec_string ''name'' m []) (\<lambda>n. Option.bind (dec_string ''role'' m []) (\<lambda>r.
     Option.bind (dec_string ''added_at'' m []) (\<lambda>a.
     Some \<lparr>ou_ID = i, ou_Email = e, ou_Name = n, ou_Role = r, ou_AddedAt = a\<rparr>))))))"

definition wireWS :: "json \<Rightarrow> OrgWorkspace option" where
  "wireWS = dec_struct (\<lambda>m.
     Option.bind (dec_string ''id'' m []) (\<lambda>i. Option.bind (dec_string ''name'' m []) (\<lambda>n.
     Option.bind (dec_string ''created_at'' m []) (\<lambda>c. Option.bind (dec_string ''archived_at'' m []) (\<lambda>a.
     Some \<lparr>ow_ID = i, ow_Name = n, ow_CreatedAt = c, ow_ArchivedAt = a\<rparr>)))))"

definition wireInvite :: "json \<Rightarrow> InviteResult option" where
  "wireInvite = dec_struct (\<lambda>m.
     Option.bind (dec_string ''id'' m []) (\<lambda>i. Option.bind (dec_string ''email'' m []) (\<lambda>e.
     Option.bind (dec_string ''role'' m []) (\<lambda>r. Option.bind (dec_string ''status'' m []) (\<lambda>st.
     Option.bind (dec_string ''invited_at'' m []) (\<lambda>a. Option.bind (dec_string ''expires_at'' m []) (\<lambda>x.
     Some \<lparr>iv_InviteID = i, iv_Email = e, iv_Role = r, iv_Status = st, iv_InvitedAt = a, iv_ExpiresAt = x\<rparr>)))))))"

definition anthropic_ListOrgUsers :: "'w Net \<Rightarrow> AdminContext \<Rightarrow> ('w, OrgUser list) op" where
  "anthropic_ListOrgUsers N ac = anthropic_adminList N wireUser ac ''/v1/organizations/users''"

definition anthropic_ListWorkspaces :: "'w Net \<Rightarrow> AdminContext \<Rightarrow> ('w, OrgWorkspace list) op" where
  "anthropic_ListWorkspaces N ac = anthropic_adminList N wireWS ac ''/v1/organizations/workspaces''"

definition anthropic_ListInvites :: "'w Net \<Rightarrow> AdminContext \<Rightarrow> ('w, InviteResult list) op" where
  "anthropic_ListInvites N ac = anthropic_adminList N wireInvite ac ''/v1/organizations/invites''"

definition anthropic_InviteUser :: "'w Net \<Rightarrow> AdminContext \<Rightarrow> string \<Rightarrow> string \<Rightarrow> ('w, InviteResult) op" where
  "anthropic_InviteUser N ac email0 role =
     (let email = TrimSpace email0 in
      bindE (guardE (email \<noteq> []) (Msg ''email is required'')) (\<lambda>_.
      bindE (guardE (role \<noteq> ''admin'') (Msg ''the admin org role cannot be granted via the API'')) (\<lambda>_.
      anthropic_adminDo N ac ''POST'' ''/v1/organizations/invites''
        (Some (JObj [(''email'', JStr email), (''role'', JStr role)])) (into wireInvite))))"

text \<open>The answer is decoded without its \<open>archived_at\<close>.\<close>

definition created_workspace :: "json \<Rightarrow> OrgWorkspace option" where
  "created_workspace = dec_struct (\<lambda>m.
     Option.bind (dec_string ''id'' m []) (\<lambda>i. Option.bind (dec_string ''name'' m []) (\<lambda>n.
     Option.bind (dec_string ''created_at'' m []) (\<lambda>c.
     Some \<lparr>ow_ID = i, ow_Name = n, ow_CreatedAt = c, ow_ArchivedAt = []\<rparr>))))"

definition anthropic_CreateWorkspace :: "'w Net \<Rightarrow> AdminContext \<Rightarrow> string \<Rightarrow> ('w, OrgWorkspace) op" where
  "anthropic_CreateWorkspace N ac name0 =
     (let name = TrimSpace name0 in
      bindE (guardE (name \<noteq> []) (Msg ''workspace name is required'')) (\<lambda>_.
      anthropic_adminDo N ac ''POST'' ''/v1/organizations/workspaces'' (Some (JObj [(''name'', JStr name)]))
        (into created_workspace)))"

definition anthropic_ArchiveWorkspace :: "'w Net \<Rightarrow> AdminContext \<Rightarrow> string \<Rightarrow> ('w, unit) op" where
  "anthropic_ArchiveWorkspace N ac workspaceID =
     bindE (guardE (TrimSpace workspaceID \<noteq> []) (Msg ''workspace id is required'')) (\<lambda>_.
     anthropic_adminDo N ac ''POST'' (''/v1/organizations/workspaces/'' @ PathEscape workspaceID @ ''/archive'') None no_out)"

definition member_path :: "string \<Rightarrow> string \<Rightarrow> string" where
  "member_path workspaceID userID =
     ''/v1/organizations/workspaces/'' @ PathEscape workspaceID @ ''/members/'' @ PathEscape userID"

text \<open>Adding a member; one the API already knows is switched to the new role.\<close>

definition anthropic_upsertMember :: "'w Net \<Rightarrow> AdminContext \<Rightarrow> string \<Rightarrow> string \<Rightarrow> string \<Rightarrow> ('w, unit) op" where
  "anthropic_upsertMember N ac workspaceID userID role =
     bindE (attempt (anthropic_adminDo N ac ''POST''
        (''/v1/organizations/workspaces/'' @ PathEscape workspaceID @ ''/members'')
        (Some (JObj [(''user_id'', JStr userID), (''workspace_role'', JStr role)])) no_out)) (\<lambda>r.
     case r of
       Inr _ \<Rightarrow> ret ()
     | Inl e \<Rightarrow>
         if (case as_api e of Some (n, body) \<Rightarrow> Contains body ''already a member'' | None \<Rightarrow> False) then
           anthropic_adminDo N ac ''POST'' (member_path workspaceID userID)
             (Some (JObj [(''workspace_role'', JStr role)])) no_out
         else fail e)"

definition anthropic_GrantWorkspaceAccess :: "'w Net \<Rightarrow> AdminContext \<Rightarrow> string \<Rightarrow> string \<Rightarrow> string \<Rightarrow> ('w, unit) op" where
  "anthropic_GrantWorkspaceAccess N ac workspaceID userID role =
     bindE (guardE (workspaceID \<noteq> [] \<and> userID \<noteq> []) (Msg ''workspace id and user id are required'')) (\<lambda>_.
     bindE (wrap ''looking up user'' (anthropic_adminDo N ac ''GET'' (''/v1/organizations/users/'' @ PathEscape userID)
        None (into wireUser))) (\<lambda>u.
     bindE (guardE (RoleComboAllowed (ou_Role u) role) (BadStatus role (ou_Role u))) (\<lambda>_.
     anthropic_upsertMember N ac workspaceID userID role)))"

definition anthropic_RemoveWorkspaceMember :: "'w Net \<Rightarrow> AdminContext \<Rightarrow> string \<Rightarrow> string \<Rightarrow> ('w, unit) op" where
  "anthropic_RemoveWorkspaceMember N ac workspaceID userID =
     bindE (guardE (workspaceID \<noteq> [] \<and> userID \<noteq> []) (Msg ''workspace id and user id are required'')) (\<lambda>_.
     anthropic_adminDo N ac ''DELETE'' (member_path workspaceID userID) None no_out)"

definition anthropic_SetOrgRole :: "'w Net \<Rightarrow> AdminContext \<Rightarrow> string \<Rightarrow> string \<Rightarrow> ('w, OrgUser) op" where
  "anthropic_SetOrgRole N ac userID role =
     bindE (guardE (TrimSpace userID \<noteq> []) (Msg ''user id is required'')) (\<lambda>_.
     bindE (guardE (role \<noteq> ''admin'') (Msg ''the admin org role cannot be granted via the API'')) (\<lambda>_.
     anthropic_adminDo N ac ''POST'' (''/v1/organizations/users/'' @ PathEscape userID)
       (Some (JObj [(''role'', JStr role)])) (into wireUser)))"

definition anthropic_RemoveOrgUser :: "'w Net \<Rightarrow> AdminContext \<Rightarrow> string \<Rightarrow> ('w, unit) op" where
  "anthropic_RemoveOrgUser N ac userID =
     bindE (guardE (TrimSpace userID \<noteq> []) (Msg ''user id is required'')) (\<lambda>_.
     anthropic_adminDo N ac ''DELETE'' (''/v1/organizations/users/'' @ PathEscape userID) None no_out)"

section \<open>Effective access\<close>

record wireMember =
  wm_UserID :: string
  wm_WorkspaceRole :: string

definition dec_member :: "json \<Rightarrow> wireMember option" where
  "dec_member = dec_struct (\<lambda>m.
     Option.bind (dec_string ''user_id'' m []) (\<lambda>u. Option.bind (dec_string ''workspace_role'' m []) (\<lambda>r.
     Some \<lparr>wm_UserID = u, wm_WorkspaceRole = r\<rparr>)))"

text \<open>\<open>byID[id]\<close>: the last user of that identifier, or the zero value.\<close>

definition user_by_id :: "OrgUser list \<Rightarrow> string \<Rightarrow> OrgUser" where
  "user_by_id users k = (case List.find (\<lambda>u. ou_ID u = k) (rev users) of
     Some u \<Rightarrow> u | None \<Rightarrow> \<lparr>ou_ID = [], ou_Email = [], ou_Name = [], ou_Role = [], ou_AddedAt = []\<rparr>)"

definition explicit_access :: "OrgUser list \<Rightarrow> wireMember \<Rightarrow> WorkspaceAccess" where
  "explicit_access users m = (let u = user_by_id users (wm_UserID m) in
     \<lparr>wa_UserID = wm_UserID m, wa_Email = ou_Email u, wa_OrgRole = ou_Role u,
      wa_WorkspaceRole = wm_WorkspaceRole m, wa_Inherited = False\<rparr>)"

definition inherited_access :: "OrgUser \<Rightarrow> WorkspaceAccess" where
  "inherited_access u = \<lparr>wa_UserID = ou_ID u, wa_Email = ou_Email u, wa_OrgRole = ou_Role u,
     wa_WorkspaceRole = InheritedWorkspaceRole (ou_Role u), wa_Inherited = True\<rparr>"

definition effective_access :: "wireMember list \<Rightarrow> OrgUser list \<Rightarrow> WorkspaceAccess list" where
  "effective_access members users =
     map (explicit_access users) members @
     map inherited_access (filter (\<lambda>u. ou_ID u \<notin> set (map wm_UserID members) \<and> InheritedWorkspaceRole (ou_Role u) \<noteq> []) users)"

definition anthropic_EffectiveWorkspaceAccess :: "'w Net \<Rightarrow> AdminContext \<Rightarrow> string \<Rightarrow> ('w, WorkspaceAccess list) op" where
  "anthropic_EffectiveWorkspaceAccess N ac workspaceID =
     bindE (guardE (TrimSpace workspaceID \<noteq> []) (Msg ''workspace id is required'')) (\<lambda>_.
     bindE (anthropic_adminList N dec_member ac
        (''/v1/organizations/workspaces/'' @ PathEscape workspaceID @ ''/members'')) (\<lambda>members.
     bindE (anthropic_ListOrgUsers N ac) (\<lambda>users. ret (effective_access members users))))"

definition anthropic_admin :: "'w Net \<Rightarrow> 'w AdminProvisioner" where
  "anthropic_admin N =
     \<lparr>ad_ListOrgUsers = anthropic_ListOrgUsers N, ad_ListWorkspaces = anthropic_ListWorkspaces N,
      ad_ListInvites = anthropic_ListInvites N,
      ad_EffectiveWorkspaceAccess = anthropic_EffectiveWorkspaceAccess N, ad_InviteUser = anthropic_InviteUser N,
      ad_CreateWorkspace = anthropic_CreateWorkspace N, ad_ArchiveWorkspace = anthropic_ArchiveWorkspace N,
      ad_GrantWorkspaceAccess = anthropic_GrantWorkspaceAccess N,
      ad_RemoveWorkspaceMember = anthropic_RemoveWorkspaceMember N,
      ad_SetOrgRole = anthropic_SetOrgRole N, ad_RemoveOrgUser = anthropic_RemoveOrgUser N\<rparr>"

section \<open>Credentials, services and models\<close>

definition anthropic_probe :: "'w Net \<Rightarrow> string \<Rightarrow> string \<Rightarrow> obj \<Rightarrow> ('w, unit) op" where
  "anthropic_probe N path key cfg =
     bindE (send N ''anthropic credential check failed'' (anthropic_request key cfg ''GET'' path None)) (\<lambda>resp.
     guardE (status_ok resp) (Upstream ''anthropic credential check''))"

definition anthropic_ValidateCredentials :: "'w Net \<Rightarrow> kv \<Rightarrow> obj \<Rightarrow> ('w, unit) op" where
  "anthropic_ValidateCredentials N creds cfg =
     (let admin = anthropic_adminKey N creds; inference = anthropic_apiKey N creds in
      bindE (guardE (\<not> (admin = [] \<and> inference = [])) (Msg ''anthropic key missing'')) (\<lambda>_.
      bindE (if admin \<noteq> [] then wrap ''admin key (admin_api_key)''
               (anthropic_probe N ''/v1/organizations/users?limit=1'' admin cfg) else ret ()) (\<lambda>_.
      if inference \<noteq> [] then wrap ''inference key (api_key)'' (anthropic_probe N ''/v1/models'' inference cfg)
      else ret ())))"

definition anthropic_services :: "Service list" where
  "anthropic_services =
    [service_of ''Claude API Access'' ''claude-api-access'' ''api_access''
       ''Governed access to Anthropic Claude API usage.''
       [''owner'', ''workspace'', ''justification'', ''models'', ''expires_at''] 30,
     service_of ''Claude Code Access'' ''claude-code-access'' ''developer_tool''
       ''Governed Claude Code entitlement/license request with owner, expiry, and audit trail.''
       [''owner'', ''workspace'', ''justification'', ''repo_scope'', ''expires_at''] 90]"

definition anthropic_curatedModels :: "Model list" where
  "anthropic_curatedModels = map (\<lambda>(i, n). \<lparr>mo_Model = i, mo_DisplayName = n, mo_Modality = ''text'',
       mo_Status = ''active'', mo_Metadata = Some [(''source'', JStr ''curated''),
         (''note'', JStr ''live sync needs an inference api_key in the secret_ref'')]\<rparr>)
     [(''claude-fable-5'', ''Claude Fable 5''), (''claude-opus-4-8'', ''Claude Opus 4.8''),
      (''claude-opus-4-7'', ''Claude Opus 4.7''), (''claude-opus-4-6'', ''Claude Opus 4.6''),
      (''claude-sonnet-4-6'', ''Claude Sonnet 4.6''), (''claude-haiku-4-5'', ''Claude Haiku 4.5''),
      (''claude-opus-4-5'', ''Claude Opus 4.5 (legacy)''), (''claude-opus-4-1'', ''Claude Opus 4.1 (legacy)''),
      (''claude-sonnet-4-5'', ''Claude Sonnet 4.5 (legacy)'')]"

record wireModel =
  wo_ID :: string
  wo_DisplayName :: string
  wo_CreatedAt :: string

definition dec_model :: "json \<Rightarrow> wireModel option" where
  "dec_model = dec_struct (\<lambda>m.
     Option.bind (dec_string ''id'' m []) (\<lambda>i. Option.bind (dec_string ''display_name'' m []) (\<lambda>d.
     Option.bind (dec_string ''created_at'' m []) (\<lambda>c.
     Some \<lparr>wo_ID = i, wo_DisplayName = d, wo_CreatedAt = c\<rparr>))))"

definition anthropic_model :: "wireModel \<Rightarrow> Model" where
  "anthropic_model m = \<lparr>mo_Model = wo_ID m,
     mo_DisplayName = (if wo_DisplayName m = [] then wo_ID m else wo_DisplayName m), mo_Modality = ''text'',
     mo_Status = ''active'', mo_Metadata = Some [(''source'', JStr ''anthropic_models_api''),
       (''created_at'', JStr (wo_CreatedAt m))]\<rparr>"

definition anthropic_models_page :: "'w Net \<Rightarrow> string \<Rightarrow> obj \<Rightarrow> string \<Rightarrow> ('w, wireModel Page) op" where
  "anthropic_models_page N key cfg after =
     bindE (send N ''anthropic model sync failed'' (anthropic_request key cfg ''GET''
        (page_path ''/v1/models'' ''after_id'' after) None)) (\<lambda>resp.
     bindE (guardE (status_ok resp) (Upstream (''anthropic model sync returned '' @ take 256 (TrimSpace (hr_Text resp))))) (\<lambda>_.
     case decode_body (dec_page dec_model) (hr_Body resp) of
       None \<Rightarrow> fail (Msg ''decoding anthropic model list'')
     | Some p \<Rightarrow> ret p))"

definition anthropic_ListModels :: "'w Net \<Rightarrow> kv \<Rightarrow> obj \<Rightarrow> ('w, Model list) op" where
  "anthropic_ListModels N creds cfg =
     (let key = anthropic_apiKey N creds in
      if key = [] then ret anthropic_curatedModels
      else bindE (pages (anthropic_models_page N key cfg) 20 [] []) (\<lambda>rows.
        ret (map anthropic_model (filter (\<lambda>m. TrimSpace (wo_ID m) \<noteq> []) rows))))"

section \<open>Provisioning and revocation\<close>

definition requestedWorkspaceRole :: "json \<Rightarrow> string" where
  "requestedWorkspaceRole spec = (case str_at (to_obj spec) ''workspace_role'' of
     Some v \<Rightarrow> if TrimSpace v \<noteq> [] then TrimSpace v else ''workspace_developer'' | None \<Rightarrow> ''workspace_developer'')"

text \<open>The role a grant asks for: a billing user is promoted to workspace admin rather than refused.\<close>

definition granted_role :: "string \<Rightarrow> string \<Rightarrow> string option" where
  "granted_role org role =
     (if RoleComboAllowed org role then Some role
      else if org = ''billing'' then Some ''workspace_admin'' else None)"

definition invited_result :: "string \<Rightarrow> string \<Rightarrow> InviteResult \<Rightarrow> ProvisionResult" where
  "invited_result email wsRef iv =
     \<lparr>res_ProviderAccessID = ''anthropic-invite:'' @ iv_InviteID iv,
      res_Observed = [(''provider'', JStr ''anthropic''), (''owner'', JStr email), (''workspace'', JStr wsRef),
        (''external_provisioning'', JStr ''invited''), (''invite_id'', JStr (iv_InviteID iv)),
        (''invite_status'', JStr (iv_Status iv)),
        (''message'', JStr (''Invited '' @ email @
           '' to the organization; workspace access is granted automatically once they accept.''))]\<rparr>"

definition granted_result :: "string \<Rightarrow> OrgWorkspace \<Rightarrow> string \<Rightarrow> string \<Rightarrow> ProvisionResult" where
  "granted_result email ws userID role =
     \<lparr>res_ProviderAccessID = ''anthropic-ws:'' @ ow_ID ws @ '':user:'' @ userID,
      res_Observed = [(''provider'', JStr ''anthropic''), (''owner'', JStr email), (''workspace'', JStr (ow_Name ws)),
        (''workspace_id'', JStr (ow_ID ws)), (''user_id'', JStr userID), (''workspace_role'', JStr role),
        (''external_provisioning'', JStr ''granted''),
        (''message'', JStr (''Granted '' @ email @ '' the '' @ role @ '' role in workspace '' @ quoted (ow_Name ws) @ ''.''))]\<rparr>"

text \<open>The workspace a request names, by name or identifier, unless archived.\<close>

definition find_workspace :: "OrgWorkspace list \<Rightarrow> string \<Rightarrow> OrgWorkspace option" where
  "find_workspace wss wsRef =
     (case List.find (\<lambda>w. ow_ArchivedAt w = [] \<and> (EqualFold (ow_Name w) wsRef \<or> ow_ID w = wsRef)) wss of
        Some w \<Rightarrow> if ow_ID w = [] then None else Some w
      | None \<Rightarrow> None)"

definition anthropic_grantRealAccess ::
  "'w Net \<Rightarrow> ProvisionRequest \<Rightarrow> string \<Rightarrow> string \<Rightarrow> ('w, ProvisionResult) op" where
  "anthropic_grantRealAccess N req email wsRef =
     (let ac = \<lparr>ac_Credentials = pr_Credentials req, ac_Config = pr_Config req\<rparr> in
      bindE (anthropic_ListOrgUsers N ac) (\<lambda>users.
      case List.find (\<lambda>u. EqualFold (ou_Email u) email) users of
        None \<Rightarrow>
          bindE (wrap (''inviting '' @ email) (anthropic_InviteUser N ac email ''developer'')) (\<lambda>iv.
          ret (invited_result email wsRef iv))
      | Some user \<Rightarrow>
          bindE (anthropic_ListWorkspaces N ac) (\<lambda>wss.
          case find_workspace wss wsRef of
            None \<Rightarrow> fail (NotFound ''no active workspace in the organization'' wsRef)
          | Some ws \<Rightarrow>
              (case granted_role (ou_Role user) (requestedWorkspaceRole (pr_Spec req)) of
                 None \<Rightarrow> fail (BadStatus (requestedWorkspaceRole (pr_Spec req)) (ou_Role user))
               | Some role \<Rightarrow>
                   bindE (anthropic_GrantWorkspaceAccess N ac (ow_ID ws) (ou_ID user) role) (\<lambda>_.
                   ret (granted_result email ws (ou_ID user) role))))))"

text \<open>Without a real grant: an entitlement the program only records.\<close>

definition entitlement_result :: "'w Net \<Rightarrow> ProvisionRequest \<Rightarrow> ProvisionResult" where
  "entitlement_result N req =
     (let accessID = hashedID ''anthropic'' [nt_uuid_string N (pr_RequestID req), sv_Slug (pr_Service req), pr_Owner req];
          reason = (if anthropic_adminKey N (pr_Credentials req) \<noteq> [] then ''Governance entitlement recorded. For a real workspace grant, set the request owner to a user email and the workspace to a real workspace name.''
            else ''Claude/Claude Code access approved in OPORD; grant/revoke in Anthropic admin or existing IdP workflow.'')
      in \<lparr>res_ProviderAccessID = accessID,
          res_Observed = [(''provider'', JStr ''anthropic''), (''provider_access_id'', JStr accessID),
            (''service'', JStr (sv_Slug (pr_Service req))), (''owner'', JStr (pr_Owner req)),
            (''workspace'', JStr (pr_Workspace req)), (''external_provisioning'', JStr ''manual''),
            (''message'', JStr reason)]\<rparr>)"

definition anthropic_ProvisionAccess :: "'w Net \<Rightarrow> ProvisionRequest \<Rightarrow> ('w, ProvisionResult) op" where
  "anthropic_ProvisionAccess N req =
     (let grantee = TrimSpace (pr_Owner req); ws = TrimSpace (pr_Workspace req) in
      if anthropic_adminKey N (pr_Credentials req) \<noteq> [] \<and> Contains grantee [CHR 0x40] \<and> ws \<noteq> [] \<and> \<not> EqualFold ws ''default''
      then anthropic_grantRealAccess N req grantee ws
      else ret (entitlement_result N req))"

text \<open>\<open>strings.SplitN(s, sep, 2)\<close>: the parts around the first occurrence, if there is one.\<close>

fun SplitN2 :: "string \<Rightarrow> string \<Rightarrow> (string \<times> string) option" where
  "SplitN2 sep [] = (if sep = [] then Some ([], []) else None)"
| "SplitN2 sep (c # s) =
     (if prefix sep (c # s) then Some ([], drop (length sep) (c # s))
      else map_option (apfst (Cons c)) (SplitN2 sep s))"

text \<open>A member that cannot be removed because it is a billing user gets its inherited role back.\<close>

definition anthropic_dropMember :: "'w Net \<Rightarrow> AdminContext \<Rightarrow> string \<Rightarrow> string \<Rightarrow> ('w, unit) op" where
  "anthropic_dropMember N ac wsID userID =
     bindE (attempt (anthropic_RemoveWorkspaceMember N ac wsID userID)) (\<lambda>r.
     case r of
       Inr _ \<Rightarrow> ret ()
     | Inl e \<Rightarrow>
         if Contains (ToLower (anthropic_Error e)) ''billing'' then
           anthropic_adminDo N ac ''POST'' (member_path wsID userID)
             (Some (JObj [(''workspace_role'', JStr ''workspace_billing'')])) no_out
         else fail e)"

definition anthropic_RevokeAccess :: "'w Net \<Rightarrow> RevokeRequest \<Rightarrow> ('w, unit) op" where
  "anthropic_RevokeAccess N req =
     (let ac = \<lparr>ac_Credentials = rv_Credentials req, ac_Config = rv_Config req\<rparr>; k = rv_ProviderAccessID req in
      bindE (guardE (k \<noteq> []) (Msg ''provider access id is required'')) (\<lambda>_.
      if HasPrefix k ''anthropic-ws:'' then
        (case SplitN2 '':user:'' (TrimPrefix k ''anthropic-ws:'') of
           None \<Rightarrow> fail (NotFound ''malformed access id'' k)
         | Some (wsID, userID) \<Rightarrow> anthropic_dropMember N ac wsID userID)
      else if HasPrefix k ''anthropic-invite:'' then
        anthropic_adminDo N ac ''DELETE''
          (''/v1/organizations/invites/'' @ PathEscape (TrimPrefix k ''anthropic-invite:'')) None no_out
      else ret ()))"

section \<open>The provider\<close>

definition anthropic_provider :: "'w Net \<Rightarrow> 'w Provider" where
  "anthropic_provider N =
     \<lparr>pv_Type = ''anthropic'',
      pv_ValidateCredentials = anthropic_ValidateCredentials N,
      pv_ListAvailableServices = (\<lambda>_ _. ret anthropic_services),
      pv_ProvisionAccess = anthropic_ProvisionAccess N,
      pv_RevokeAccess = anthropic_RevokeAccess N,
      pv_GetUsage = (\<lambda>req. ret (no_usage ''Anthropic usage import is not implemented in this phase.'' req)),
      pv_GetStatus = (\<lambda>k. ret (manual_status k)),
      pv_ListModels = Some (anthropic_ListModels N),
      pv_Admin = Some (anthropic_admin N),
      pv_Controls = None\<rparr>"

end
