(* ===== verification/OpenAI.thy ===== *)
theory OpenAI
  imports Clients
begin

text \<open>
  The OpenAI client (\<open>internal/aiproviders/openai/openai.go\<close> and \<open>admin.go\<close>): credential checks, the
  model list, provisioning with its project and its rollback, and the administration of the
  organization and of the controls of a project.
\<close>

section \<open>Keys\<close>

definition openai_apiKey :: "'w Net \<Rightarrow> kv \<Rightarrow> string" where
  "openai_apiKey N creds =
     (let v = first_cred creds [''api_key'', ''openai_api_key'', ''token''] in
      if v \<noteq> [] then v else TrimSpace (nt_getenv N ''OPENAI_API_KEY''))"

definition openai_adminKey :: "kv \<Rightarrow> string" where
  "openai_adminKey creds = first_cred creds [''admin_api_key'', ''api_key'']"

definition openai_base :: "obj \<Rightarrow> string" where
  "openai_base cfg = client_base cfg ''https://api.openai.com''"

section \<open>Admin API calls\<close>

definition openai_request :: "string \<Rightarrow> obj \<Rightarrow> string \<Rightarrow> string \<Rightarrow> json option \<Rightarrow> HttpRequest" where
  "openai_request key cfg method path inp =
     \<lparr>hq_Method = method, hq_URL = openai_base cfg @ path, hq_Query = [],
      hq_Headers = [(''Authorization'', ''Bearer '' @ key)] @
        (if inp = None then [] else [(''Content-Type'', ''application/json'')]),
      hq_Body = map_option Doc inp\<rparr>"

definition openai_adminDo ::
  "'w Net \<Rightarrow> AdminContext \<Rightarrow> string \<Rightarrow> string \<Rightarrow> json option \<Rightarrow> 'a sink \<Rightarrow> ('w, 'a) op" where
  "openai_adminDo N ac method path inp out =
     (let key = openai_adminKey (ac_Credentials ac) in
      bindE (guardE (key \<noteq> []) (Msg ''openai admin key missing'')) (\<lambda>_.
      bindE (send N ''openai admin api call failed'' (openai_request key (ac_Config ac) method path inp)) (\<lambda>resp.
      bindE (guardE (status_ok resp) (ApiError (hr_StatusCode resp) (take 300 (TrimSpace (hr_Text resp))))) (\<lambda>_.
      case out (hr_Body resp) of
        None \<Rightarrow> fail (Msg ''decoding openai admin response'')
      | Some x \<Rightarrow> ret x))))"

definition openai_adminList :: "'w Net \<Rightarrow> (json \<Rightarrow> 'a option) \<Rightarrow> AdminContext \<Rightarrow> string \<Rightarrow> ('w, 'a list) op" where
  "openai_adminList N f ac path =
     pages (\<lambda>after. openai_adminDo N ac ''GET'' (page_path path ''after'' after) None (into (dec_page f))) 50 [] []"

text \<open>A conflict, or a body (of another error: its text) that says the target already exists.\<close>

definition isAlreadyExists :: "err \<Rightarrow> bool" where
  "isAlreadyExists e = (case as_api e of
     Some (n, body) \<Rightarrow> n = 409 \<or> Contains (ToLower body) ''already''
   | None \<Rightarrow> Contains (ToLower (err_text (\<lambda>_ _. []) e)) ''already'')"

definition api_status :: "err \<Rightarrow> nat option" where
  "api_status e = map_option fst (as_api e)"

section \<open>The organization\<close>

definition tsToString :: "int \<Rightarrow> string" where
  "tsToString v = (if v = 0 then [] else show_int v)"

definition dec_ts :: "string \<Rightarrow> obj \<Rightarrow> string option" where
  "dec_ts k m = map_option tsToString (dec_field dec_int k m 0)"

definition oaiUser :: "json \<Rightarrow> OrgUser option" where
  "oaiUser = dec_struct (\<lambda>m.
     Option.bind (dec_string ''id'' m []) (\<lambda>i. Option.bind (dec_string ''email'' m []) (\<lambda>e.
     Option.bind (dec_string ''name'' m []) (\<lambda>n. Option.bind (dec_string ''role'' m []) (\<lambda>r.
     Option.bind (dec_ts ''added_at'' m) (\<lambda>a.
     Some \<lparr>ou_ID = i, ou_Email = e, ou_Name = n, ou_Role = r, ou_AddedAt = a\<rparr>))))))"

definition oaiProject :: "json \<Rightarrow> OrgWorkspace option" where
  "oaiProject = dec_struct (\<lambda>m.
     Option.bind (dec_string ''id'' m []) (\<lambda>i. Option.bind (dec_string ''name'' m []) (\<lambda>n.
     Option.bind (dec_string ''status'' m []) (\<lambda>_. Option.bind (dec_ts ''created_at'' m) (\<lambda>c.
     Option.bind (dec_ts ''archived_at'' m) (\<lambda>a.
     Some \<lparr>ow_ID = i, ow_Name = n, ow_CreatedAt = c, ow_ArchivedAt = a\<rparr>))))))"

definition oaiInvite :: "json \<Rightarrow> InviteResult option" where
  "oaiInvite = dec_struct (\<lambda>m.
     Option.bind (dec_string ''id'' m []) (\<lambda>i. Option.bind (dec_string ''email'' m []) (\<lambda>e.
     Option.bind (dec_string ''role'' m []) (\<lambda>r. Option.bind (dec_string ''status'' m []) (\<lambda>st.
     Option.bind (dec_ts ''invited_at'' m) (\<lambda>a. Option.bind (dec_ts ''expires_at'' m) (\<lambda>x.
     Some \<lparr>iv_InviteID = i, iv_Email = e, iv_Role = r, iv_Status = st, iv_InvitedAt = a, iv_ExpiresAt = x\<rparr>)))))))"

definition openai_ListOrgUsers :: "'w Net \<Rightarrow> AdminContext \<Rightarrow> ('w, OrgUser list) op" where
  "openai_ListOrgUsers N ac = openai_adminList N oaiUser ac ''/v1/organization/users''"

definition openai_ListWorkspaces :: "'w Net \<Rightarrow> AdminContext \<Rightarrow> ('w, OrgWorkspace list) op" where
  "openai_ListWorkspaces N ac = openai_adminList N oaiProject ac ''/v1/organization/projects?include_archived=true''"

definition openai_ListInvites :: "'w Net \<Rightarrow> AdminContext \<Rightarrow> ('w, InviteResult list) op" where
  "openai_ListInvites N ac = openai_adminList N oaiInvite ac ''/v1/organization/invites''"

definition oaiOrgRole :: "string \<Rightarrow> string" where
  "oaiOrgRole r = (if EqualFold r ''admin'' \<or> EqualFold r ''owner'' then ''owner'' else ''reader'')"

definition oaiProjectRole :: "string \<Rightarrow> string" where
  "oaiProjectRole r = (if Contains (ToLower r) ''admin'' \<or> EqualFold r ''owner'' then ''owner'' else ''member'')"

definition openai_InviteUser :: "'w Net \<Rightarrow> AdminContext \<Rightarrow> string \<Rightarrow> string \<Rightarrow> ('w, InviteResult) op" where
  "openai_InviteUser N ac email0 role =
     (let email = TrimSpace email0 in
      bindE (guardE (email \<noteq> []) (Msg ''email is required'')) (\<lambda>_.
      openai_adminDo N ac ''POST'' ''/v1/organization/invites''
        (Some (JObj [(''email'', JStr email), (''role'', JStr (oaiOrgRole role))])) (into oaiInvite)))"

definition created_project :: "json \<Rightarrow> OrgWorkspace option" where
  "created_project = dec_struct (\<lambda>m.
     Option.bind (dec_string ''id'' m []) (\<lambda>i. Option.bind (dec_string ''name'' m []) (\<lambda>n.
     Option.bind (dec_ts ''created_at'' m) (\<lambda>c.
     Some \<lparr>ow_ID = i, ow_Name = n, ow_CreatedAt = c, ow_ArchivedAt = []\<rparr>))))"

definition openai_CreateWorkspace :: "'w Net \<Rightarrow> AdminContext \<Rightarrow> string \<Rightarrow> ('w, OrgWorkspace) op" where
  "openai_CreateWorkspace N ac name0 =
     (let name = TrimSpace name0 in
      bindE (guardE (name \<noteq> []) (Msg ''project name is required'')) (\<lambda>_.
      openai_adminDo N ac ''POST'' ''/v1/organization/projects'' (Some (JObj [(''name'', JStr name)]))
        (into created_project)))"

definition project_path :: "string \<Rightarrow> string \<Rightarrow> string" where
  "project_path projectID rest = ''/v1/organization/projects/'' @ PathEscape projectID @ rest"

definition openai_ArchiveWorkspace :: "'w Net \<Rightarrow> AdminContext \<Rightarrow> string \<Rightarrow> ('w, unit) op" where
  "openai_ArchiveWorkspace N ac workspaceID =
     bindE (guardE (TrimSpace workspaceID \<noteq> []) (Msg ''project id is required'')) (\<lambda>_.
     openai_adminDo N ac ''POST'' (project_path workspaceID ''/archive'') None no_out)"

definition openai_GrantWorkspaceAccess :: "'w Net \<Rightarrow> AdminContext \<Rightarrow> string \<Rightarrow> string \<Rightarrow> string \<Rightarrow> ('w, unit) op" where
  "openai_GrantWorkspaceAccess N ac workspaceID userID role0 =
     bindE (guardE (workspaceID \<noteq> [] \<and> userID \<noteq> []) (Msg ''project id and user id are required'')) (\<lambda>_.
     let role = oaiProjectRole role0 in
     bindE (attempt (openai_adminDo N ac ''POST'' (project_path workspaceID ''/users'')
        (Some (JObj [(''user_id'', JStr userID), (''role'', JStr role)])) no_out)) (\<lambda>r.
     case r of
       Inr _ \<Rightarrow> ret ()
     | Inl e \<Rightarrow>
         if isAlreadyExists e then
           openai_adminDo N ac ''POST'' (project_path workspaceID (''/users/'' @ PathEscape userID))
             (Some (JObj [(''role'', JStr role)])) no_out
         else fail e))"

definition openai_RemoveWorkspaceMember :: "'w Net \<Rightarrow> AdminContext \<Rightarrow> string \<Rightarrow> string \<Rightarrow> ('w, unit) op" where
  "openai_RemoveWorkspaceMember N ac workspaceID userID =
     bindE (guardE (workspaceID \<noteq> [] \<and> userID \<noteq> []) (Msg ''project id and user id are required'')) (\<lambda>_.
     openai_adminDo N ac ''DELETE'' (project_path workspaceID (''/users/'' @ PathEscape userID)) None no_out)"

definition openai_SetOrgRole :: "'w Net \<Rightarrow> AdminContext \<Rightarrow> string \<Rightarrow> string \<Rightarrow> ('w, OrgUser) op" where
  "openai_SetOrgRole N ac userID role =
     bindE (guardE (TrimSpace userID \<noteq> []) (Msg ''user id is required'')) (\<lambda>_.
     openai_adminDo N ac ''POST'' (''/v1/organization/users/'' @ PathEscape userID)
       (Some (JObj [(''role'', JStr (oaiOrgRole role))])) (into oaiUser))"

definition openai_RemoveOrgUser :: "'w Net \<Rightarrow> AdminContext \<Rightarrow> string \<Rightarrow> ('w, unit) op" where
  "openai_RemoveOrgUser N ac userID =
     bindE (guardE (TrimSpace userID \<noteq> []) (Msg ''user id is required'')) (\<lambda>_.
     openai_adminDo N ac ''DELETE'' (''/v1/organization/users/'' @ PathEscape userID) None no_out)"

definition oaiMember :: "json \<Rightarrow> WorkspaceAccess option" where
  "oaiMember = dec_struct (\<lambda>m.
     Option.bind (dec_string ''id'' m []) (\<lambda>i. Option.bind (dec_string ''email'' m []) (\<lambda>e.
     Option.bind (dec_string ''role'' m []) (\<lambda>r.
     Some \<lparr>wa_UserID = i, wa_Email = e, wa_OrgRole = [], wa_WorkspaceRole = r, wa_Inherited = False\<rparr>))))"

definition openai_EffectiveWorkspaceAccess :: "'w Net \<Rightarrow> AdminContext \<Rightarrow> string \<Rightarrow> ('w, WorkspaceAccess list) op" where
  "openai_EffectiveWorkspaceAccess N ac workspaceID =
     bindE (guardE (TrimSpace workspaceID \<noteq> []) (Msg ''project id is required'')) (\<lambda>_.
     openai_adminList N oaiMember ac (project_path workspaceID ''/users''))"

definition openai_admin :: "'w Net \<Rightarrow> 'w AdminProvisioner" where
  "openai_admin N =
     \<lparr>ad_ListOrgUsers = openai_ListOrgUsers N, ad_ListWorkspaces = openai_ListWorkspaces N,
      ad_ListInvites = openai_ListInvites N,
      ad_EffectiveWorkspaceAccess = openai_EffectiveWorkspaceAccess N, ad_InviteUser = openai_InviteUser N,
      ad_CreateWorkspace = openai_CreateWorkspace N, ad_ArchiveWorkspace = openai_ArchiveWorkspace N,
      ad_GrantWorkspaceAccess = openai_GrantWorkspaceAccess N,
      ad_RemoveWorkspaceMember = openai_RemoveWorkspaceMember N,
      ad_SetOrgRole = openai_SetOrgRole N, ad_RemoveOrgUser = openai_RemoveOrgUser N\<rparr>"

section \<open>Project keys and rate limits\<close>

definition project_guard :: "string \<Rightarrow> ('w, unit) op" where
  "project_guard projectID = guardE (TrimSpace projectID \<noteq> []) (Msg ''project id is required'')"

text \<open>The owner of a key: its type, the user and the service account it may have.\<close>

definition dec_owner :: "json \<Rightarrow> (string \<times> (string \<times> string) option \<times> string option) option" where
  "dec_owner = dec_struct (\<lambda>m. Option.bind (dec_string ''type'' m []) (\<lambda>t.
     Option.bind (dec_ptr (dec_struct (\<lambda>u. Option.bind (dec_string ''email'' u []) (\<lambda>e.
        Option.bind (dec_string ''name'' u []) (\<lambda>n. Some (e, n))))) ''user'' m None) (\<lambda>u.
     Option.bind (dec_ptr (dec_struct (\<lambda>a. dec_string ''name'' a [])) ''service_account'' m None) (\<lambda>sa.
     Some (t, u, sa)))))"

definition oaiProjectAPIKey :: "json \<Rightarrow> ProjectAPIKey option" where
  "oaiProjectAPIKey = dec_struct (\<lambda>m.
     Option.bind (dec_string ''id'' m []) (\<lambda>i. Option.bind (dec_string ''name'' m []) (\<lambda>n.
     Option.bind (dec_string ''redacted_value'' m []) (\<lambda>v. Option.bind (dec_ts ''created_at'' m) (\<lambda>c.
     Option.bind (dec_ts ''last_used_at'' m) (\<lambda>l.
     Option.bind (dec_field dec_owner ''owner'' m ([], None, None)) (\<lambda>(t, u, sa).
     Some \<lparr>pk_ID = i, pk_Name = n, pk_RedactedValue = v, pk_CreatedAt = c, pk_LastUsedAt = l, pk_OwnerType = t,
           pk_OwnerName = (case sa of Some a \<Rightarrow> a | None \<Rightarrow> (case u of Some (e, un) \<Rightarrow> un | None \<Rightarrow> [])),
           pk_OwnerEmail = (case u of Some (e, un) \<Rightarrow> e | None \<Rightarrow> [])\<rparr>)))))))"

definition openai_ListProjectAPIKeys :: "'w Net \<Rightarrow> AdminContext \<Rightarrow> string \<Rightarrow> ('w, ProjectAPIKey list) op" where
  "openai_ListProjectAPIKeys N ac projectID =
     bindE (project_guard projectID) (\<lambda>_. openai_adminList N oaiProjectAPIKey ac (project_path projectID ''/api_keys''))"

definition openai_DeleteProjectAPIKey :: "'w Net \<Rightarrow> AdminContext \<Rightarrow> string \<Rightarrow> string \<Rightarrow> ('w, unit) op" where
  "openai_DeleteProjectAPIKey N ac projectID keyID =
     bindE (guardE (TrimSpace projectID \<noteq> [] \<and> TrimSpace keyID \<noteq> []) (Msg ''project id and api key id are required'')) (\<lambda>_.
     openai_adminDo N ac ''DELETE'' (project_path projectID (''/api_keys/'' @ PathEscape keyID)) None no_out)"

definition mapString :: "obj \<Rightarrow> string \<Rightarrow> string" where
  "mapString m k = (case map_of m k of Some (JStr s) \<Rightarrow> s | _ \<Rightarrow> [])"

definition mapFloat :: "obj \<Rightarrow> string \<Rightarrow> float64" where
  "mapFloat m k = (case map_of m k of Some (JNum x) \<Rightarrow> x | _ \<Rightarrow> 0)"

definition mapStringSlice :: "obj \<Rightarrow> string \<Rightarrow> string list" where
  "mapStringSlice m k = (case map_of m k of
     Some (JArr xs) \<Rightarrow> List.map_filter (\<lambda>v. case v of JStr s \<Rightarrow> Some s | _ \<Rightarrow> None) xs | _ \<Rightarrow> [])"

definition projectRateLimitFromMap :: "obj \<Rightarrow> ProjectRateLimit" where
  "projectRateLimitFromMap row =
     \<lparr>rl_ID = mapString row ''id'', rl_Model = mapString row ''model'',
      rl_MaxRequestsPer1Minute = mapFloat row ''max_requests_per_1_minute'',
      rl_MaxTokensPer1Minute = mapFloat row ''max_tokens_per_1_minute'',
      rl_MaxRequestsPer1Day = mapFloat row ''max_requests_per_1_day'',
      rl_MaxImagesPer1Minute = mapFloat row ''max_images_per_1_minute'',
      rl_MaxAudioMegabytesPer1Minute = mapFloat row ''max_audio_megabytes_per_1_minute'',
      rl_Batch1DayMaxInputTokens = mapFloat row ''batch_1_day_max_input_tokens'', rl_Raw = row\<rparr>"

definition openai_ListProjectRateLimits :: "'w Net \<Rightarrow> AdminContext \<Rightarrow> string \<Rightarrow> ('w, ProjectRateLimit list) op" where
  "openai_ListProjectRateLimits N ac projectID =
     bindE (project_guard projectID) (\<lambda>_.
     bindE (openai_adminList N dec_map ac (project_path projectID ''/rate_limits'')) (\<lambda>rows.
     ret (map projectRateLimitFromMap rows)))"

definition setFloat :: "string \<Rightarrow> float64 option \<Rightarrow> obj" where
  "setFloat k v = (case v of None \<Rightarrow> [] | Some x \<Rightarrow> [(k, JNum x)])"

definition rate_limit_body :: "ProjectRateLimitUpdate \<Rightarrow> obj" where
  "rate_limit_body req =
     setFloat ''max_requests_per_1_minute'' (ru_MaxRequestsPer1Minute req) @
     setFloat ''max_tokens_per_1_minute'' (ru_MaxTokensPer1Minute req) @
     setFloat ''max_requests_per_1_day'' (ru_MaxRequestsPer1Day req) @
     setFloat ''max_images_per_1_minute'' (ru_MaxImagesPer1Minute req) @
     setFloat ''max_audio_megabytes_per_1_minute'' (ru_MaxAudioMegabytesPer1Minute req) @
     setFloat ''batch_1_day_max_input_tokens'' (ru_Batch1DayMaxInputTokens req)"

definition openai_UpdateProjectRateLimit ::
  "'w Net \<Rightarrow> AdminContext \<Rightarrow> string \<Rightarrow> string \<Rightarrow> ProjectRateLimitUpdate \<Rightarrow> ('w, ProjectRateLimit) op" where
  "openai_UpdateProjectRateLimit N ac projectID rateLimitID req =
     bindE (guardE (TrimSpace projectID \<noteq> [] \<and> TrimSpace rateLimitID \<noteq> []) (Msg ''project id and rate limit id are required'')) (\<lambda>_.
     bindE (guardE (rate_limit_body req \<noteq> []) (Msg ''at least one rate limit value is required'')) (\<lambda>_.
     bindE (openai_adminDo N ac ''POST'' (project_path projectID (''/rate_limits/'' @ PathEscape rateLimitID))
        (Some (JObj (rate_limit_body req))) (into dec_map)) (\<lambda>out.
     ret (projectRateLimitFromMap out))))"

section \<open>Model and tool permissions\<close>

definition dec_model_permissions :: "json \<Rightarrow> ProjectModelPermissions option" where
  "dec_model_permissions = dec_struct (\<lambda>m. Option.bind (dec_string ''mode'' m []) (\<lambda>x.
     Option.bind (dec_strings ''model_ids'' m []) (\<lambda>ids. Some \<lparr>pm_Mode = x, pm_ModelIDs = ids\<rparr>)))"

definition openai_GetProjectModelPermissions :: "'w Net \<Rightarrow> AdminContext \<Rightarrow> string \<Rightarrow> ('w, ProjectModelPermissions) op" where
  "openai_GetProjectModelPermissions N ac projectID =
     bindE (project_guard projectID) (\<lambda>_.
     bindE (attempt (openai_adminDo N ac ''GET'' (project_path projectID ''/model_permissions'') None
        (into dec_model_permissions))) (\<lambda>r.
     case r of
       Inr out \<Rightarrow> ret out
     | Inl e \<Rightarrow> if api_status e = Some 404 then ret \<lparr>pm_Mode = ''allow_list'', pm_ModelIDs = []\<rparr> else fail e))"

definition solid_ids :: "string list \<Rightarrow> string list" where
  "solid_ids ids = filter (\<lambda>s. s \<noteq> []) (map TrimSpace ids)"

definition openai_SetProjectModelPermissions ::
  "'w Net \<Rightarrow> AdminContext \<Rightarrow> string \<Rightarrow> ProjectModelPermissions \<Rightarrow> ('w, ProjectModelPermissions) op" where
  "openai_SetProjectModelPermissions N ac projectID req =
     bindE (project_guard projectID) (\<lambda>_.
     let mode = TrimSpace (pm_Mode req); ids = solid_ids (pm_ModelIDs req) in
     bindE (guardE (mode = ''allow_list'' \<or> mode = ''deny_list'') (Msg ''mode must be allow_list or deny_list'')) (\<lambda>_.
     bindE (guardE (ids \<noteq> []) (NotFound ''model_ids must list at least one model'' mode)) (\<lambda>_.
     openai_adminDo N ac ''POST'' (project_path projectID ''/model_permissions'')
       (Some (JObj [(''mode'', JStr mode), (''model_ids'', JArr (map JStr ids))])) (into dec_model_permissions))))"

definition openai_DeleteProjectModelPermissions :: "'w Net \<Rightarrow> AdminContext \<Rightarrow> string \<Rightarrow> ('w, unit) op" where
  "openai_DeleteProjectModelPermissions N ac projectID =
     bindE (project_guard projectID) (\<lambda>_.
     bindE (attempt (openai_adminDo N ac ''DELETE'' (project_path projectID ''/model_permissions'') None no_out)) (\<lambda>r.
     case r of
       Inr _ \<Rightarrow> ret ()
     | Inl e \<Rightarrow> if api_status e = Some 404 then ret () else fail e))"

text \<open>A \<open>map[string]map[string]bool\<close>; a null map is empty and a null element false.\<close>

definition dec_bool_or_false :: "json \<Rightarrow> bool option" where
  "dec_bool_or_false v = (case v of JBool b \<Rightarrow> Some b | JNull \<Rightarrow> Some False | _ \<Rightarrow> None)"

definition dec_tools :: "json \<Rightarrow> (string \<times> (string \<times> bool) list) list option" where
  "dec_tools v = Option.bind (dec_map v) (dec_entries (\<lambda>j. Option.bind (dec_map j) (dec_entries dec_bool_or_false)))"

definition toolEnabled :: "(string \<times> (string \<times> bool) list) list \<Rightarrow> string \<Rightarrow> bool" where
  "toolEnabled row k = (case map_of row k of None \<Rightarrow> False | Some m \<Rightarrow> map_of m ''enabled'' = Some True)"

definition hostedToolPermissionsFromMap :: "(string \<times> (string \<times> bool) list) list \<Rightarrow> ProjectHostedToolPermissions" where
  "hostedToolPermissionsFromMap row =
     \<lparr>ht_CodeInterpreter = toolEnabled row ''code_interpreter'', ht_FileSearch = toolEnabled row ''file_search'',
      ht_ImageGeneration = toolEnabled row ''image_generation'', ht_MCP = toolEnabled row ''mcp'',
      ht_WebSearch = toolEnabled row ''web_search''\<rparr>"

definition openai_GetProjectHostedToolPermissions ::
  "'w Net \<Rightarrow> AdminContext \<Rightarrow> string \<Rightarrow> ('w, ProjectHostedToolPermissions) op" where
  "openai_GetProjectHostedToolPermissions N ac projectID =
     bindE (project_guard projectID) (\<lambda>_.
     bindE (openai_adminDo N ac ''GET'' (project_path projectID ''/hosted_tool_permissions'') None (into dec_tools)) (\<lambda>out.
     ret (hostedToolPermissionsFromMap out)))"

definition enabled_json :: "bool \<Rightarrow> json" where
  "enabled_json b = JObj [(''enabled'', JBool b)]"

definition tools_body :: "ProjectHostedToolPermissions \<Rightarrow> json" where
  "tools_body req = JObj [(''code_interpreter'', enabled_json (ht_CodeInterpreter req)),
     (''file_search'', enabled_json (ht_FileSearch req)), (''image_generation'', enabled_json (ht_ImageGeneration req)),
     (''mcp'', enabled_json (ht_MCP req)), (''web_search'', enabled_json (ht_WebSearch req))]"

definition openai_SetProjectHostedToolPermissions ::
  "'w Net \<Rightarrow> AdminContext \<Rightarrow> string \<Rightarrow> ProjectHostedToolPermissions \<Rightarrow> ('w, ProjectHostedToolPermissions) op" where
  "openai_SetProjectHostedToolPermissions N ac projectID req =
     bindE (project_guard projectID) (\<lambda>_.
     bindE (openai_adminDo N ac ''POST'' (project_path projectID ''/hosted_tool_permissions'') (Some (tools_body req))
        (into dec_tools)) (\<lambda>out.
     ret (hostedToolPermissionsFromMap out)))"

section \<open>Data retention and spend alerts\<close>

definition dec_retention :: "json \<Rightarrow> string option" where
  "dec_retention = dec_struct (\<lambda>m. dec_string ''type'' m [])"

definition openai_GetProjectDataRetention :: "'w Net \<Rightarrow> AdminContext \<Rightarrow> string \<Rightarrow> ('w, string) op" where
  "openai_GetProjectDataRetention N ac projectID =
     bindE (project_guard projectID) (\<lambda>_.
     openai_adminDo N ac ''GET'' (project_path projectID ''/data_retention'') None (into dec_retention))"

definition openai_SetProjectDataRetention :: "'w Net \<Rightarrow> AdminContext \<Rightarrow> string \<Rightarrow> string \<Rightarrow> ('w, string) op" where
  "openai_SetProjectDataRetention N ac projectID ty =
     bindE (project_guard projectID) (\<lambda>_.
     bindE (guardE (TrimSpace ty \<noteq> []) (Msg ''data retention type is required'')) (\<lambda>_.
     openai_adminDo N ac ''POST'' (project_path projectID ''/data_retention'') (Some (JObj [(''type'', JStr ty)]))
       (into dec_retention)))"

definition trunc :: "float64 \<Rightarrow> int" where
  "trunc x = (if 0 \<le> x then \<lfloor>x\<rfloor> else - \<lfloor>- x\<rfloor>)"

definition projectSpendAlertFromMap :: "obj \<Rightarrow> ProjectSpendAlert" where
  "projectSpendAlertFromMap row =
     (let notification = (case map_of row ''notification_channel'' of Some (JObj m) \<Rightarrow> m | _ \<Rightarrow> []) in
      \<lparr>sa_ID = mapString row ''id'', sa_Currency = mapString row ''currency'', sa_Interval = mapString row ''interval'',
       sa_ThresholdCents = mapFloat row ''threshold_amount'', sa_Recipients = mapStringSlice notification ''recipients'',
       sa_SubjectPrefix = mapString notification ''subject_prefix'',
       sa_CreatedAt = tsToString (trunc (mapFloat row ''created_at''))\<rparr>)"

definition openai_ListProjectSpendAlerts :: "'w Net \<Rightarrow> AdminContext \<Rightarrow> string \<Rightarrow> ('w, ProjectSpendAlert list) op" where
  "openai_ListProjectSpendAlerts N ac projectID =
     bindE (project_guard projectID) (\<lambda>_.
     bindE (openai_adminList N dec_map ac (project_path projectID ''/spend_alerts'')) (\<lambda>rows.
     ret (map projectSpendAlertFromMap rows)))"

definition spend_alert_body :: "ProjectSpendAlertInput \<Rightarrow> json" where
  "spend_alert_body req = JObj [(''threshold_amount'', JNum (si_ThresholdCents req)),
     (''notification_channel'', JObj ([(''type'', JStr ''email''),
        (''recipients'', case si_Recipients req of None \<Rightarrow> JNull | Some rs \<Rightarrow> JArr (map JStr rs))] @
        (if TrimSpace (si_SubjectPrefix req) \<noteq> [] then [(''subject_prefix'', JStr (TrimSpace (si_SubjectPrefix req)))] else [])))]"

definition writeProjectSpendAlert ::
  "'w Net \<Rightarrow> AdminContext \<Rightarrow> string \<Rightarrow> string \<Rightarrow> ProjectSpendAlertInput \<Rightarrow> ('w, ProjectSpendAlert) op" where
  "writeProjectSpendAlert N ac method path req =
     bindE (guardE (\<not> si_ThresholdCents req \<le> 0) (Msg ''threshold cents must be greater than zero'')) (\<lambda>_.
     bindE (openai_adminDo N ac method path (Some (spend_alert_body req)) (into dec_map)) (\<lambda>out.
     let res = projectSpendAlertFromMap out in
     bindE (guardE (TrimSpace (sa_ID res) \<noteq> []) (Msg ''spend alert write returned no alert id'')) (\<lambda>_.
     ret res)))"

definition openai_CreateProjectSpendAlert ::
  "'w Net \<Rightarrow> AdminContext \<Rightarrow> string \<Rightarrow> ProjectSpendAlertInput \<Rightarrow> ('w, ProjectSpendAlert) op" where
  "openai_CreateProjectSpendAlert N ac projectID req =
     writeProjectSpendAlert N ac ''POST'' (project_path projectID ''/spend_alerts'') req"

definition openai_UpdateProjectSpendAlert ::
  "'w Net \<Rightarrow> AdminContext \<Rightarrow> string \<Rightarrow> string \<Rightarrow> ProjectSpendAlertInput \<Rightarrow> ('w, ProjectSpendAlert) op" where
  "openai_UpdateProjectSpendAlert N ac projectID alertID req =
     bindE (guardE (TrimSpace alertID \<noteq> []) (Msg ''spend alert id is required'')) (\<lambda>_.
     writeProjectSpendAlert N ac ''POST'' (project_path projectID (''/spend_alerts/'' @ PathEscape alertID)) req)"

definition openai_DeleteProjectSpendAlert :: "'w Net \<Rightarrow> AdminContext \<Rightarrow> string \<Rightarrow> string \<Rightarrow> ('w, unit) op" where
  "openai_DeleteProjectSpendAlert N ac projectID alertID =
     bindE (guardE (TrimSpace projectID \<noteq> [] \<and> TrimSpace alertID \<noteq> []) (Msg ''project id and spend alert id are required'')) (\<lambda>_.
     openai_adminDo N ac ''DELETE'' (project_path projectID (''/spend_alerts/'' @ PathEscape alertID)) None no_out)"

definition openai_controls :: "'w Net \<Rightarrow> 'w ProjectControlsProvisioner" where
  "openai_controls N =
     \<lparr>pc_ListProjectAPIKeys = openai_ListProjectAPIKeys N, pc_DeleteProjectAPIKey = openai_DeleteProjectAPIKey N,
      pc_ListProjectRateLimits = openai_ListProjectRateLimits N,
      pc_UpdateProjectRateLimit = openai_UpdateProjectRateLimit N,
      pc_GetProjectModelPermissions = openai_GetProjectModelPermissions N,
      pc_SetProjectModelPermissions = openai_SetProjectModelPermissions N,
      pc_DeleteProjectModelPermissions = openai_DeleteProjectModelPermissions N,
      pc_GetProjectHostedToolPermissions = openai_GetProjectHostedToolPermissions N,
      pc_SetProjectHostedToolPermissions = openai_SetProjectHostedToolPermissions N,
      pc_GetProjectDataRetention = openai_GetProjectDataRetention N,
      pc_SetProjectDataRetention = openai_SetProjectDataRetention N,
      pc_ListProjectSpendAlerts = openai_ListProjectSpendAlerts N,
      pc_CreateProjectSpendAlert = openai_CreateProjectSpendAlert N,
      pc_UpdateProjectSpendAlert = openai_UpdateProjectSpendAlert N,
      pc_DeleteProjectSpendAlert = openai_DeleteProjectSpendAlert N\<rparr>"

section \<open>Credentials and models\<close>

definition openai_anyKey :: "'w Net \<Rightarrow> kv \<Rightarrow> string" where
  "openai_anyKey N creds =
     (let key = openai_apiKey N creds in if key = [] then TrimSpace (kv_at creds ''admin_api_key'') else key)"

text \<open>An administration key cannot list models, so it is checked at the projects endpoint.\<close>

definition openai_ValidateCredentials :: "'w Net \<Rightarrow> kv \<Rightarrow> obj \<Rightarrow> ('w, unit) op" where
  "openai_ValidateCredentials N creds cfg =
     (let key = openai_anyKey N creds;
          path = (if HasPrefix key ''sk-admin-'' then ''/v1/organization/projects?limit=1'' else ''/v1/models'') in
      bindE (guardE (key \<noteq> []) (Msg ''openai api key missing'')) (\<lambda>_.
      bindE (send N ''openai credential check failed'' (openai_request key cfg ''GET'' path None)) (\<lambda>resp.
      bindE (guardE (hr_StatusCode resp \<noteq> 401 \<and> hr_StatusCode resp \<noteq> 403)
         (Upstream (if HasPrefix key ''sk-admin-'' then ''openai credential check refused for org admin''
            else ''openai credential check refused for model access''))) (\<lambda>_.
      guardE (status_ok resp) (Upstream ''openai credential check'')))))"

definition inferOpenAIModality :: "string \<Rightarrow> string" where
  "inferOpenAIModality model =
     (let m = ToLower model in
      if Contains m ''embedding'' then ''embedding''
      else if Contains m ''image'' \<or> Contains m ''dall-e'' \<or> Contains m ''gpt-image'' then ''image''
      else if Contains m ''audio'' \<or> Contains m ''tts'' \<or> Contains m ''whisper'' \<or> Contains m ''transcribe'' then ''audio''
      else ''text'')"

record oaiModel =
  om_ID :: string
  om_Object :: string
  om_Created :: int
  om_OwnedBy :: string

definition dec_oai_models :: "json \<Rightarrow> oaiModel list option" where
  "dec_oai_models = dec_struct (\<lambda>top. dec_field (dec_array (dec_struct (\<lambda>m.
     Option.bind (dec_string ''id'' m []) (\<lambda>i. Option.bind (dec_string ''object'' m []) (\<lambda>ob.
     Option.bind (dec_field dec_int ''created'' m 0) (\<lambda>c. Option.bind (dec_string ''owned_by'' m []) (\<lambda>w.
     Some \<lparr>om_ID = i, om_Object = ob, om_Created = c, om_OwnedBy = w\<rparr>))))))) ''data'' top [])"

definition openai_model :: "oaiModel \<Rightarrow> Model" where
  "openai_model m = \<lparr>mo_Model = om_ID m, mo_DisplayName = om_ID m, mo_Modality = inferOpenAIModality (om_ID m),
     mo_Status = ''active'', mo_Metadata = Some [(''object'', JStr (om_Object m)),
       (''created'', JNum (of_int (om_Created m))), (''owned_by'', JStr (om_OwnedBy m)),
       (''source'', JStr ''openai_models_api'')]\<rparr>"

definition openai_ListModels :: "'w Net \<Rightarrow> kv \<Rightarrow> obj \<Rightarrow> ('w, Model list) op" where
  "openai_ListModels N creds cfg =
     (let key = openai_anyKey N creds in
      bindE (guardE (key \<noteq> []) (Msg ''openai api key missing'')) (\<lambda>_.
      bindE (send N ''openai model sync failed'' (openai_request key cfg ''GET'' ''/v1/models'' None)) (\<lambda>resp.
      bindE (guardE (status_ok resp)
         (Upstream (if hr_StatusCode resp \<in> {401, 403}
            then (if HasPrefix key ''sk-admin-'' then ''openai model sync: an admin key cannot list models''
                  else ''openai model sync: grant the key the api.model.read scope'')
            else ''openai model sync returned '' @ TrimSpace (hr_Text resp)))) (\<lambda>_.
      case decode_body dec_oai_models (hr_Body resp) of
        None \<Rightarrow> fail (Msg ''decoding openai model list'')
      | Some ms \<Rightarrow> ret (map openai_model (filter (\<lambda>m. TrimSpace (om_ID m) \<noteq> []) ms))))))"

section \<open>Provisioning\<close>

definition specString :: "obj \<Rightarrow> string \<Rightarrow> string" where
  "specString m k = (case str_at m k of Some v \<Rightarrow> TrimSpace v | None \<Rightarrow> [])"

definition firstSpecString :: "obj \<Rightarrow> string list \<Rightarrow> string" where
  "firstSpecString m ks = firstNonEmpty (map (specString m) ks)"

fun split_comma :: "string \<Rightarrow> string list" where
  "split_comma [] = [[]]"
| "split_comma (c # s) = (if c = CHR '','' then [] # split_comma s
     else (case split_comma s of [] \<Rightarrow> [[c]] | p # ps \<Rightarrow> (c # p) # ps))"

definition specStringSlice :: "obj \<Rightarrow> string \<Rightarrow> string list" where
  "specStringSlice m k = (case map_of m k of
     Some (JArr xs) \<Rightarrow> solid_strings xs
   | Some (JStr s) \<Rightarrow> solid_ids (split_comma s)
   | _ \<Rightarrow> [])"

definition spec_truthy :: "json option \<Rightarrow> bool" where
  "spec_truthy v = (case v of
     Some (JBool b) \<Rightarrow> b
   | Some (JStr s) \<Rightarrow> ToLower (TrimSpace s) \<in> {''1'', ''true'', ''yes'', ''on'', ''enabled''}
   | _ \<Rightarrow> False)"

text \<open>The project a request is for: the one it names, or one created for it. The second component is
  the project created here, the third what is recorded of it.\<close>

definition openai_project :: "'w Net \<Rightarrow> AdminContext \<Rightarrow> ProvisionRequest \<Rightarrow> obj \<Rightarrow> ('w, string \<times> string \<times> obj) op" where
  "openai_project N ac req spec =
     (let projectID = specString spec ''project_id'' in
      if projectID = [] \<and> spec_truthy (map_of spec ''create_project'') then
        let name0 = firstSpecString spec [''project_name'', ''workspace''];
            name = (if name0 = [] then pr_Workspace req else name0) in
        bindE (openai_CreateWorkspace N ac name) (\<lambda>ws.
        ret (ow_ID ws, ow_ID ws, [(''created_project_id'', JStr (ow_ID ws)), (''created_project_name'', JStr (ow_Name ws))]))
      else ret (projectID, [], []))"

text \<open>The permissions the requested service stands for, applied to the project: what is recorded.\<close>

definition openai_apply :: "'w Net \<Rightarrow> AdminContext \<Rightarrow> string \<Rightarrow> obj \<Rightarrow> string \<Rightarrow> ('w, obj) op" where
  "openai_apply N ac slug spec projectID =
     (if slug = ''openai-model-permissions'' then
        bindE (guardE (projectID \<noteq> []) (Msg ''project_id or create_project/project_name is required for model permissions'')) (\<lambda>_.
        let ids0 = specStringSlice spec ''model_ids'';
            ids = (if ids0 = [] then specStringSlice spec ''models'' else ids0) in
        bindE (openai_SetProjectModelPermissions N ac projectID
           \<lparr>pm_Mode = firstSpecString spec [''mode'', ''permission_mode''], pm_ModelIDs = ids\<rparr>) (\<lambda>res.
        ret [(''external_provisioning'', JStr ''openai_project_model_permissions''),
             (''model_permissions'', JObj [(''mode'', JStr (pm_Mode res)), (''model_ids'', JArr (map JStr (pm_ModelIDs res)))]),
             (''message'', JStr ''OpenAI project model permissions were applied by OPORD.'')]))
      else if slug = ''openai-hosted-tools'' then
        bindE (guardE (projectID \<noteq> []) (Msg ''project_id or create_project/project_name is required for hosted tool permissions'')) (\<lambda>_.
        bindE (openai_SetProjectHostedToolPermissions N ac projectID
           \<lparr>ht_CodeInterpreter = spec_truthy (map_of spec ''code_interpreter''), ht_FileSearch = spec_truthy (map_of spec ''file_search''),
            ht_ImageGeneration = spec_truthy (map_of spec ''image_generation''), ht_MCP = spec_truthy (map_of spec ''mcp''),
            ht_WebSearch = spec_truthy (map_of spec ''web_search'')\<rparr>) (\<lambda>res.
        ret [(''external_provisioning'', JStr ''openai_project_hosted_tool_permissions''),
             (''hosted_tool_permissions'', JObj [(''code_interpreter'', JBool (ht_CodeInterpreter res)),
                (''file_search'', JBool (ht_FileSearch res)), (''image_generation'', JBool (ht_ImageGeneration res)),
                (''mcp'', JBool (ht_MCP res)), (''web_search'', JBool (ht_WebSearch res))]),
             (''message'', JStr ''OpenAI project hosted tool permissions were applied by OPORD.'')]))
      else ret [])"

text \<open>The deferred rollback: a project created here is archived when what follows fails.\<close>

definition or_archive :: "'w Net \<Rightarrow> AdminContext \<Rightarrow> string \<Rightarrow> ('w, 'a) op \<Rightarrow> ('w, 'a) op" where
  "or_archive N ac created m =
     bindE (attempt m) (\<lambda>r.
     case r of
       Inr x \<Rightarrow> ret x
     | Inl e \<Rightarrow> bindE (if created \<noteq> [] then ignore (openai_ArchiveWorkspace N ac created) else ret ()) (\<lambda>_. fail e))"

definition openai_ProvisionAccess :: "'w Net \<Rightarrow> ProvisionRequest \<Rightarrow> ('w, ProvisionResult) op" where
  "openai_ProvisionAccess N req =
     (let ac = \<lparr>ac_Credentials = pr_Credentials req, ac_Config = pr_Config req\<rparr>;
          spec = flat_spec (pr_Spec req); slug = sv_Slug (pr_Service req);
          rid = nt_uuid_string N (pr_RequestID req);
          observed0 = [(''provider'', JStr ''openai''),
            (''provider_access_id'', JStr (hashedID ''openai'' [rid, slug, pr_Owner req])),
            (''service'', JStr slug), (''owner'', JStr (pr_Owner req)), (''workspace'', JStr (pr_Workspace req)),
            (''external_provisioning'', JStr ''manual''),
            (''message'', JStr ''OpenAI access approved in OPORD; grant/revoke in OpenAI admin console or existing IdP workflow.'')]
      in bindE (openai_project N ac req spec) (\<lambda>(projectID, created, flds).
         let accessID = (if projectID \<noteq> [] then hashedID ''openai'' [rid, slug, projectID, pr_Owner req]
               else hashedID ''openai'' [rid, slug, pr_Owner req]);
             named = (if projectID \<noteq> [] then [(''project_id'', JStr projectID), (''provider_access_id'', JStr accessID)] else [])
         in or_archive N ac created
              (bindE (openai_apply N ac slug spec projectID) (\<lambda>applied.
               ret \<lparr>res_ProviderAccessID = accessID,
                    res_Observed = fold (\<lambda>(k, v). AList.update k v) (flds @ named @ applied) observed0\<rparr>))))"

definition openai_RevokeAccess :: "RevokeRequest \<Rightarrow> ('w, unit) op" where
  "openai_RevokeAccess req = guardE (rv_ProviderAccessID req \<noteq> []) (Msg ''provider access id is required'')"

section \<open>The provider\<close>

definition openai_services :: "Service list" where
  "openai_services =
    [service_of ''OpenAI API Access'' ''openai-api-access'' ''api_access''
       ''Governed access to OpenAI API keys, projects, or model usage.''
       [''owner'', ''workspace'', ''justification'', ''models'', ''expires_at''] 30,
     service_of ''ChatGPT Team/Enterprise Access'' ''chatgpt-access'' ''developer_tool''
       ''Governed ChatGPT seat/access request tracked by OPORD.''
       [''owner'', ''workspace'', ''justification'', ''plan'', ''expires_at''] 90,
     service_of ''OpenAI Responses Gateway'' ''openai-responses-gateway'' ''gateway''
       ''Use OpenAI Responses API through OPORD with audit, budget gates, and DLP controls.''
       [''owner'', ''workspace'', ''justification'', ''models'', ''tools'', ''max_output_tokens'', ''expires_at''] 30,
     service_of ''OpenAI Model Permissions'' ''openai-model-permissions'' ''project_control''
       ''Request an OpenAI project model allowlist or denylist managed through OPORD.''
       [''owner'', ''workspace'', ''justification'', ''project_id'', ''mode'', ''model_ids'', ''expires_at''] 30,
     service_of ''OpenAI Hosted Tool Permissions'' ''openai-hosted-tools'' ''project_control''
       ''Govern access to hosted tools such as web search, file search, code interpreter, image generation, and MCP.''
       [''owner'', ''workspace'', ''justification'', ''project_id'', ''web_search'', ''file_search'', ''code_interpreter'', ''image_generation'', ''mcp'', ''expires_at''] 30,
     service_of ''OpenAI Embeddings'' ''openai-embeddings'' ''model_usage''
       ''Governed access to embedding models for search, ranking, and retrieval workloads.''
       [''owner'', ''workspace'', ''justification'', ''models'', ''estimated_tokens_per_month'', ''expires_at''] 60,
     service_of ''OpenAI Image Generation'' ''openai-image-generation'' ''media_generation''
       ''Governed access to OpenAI image generation and editing models.''
       [''owner'', ''workspace'', ''justification'', ''models'', ''estimated_images_per_month'', ''expires_at''] 30,
     service_of ''OpenAI Audio and Transcription'' ''openai-audio'' ''audio''
       ''Governed access to transcription, translation, speech, and voice workflows.''
       [''owner'', ''workspace'', ''justification'', ''models'', ''estimated_audio_minutes'', ''expires_at''] 30,
     service_of ''OpenAI File Search and Vector Stores'' ''openai-file-search'' ''retrieval''
       ''Governed access to files, vector stores, and file search for retrieval workflows.''
       [''owner'', ''workspace'', ''justification'', ''storage_gb'', ''file_types'', ''expires_at''] 60,
     service_of ''OpenAI Batch Jobs'' ''openai-batch-jobs'' ''batch''
       ''Governed access to asynchronous batch processing for high-volume model workloads.''
       [''owner'', ''workspace'', ''justification'', ''models'', ''estimated_batch_tokens'', ''expires_at''] 30,
     service_of ''OpenAI Fine-tuning and Evals'' ''openai-finetuning-evals'' ''optimization''
       ''Governed access to fine-tuning, graders, and evaluation workflows.''
       [''owner'', ''workspace'', ''justification'', ''base_models'', ''dataset_sensitivity'', ''expires_at''] 30,
     service_of ''OpenAI Realtime and Voice'' ''openai-realtime-voice'' ''realtime''
       ''Governed access to low-latency realtime and voice workloads.''
       [''owner'', ''workspace'', ''justification'', ''models'', ''estimated_minutes'', ''expires_at''] 30]"

definition openai_provider :: "'w Net \<Rightarrow> 'w Provider" where
  "openai_provider N =
     \<lparr>pv_Type = ''openai'',
      pv_ValidateCredentials = openai_ValidateCredentials N,
      pv_ListAvailableServices = (\<lambda>_ _. ret openai_services),
      pv_ProvisionAccess = openai_ProvisionAccess N,
      pv_RevokeAccess = openai_RevokeAccess,
      pv_GetUsage = (\<lambda>req. ret (no_usage ''OpenAI usage import is not implemented in this phase.'' req)),
      pv_GetStatus = (\<lambda>k. ret (manual_status k)),
      pv_ListModels = Some (openai_ListModels N),
      pv_Admin = Some (openai_admin N),
      pv_Controls = Some (openai_controls N)\<rparr>"

end
