(* ===== verification/LiteLLM.thy ===== *)
theory LiteLLM
  imports Clients
begin

text \<open>
  The LiteLLM client (\<open>internal/aiproviders/litellm/litellm.go\<close>): scoped virtual keys minted and
  deleted at a proxy, the models it serves and the spend of a key.
\<close>

section \<open>Calls\<close>

definition masterKey :: "kv \<Rightarrow> string" where
  "masterKey creds = first_cred creds [''master_key'', ''api_key'', ''litellm_master_key'', ''token'']"

definition litellm_request :: "string \<Rightarrow> obj \<Rightarrow> string \<Rightarrow> string \<Rightarrow> json option \<Rightarrow> HttpRequest" where
  "litellm_request key cfg method path inp =
     \<lparr>hq_Method = method, hq_URL = client_base cfg ''http://litellm:4000'' @ path, hq_Query = [],
      hq_Headers = [(''Authorization'', ''Bearer '' @ key)] @
        (if inp = None then [] else [(''Content-Type'', ''application/json'')]),
      hq_Body = map_option Doc inp\<rparr>"

definition litellm_do ::
  "'w Net \<Rightarrow> kv \<Rightarrow> obj \<Rightarrow> string \<Rightarrow> string \<Rightarrow> json option \<Rightarrow> 'a sink \<Rightarrow> ('w, 'a) op" where
  "litellm_do N creds cfg method path inp out =
     (let key = masterKey creds in
      bindE (guardE (key \<noteq> []) (Msg ''litellm master key missing'')) (\<lambda>_.
      bindE (send N ''litellm request failed'' (litellm_request key cfg method path inp)) (\<lambda>resp.
      bindE (guardE (status_ok resp) (Upstream (''litellm returned '' @ show_nat (hr_StatusCode resp) @ '': '' @
         take 300 (TrimSpace (hr_Text resp))))) (\<lambda>_.
      case out (hr_Body resp) of
        None \<Rightarrow> fail (Msg ''decoding litellm response'')
      | Some x \<Rightarrow> ret x))))"

section \<open>Credentials, services and models\<close>

definition litellm_ValidateCredentials :: "'w Net \<Rightarrow> kv \<Rightarrow> obj \<Rightarrow> ('w, unit) op" where
  "litellm_ValidateCredentials N creds cfg =
     bindE (guardE (masterKey creds \<noteq> []) (Msg ''litellm master key missing'')) (\<lambda>_.
     wrap ''litellm credential check'' (litellm_do N creds cfg ''GET'' ''/v1/models'' None no_out))"

definition litellm_services :: "Service list" where
  "litellm_services =
    [service_of ''LiteLLM Virtual Key'' ''litellm-virtual-key'' ''api_access''
       ''A scoped, metered LiteLLM virtual key (model allow-list + budget + expiry). Real, usable, revocable - the org's provider key is never handed out.''
       [''owner'', ''workspace'', ''justification'', ''models'', ''max_budget'', ''expires_at''] 30]"

definition dec_model_ids :: "json \<Rightarrow> string list option" where
  "dec_model_ids = dec_struct (\<lambda>m. dec_field (dec_array (dec_struct (\<lambda>x. dec_string ''id'' x []))) ''data'' m [])"

definition litellm_ListModels :: "'w Net \<Rightarrow> kv \<Rightarrow> obj \<Rightarrow> ('w, Model list) op" where
  "litellm_ListModels N creds cfg =
     bindE (litellm_do N creds cfg ''GET'' ''/v1/models'' None (into dec_model_ids)) (\<lambda>ids.
     ret (map (\<lambda>k. \<lparr>mo_Model = k, mo_DisplayName = k, mo_Modality = ''text'', mo_Status = ''active'',
                 mo_Metadata = Some [(''source'', JStr ''litellm_proxy'')]\<rparr>)
            (filter (\<lambda>k. TrimSpace k \<noteq> []) ids)))"

section \<open>Names\<close>

definition slug_char :: "char \<Rightarrow> string" where
  "slug_char c = (let n = (of_char c :: nat) in
     if (97 \<le> n \<and> n \<le> 122) \<or> (48 \<le> n \<and> n \<le> 57) then [c]
     else if c \<in> set ''@. _'' then ''-'' else [])"

definition safeSlug :: "string \<Rightarrow> string" where
  "safeSlug s =
     (let b = concat (map slug_char (ToLower (TrimSpace s)));
          out = TrimRight (\<lambda>c. c = CHR ''-'') (TrimLeft (\<lambda>c. c = CHR ''-'') b) in
      take 24 (if out = [] then ''user'' else out))"

definition shortID :: "string \<Rightarrow> string" where
  "shortID s = take 8 (filter (\<lambda>c. c \<noteq> CHR ''-'') s)"

text \<open>Not a hash: the parts joined without a separator and cut to eight characters.\<close>

definition litellm_deterministicID :: "string \<Rightarrow> string list \<Rightarrow> string" where
  "litellm_deterministicID p parts = p @ ''-'' @ shortID (concat parts)"

section \<open>Provisioning\<close>

definition stringList :: "json option \<Rightarrow> string list" where
  "stringList v = (case v of Some (JArr xs) \<Rightarrow> solid_strings xs | _ \<Rightarrow> [])"

definition numField :: "json option \<Rightarrow> float64" where
  "numField v = (case v of Some (JNum n) \<Rightarrow> n | _ \<Rightarrow> 0)"

text \<open>\<open>time.Until\<close>: the duration saturates at 64 bits.\<close>

definition Until :: "time \<Rightarrow> time \<Rightarrow> int" where
  "Until now t = max (- (2 ^ 63)) (min (2 ^ 63 - 1) (t - now))"

definition key_days :: "time \<Rightarrow> time \<Rightarrow> int" where
  "key_days now t = max 1 (age_days (Until now t) + 1)"

text \<open>The limits a request asks for, sent to the proxy and recorded.\<close>

definition key_limits :: "obj \<Rightarrow> obj" where
  "key_limits spec =
     (let models = stringList (map_of spec ''models''); b = numField (map_of spec ''max_budget'') in
      (if models \<noteq> [] then [(''models'', JArr (map JStr models))] else []) @
      (if b > 0 then [(''max_budget'', JNum b)] else []))"

definition key_alias :: "'w Net \<Rightarrow> ProvisionRequest \<Rightarrow> string" where
  "key_alias N req = ''opord-'' @ safeSlug (pr_Owner req) @ ''-'' @ shortID (nt_uuid_string N (pr_RequestID req))"

definition key_order :: "'w Net \<Rightarrow> time \<Rightarrow> ProvisionRequest \<Rightarrow> json" where
  "key_order N now req = JObj (
     [(''key_alias'', JStr (key_alias N req)),
      (''metadata'', JObj [(''opord_owner'', JStr (pr_Owner req)), (''opord_workspace'', JStr (pr_Workspace req)),
        (''opord_request'', JStr (nt_uuid_string N (pr_RequestID req)))])] @
     key_limits (flat_spec (pr_Spec req)) @
     (case pr_ExpiresAt req of None \<Rightarrow> [] | Some t \<Rightarrow> [(''duration'', JStr (show_int (key_days now t) @ ''d''))]))"

definition dec_minted :: "json \<Rightarrow> string option" where
  "dec_minted = dec_struct (\<lambda>m. Option.bind (dec_string ''key'' m []) (\<lambda>k.
     Option.bind (dec_string ''expires'' m []) (\<lambda>_. Some k)))"

definition litellm_ProvisionAccess :: "'w Net \<Rightarrow> ProvisionRequest \<Rightarrow> ('w, ProvisionResult) op" where
  "litellm_ProvisionAccess N req =
     (if masterKey (pr_Credentials req) = [] then
        ret \<lparr>res_ProviderAccessID = litellm_deterministicID ''litellm'' [nt_uuid_string N (pr_RequestID req), pr_Owner req],
             res_Observed = [(''provider'', JStr ''litellm''), (''owner'', JStr (pr_Owner req)),
               (''external_provisioning'', JStr ''manual''),
               (''message'', JStr ''LiteLLM access approved; issue the virtual key in the proxy (no master_key configured for auto-minting).'')]\<rparr>
      else
        bindE (gets (nt_now N)) (\<lambda>now.
        bindE (litellm_do N (pr_Credentials req) (pr_Config req) ''POST'' ''/key/generate'' (Some (key_order N now req))
           (into dec_minted)) (\<lambda>key.
        bindE (guardE (TrimSpace key \<noteq> []) (Msg ''litellm returned an empty key'')) (\<lambda>_.
        ret \<lparr>res_ProviderAccessID = key_alias N req,
             res_Observed = [(''provider'', JStr ''litellm''), (''owner'', JStr (pr_Owner req)),
               (''workspace'', JStr (pr_Workspace req)), (''key_alias'', JStr (key_alias N req)),
               (''virtual_key'', JStr key), (''external_provisioning'', JStr ''minted''),
               (''message'', JStr (''Minted LiteLLM virtual key '' @ quoted (key_alias N req) @ '' (scoped, metered, revocable).''))]
               @ key_limits (flat_spec (pr_Spec req))\<rparr>))))"

section \<open>Revocation and usage\<close>

definition litellm_delete :: "'w Net \<Rightarrow> RevokeRequest \<Rightarrow> string \<Rightarrow> string \<Rightarrow> ('w, unit) op" where
  "litellm_delete N req fld v = litellm_do N (rv_Credentials req) (rv_Config req) ''POST'' ''/key/delete''
     (Some (JObj [(fld, JArr [JStr v])])) no_out"

definition litellm_RevokeAccess :: "'w Net \<Rightarrow> RevokeRequest \<Rightarrow> ('w, unit) op" where
  "litellm_RevokeAccess N req =
     bindE (guardE (rv_ProviderAccessID req \<noteq> []) (Msg ''provider access id is required'')) (\<lambda>_.
     if masterKey (rv_Credentials req) = [] then ret ()
     else bindE (attempt (litellm_delete N req ''key_aliases'' (rv_ProviderAccessID req))) (\<lambda>r.
       case r of
         Inr _ \<Rightarrow> ret ()
       | Inl e \<Rightarrow>
           let mk = TrimSpace (kv_at (rv_Credentials req) ''minted_key'') in
           if mk \<noteq> [] then litellm_delete N req ''keys'' mk else fail e))"

definition dec_key_info :: "json \<Rightarrow> float64 option" where
  "dec_key_info = dec_struct (\<lambda>m. dec_field (dec_struct (\<lambda>i.
     Option.bind (dec_num ''spend'' i 0) (\<lambda>x. Option.bind (dec_strings ''models'' i []) (\<lambda>_. Some x)))) ''info'' m 0)"

definition key_info_path :: "UsageRequest \<Rightarrow> string option" where
  "key_info_path req =
     (let k = TrimSpace (kv_at (uq_Credentials req) ''minted_key'') in
      if k \<noteq> [] then Some (''/key/info?key='' @ QueryEscape k)
      else if uq_ProviderAccessID req \<noteq> [] then Some (''/key/info?key_alias='' @ QueryEscape (uq_ProviderAccessID req))
      else None)"

definition litellm_GetUsage :: "'w Net \<Rightarrow> UsageRequest \<Rightarrow> ('w, UsageRecord list) op" where
  "litellm_GetUsage N req =
     (if masterKey (uq_Credentials req) = [] then ret []
      else (case key_info_path req of
          None \<Rightarrow> ret []
        | Some path \<Rightarrow>
            bindE (litellm_do N (uq_Credentials req) (uq_Config req) ''GET'' path None (into dec_key_info)) (\<lambda>spend.
            ret [\<lparr>ur_Metric = ''cost_usd'', ur_Quantity = spend, ur_Unit = ''usd'', ur_CostUSD = spend,
                  ur_Raw = [(''source'', JStr ''litellm_spend''),
                    (''provider_access_id'', JStr (uq_ProviderAccessID req))]\<rparr>])))"

definition litellm_provider :: "'w Net \<Rightarrow> 'w Provider" where
  "litellm_provider N =
     \<lparr>pv_Type = ''litellm'',
      pv_ValidateCredentials = litellm_ValidateCredentials N,
      pv_ListAvailableServices = (\<lambda>_ _. ret litellm_services),
      pv_ProvisionAccess = litellm_ProvisionAccess N,
      pv_RevokeAccess = litellm_RevokeAccess N,
      pv_GetUsage = litellm_GetUsage N,
      pv_GetStatus = (\<lambda>k. ret \<lparr>sr_Status = ''active'', sr_Observed = [(''provider_access_id'', JStr k)]\<rparr>),
      pv_ListModels = Some (litellm_ListModels N),
      pv_Admin = None,
      pv_Controls = None\<rparr>"

end
