(* ===== verification/Paging.thy ===== *)
theory Paging
  imports Anthropic OpenAI LiteLLM
begin

text \<open>
  Reading a paged collection. Escaping a URL part loses nothing; a page loop over an endpoint that
  only reads walks its pages; and against an endpoint that serves a collection by cursor it returns
  the collection, up to the number of pages the client is willing to ask for.
\<close>

section \<open>Escaping loses nothing\<close>

definition unhex :: "char \<Rightarrow> nat" where
  "unhex c = (let n = of_char c in if n < 58 then n - 48 else n - 55)"

text \<open>The inverse of both escapings.\<close>

fun unescape :: "string \<Rightarrow> string" where
  "unescape (p # a # b # s) =
     (if p = CHR ''%'' then char_of (unhex a * 16 + unhex b) # unescape s
      else (if p = CHR ''+'' then CHR '' '' else p) # unescape (a # b # s))"
| "unescape (p # s) = (if p = CHR ''+'' then CHR '' '' else p) # unescape s"
| "unescape [] = []"

lemma unhex_hex_upper: "n < 16 \<Longrightarrow> unhex (hex_upper n) = n"
  by (auto simp: unhex_def hex_upper_def Let_def)

lemma unescape_pct: "unescape (pct c @ s) = c # unescape s"
proof -
  have "(of_char c :: nat) div 16 < 16"
    by (rule less_mult_imp_div_less) simp
  then have "unhex (hex_upper (of_char c div 16)) * 16 + unhex (hex_upper (of_char c mod 16)) = (of_char c :: nat)"
    by (simp add: unhex_hex_upper)
  then show ?thesis by (simp add: pct_def)
qed

lemma unescape_plain: "p \<noteq> CHR ''%'' \<Longrightarrow> p \<noteq> CHR ''+'' \<Longrightarrow> unescape (p # s) = p # unescape s"
  by (cases s rule: list.exhaust; cases "tl s") auto

lemma unreserved_plain: "unreserved c \<Longrightarrow> c \<noteq> CHR ''%'' \<and> c \<noteq> CHR ''+''"
  by (auto simp: unreserved_def)

lemma unescape_QueryEscape: "unescape (QueryEscape s) = s"
proof (induction s)
  case (Cons c s)
  have "unescape (CHR ''+'' # u) = CHR '' '' # unescape u" for u
    by (cases u; cases "tl u") auto
  with Cons show ?case
    by (auto simp: QueryEscape_def query_char_def unescape_pct unescape_plain dest: unreserved_plain)
qed (simp add: QueryEscape_def)

lemma QueryEscape_inject: "QueryEscape a = QueryEscape b \<longleftrightarrow> a = b"
  by (metis unescape_QueryEscape)

lemma QueryEscape_Nil [simp]: "QueryEscape s = [] \<longleftrightarrow> s = []"
  using QueryEscape_inject [of s "[]"] by (simp add: QueryEscape_def)

section \<open>Endpoints that only read\<close>

text \<open>The pages a loop visits.\<close>

fun walk :: "(string \<Rightarrow> 'a Page) \<Rightarrow> nat \<Rightarrow> string \<Rightarrow> 'a list" where
  "walk page 0 after = []"
| "walk page (Suc n) after = pg_Data (page after) @
     (if \<not> pg_HasMore (page after) \<or> TrimSpace (pg_LastID (page after)) = [] then []
      else walk page n (pg_LastID (page after)))"

text \<open>While it is allowed, a get returns its page and leaves the world alone.\<close>

locale reading =
  fixes allowed :: bool
    and get :: "string \<Rightarrow> ('w, 'a Page) op"
    and page :: "string \<Rightarrow> 'a Page"
  assumes reads: "allowed \<Longrightarrow> get after w = (Inr (page after), w)"
begin

lemma pages_walk: "allowed \<Longrightarrow> pages get n after acc w = (Inr (acc @ walk page n after), w)"
  by (induction n arbitrary: after acc) (simp_all add: ret_def bindE_def reads)

end

section \<open>Collections served by cursor\<close>

text \<open>What the documentation of both APIs promises of a list endpoint with \<open>limit=100\<close>: the items after
  the cursor, a hundred at most, whether there are more, and the identifier to go on from.\<close>

definition after_cursor :: "('a \<Rightarrow> string) \<Rightarrow> 'a list \<Rightarrow> string \<Rightarrow> 'a list" where
  "after_cursor key xs after = (if after = [] then xs else tl (dropWhile (\<lambda>x. key x \<noteq> after) xs))"

definition page_after :: "('a \<Rightarrow> string) \<Rightarrow> 'a list \<Rightarrow> string \<Rightarrow> 'a Page" where
  "page_after key xs after =
     (let rest = after_cursor key xs after; d = take 100 rest in
      \<lparr>pg_Data = d, pg_HasMore = 100 < length rest, pg_LastID = (if d = [] then [] else key (last d))\<rparr>)"

definition keyed :: "('a \<Rightarrow> string) \<Rightarrow> 'a list \<Rightarrow> bool" where
  "keyed key xs \<longleftrightarrow> distinct (map key xs) \<and> list_all (\<lambda>x. TrimSpace (key x) \<noteq> []) xs"

lemma after_cursor_split:
  assumes "keyed key (ys @ x # zs)"
  shows "after_cursor key (ys @ x # zs) (key x) = zs"
proof -
  have "key x \<noteq> []" using assms by (auto simp: keyed_def)
  moreover have "key y \<noteq> key x" if "y \<in> set ys" for y
    using assms that by (auto simp: keyed_def image_iff)
  ultimately show ?thesis by (simp add: after_cursor_def dropWhile_append2)
qed

lemma walk_collection:
  assumes "keyed key xs" "xs = seen @ rest" "after_cursor key xs after = rest"
  shows "walk (page_after key xs) n after = take (100 * n) rest"
  using assms(2,3)
proof (induction n arbitrary: seen rest after)
  case (Suc n)
  show ?case
  proof (cases "100 < length rest")
    case False
    with Suc.prems show ?thesis by (simp add: page_after_def Let_def)
  next
    case True
    let ?d = "take 100 rest" and ?r = "drop 100 rest"
    from True have "rest \<noteq> []" by auto
    then have ne: "?d \<noteq> []" by simp
    then obtain d x where d: "?d = d @ [x]" by (metis rev_exhaust)
    have xs: "xs = (seen @ d) @ x # ?r"
      using Suc.prems(1) d by (metis append.assoc append_Cons append_Nil append_take_drop_id)
    with assms(1) have follows: "after_cursor key xs (key x) = ?r" and "TrimSpace (key x) \<noteq> []"
      using after_cursor_split [of key "seen @ d" x ?r] by (auto simp: keyed_def)
    then have "walk (page_after key xs) (Suc n) after = ?d @ walk (page_after key xs) n (key x)"
      using True d \<open>rest \<noteq> []\<close> by (simp add: page_after_def Let_def Suc.prems(2))
    also have "\<dots> = ?d @ take (100 * n) ?r"
      using Suc.IH [of "seen @ ?d" ?r "key x"] follows Suc.prems(1) by simp
    also have "\<dots> = take (100 * Suc n) rest"
      using True by (simp add: take_add [symmetric] add.commute mult.commute)
    finally show ?thesis .
  qed
qed simp

locale collection = reading allowed get "page_after key xs"
  for allowed and get :: "string \<Rightarrow> ('w, 'a Page) op" and key :: "'a \<Rightarrow> string" and xs :: "'a list"
begin

lemma pages_collection: "allowed \<Longrightarrow> keyed key xs \<Longrightarrow> pages get n [] [] w = (Inr (take (100 * n) xs), w)"
  using walk_collection [of key xs "[]" xs "[]" n] by (simp add: pages_walk after_cursor_def)

end

section \<open>A list endpoint over HTTP\<close>

text \<open>A server for one collection: it answers the address of a page with that page.\<close>

definition encode_page :: "('a \<Rightarrow> json) \<Rightarrow> 'a Page \<Rightarrow> json" where
  "encode_page enc p = JObj [(''data'', JArr (map enc (pg_Data p))), (''has_more'', JBool (pg_HasMore p)),
     (''last_id'', JStr (pg_LastID p))]"

definition cursor_of :: "string \<Rightarrow> string \<Rightarrow> string \<Rightarrow> string" where
  "cursor_of first cursor url = unescape (drop (length first + length cursor + 2) url)"

definition list_server ::
  "string \<Rightarrow> string \<Rightarrow> ('a \<Rightarrow> string) \<Rightarrow> ('a \<Rightarrow> json) \<Rightarrow> 'a list \<Rightarrow> HttpRequest \<Rightarrow> ('w, HttpResponse) op" where
  "list_server first cursor key enc xs req =
     ret \<lparr>hr_StatusCode = 200, hr_ContentType = ''application/json'',
          hr_Body = Inr (Doc (encode_page enc (page_after key xs (cursor_of first cursor (hq_URL req))))), hr_Text = []\<rparr>"

lemma dec_all_map: "(\<And>x. x \<in> set xs \<Longrightarrow> f (enc x) = Some x) \<Longrightarrow> dec_all f (map enc xs) = Some xs"
  by (induction xs) auto

lemma dec_page_encode:
  assumes "\<And>x. f (enc x) = Some x"
  shows "dec_page f (encode_page enc p) = Some p"
proof -
  have [simp]: "\<not> EqualFold ''data'' ''has_more''" "\<not> EqualFold ''data'' ''last_id''" "\<not> EqualFold ''has_more'' ''data''"
    "\<not> EqualFold ''has_more'' ''last_id''" "\<not> EqualFold ''last_id'' ''data''" "\<not> EqualFold ''last_id'' ''has_more''"
    by code_simp+
  show ?thesis
    by (cases p) (simp add: dec_page_def encode_page_def dec_struct_def dec_array_def dec_bool_def dec_all_map assms)
qed

lemma cursor_of_page_path: "cursor_of (base @ page_path path cursor []) cursor (base @ page_path path cursor after) = after"
proof (cases "after = []")
  case False
  then have "base @ page_path path cursor after = (base @ page_path path cursor []) @ (''&'' @ cursor @ ''='') @ QueryEscape after"
    by (simp add: page_path_def)
  moreover have "drop (length x + length cursor + 2) (x @ (''&'' @ cursor @ ''='') @ z) = z" for x z :: string
    by simp
  ultimately show ?thesis by (simp only: cursor_of_def unescape_QueryEscape)
qed (simp add: cursor_of_def)

section \<open>Both clients read their collections\<close>

definition encode_user :: "OrgUser \<Rightarrow> json" where
  "encode_user u = JObj [(''id'', JStr (ou_ID u)), (''email'', JStr (ou_Email u)), (''name'', JStr (ou_Name u)),
     (''role'', JStr (ou_Role u)), (''added_at'', JStr (ou_AddedAt u))]"

lemma wireUser_encode: "wireUser (encode_user u) = Some u"
proof -
  let ?ks = "[''id'', ''email'', ''name'', ''role'', ''added_at'']"
  have "list_all (\<lambda>a. list_all (\<lambda>b. a = b \<or> ToLower a \<noteq> ToLower b) ?ks) ?ks" by code_simp
  then show ?thesis by (cases u) (simp add: wireUser_def encode_user_def dec_struct_def EqualFold_def)
qed

text \<open>The networks in which the API serves one collection.\<close>

definition users_net :: "'w Net \<Rightarrow> obj \<Rightarrow> OrgUser list \<Rightarrow> 'w Net" where
  "users_net N cfg us = N\<lparr>nt_http := list_server
     (anthropic_base cfg @ page_path ''/v1/organizations/users'' ''after_id'' []) ''after_id'' ou_ID encode_user us\<rparr>"

definition rate_limits_net :: "'w Net \<Rightarrow> obj \<Rightarrow> string \<Rightarrow> obj list \<Rightarrow> 'w Net" where
  "rate_limits_net N cfg projectID rows = N\<lparr>nt_http := list_server
     (openai_base cfg @ page_path (project_path projectID ''/rate_limits'') ''after'' []) ''after''
     (\<lambda>row. mapString row ''id'') JObj rows\<rparr>"

lemma anthropic_adminKey_users_net [simp]: "anthropic_adminKey (users_net N cfg us) creds = anthropic_adminKey N creds"
  by (simp add: anthropic_adminKey_def users_net_def Let_def)

lemma users_net_http:
  "nt_url_ok (users_net N cfg us) = nt_url_ok N"
  "nt_http (users_net N cfg us) = list_server
     (anthropic_base cfg @ page_path ''/v1/organizations/users'' ''after_id'' []) ''after_id'' ou_ID encode_user us"
  by (simp_all add: users_net_def)

interpretation anthropic_users: collection
  "anthropic_adminKey N (ac_Credentials ac) \<noteq> [] \<and> nt_url_ok N = (\<lambda>_. True)"
  "\<lambda>after. anthropic_adminDo (users_net N (ac_Config ac) us) ac ''GET''
     (page_path ''/v1/organizations/users'' ''after_id'' after) None (into (dec_page wireUser))"
  ou_ID us for N ac us
  by unfold_locales
    (simp add: anthropic_adminDo_def send_def users_net_http list_server_def anthropic_request_def cursor_of_page_path
      guardE_def ret_def bindE_def wrap_def status_ok_def into_def decode_body_def dec_page_encode wireUser_encode Let_def)

interpretation openai_rate_limits: collection
  "openai_adminKey (ac_Credentials ac) \<noteq> [] \<and> nt_url_ok N = (\<lambda>_. True)"
  "\<lambda>after. openai_adminDo (rate_limits_net N (ac_Config ac) projectID rows) ac ''GET''
     (page_path (project_path projectID ''/rate_limits'') ''after'' after) None (into (dec_page dec_map))"
  "\<lambda>row. mapString row ''id''" rows for N ac projectID rows
  by unfold_locales
    (simp add: openai_adminDo_def send_def rate_limits_net_def list_server_def openai_request_def cursor_of_page_path
      guardE_def ret_def bindE_def wrap_def status_ok_def into_def decode_body_def dec_page_encode dec_map_def)

end
