(* ===== verification/Transcripts.thy ===== *)
theory Transcripts
  imports Paging
begin

text \<open>
  What the clients say on the wire. The world is the list of the requests sent so far, and the answer
  to a request is any function of that history: a theorem about transcripts holds whatever the
  providers answer.
\<close>

section \<open>Transcripts\<close>

definition transcript ::
  "(HttpRequest list \<Rightarrow> HttpRequest \<Rightarrow> err + HttpResponse) \<Rightarrow> HttpRequest list Net \<Rightarrow> HttpRequest list Net" where
  "transcript answer N = N\<lparr>nt_http := \<lambda>req sent. (answer sent req, sent @ [req])\<rparr>"

lemma transcript_simps [simp]:
  "nt_http (transcript answer N) req sent = (answer sent req, sent @ [req])"
  "nt_url_ok (transcript answer N) = nt_url_ok N"
  "nt_uuid_string (transcript answer N) = nt_uuid_string N"
  "nt_now (transcript answer N) = nt_now N"
  "nt_getenv (transcript answer N) = nt_getenv N"
  "anthropic_adminKey (transcript answer N) creds = anthropic_adminKey N creds"
  "anthropic_apiKey (transcript answer N) creds = anthropic_apiKey N creds"
  by (simp_all add: transcript_def anthropic_adminKey_def anthropic_apiKey_def Let_def)

interpretation sent: preorder_rel "prefix :: HttpRequest list \<Rightarrow> _"
  by unfold_locales auto

text \<open>An operation that sends at most so many requests.\<close>

definition at_most :: "nat \<Rightarrow> (HttpRequest list, 'a) op \<Rightarrow> bool" where
  "at_most n m \<longleftrightarrow> (\<forall>s. \<exists>rqs. snd (m s) = s @ rqs \<and> length rqs \<le> n)"

lemma at_mostI: "(\<And>s. \<exists>rqs. snd (m s) = s @ rqs \<and> length rqs \<le> n) \<Longrightarrow> at_most n m"
  by (simp add: at_most_def)

lemma at_most_mono: "at_most n m \<Longrightarrow> n \<le> k \<Longrightarrow> at_most k m"
  unfolding at_most_def by (meson order_trans)

lemma at_most_0: "(\<And>s. snd (m s) = s) \<Longrightarrow> at_most n m"
  by (auto simp: at_most_def)

lemma at_most_ret: "at_most n (ret x)" and at_most_fail: "at_most n (fail e)"
  and at_most_gets: "at_most n (gets f)" and at_most_guardE: "at_most n (guardE b e)"
  by (rule at_most_0, simp)+

lemma at_most_bindE:
  assumes "at_most i m" "\<And>x. at_most j (f x)"
  shows "at_most (i + j) (bindE m f)"
proof (rule at_mostI)
  fix s
  obtain a where a: "snd (m s) = s @ a" "length a \<le> i" using assms(1) by (auto simp: at_most_def)
  show "\<exists>rqs. snd (bindE m f s) = s @ rqs \<and> length rqs \<le> i + j"
  proof (cases "fst (m s)")
    case (Inl e)
    with a show ?thesis by (auto simp: snd_bindE)
  next
    case (Inr x)
    obtain b where "snd (f x (s @ a)) = (s @ a) @ b" "length b \<le> j"
      using assms(2) unfolding at_most_def by blast
    with Inr a show ?thesis by (intro exI [of _ "a @ b"]) (simp add: snd_bindE)
  qed
qed

lemma at_most_seq:
  assumes "at_most i m" "\<And>x. at_most j (f x)" "i + j \<le> n"
  shows "at_most n (bindE m f)"
  by (rule at_most_mono [OF at_most_bindE [OF assms(1,2)] assms(3)])

text \<open>After something that sends nothing.\<close>

lemma at_most_after:
  assumes "at_most 0 m" "\<And>x. at_most n (f x)"
  shows "at_most n (bindE m f)"
  using at_most_bindE [OF assms] by simp

lemma at_most_wrap: "at_most n m \<Longrightarrow> at_most n (wrap c m)"
  and at_most_attempt: "at_most n m \<Longrightarrow> at_most n (attempt m)"
  and at_most_ignore: "at_most n m \<Longrightarrow> at_most n (ignore m)"
  by (simp_all add: at_most_def)

lemma at_most_if: "at_most n a \<Longrightarrow> at_most n b \<Longrightarrow> at_most n (if c then a else b)"
  by simp

lemma at_most_send: "at_most 1 (send (transcript answer N) label req)"
  by (rule at_mostI) (auto simp: send_def guardE_def)

lemma at_most_pages:
  assumes "\<And>after. at_most 1 (get after)"
  shows "at_most n (pages get n after acc)"
proof (induction n arbitrary: after acc)
  case (Suc n)
  have "at_most (1 + n) (pages get (Suc n) after acc)"
    unfolding pages.simps by (intro at_most_bindE assms at_most_if at_most_ret Suc)
  then show ?case by simp
qed (simp add: at_most_ret)

lemma at_most_rel: "at_most n m \<Longrightarrow> rel prefix m"
  unfolding at_most_def rel_def by (metis prefixI)

section \<open>One call\<close>

lemma at_most_anthropic: "at_most 1 (anthropic_adminDo (transcript answer N) ac method path inp out)"
proof -
  have "at_most (1 + 0) (anthropic_adminDo (transcript answer N) ac method path inp out)"
    unfolding anthropic_adminDo_def Let_def
    by (intro at_most_after at_most_guardE at_most_bindE at_most_send)
      (auto intro: at_most_ret at_most_fail split: option.splits)
  then show ?thesis by simp
qed

lemma at_most_openai: "at_most 1 (openai_adminDo (transcript answer N) ac method path inp out)"
proof -
  have "at_most (1 + 0) (openai_adminDo (transcript answer N) ac method path inp out)"
    unfolding openai_adminDo_def Let_def
    by (intro at_most_after at_most_guardE at_most_bindE at_most_send)
      (auto intro: at_most_ret at_most_fail split: option.splits)
  then show ?thesis by simp
qed

lemma at_most_litellm: "at_most 1 (litellm_do (transcript answer N) creds cfg method path inp out)"
proof -
  have "at_most (1 + 0) (litellm_do (transcript answer N) creds cfg method path inp out)"
    unfolding litellm_do_def Let_def
    by (intro at_most_after at_most_guardE at_most_bindE at_most_send)
      (auto intro: at_most_ret at_most_fail split: option.splits)
  then show ?thesis by simp
qed

text \<open>What one call does: nothing without a key, and one request with one; it succeeds exactly when the
  answer is a success that decodes.\<close>

definition answered :: "(err + HttpResponse) \<Rightarrow> 'a sink \<Rightarrow> 'a \<Rightarrow> bool" where
  "answered r out x \<longleftrightarrow> (case r of Inl e \<Rightarrow> False | Inr resp \<Rightarrow> status_ok resp \<and> out (hr_Body resp) = Some x)"

lemma anthropic_call:
  assumes "nt_url_ok N = (\<lambda>_. True)" "anthropic_adminKey N (ac_Credentials ac) \<noteq> []"
  shows "snd (anthropic_adminDo (transcript answer N) ac method path inp out s)
      = s @ [anthropic_request (anthropic_adminKey N (ac_Credentials ac)) (ac_Config ac) method path inp]"
    and "fst (anthropic_adminDo (transcript answer N) ac method path inp out s) = Inr x \<longleftrightarrow>
      answered (answer s (anthropic_request (anthropic_adminKey N (ac_Credentials ac)) (ac_Config ac) method path inp)) out x"
  using assms by (simp_all add: anthropic_adminDo_def send_def run_simps answered_def
      split: sum.splits option.splits)

lemma anthropic_no_key:
  "anthropic_adminKey N (ac_Credentials ac) = [] \<Longrightarrow>
     anthropic_adminDo (transcript answer N) ac method path inp out s = (Inl (Msg ''anthropic admin key missing''), s)"
  by (simp add: anthropic_adminDo_def guardE_def) (simp add: fail_def)

lemma openai_call:
  assumes "nt_url_ok N = (\<lambda>_. True)" "openai_adminKey (ac_Credentials ac) \<noteq> []"
  shows "snd (openai_adminDo (transcript answer N) ac method path inp out s)
      = s @ [openai_request (openai_adminKey (ac_Credentials ac)) (ac_Config ac) method path inp]"
    and "fst (openai_adminDo (transcript answer N) ac method path inp out s) = Inr x \<longleftrightarrow>
      answered (answer s (openai_request (openai_adminKey (ac_Credentials ac)) (ac_Config ac) method path inp)) out x"
  using assms by (simp_all add: openai_adminDo_def send_def run_simps answered_def
      split: sum.splits option.splits)

lemma openai_no_key:
  "openai_adminKey (ac_Credentials ac) = [] \<Longrightarrow>
     openai_adminDo (transcript answer N) ac method path inp out s = (Inl (Msg ''openai admin key missing''), s)"
  by (simp add: openai_adminDo_def guardE_def) (simp add: fail_def)

lemma litellm_call:
  assumes "nt_url_ok N = (\<lambda>_. True)" "masterKey creds \<noteq> []"
  shows "snd (litellm_do (transcript answer N) creds cfg method path inp out s)
      = s @ [litellm_request (masterKey creds) cfg method path inp]"
    and "fst (litellm_do (transcript answer N) creds cfg method path inp out s) = Inr x \<longleftrightarrow>
      answered (answer s (litellm_request (masterKey creds) cfg method path inp)) out x"
  using assms by (simp_all add: litellm_do_def send_def run_simps answered_def
      split: sum.splits option.splits)

end
