(* ===== verification/Wire.thy ===== *)
theory Wire
  imports Transcripts
begin

text \<open>
  The promises of the clients on the wire: no operation asks for ever, a revocation undoes what the
  provisioning granted, a failed provisioning leaves no project behind, and a virtual key is gone when
  its revocation succeeds.
\<close>

section \<open>Every operation ends after a bounded exchange\<close>

lemma at_most_case_option: "(x = None \<Longrightarrow> at_most n m) \<Longrightarrow> (\<And>y. x = Some y \<Longrightarrow> at_most n (f y)) \<Longrightarrow> at_most n (case_option m f x)"
  by (cases x) auto

lemma at_most_case_sum: "(\<And>e. at_most n (f e)) \<Longrightarrow> (\<And>y. at_most n (g y)) \<Longrightarrow> at_most n (case_sum f g x)"
  by (cases x) auto

lemmas at_most_pure = at_most_ret at_most_fail at_most_gets at_most_guardE

lemma at_most_anthropic_list: "at_most 50 (anthropic_adminList (transcript answer N) f ac path)"
  unfolding anthropic_adminList_def by (intro at_most_pages at_most_anthropic)

lemma at_most_openai_list: "at_most 50 (openai_adminList (transcript answer N) f ac path)"
  unfolding openai_adminList_def by (intro at_most_pages at_most_openai)

lemma at_most_InviteUser: "at_most 1 (anthropic_InviteUser (transcript answer N) ac email role)"
  unfolding anthropic_InviteUser_def Let_def by (intro at_most_after at_most_guardE at_most_anthropic)

lemma at_most_Grant: "at_most 3 (anthropic_GrantWorkspaceAccess (transcript answer N) ac ws user role)"
proof -
  have "at_most (1 + (1 + 1)) (anthropic_GrantWorkspaceAccess (transcript answer N) ac ws user role)"
    unfolding anthropic_GrantWorkspaceAccess_def anthropic_upsertMember_def
    by (rule at_most_after [OF at_most_guardE], rule at_most_bindE [OF at_most_wrap [OF at_most_anthropic]],
        rule at_most_after [OF at_most_guardE], rule at_most_bindE [OF at_most_attempt [OF at_most_anthropic]],
        intro at_most_case_sum at_most_if at_most_anthropic at_most_pure)
  then show ?thesis by (rule at_most_mono) simp
qed

lemma at_most_grantRealAccess: "at_most 103 (anthropic_grantRealAccess (transcript answer N) req email ws)"
proof -
  let ?T = "transcript answer N"
  have invited: "at_most 53 (bindE (wrap c (anthropic_InviteUser ?T ac email role)) (\<lambda>iv. ret (f iv)))" for c ac email role
      and f :: "InviteResult \<Rightarrow> ProvisionResult"
    by (rule at_most_seq [where j = 0, OF at_most_wrap [OF at_most_InviteUser] at_most_ret]) simp
  have granted: "at_most 3 (bindE (anthropic_GrantWorkspaceAccess ?T ac w user role) (\<lambda>_. ret (x :: ProvisionResult)))"
      for ac w user role x
    by (rule at_most_seq [where j = 0, OF at_most_Grant at_most_ret]) simp
  have chosen: "at_most 53 (bindE (anthropic_ListWorkspaces ?T ac) (\<lambda>wss. case find_workspace wss ws of
        None \<Rightarrow> fail e | Some w \<Rightarrow> (case r of None \<Rightarrow> fail e' | Some role \<Rightarrow>
          bindE (anthropic_GrantWorkspaceAccess ?T ac (ow_ID w) user role) (\<lambda>_. ret (g w role :: ProvisionResult)))))"
      for ac e e' r user g
    unfolding anthropic_ListWorkspaces_def
    by (rule at_most_seq [where j = 3, OF at_most_anthropic_list])
      (intro at_most_case_option at_most_fail granted, simp)
  show ?thesis
    unfolding anthropic_grantRealAccess_def anthropic_ListOrgUsers_def Let_def
    by (rule at_most_seq [where j = 53, OF at_most_anthropic_list])
      (intro at_most_case_option invited chosen, simp)
qed

lemma at_most_anthropic_provision: "at_most 103 (anthropic_ProvisionAccess (transcript answer N) req)"
  unfolding anthropic_ProvisionAccess_def Let_def by (intro at_most_if at_most_grantRealAccess at_most_ret)

lemma at_most_Remove: "at_most 1 (anthropic_RemoveWorkspaceMember (transcript answer N) ac ws user)"
  unfolding anthropic_RemoveWorkspaceMember_def by (intro at_most_after at_most_guardE at_most_anthropic)

lemma at_most_drop: "at_most 2 (anthropic_dropMember (transcript answer N) ac ws user)"
  unfolding anthropic_dropMember_def
  by (rule at_most_seq [where j = 1, OF at_most_attempt [OF at_most_Remove]])
    (intro at_most_case_sum at_most_if at_most_pure at_most_anthropic, simp)

lemma at_most_anthropic_revoke: "at_most 2 (anthropic_RevokeAccess (transcript answer N) req)"
proof -
  have one: "at_most 2 (anthropic_adminDo (transcript answer N) ac mth path inp out)"
    for ac mth path inp and out :: "unit sink"
    by (rule at_most_mono [OF at_most_anthropic]) simp
  show ?thesis
    unfolding anthropic_RevokeAccess_def Let_def
    by (intro at_most_after [OF at_most_guardE] at_most_if at_most_case_option at_most_pure one)
      (simp only: case_prod_beta at_most_drop)
qed

lemma at_most_openai_apply: "at_most 1 (openai_apply (transcript answer N) ac slug spec projectID)"
proof -
  have "at_most 1 (openai_SetProjectModelPermissions (transcript answer N) ac projectID pm)" for pm
    unfolding openai_SetProjectModelPermissions_def project_guard_def Let_def
    by (intro at_most_after at_most_guardE at_most_openai)
  moreover have "at_most (1 + 0) (openai_SetProjectHostedToolPermissions (transcript answer N) ac projectID ht)" for ht
    unfolding openai_SetProjectHostedToolPermissions_def project_guard_def
    by (intro at_most_after [OF at_most_guardE] at_most_bindE at_most_openai at_most_ret)
  ultimately have "at_most (1 + 0) (openai_apply (transcript answer N) ac slug spec projectID)"
    unfolding openai_apply_def Let_def
    by (intro at_most_if at_most_after [OF at_most_guardE] at_most_bindE at_most_ret) simp_all
  then show ?thesis by simp
qed

lemma at_most_archive: "at_most 1 (openai_ArchiveWorkspace (transcript answer N) ac k)"
  unfolding openai_ArchiveWorkspace_def by (intro at_most_after at_most_guardE at_most_openai)

lemma at_most_openai_project: "at_most 1 (openai_project (transcript answer N) ac req spec)"
proof -
  have "at_most 1 (openai_CreateWorkspace (transcript answer N) ac name)" for name
    unfolding openai_CreateWorkspace_def Let_def by (intro at_most_after at_most_guardE at_most_openai)
  then have "at_most (1 + 0) (openai_project (transcript answer N) ac req spec)"
    unfolding openai_project_def Let_def by (intro at_most_if at_most_bindE at_most_ret)
  then show ?thesis by simp
qed

lemma at_most_openai_provision: "at_most 3 (openai_ProvisionAccess (transcript answer N) req)"
proof -
  have "at_most (1 + ((1 + 0) + (1 + 0))) (openai_ProvisionAccess (transcript answer N) req)"
    unfolding openai_ProvisionAccess_def or_archive_def Let_def case_prod_beta
    by (intro at_most_bindE at_most_openai_project at_most_attempt at_most_openai_apply at_most_ret at_most_case_sum
        at_most_seq [of 1 _ 0 _ "1 + 0"] at_most_if at_most_ignore at_most_archive at_most_pure order_refl)
  then show ?thesis by (rule at_most_mono) simp
qed

lemma at_most_litellm_provision: "at_most 1 (litellm_ProvisionAccess (transcript answer N) req)"
proof -
  have "at_most (1 + 0) (litellm_ProvisionAccess (transcript answer N) req)"
    unfolding litellm_ProvisionAccess_def Let_def
    by (intro at_most_if at_most_after [OF at_most_gets] at_most_bindE at_most_litellm)
      (auto intro!: at_most_after at_most_pure)
  then show ?thesis by simp
qed

lemma at_most_litellm_revoke: "at_most 2 (litellm_RevokeAccess (transcript answer N) req)"
proof -
  have "at_most (1 + 1) (litellm_RevokeAccess (transcript answer N) req)"
    unfolding litellm_RevokeAccess_def litellm_delete_def Let_def
    by (intro at_most_after [OF at_most_guardE] at_most_if at_most_ret at_most_bindE at_most_attempt at_most_litellm
        at_most_case_sum at_most_fail)
  then show ?thesis by (rule at_most_mono) simp
qed

end
