(* ===== verification/Undo.thy ===== *)
theory Undo
  imports Wire
begin

text \<open>
  Undoing access at the providers: what the revocation of a grant sends, what a failed provisioning
  leaves behind, and when a virtual key is gone.
\<close>

section \<open>Virtual keys\<close>

definition accepted :: "(err + HttpResponse) \<Rightarrow> bool" where
  "accepted r \<longleftrightarrow> (case r of Inl e \<Rightarrow> False | Inr resp \<Rightarrow> status_ok resp)"

lemma answered_no_out [simp]: "answered r no_out x \<longleftrightarrow> accepted r"
  by (simp add: answered_def accepted_def no_out_def split: sum.splits)

definition key_deletion :: "RevokeRequest \<Rightarrow> string \<Rightarrow> string \<Rightarrow> HttpRequest" where
  "key_deletion req fld v = litellm_request (masterKey (rv_Credentials req)) (rv_Config req) ''POST'' ''/key/delete''
     (Some (JObj [(fld, JArr [JStr v])]))"

text \<open>How a revocation ends: refused before anything is sent, nothing to do, or a deletion by alias and,
  when that fails and the key is known, one by key.\<close>

definition key_revoked ::
  "(HttpRequest list \<Rightarrow> HttpRequest \<Rightarrow> err + HttpResponse) \<Rightarrow> RevokeRequest \<Rightarrow> HttpRequest list \<Rightarrow> bool \<Rightarrow> HttpRequest list \<Rightarrow> bool" where
  "key_revoked answer req s success t \<longleftrightarrow>
     (let by_alias = key_deletion req ''key_aliases'' (rv_ProviderAccessID req);
          mk = TrimSpace (kv_at (rv_Credentials req) ''minted_key'');
          by_key = key_deletion req ''keys'' mk in
      if rv_ProviderAccessID req = [] then \<not> success \<and> t = s
      else if masterKey (rv_Credentials req) = [] then success \<and> t = s
      else if accepted (answer s by_alias) then success \<and> t = s @ [by_alias]
      else if mk = [] then \<not> success \<and> t = s @ [by_alias]
      else success = accepted (answer (s @ [by_alias]) by_key) \<and> t = s @ [by_alias, by_key])"

lemma unit_result: "fst x = Inr () \<or> (\<exists>e. fst x = Inl e)" for x :: "(err + unit) \<times> 's"
  by (cases "fst x") auto

lemma litellm_delete_call:
  assumes "nt_url_ok N = (\<lambda>_. True)" "masterKey (rv_Credentials req) \<noteq> []"
  shows "snd (litellm_delete (transcript answer N) req fld v s) = s @ [key_deletion req fld v]"
    and "fst (litellm_delete (transcript answer N) req fld v s) = Inr u \<longleftrightarrow> accepted (answer s (key_deletion req fld v))"
  using litellm_call [OF assms, where out = no_out] by (simp_all add: litellm_delete_def key_deletion_def)

lemma litellm_revocation:
  assumes "nt_url_ok N = (\<lambda>_. True)"
  shows "case litellm_RevokeAccess (transcript answer N) req s of (r, t) \<Rightarrow> key_revoked answer req s (r = Inr ()) t"
proof (cases "rv_ProviderAccessID req = [] \<or> masterKey (rv_Credentials req) = []")
  case True
  then show ?thesis
    by (auto simp: litellm_RevokeAccess_def key_revoked_def guardE_def ret_def fail_def bindE_def)
next
  case False
  then have key: "masterKey (rv_Credentials req) \<noteq> []" by simp
  let ?T = "transcript answer N" and ?a = "key_deletion req ''key_aliases'' (rv_ProviderAccessID req)"
  let ?mk = "TrimSpace (kv_at (rv_Credentials req) ''minted_key'')"
  have run: "litellm_RevokeAccess ?T req s =
      (case fst (litellm_delete ?T req ''key_aliases'' (rv_ProviderAccessID req) s) of
         Inr _ \<Rightarrow> (Inr (), s @ [?a])
       | Inl e \<Rightarrow> if ?mk \<noteq> [] then litellm_delete ?T req ''keys'' ?mk (s @ [?a]) else (Inl e, s @ [?a]))"
    using False by (simp add: litellm_RevokeAccess_def guardE_def bindE_attempt litellm_delete_call(1) [OF assms key] Let_def
        split: sum.splits) (simp add: ret_def fail_def)
  show ?thesis
  proof (cases "fst (litellm_delete ?T req ''key_aliases'' (rv_ProviderAccessID req) s)")
    case (Inr u)
    then show ?thesis
      using False litellm_delete_call(2) [OF assms key, of answer "''key_aliases''" "rv_ProviderAccessID req" s u]
      by (simp add: run key_revoked_def Let_def)
  next
    case (Inl e)
    then have "\<not> accepted (answer s ?a)"
      using litellm_delete_call(2) [OF assms key, of answer "''key_aliases''" "rv_ProviderAccessID req" s "()"] by simp
    then show ?thesis
      using False Inl litellm_delete_call [OF assms key, of answer "''keys''" ?mk "s @ [?a]"]
      by (cases "litellm_delete ?T req ''keys'' ?mk (s @ [?a])") (simp add: run key_revoked_def Let_def)
  qed
qed

section \<open>Projects\<close>

text \<open>Sending only requests of a kind.\<close>

definition only :: "(HttpRequest \<Rightarrow> bool) \<Rightarrow> HttpRequest list \<Rightarrow> HttpRequest list \<Rightarrow> bool" where
  "only P s t \<longleftrightarrow> (\<exists>rqs. t = s @ rqs \<and> list_all P rqs)"

interpretation kind: preorder_rel "only P" for P
proof
  show "only P s s" for s by (simp add: only_def)
  show "only P s t \<Longrightarrow> only P t u \<Longrightarrow> only P s u" for s t u
    by (auto simp: only_def)
qed

lemma only_openai: "P (openai_request (openai_adminKey (ac_Credentials ac)) (ac_Config ac) method path inp) \<Longrightarrow>
    rel (only P) (openai_adminDo (transcript answer N) ac method path inp out)"
  unfolding openai_adminDo_def send_def Let_def
  by (intro kind.rel_intros) (simp add: rel_def only_def)

lemma only_openai_apply:
  "rel (only (\<lambda>rq. hq_Body rq \<noteq> None)) (openai_apply (transcript answer N) ac slug spec k)"
  unfolding openai_apply_def openai_SetProjectModelPermissions_def openai_SetProjectHostedToolPermissions_def
    project_guard_def Let_def
  by (intro kind.rel_intros only_openai) (simp_all add: openai_request_def)

definition archive_request :: "ProvisionRequest \<Rightarrow> string \<Rightarrow> HttpRequest" where
  "archive_request req k = openai_request (openai_adminKey (pr_Credentials req)) (pr_Config req) ''POST''
     (project_path k ''/archive'') None"

text \<open>What becomes of a project created for a provisioning that ends as \<open>q\<close>, in the requests after it.\<close>

definition project_settled ::
  "ProvisionRequest \<Rightarrow> string \<Rightarrow> (err + ProvisionResult) \<Rightarrow> HttpRequest list \<Rightarrow> bool" where
  "project_settled req created q rqs \<longleftrightarrow>
     (case q of
        Inr res \<Rightarrow> archive_request req created \<notin> set rqs
      | Inl e \<Rightarrow> TrimSpace created = [] \<or> (rqs \<noteq> [] \<and> last rqs = archive_request req created))"

lemma openai_project_key:
  assumes "openai_project (transcript answer N) ac req spec s = (Inr (k, created, flds), u)" "created \<noteq> []"
  shows "openai_adminKey (ac_Credentials ac) \<noteq> []"
proof
  assume no: "openai_adminKey (ac_Credentials ac) = []"
  then have "\<nexists>ws u. openai_CreateWorkspace (transcript answer N) ac name s = (Inr ws, u)" for name
    by (auto simp: openai_CreateWorkspace_def Let_def guardE_def openai_no_key)
  with assms show False by (auto simp: openai_project_def bindE_Inr_iff Let_def split: if_splits)
qed

lemma archive_sent:
  assumes "nt_url_ok N = (\<lambda>_. True)" "openai_adminKey (pr_Credentials req) \<noteq> []" "TrimSpace k \<noteq> []"
  shows "snd (openai_ArchiveWorkspace (transcript answer N)
    \<lparr>ac_Credentials = pr_Credentials req, ac_Config = pr_Config req\<rparr> k s) = s @ [archive_request req k]"
  using assms by (simp add: openai_ArchiveWorkspace_def guardE_def archive_request_def
      openai_call(1) [where ac = "\<lparr>ac_Credentials = pr_Credentials req, ac_Config = pr_Config req\<rparr>", simplified])

lemma or_archive_settled:
  assumes "nt_url_ok N = (\<lambda>_. True)" "TrimSpace created \<noteq> [] \<Longrightarrow> openai_adminKey (pr_Credentials req) \<noteq> []"
    and "rel (only (\<lambda>rq. hq_Body rq \<noteq> None)) m"
  shows "case or_archive (transcript answer N) \<lparr>ac_Credentials = pr_Credentials req, ac_Config = pr_Config req\<rparr> created m u of
    (q, t) \<Rightarrow> \<exists>rqs. t = u @ rqs \<and> project_settled req created q rqs"
proof -
  obtain rqs where rqs: "snd (m u) = u @ rqs" "list_all (\<lambda>rq. hq_Body rq \<noteq> None) rqs"
    using assms(3) by (auto simp: rel_def only_def)
  let ?ac = "\<lparr>ac_Credentials = pr_Credentials req, ac_Config = pr_Config req\<rparr>"
  show ?thesis
  proof (cases "fst (m u)")
    case (Inr x)
    then have "or_archive (transcript answer N) ?ac created m u = (Inr x, u @ rqs)"
      by (simp add: or_archive_def bindE_attempt rqs(1) ret_def)
    moreover have "archive_request req created \<notin> set rqs"
      using rqs(2) by (auto simp: list_all_iff archive_request_def openai_request_def)
    ultimately show ?thesis by (simp add: project_settled_def)
  next
    case (Inl e)
    show ?thesis
    proof (cases "TrimSpace created = []")
      case True
      have "snd (openai_ArchiveWorkspace (transcript answer N) ?ac created (u @ rqs)) = u @ rqs"
        using True by (simp add: openai_ArchiveWorkspace_def guardE_def)
      then have "or_archive (transcript answer N) ?ac created m u = (Inl e, u @ rqs)"
        by (simp add: or_archive_def bindE_attempt rqs(1) Inl bindE_ignore) (simp add: fail_def)
      with True show ?thesis by (simp add: project_settled_def)
    next
      case False
      then have "snd (openai_ArchiveWorkspace (transcript answer N) ?ac created (u @ rqs)) = (u @ rqs) @ [archive_request req created]"
        by (intro archive_sent assms)
      moreover have "created \<noteq> []" using False by auto
      ultimately have "or_archive (transcript answer N) ?ac created m u = (Inl e, u @ rqs @ [archive_request req created])"
        by (simp add: or_archive_def bindE_attempt rqs(1) Inl bindE_ignore) (simp add: fail_def)
      then show ?thesis by (simp add: project_settled_def)
    qed
  qed
qed

lemma openai_provisioning:
  assumes "nt_url_ok N = (\<lambda>_. True)"
  shows "case openai_project (transcript answer N) \<lparr>ac_Credentials = pr_Credentials req, ac_Config = pr_Config req\<rparr>
      req (flat_spec (pr_Spec req)) s of
    (Inl e, u) \<Rightarrow> openai_ProvisionAccess (transcript answer N) req s = (Inl e, u)
  | (Inr (k, created, flds), u) \<Rightarrow>
      (case openai_ProvisionAccess (transcript answer N) req s of
         (q, t) \<Rightarrow> \<exists>rqs. t = u @ rqs \<and> project_settled req created q rqs)"
proof -
  let ?ac = "\<lparr>ac_Credentials = pr_Credentials req, ac_Config = pr_Config req\<rparr>"
  obtain r u where run: "openai_project (transcript answer N) ?ac req (flat_spec (pr_Spec req)) s = (r, u)" by fastforce
  show ?thesis
  proof (cases r)
    case (Inl e)
    then show ?thesis by (simp add: run openai_ProvisionAccess_def Let_def bindE_def)
  next
    case (Inr x)
    obtain k created flds where x: "x = (k, created, flds)" by (cases x) auto
    have key: "TrimSpace created \<noteq> [] \<Longrightarrow> openai_adminKey (pr_Credentials req) \<noteq> []"
      using openai_project_key [OF run [unfolded Inr x]] by (cases "created = []") auto
    have now: "fst (openai_project (transcript answer N) ?ac req (flat_spec (pr_Spec req)) s) = Inr (k, created, flds)"
      and then_on: "snd (openai_project (transcript answer N) ?ac req (flat_spec (pr_Spec req)) s) = u"
      by (simp_all add: run Inr x)
    have "\<exists>f. openai_ProvisionAccess (transcript answer N) req s = or_archive (transcript answer N) ?ac created
        (bindE (openai_apply (transcript answer N) ?ac (sv_Slug (pr_Service req)) (flat_spec (pr_Spec req)) k) (\<lambda>a. ret (f a))) u"
      unfolding openai_ProvisionAccess_def Let_def
        bindE_fst_Inr [where m = "openai_project (transcript answer N) ?ac req (flat_spec (pr_Spec req))" and s = s, OF now] prod.case then_on
      by (rule exI) (rule refl)
    then obtain f where run2: "openai_ProvisionAccess (transcript answer N) req s = or_archive (transcript answer N) ?ac created
        (bindE (openai_apply (transcript answer N) ?ac (sv_Slug (pr_Service req)) (flat_spec (pr_Spec req)) k) (\<lambda>a. ret (f a))) u"
      by blast
    have "rel (only (\<lambda>rq. hq_Body rq \<noteq> None)) (bindE (openai_apply (transcript answer N) ?ac (sv_Slug (pr_Service req))
        (flat_spec (pr_Spec req)) k) (\<lambda>a. ret (f a)))"
      by (intro kind.rel_bindE only_openai_apply kind.rel_ret)
    then show ?thesis using or_archive_settled [OF assms key] by (simp add: run Inr x run2)
  qed
qed

section \<open>Workspace memberships\<close>

text \<open>The two requests by which a membership is granted: adding the member, or changing its role.\<close>

definition membership_requests :: "ProvisionRequest \<Rightarrow> string \<Rightarrow> string \<Rightarrow> string \<Rightarrow> string \<Rightarrow> HttpRequest list" where
  "membership_requests req key ws user role =
     [anthropic_request key (pr_Config req) ''POST'' (''/v1/organizations/workspaces/'' @ PathEscape ws @ ''/members'')
        (Some (JObj [(''user_id'', JStr user), (''workspace_role'', JStr role)])),
      anthropic_request key (pr_Config req) ''POST'' (member_path ws user)
        (Some (JObj [(''workspace_role'', JStr role)]))]"

lemma SplitN2_first:
  assumes "sep \<noteq> []" "\<not> Contains (ws @ butlast sep) sep"
  shows "SplitN2 sep (ws @ sep @ rest) = Some (ws, rest)"
  using assms(2)
proof (induction ws)
  case Nil
  from assms(1) obtain c s where "sep = c # s" by (cases sep) auto
  then show ?case by simp
next
  case (Cons c ws)
  have "\<not> prefix sep (c # ws @ sep @ rest)"
  proof
    assume p: "prefix sep (c # ws @ sep @ rest)"
    have "length sep \<le> length (c # ws @ butlast sep)" by simp
    moreover have "prefix (c # ws @ butlast sep) (c # ws @ sep @ rest)"
      using assms(1) by (metis append_Cons append.assoc append_butlast_last_id prefixI)
    ultimately have "prefix sep (c # ws @ butlast sep)" using p prefix_length_prefix by blast
    then show False using Cons.prems by (auto simp: Contains_def)
  qed
  moreover have "\<not> Contains (ws @ butlast sep) sep"
    using Cons.prems by (auto simp: Contains_def sublist_Cons_right)
  ultimately show ?case using Cons.IH by simp
qed

text \<open>The context of a provisioning and of the revocation that undoes it.\<close>

definition grant_context :: "ProvisionRequest \<Rightarrow> AdminContext" where
  "grant_context req = \<lparr>ac_Credentials = pr_Credentials req, ac_Config = pr_Config req\<rparr>"

definition undo_request :: "uuid \<Rightarrow> ProvisionRequest \<Rightarrow> string \<Rightarrow> RevokeRequest" where
  "undo_request i req k = \<lparr>rv_InstanceID = i, rv_ProviderAccessID = k, rv_Credentials = pr_Credentials req,
     rv_Config = pr_Config req\<rparr>"

lemma grant_context_simps [simp]:
  "ac_Credentials (grant_context req) = pr_Credentials req" "ac_Config (grant_context req) = pr_Config req"
  by (simp_all add: grant_context_def)

lemma bindE_InrD:
  assumes "bindE m f s = (Inr y, u)"
  obtains x where "fst (m s) = Inr x" "f x (snd (m s)) = (Inr y, u)"
  using assms by (auto simp: bindE_Inr_iff)

lemma grant_sent:
  assumes url: "nt_url_ok N = (\<lambda>_. True)" and key: "anthropic_adminKey N (pr_Credentials req) \<noteq> []"
    and run: "anthropic_GrantWorkspaceAccess (transcript answer N) (grant_context req) ws user role s = (Inr (), t)"
  shows "ws \<noteq> [] \<and> user \<noteq> [] \<and> role \<noteq> ''workspace_billing'' \<and> t \<noteq> []
    \<and> last t \<in> set (membership_requests req (anthropic_adminKey N (pr_Credentials req)) ws user role)"
proof -
  let ?T = "transcript answer N" and ?ac = "grant_context req"
  have key': "anthropic_adminKey N (ac_Credentials ?ac) \<noteq> []" using key by simp
  note sends = anthropic_call(1) [OF url key', simplified]
  from run have ids: "ws \<noteq> []" "user \<noteq> []"
    by (auto simp: anthropic_GrantWorkspaceAccess_def bindE_Inr_iff)
  from run obtain u :: OrgUser and w where "RoleComboAllowed (ou_Role u) role"
      and up: "anthropic_upsertMember ?T ?ac ws user role w = (Inr (), t)"
    by (auto simp: anthropic_GrantWorkspaceAccess_def bindE_Inr_iff)
  then have role: "role \<noteq> ''workspace_billing''" by (auto simp: RoleComboAllowed_def)
  let ?m = "anthropic_adminDo ?T ?ac ''POST'' (''/v1/organizations/workspaces/'' @ PathEscape ws @ ''/members'')
      (Some (JObj [(''user_id'', JStr user), (''workspace_role'', JStr role)])) no_out"
  let ?n = "anthropic_adminDo ?T ?ac ''POST'' (member_path ws user) (Some (JObj [(''workspace_role'', JStr role)])) no_out"
  have "t = snd (?m w) \<or> t = snd (?n (snd (?m w)))"
    using up by (simp add: anthropic_upsertMember_def bindE_attempt split: sum.splits if_splits)
  then have "t \<noteq> [] \<and> last t \<in> set (membership_requests req (anthropic_adminKey N (pr_Credentials req)) ws user role)"
    by (auto simp: sends membership_requests_def)
  with ids role show ?thesis by simp
qed

lemma invite_sent:
  assumes url: "nt_url_ok N = (\<lambda>_. True)" and key: "anthropic_adminKey N (pr_Credentials req) \<noteq> []"
    and run: "anthropic_InviteUser (transcript answer N) (grant_context req) email role s = (Inr invite, t)"
  shows "t = s @ [anthropic_request (anthropic_adminKey N (pr_Credentials req)) (pr_Config req) ''POST''
    ''/v1/organizations/invites'' (Some (JObj [(''email'', JStr (TrimSpace email)), (''role'', JStr role)]))]"
proof -
  have key': "anthropic_adminKey N (ac_Credentials (grant_context req)) \<noteq> []" using key by simp
  from run have "t = snd (anthropic_adminDo (transcript answer N) (grant_context req) ''POST'' ''/v1/organizations/invites''
      (Some (JObj [(''email'', JStr (TrimSpace email)), (''role'', JStr role)])) (into wireInvite) s)"
    by (auto simp: anthropic_InviteUser_def bindE_Inr_iff Let_def)
  then show ?thesis by (simp add: anthropic_call(1) [OF url key', simplified])
qed

text \<open>What a revocation sends, by the form of the access identifier.\<close>

lemma revoke_membership:
  assumes url: "nt_url_ok N = (\<lambda>_. True)" and key: "anthropic_adminKey N (pr_Credentials req) \<noteq> []"
    and "ws \<noteq> []" "user \<noteq> []" "\<not> Contains (ws @ '':user'') '':user:''"
  shows "prefix (s @ [anthropic_request (anthropic_adminKey N (pr_Credentials req)) (pr_Config req) ''DELETE'' (member_path ws user) None])
    (snd (anthropic_RevokeAccess (transcript answer N) (undo_request i req (''anthropic-ws:'' @ ws @ '':user:'' @ user)) s))"
proof -
  let ?T = "transcript answer N" and ?ac = "grant_context req"
  have key': "anthropic_adminKey N (ac_Credentials ?ac) \<noteq> []" using key by simp
  have split: "SplitN2 '':user:'' (ws @ '':user:'' @ user) = Some (ws, user)"
    using assms(5) by (intro SplitN2_first) simp_all
  have removed: "snd (anthropic_RemoveWorkspaceMember ?T ?ac ws user s)
      = s @ [anthropic_request (anthropic_adminKey N (pr_Credentials req)) (pr_Config req) ''DELETE'' (member_path ws user) None]"
    using assms(3,4) by (simp add: anthropic_RemoveWorkspaceMember_def guardE_def anthropic_call(1) [OF url key', simplified])
  have "anthropic_RevokeAccess ?T (undo_request i req (''anthropic-ws:'' @ ws @ '':user:'' @ user)) s
      = anthropic_dropMember ?T ?ac ws user s"
    using split by (simp add: anthropic_RevokeAccess_def undo_request_def grant_context_def guardE_def HasPrefix_def
        TrimPrefix_def Let_def)
  also have "prefix (snd (anthropic_RemoveWorkspaceMember ?T ?ac ws user s)) (snd \<dots>)"
    unfolding anthropic_dropMember_def bindE_attempt
    by (rule relD) (intro sent.rel_intros at_most_rel [OF at_most_anthropic])
  finally show ?thesis unfolding removed .
qed

lemma revoke_invite:
  assumes url: "nt_url_ok N = (\<lambda>_. True)" and key: "anthropic_adminKey N (pr_Credentials req) \<noteq> []"
  shows "snd (anthropic_RevokeAccess (transcript answer N) (undo_request i req (''anthropic-invite:'' @ invite)) s)
    = s @ [anthropic_request (anthropic_adminKey N (pr_Credentials req)) (pr_Config req) ''DELETE''
        (''/v1/organizations/invites/'' @ PathEscape invite) None]"
  using anthropic_call(1) [OF url, of "grant_context req"] key
  by (simp add: anthropic_RevokeAccess_def undo_request_def grant_context_def guardE_def HasPrefix_def TrimPrefix_def)

lemma revoke_entitlement:
  assumes "list_all (\<lambda>c. c \<in> set ''0123456789abcdef'') h"
  shows "snd (anthropic_RevokeAccess (transcript answer N) (undo_request i req (''anthropic-'' @ h)) s) = s"
proof -
  have "\<not> prefix (CHR ''w'' # x) h \<and> \<not> prefix (CHR ''i'' # x) h" for x
    using assms by (cases h) auto
  then show ?thesis
    by (simp add: anthropic_RevokeAccess_def undo_request_def guardE_def HasPrefix_def)
qed

section \<open>Granting and undoing\<close>

text \<open>What a provisioning that ended in \<open>t\<close> with the access identifier \<open>k\<close> did, and what its revocation,
  which ended in \<open>u\<close>, did about it.\<close>

definition undone ::
  "ProvisionRequest \<Rightarrow> string \<Rightarrow> string \<Rightarrow> HttpRequest list \<Rightarrow> HttpRequest list \<Rightarrow> HttpRequest list \<Rightarrow> bool" where
  "undone req key k s t u \<longleftrightarrow>
     t = s \<and> u = t
   \<or> (\<exists>email invite. k = ''anthropic-invite:'' @ invite \<and> t \<noteq> [] \<and> last t = anthropic_request key (pr_Config req) ''POST'' ''/v1/organizations/invites''
          (Some (JObj [(''email'', JStr email), (''role'', JStr ''developer'')]))
        \<and> u = t @ [anthropic_request key (pr_Config req) ''DELETE'' (''/v1/organizations/invites/'' @ PathEscape invite) None])
   \<or> (\<exists>ws user role. k = ''anthropic-ws:'' @ ws @ '':user:'' @ user \<and> t \<noteq> [] \<and> last t \<in> set (membership_requests req key ws user role) \<and> role \<noteq> ''workspace_billing''
        \<and> (Contains (ws @ '':user'') '':user:''
            \<or> prefix (t @ [anthropic_request key (pr_Config req) ''DELETE'' (member_path ws user) None]) u))"

lemma case_option_fail_Inr:
  "(case x of None \<Rightarrow> fail e | Some y \<Rightarrow> f y) s = (Inr z, t) \<longleftrightarrow> (\<exists>y. x = Some y \<and> f y s = (Inr z, t))"
  by (cases x) simp_all

lemma real_grant:
  assumes url: "nt_url_ok N = (\<lambda>_. True)" and key: "anthropic_adminKey N (pr_Credentials req) \<noteq> []"
    and run: "anthropic_grantRealAccess (transcript answer N) req email wsRef s = (Inr res, t)"
  shows "(\<exists>w invite. res_ProviderAccessID res = ''anthropic-invite:'' @ invite
        \<and> t = w @ [anthropic_request (anthropic_adminKey N (pr_Credentials req)) (pr_Config req) ''POST''
            ''/v1/organizations/invites'' (Some (JObj [(''email'', JStr (TrimSpace email)), (''role'', JStr ''developer'')]))])
    \<or> (\<exists>ws user role. res_ProviderAccessID res = ''anthropic-ws:'' @ ws @ '':user:'' @ user \<and> ws \<noteq> [] \<and> user \<noteq> []
        \<and> role \<noteq> ''workspace_billing'' \<and> t \<noteq> []
        \<and> last t \<in> set (membership_requests req (anthropic_adminKey N (pr_Credentials req)) ws user role))"
proof -
  let ?T = "transcript answer N" and ?ac = "grant_context req"
  obtain users w where users: "anthropic_ListOrgUsers ?T ?ac s = (Inr users, w)"
    using run by (auto simp: anthropic_grantRealAccess_def Let_def bindE_Inr_iff grant_context_def)
  show ?thesis
  proof (cases "List.find (\<lambda>u. EqualFold (ou_Email u) email) users")
    case None
    with run users obtain iv where "anthropic_InviteUser ?T ?ac email ''developer'' w = (Inr iv, t)"
        "res = invited_result email wsRef iv"
      by (auto simp: anthropic_grantRealAccess_def Let_def bindE_Inr_iff grant_context_def)
    then have "res_ProviderAccessID res = ''anthropic-invite:'' @ iv_InviteID iv"
        and sent: "anthropic_InviteUser ?T ?ac email ''developer'' w = (Inr iv, t)"
      by (simp_all add: invited_result_def)
    with invite_sent [OF url key sent] show ?thesis by (intro disjI1 exI conjI)
  next
    case (Some user)
    with run users obtain ws role v where
        "anthropic_GrantWorkspaceAccess ?T ?ac (ow_ID ws) (ou_ID user) role v = (Inr (), t)"
        "res = granted_result email ws (ou_ID user) role"
      by (auto simp: anthropic_grantRealAccess_def Let_def bindE_Inr_iff grant_context_def case_option_fail_Inr)
    then have sent: "anthropic_GrantWorkspaceAccess ?T ?ac (ow_ID ws) (ou_ID user) role v = (Inr (), t)"
        and id: "res_ProviderAccessID res = ''anthropic-ws:'' @ ow_ID ws @ '':user:'' @ ou_ID user"
      by (simp_all add: granted_result_def)
    show ?thesis
      by (rule disjI2, rule exI [of _ "ow_ID ws"], rule exI [of _ "ou_ID user"], rule exI [of _ role])
        (rule conjI [OF id grant_sent [OF url key sent]])
  qed
qed

lemma undone_entitlement: "t = s \<Longrightarrow> u = t \<Longrightarrow> undone req key k s t u"
  by (simp add: undone_def)

lemma undone_invite:
  "t = w @ [anthropic_request key (pr_Config req) ''POST'' ''/v1/organizations/invites''
     (Some (JObj [(''email'', JStr email), (''role'', JStr ''developer'')]))] \<Longrightarrow>
   u = t @ [anthropic_request key (pr_Config req) ''DELETE'' (''/v1/organizations/invites/'' @ PathEscape invite) None] \<Longrightarrow>
   undone req key (''anthropic-invite:'' @ invite) s t u"
  unfolding undone_def
  by (rule disjI2, rule disjI1, rule exI [of _ email], rule exI [of _ invite], intro conjI; (rule refl | assumption | (hypsubst, simp only: append_is_Nil_conv not_Cons_self2 last_snoc list.distinct simp_thms)))

lemma undone_member:
  "t \<noteq> [] \<Longrightarrow> last t \<in> set (membership_requests req key ws user role) \<Longrightarrow> role \<noteq> ''workspace_billing'' \<Longrightarrow>
   Contains (ws @ '':user'') '':user:''
     \<or> prefix (t @ [anthropic_request key (pr_Config req) ''DELETE'' (member_path ws user) None]) u \<Longrightarrow>
   undone req key (''anthropic-ws:'' @ ws @ '':user:'' @ user) s t u"
  unfolding undone_def by (rule disjI2, rule disjI2, rule exI, rule exI, rule exI, intro conjI; (rule refl | assumption))

lemma anthropic_granting:
  assumes url: "nt_url_ok N = (\<lambda>_. True)"
    and run: "anthropic_ProvisionAccess (transcript answer N) req s = (Inr res, t)"
  shows "undone req (anthropic_adminKey N (pr_Credentials req)) (res_ProviderAccessID res) s t
    (snd (anthropic_RevokeAccess (transcript answer N) (undo_request i req (res_ProviderAccessID res)) t))"
proof (cases "\<exists>email ws. anthropic_adminKey N (pr_Credentials req) \<noteq> []
    \<and> anthropic_grantRealAccess (transcript answer N) req email ws s = (Inr res, t)")
  case True
  then obtain email ws where key: "anthropic_adminKey N (pr_Credentials req) \<noteq> []"
    and real: "anthropic_grantRealAccess (transcript answer N) req email ws s = (Inr res, t)" by blast
  from real_grant [OF url key real] show ?thesis
  proof (elim disjE exE conjE)
    fix w invite
    assume invite: "res_ProviderAccessID res = ''anthropic-invite:'' @ invite"
      and t: "t = w @ [anthropic_request (anthropic_adminKey N (pr_Credentials req)) (pr_Config req) ''POST''
            ''/v1/organizations/invites'' (Some (JObj [(''email'', JStr (TrimSpace email)), (''role'', JStr ''developer'')]))]"
    show ?thesis unfolding invite by (rule undone_invite [OF t]) (rule revoke_invite [OF url key])
  next
    fix w user role
    assume member: "res_ProviderAccessID res = ''anthropic-ws:'' @ w @ '':user:'' @ user" and "w \<noteq> []" "user \<noteq> []"
      and sent: "t \<noteq> []" "last t \<in> set (membership_requests req (anthropic_adminKey N (pr_Credentials req)) w user role)"
        "role \<noteq> ''workspace_billing''"
    show ?thesis unfolding member
      by (rule undone_member [OF sent]) (use revoke_membership [OF url key \<open>w \<noteq> []\<close> \<open>user \<noteq> []\<close>] in blast)
  qed
next
  case False
  with run have "res = entitlement_result (transcript answer N) req" and t: "t = s"
    by (auto simp: anthropic_ProvisionAccess_def Let_def split: if_splits)
  then obtain parts where id: "res_ProviderAccessID res = hashedID ''anthropic'' parts"
    by (auto simp: entitlement_result_def Let_def)
  have id: "res_ProviderAccessID res = ''anthropic-'' @ take 16 (sha1_hex (join_with '':'' (''anthropic'' # parts)))"
    unfolding id hashedID_def by simp
  have hex16: "list_all (\<lambda>c. c \<in> set ''0123456789abcdef'') (take 16 (sha1_hex x))" for x
    using sha1_hex_shape(2) [of x] unfolding list_all_iff by (blast dest: in_set_takeD)
  show ?thesis
    unfolding id by (rule undone_entitlement [OF t]) (rule revoke_entitlement [OF hex16])
qed

end
