(* ===== verification/Dto.thy ===== *)
theory Dto
  imports System
begin

text \<open>
  What the HTTP API sends (\<open>internal/api\<close>, the DTO structs and their constructors): each row or value of
  the orchestrator as the struct the handlers hand to \<open>encoding/json\<close>. Identifiers are printed by the
  parameter \<open>str\<close>; a nil slice and an empty one are not told apart.
\<close>

section \<open>Values from stored JSON\<close>

text \<open>\<open>json.Unmarshal\<close> into a nil \<open>map[string]any\<close> whose error is dropped.\<close>

definition any_map :: "json \<Rightarrow> obj option" where
  "any_map j = (case j of JObj m \<Rightarrow> Some m | _ \<Rightarrow> None)"

definition opt_id :: "(uuid \<Rightarrow> string) \<Rightarrow> uuid option \<Rightarrow> string" where
  "opt_id str k = (case k of None \<Rightarrow> [] | Some i \<Rightarrow> str i)"

definition opt_text :: "string option \<Rightarrow> string" where
  "opt_text x = (case x of None \<Rightarrow> [] | Some v \<Rightarrow> v)"

section \<open>Providers and services\<close>

record aiProviderDTO =
  dp_ID :: string
  dp_Name :: string
  dp_Type :: string
  dp_Config :: "obj option"
  dp_Status :: string
  dp_CreatedAt :: time
  dp_UpdatedAt :: time

definition isSensitiveAIProviderConfigKey :: "string \<Rightarrow> bool" where
  "isSensitiveAIProviderConfigKey key \<longleftrightarrow> ToLower (TrimSpace key) \<in>
     {''api_key'', ''openai_api_key'', ''anthropic_api_key'', ''admin_api_key'', ''token'', ''access_token'',
      ''bearer_token'', ''secret'', ''client_secret'', ''password'', ''master_key'', ''litellm_master_key''}"

definition redactAIProviderConfig :: "obj option \<Rightarrow> obj option" where
  "redactAIProviderConfig = map_option (map (\<lambda>(k, v).
     (k, if isSensitiveAIProviderConfigKey k then JStr ''[redacted]'' else v)))"

definition aiProviderToDTO :: "(uuid \<Rightarrow> string) \<Rightarrow> AiProvider \<Rightarrow> aiProviderDTO" where
  "aiProviderToDTO str p = \<lparr>dp_ID = str (p_ID p), dp_Name = p_Name p, dp_Type = p_Type p,
     dp_Config = redactAIProviderConfig (any_map (p_Config p)), dp_Status = p_Status p,
     dp_CreatedAt = p_CreatedAt p, dp_UpdatedAt = p_UpdatedAt p\<rparr>"

record aiServiceDTO =
  ds_ID :: string
  ds_ProviderID :: string
  ds_ProviderName :: string
  ds_ProviderType :: string
  ds_Name :: string
  ds_Slug :: string
  ds_Category :: string
  ds_Description :: string
  ds_RequestSchema :: "obj option"
  ds_DefaultExpirationDays :: int
  ds_RequiresApproval :: bool
  ds_Status :: string
  ds_CreatedAt :: time
  ds_UpdatedAt :: time

definition aiServiceToDTO :: "(uuid \<Rightarrow> string) \<Rightarrow> AiServiceRow \<Rightarrow> aiServiceDTO" where
  "aiServiceToDTO str v = \<lparr>ds_ID = str (s_ID v), ds_ProviderID = str (s_ProviderID v),
     ds_ProviderName = s_ProviderName v, ds_ProviderType = s_ProviderType v, ds_Name = s_Name v, ds_Slug = s_Slug v,
     ds_Category = s_Category v, ds_Description = s_Description v, ds_RequestSchema = any_map (s_RequestSchema v),
     ds_DefaultExpirationDays = s_DefaultExpirationDays v, ds_RequiresApproval = s_RequiresApproval v,
     ds_Status = s_Status v, ds_CreatedAt = s_CreatedAt v, ds_UpdatedAt = s_UpdatedAt v\<rparr>"

section \<open>Requests and instances\<close>

record requestDTO =
  dq_ID :: string
  dq_Name :: string
  dq_Environment :: string
  dq_Requester :: string
  dq_Kind :: string
  dq_Provider :: string
  dq_Blueprint :: string
  dq_Status :: string
  dq_TicketRef :: string
  dq_ResourceRef :: string
  dq_DecidedBy :: string
  dq_Reason :: string
  dq_CreatedAt :: time
  dq_UpdatedAt :: time

definition requestToDTO :: "(uuid \<Rightarrow> string) \<Rightarrow> Request \<Rightarrow> requestDTO" where
  "requestToDTO str r = \<lparr>dq_ID = str (r_ID r), dq_Name = r_Name r, dq_Environment = r_Environment r,
     dq_Requester = r_Requester r, dq_Kind = r_Kind r, dq_Provider = r_Provider r, dq_Blueprint = r_Blueprint r,
     dq_Status = r_Status r, dq_TicketRef = r_TicketRef r, dq_ResourceRef = r_ResourceRef r,
     dq_DecidedBy = r_DecidedBy r, dq_Reason = r_Reason r, dq_CreatedAt = r_CreatedAt r, dq_UpdatedAt = r_UpdatedAt r\<rparr>"

record aiInstanceDTO =
  di_ID :: string
  di_ServiceID :: string
  di_ServiceName :: string
  di_ServiceSlug :: string
  di_ProviderName :: string
  di_ProviderType :: string
  di_RequestID :: string
  di_ProviderAccessID :: string
  di_Owner :: string
  di_Workspace :: string
  di_Status :: string
  di_Spec :: "obj option"
  di_Observed :: "obj option"
  di_ProvisionedAt :: "time option"
  di_ExpiresAt :: "time option"
  di_RevokedAt :: "time option"
  di_CreatedAt :: time
  di_UpdatedAt :: time

definition aiInstanceToDTO :: "(uuid \<Rightarrow> string) \<Rightarrow> AiServiceInstanceRow \<Rightarrow> aiInstanceDTO" where
  "aiInstanceToDTO str i = \<lparr>di_ID = str (i_ID i), di_ServiceID = str (i_ServiceID i), di_ServiceName = i_ServiceName i,
     di_ServiceSlug = i_ServiceSlug i, di_ProviderName = i_ProviderName i, di_ProviderType = i_ProviderType i,
     di_RequestID = opt_id str (i_RequestID i), di_ProviderAccessID = i_ProviderAccessID i, di_Owner = i_Owner i,
     di_Workspace = i_Workspace i, di_Status = i_Status i, di_Spec = any_map (i_Spec i), di_Observed = any_map (i_Observed i),
     di_ProvisionedAt = i_ProvisionedAt i, di_ExpiresAt = i_ExpiresAt i, di_RevokedAt = i_RevokedAt i,
     di_CreatedAt = i_CreatedAt i, di_UpdatedAt = i_UpdatedAt i\<rparr>"

record aiAccessReviewDTO =
  dr_Instance :: aiInstanceDTO
  dr_Flag :: string
  dr_AgeDays :: int

definition aiAccessReviewToDTO :: "(uuid \<Rightarrow> string) \<Rightarrow> AIAccessReviewItem \<Rightarrow> aiAccessReviewDTO" where
  "aiAccessReviewToDTO str it = \<lparr>dr_Instance = aiInstanceToDTO str (ri_Instance it), dr_Flag = ri_Flag it, dr_AgeDays = ri_AgeDays it\<rparr>"

section \<open>Usage, audit and rules\<close>

record aiUsageDTO =
  du_ID :: string
  du_InstanceID :: string
  du_ProviderID :: string
  du_ProviderName :: string
  du_Owner :: string
  du_Workspace :: string
  du_PeriodStart :: time
  du_PeriodEnd :: time
  du_Metric :: string
  du_Quantity :: float64
  du_Unit :: string
  du_CostUSD :: float64
  du_Raw :: "obj option"
  du_CreatedAt :: time

definition aiUsageToDTO :: "(uuid \<Rightarrow> string) \<Rightarrow> AiUsageRow \<Rightarrow> aiUsageDTO" where
  "aiUsageToDTO str u = \<lparr>du_ID = str (u_ID u), du_InstanceID = opt_id str (u_InstanceID u), du_ProviderID = str (u_ProviderID u),
     du_ProviderName = u_ProviderName u, du_Owner = opt_text (u_Owner u), du_Workspace = opt_text (u_Workspace u),
     du_PeriodStart = u_PeriodStart u, du_PeriodEnd = u_PeriodEnd u, du_Metric = u_Metric u, du_Quantity = u_Quantity u,
     du_Unit = u_Unit u, du_CostUSD = u_CostUsd u, du_Raw = any_map (u_Raw u), du_CreatedAt = u_CreatedAt u\<rparr>"

record aiAuditDTO =
  da_ID :: string
  da_Actor :: string
  da_SubjectType :: string
  da_SubjectID :: string
  da_Action :: string
  da_Message :: message
  da_Fields :: obj
  da_CreatedAt :: time

definition aiAuditToDTO :: "(uuid \<Rightarrow> string) \<Rightarrow> AiAuditEvent \<Rightarrow> aiAuditDTO" where
  "aiAuditToDTO str e = \<lparr>da_ID = str (a_ID e), da_Actor = a_Actor e, da_SubjectType = a_SubjectType e,
     da_SubjectID = opt_id str (a_SubjectID e), da_Action = a_Action e, da_Message = a_Message e,
     da_Fields = a_Fields e, da_CreatedAt = a_CreatedAt e\<rparr>"

record aiBudgetDTO =
  db_ID :: string
  db_Scope :: string
  db_ScopeRef :: string
  db_LimitUSD :: float64
  db_Period :: string
  db_SoftThresholdPct :: int
  db_HardThresholdPct :: int
  db_ActualUSD :: float64
  db_RemainingUSD :: float64
  db_UsagePct :: float64
  db_Status :: string
  db_CreatedAt :: time
  db_UpdatedAt :: time

definition aiBudgetSummaryToDTO :: "(uuid \<Rightarrow> string) \<Rightarrow> AIBudgetSummary \<Rightarrow> aiBudgetDTO" where
  "aiBudgetSummaryToDTO str x = (let b = bs_Budget x in
     \<lparr>db_ID = str (b_ID b), db_Scope = b_Scope b, db_ScopeRef = b_ScopeRef b, db_LimitUSD = b_LimitUsd b, db_Period = b_Period b,
      db_SoftThresholdPct = b_SoftThresholdPct b, db_HardThresholdPct = b_HardThresholdPct b, db_ActualUSD = bs_ActualUSD x,
      db_RemainingUSD = bs_RemainingUSD x, db_UsagePct = bs_UsagePct x, db_Status = bs_Status x,
      db_CreatedAt = b_CreatedAt b, db_UpdatedAt = b_UpdatedAt b\<rparr>)"

text \<open>A budget just written: its summary before any spend is looked up.\<close>

definition fresh_summary :: "AiBudget \<Rightarrow> AIBudgetSummary" where
  "fresh_summary b = \<lparr>bs_Budget = b, bs_ActualUSD = 0, bs_RemainingUSD = b_LimitUsd b, bs_UsagePct = 0, bs_Status = ''ok''\<rparr>"

record aiQuotaDTO =
  dk_ID :: string
  dk_ServiceID :: string
  dk_Metric :: string
  dk_LimitQuantity :: float64
  dk_Period :: string
  dk_Enforcement :: string
  dk_CreatedAt :: time

definition aiQuotaToDTO :: "(uuid \<Rightarrow> string) \<Rightarrow> AiQuota \<Rightarrow> aiQuotaDTO" where
  "aiQuotaToDTO str q = \<lparr>dk_ID = str (q_ID q), dk_ServiceID = opt_id str (q_ServiceID q), dk_Metric = q_Metric q,
     dk_LimitQuantity = q_LimitQuantity q, dk_Period = q_Period q, dk_Enforcement = q_Enforcement q, dk_CreatedAt = q_CreatedAt q\<rparr>"

record aiPolicyDTO =
  dl_ID :: string
  dl_Name :: string
  dl_Rules :: "obj option"
  dl_Status :: string
  dl_CreatedAt :: time
  dl_UpdatedAt :: time

definition aiPolicyToDTO :: "(uuid \<Rightarrow> string) \<Rightarrow> AiAccessPolicy \<Rightarrow> aiPolicyDTO" where
  "aiPolicyToDTO str p = \<lparr>dl_ID = str (po_ID p), dl_Name = po_Name p, dl_Rules = any_map (po_Rules p), dl_Status = po_Status p,
     dl_CreatedAt = po_CreatedAt p, dl_UpdatedAt = po_UpdatedAt p\<rparr>"

record aiModelDTO =
  dm_ID :: string
  dm_ProviderID :: string
  dm_ProviderName :: string
  dm_ProviderType :: string
  dm_Model :: string
  dm_DisplayName :: string
  dm_Modality :: string
  dm_Status :: string
  dm_Metadata :: "obj option"
  dm_CreatedAt :: time
  dm_UpdatedAt :: time

definition aiModelToDTO :: "(uuid \<Rightarrow> string) \<Rightarrow> AiModelCatalogRow \<Rightarrow> aiModelDTO" where
  "aiModelToDTO str m = \<lparr>dm_ID = str (m_ID m), dm_ProviderID = str (m_ProviderID m), dm_ProviderName = m_ProviderName m,
     dm_ProviderType = m_ProviderType m, dm_Model = m_Model m, dm_DisplayName = m_DisplayName m, dm_Modality = m_Modality m,
     dm_Status = m_Status m, dm_Metadata = any_map (m_Metadata m), dm_CreatedAt = m_CreatedAt m, dm_UpdatedAt = m_UpdatedAt m\<rparr>"

section \<open>Organizations and project controls\<close>

record aiWorkspaceDTO =
  dw_ID :: string
  dw_Name :: string
  dw_CreatedAt :: string
  dw_ArchivedAt :: string
  dw_Archived :: bool

definition workspaceToDTO :: "OrgWorkspace \<Rightarrow> aiWorkspaceDTO" where
  "workspaceToDTO w = \<lparr>dw_ID = ow_ID w, dw_Name = ow_Name w, dw_CreatedAt = ow_CreatedAt w, dw_ArchivedAt = ow_ArchivedAt w,
     dw_Archived = (ow_ArchivedAt w \<noteq> [])\<rparr>"

text \<open>A rate limit is sent without the provider's raw row.\<close>

record aiProjectRateLimitDTO =
  dt_ID :: string
  dt_Model :: string
  dt_MaxRequestsPer1Minute :: float64
  dt_MaxTokensPer1Minute :: float64
  dt_MaxRequestsPer1Day :: float64
  dt_MaxImagesPer1Minute :: float64
  dt_MaxAudioMegabytesPer1Minute :: float64
  dt_Batch1DayMaxInputTokens :: float64

definition aiProjectRateLimitToDTO :: "ProjectRateLimit \<Rightarrow> aiProjectRateLimitDTO" where
  "aiProjectRateLimitToDTO l = \<lparr>dt_ID = rl_ID l, dt_Model = rl_Model l, dt_MaxRequestsPer1Minute = rl_MaxRequestsPer1Minute l,
     dt_MaxTokensPer1Minute = rl_MaxTokensPer1Minute l, dt_MaxRequestsPer1Day = rl_MaxRequestsPer1Day l,
     dt_MaxImagesPer1Minute = rl_MaxImagesPer1Minute l, dt_MaxAudioMegabytesPer1Minute = rl_MaxAudioMegabytesPer1Minute l,
     dt_Batch1DayMaxInputTokens = rl_Batch1DayMaxInputTokens l\<rparr>"

section \<open>MCP\<close>

record mcpServerDTO =
  dv_ID :: string
  dv_Name :: string
  dv_Transport :: string
  dv_Endpoint :: string
  dv_Description :: string
  dv_RiskTier :: string
  dv_AllowedTools :: "string list"
  dv_Status :: string
  dv_CreatedAt :: string

definition mcpServerToDTO :: "(uuid \<Rightarrow> string) \<Rightarrow> McpServer \<Rightarrow> mcpServerDTO" where
  "mcpServerToDTO str v = \<lparr>dv_ID = str (ms_ID v), dv_Name = ms_Name v, dv_Transport = ms_Transport v, dv_Endpoint = ms_Endpoint v,
     dv_Description = ms_Description v, dv_RiskTier = ms_RiskTier v, dv_AllowedTools = allowed_tools v,
     dv_Status = ms_Status v, dv_CreatedAt = FormatRFC3339 (ms_CreatedAt v)\<rparr>"

record mcpGrantDTO =
  dg_ID :: string
  dg_Server :: string
  dg_RiskTier :: string
  dg_Owner :: string
  dg_Status :: string
  dg_ExpiresAt :: string
  dg_GrantedBy :: string
  dg_CreatedAt :: string

definition mcpGrantToDTO :: "(uuid \<Rightarrow> string) \<Rightarrow> McpGrantRow \<Rightarrow> mcpGrantDTO" where
  "mcpGrantToDTO str g = \<lparr>dg_ID = str (g_ID g), dg_Server = g_ServerName g, dg_RiskTier = g_ServerRiskTier g, dg_Owner = g_Owner g,
     dg_Status = g_Status g, dg_ExpiresAt = (case g_ExpiresAt g of None \<Rightarrow> [] | Some t \<Rightarrow> FormatRFC3339 t),
     dg_GrantedBy = g_GrantedBy g, dg_CreatedAt = FormatRFC3339 (g_CreatedAt g)\<rparr>"

record meDTO =
  de_Email :: string
  de_Tenant :: string
  de_Role :: string

end
