(* ===== verification/Api.thy ===== *)
theory Api
  imports Dto Clients
begin

text \<open>
  The HTTP API's common part (\<open>internal/api/server.go\<close>, \<open>dto.go\<close>): a matched request, the replies a
  handler can give with the mapping of errors to status codes, and the decoding of request bodies. The
  router (\<open>chi\<close>) is not in the sources: a request carries the pattern it matched and the parameters of
  its path. \<open>encoding/json\<close> turns the values of a reply into text.
\<close>

section \<open>Requests and replies\<close>

record ApiRequest =
  aq_Method :: string
  aq_Pattern :: string
  aq_Params :: kv
  aq_Query :: kv
  aq_Authorization :: string
  aq_Body :: "err + payload"

definition URLParam :: "ApiRequest \<Rightarrow> string \<Rightarrow> string" where
  "URLParam q k = kv_at (aq_Params q) k"

definition QueryGet :: "ApiRequest \<Rightarrow> string \<Rightarrow> string" where
  "QueryGet q k = kv_at (aq_Query q) k"

text \<open>What the handlers hand to \<open>writeJSON\<close>. DTOs that repeat a type of \<open>aiproviders\<close> field by field are
  that type.\<close>

type_synonym aiProjectAPIKeyDTO = ProjectAPIKey
type_synonym aiProjectModelPermissionsDTO = ProjectModelPermissions
type_synonym aiProjectHostedToolPermissionsDTO = ProjectHostedToolPermissions
type_synonym aiProjectSpendAlertDTO = ProjectSpendAlert
type_synonym aiOrgUserDTO = OrgUser
type_synonym aiInviteDTO = InviteResult
type_synonym aiWorkspaceAccessDTO = WorkspaceAccess

datatype body =
    Fields obj
  | ProviderItem aiProviderDTO
  | ProviderList "aiProviderDTO list"
  | ServiceList "aiServiceDTO list"
  | RequestItem requestDTO
  | RequestList "requestDTO list"
  | InstanceList "aiInstanceDTO list"
  | ReviewList "aiAccessReviewDTO list"
  | UsageList "aiUsageDTO list"
  | AuditList "aiAuditDTO list"
  | BudgetItem aiBudgetDTO
  | BudgetList "aiBudgetDTO list"
  | QuotaItem aiQuotaDTO
  | QuotaList "aiQuotaDTO list"
  | PolicyItem aiPolicyDTO
  | PolicyList "aiPolicyDTO list"
  | ModelList "aiModelDTO list"
  | Imported ImportResult
  | SpendImported LiteLLMSpendImportResult
  | Whoami meDTO
  | OrgUserItem aiOrgUserDTO
  | OrgUserList "aiOrgUserDTO list"
  | WorkspaceItem aiWorkspaceDTO
  | WorkspaceList "aiWorkspaceDTO list"
  | InviteItem aiInviteDTO
  | InviteList "aiInviteDTO list"
  | AccessList "aiWorkspaceAccessDTO list"
  | ProjectKeyList "aiProjectAPIKeyDTO list"
  | RateLimitItem aiProjectRateLimitDTO
  | RateLimitList "aiProjectRateLimitDTO list"
  | ModelPermissions aiProjectModelPermissionsDTO
  | ToolPermissions aiProjectHostedToolPermissionsDTO
  | Retention string
  | SpendAlertItem aiProjectSpendAlertDTO
  | SpendAlertList "aiProjectSpendAlertDTO list"
  | McpServerItem mcpServerDTO
  | McpServerList "mcpServerDTO list"
  | McpGrantList "mcpGrantDTO list"
  | Authorized MCPAuthorizeResult

text \<open>A reply: a value with its status (and headers beyond the content type), an error with its status,
  a refusal of a middleware, an upstream answer passed on, an empty answer, or none, when the handler panics.\<close>

datatype reply =
    Reply kv nat body
  | Refuse nat err
  | Refused nat string
  | Relay nat string payload
  | NoContent
  | Aborted

definition writeErr :: "nat \<Rightarrow> err \<Rightarrow> reply" where
  "writeErr status e =
     (if isUniqueViolation e
      then Refuse 409 (Msg ''a resource with that name already exists in this environment - choose another name, or remove the existing one first (destroyed resources keep their name until removed)'')
      else Refuse (if IsAIEnforcementError e then 403 else status) e)"

section \<open>Handlers\<close>

text \<open>The server: the service, whether authentication is on, and \<open>mail.ParseAddress\<close> as a predicate.\<close>

record 'w Server =
  srv_svc :: "'w env"
  srv_authEnabled :: bool
  srv_ParseAddress :: "string \<Rightarrow> bool"

type_synonym 'w serving = "'w st \<Rightarrow> reply \<times> 'w st"
type_synonym 'w handler = "'w Server \<Rightarrow> ctx \<Rightarrow> ApiRequest \<Rightarrow> 'w serving"

definition uid :: "'w Server \<Rightarrow> uuid \<Rightarrow> string" where
  "uid S = env_uuid_string (srv_svc S)"

definition say :: "reply \<Rightarrow> 'w serving" where
  "say r s = (r, s)"

definition OK :: "body \<Rightarrow> reply" where "OK b = Reply [] 200 b"
definition Created :: "body \<Rightarrow> reply" where "Created b = Reply [] 201 b"

fun panics :: "err \<Rightarrow> bool" where
  "panics (Panic m) = True"
| "panics (Wrap c e) = panics e"
| "panics e = False"

text \<open>One call of the service: its error with the handler's status, or a reply made from its value.\<close>

definition answer :: "nat \<Rightarrow> ('w st, 'a) op \<Rightarrow> ('a \<Rightarrow> reply) \<Rightarrow> 'w serving" where
  "answer status m f s = (case m s of
     (Inl e, t) \<Rightarrow> (if panics e then Aborted else writeErr status e, t)
   | (Inr x, t) \<Rightarrow> (f x, t))"

text \<open>\<open>json.NewDecoder(r.Body).Decode\<close> and \<open>uuid.Parse\<close> of a path parameter, with the 400 of their errors,
  whose text is not modelled.\<close>

definition with_body :: "(json \<Rightarrow> 'a option) \<Rightarrow> ApiRequest \<Rightarrow> ('a \<Rightarrow> 'w serving) \<Rightarrow> 'w serving" where
  "with_body f q h = (case decode_body f (aq_Body q) of
     None \<Rightarrow> say (writeErr 400 (Msg ''invalid request body'')) | Some x \<Rightarrow> h x)"

definition with_id :: "'w Server \<Rightarrow> ApiRequest \<Rightarrow> (uuid \<Rightarrow> 'w serving) \<Rightarrow> 'w serving" where
  "with_id S q h = (case env_uuid_parse (srv_svc S) (URLParam q ''id'') of
     None \<Rightarrow> say (writeErr 400 (Msg ''invalid UUID'')) | Some k \<Rightarrow> h k)"

definition status_fields :: "string \<Rightarrow> body" where
  "status_fields v = Fields [(''status'', JStr v)]"

definition named_status :: "string \<Rightarrow> string \<Rightarrow> string \<Rightarrow> body" where
  "named_status k name v = Fields [(k, JStr name), (''status'', JStr v)]"

section \<open>Decoding request bodies\<close>

definition dec_object :: "json \<Rightarrow> obj option" where
  "dec_object v = (case v of JObj m \<Rightarrow> Some m | _ \<Rightarrow> None)"

definition dec_int32 :: "json \<Rightarrow> int option" where
  "dec_int32 v = Option.bind (dec_int v) (\<lambda>n. if - (2 ^ 31) \<le> n \<and> n < 2 ^ 31 then Some n else None)"

definition dec_float :: "json \<Rightarrow> float64 option" where
  "dec_float v = (case v of JNum x \<Rightarrow> Some x | _ \<Rightarrow> None)"

definition dec_text :: "json \<Rightarrow> string option" where
  "dec_text v = (case v of JStr s \<Rightarrow> Some s | _ \<Rightarrow> None)"

text \<open>A \<open>json.RawMessage\<close>: the last value under the key, of any kind.\<close>

fun dec_raw :: "string \<Rightarrow> obj \<Rightarrow> json option \<Rightarrow> json option" where
  "dec_raw k [] acc = acc"
| "dec_raw k ((k', v) # r) acc = dec_raw k r (if EqualFold k' k then Some v else acc)"

text \<open>A field of a body whose decoding error is dropped: a value of another type is skipped.\<close>

fun lax_field :: "(json \<Rightarrow> 'a option) \<Rightarrow> string \<Rightarrow> obj \<Rightarrow> 'a \<Rightarrow> 'a" where
  "lax_field f k [] acc = acc"
| "lax_field f k ((k', v) # r) acc =
     lax_field f k r (if EqualFold k' k then (case f v of Some x \<Rightarrow> x | None \<Rightarrow> acc) else acc)"

definition lax_object :: "ApiRequest \<Rightarrow> obj" where
  "lax_object q = (case aq_Body q of Inr (Doc (JObj m)) \<Rightarrow> m | _ \<Rightarrow> [])"

record decisionReq =
  de_By :: string
  de_Reason :: string

definition decision :: "ApiRequest \<Rightarrow> decisionReq" where
  "decision q = \<lparr>de_By = lax_field dec_text ''by'' (lax_object q) [],
     de_Reason = lax_field dec_text ''reason'' (lax_object q) []\<rparr>"

text \<open>\<open>body.By\<close>, or \<open>api\<close>.\<close>

definition decider :: "ApiRequest \<Rightarrow> string" where
  "decider q = (if de_By (decision q) = [] then ''api'' else de_By (decision q))"

text \<open>The caller's address, or the fallback.\<close>

definition actor_or :: "ctx \<Rightarrow> string \<Rightarrow> string" where
  "actor_or c fallback = (case c of Some i \<Rightarrow> if id_email i \<noteq> [] then id_email i else fallback | None \<Rightarrow> fallback)"

definition queryEnv :: "ApiRequest \<Rightarrow> string" where
  "queryEnv q = (if QueryGet q ''env'' = [] then ''dev'' else QueryGet q ''env'')"

text \<open>\<open>strconv.Atoi\<close>.\<close>

definition Atoi :: "string \<Rightarrow> int option" where
  "Atoi s = (let (neg, ds) = (case s of c # r \<Rightarrow> if c = CHR ''-'' then (True, r) else if c = CHR ''+'' then (False, r) else (False, s)
        | [] \<Rightarrow> (False, [])); n = (if neg then - digits_val ds else digits_val ds) in
     if ds \<noteq> [] \<and> list_all is_digit ds \<and> - (2 ^ 63) \<le> n \<and> n < 2 ^ 63 then Some n else None)"

text \<open>A positive number of the query, or the default.\<close>

definition query_days :: "ApiRequest \<Rightarrow> string \<Rightarrow> int \<Rightarrow> int" where
  "query_days q k d = (case Atoi (QueryGet q k) of Some n \<Rightarrow> if 0 < n then n else d | None \<Rightarrow> d)"

text \<open>The zero \<open>time.Time\<close> is \<open>None\<close>, also when it is spelled out.\<close>

definition set_time :: "time \<Rightarrow> time option" where
  "set_time t = (if t = Date 1 1 1 then None else Some t)"

definition parseOptionalTime :: "string \<Rightarrow> time option option" where
  "parseOptionalTime raw0 = (let raw = TrimSpace raw0 in
     if raw = [] then Some None
     else (case ParseRFC3339 raw of Some t \<Rightarrow> Some (set_time t) | None \<Rightarrow> map_option set_time (ParseDate raw)))"

end
