(* ===== verification/Handlers.thy ===== *)
theory Handlers
  imports Api
begin

text \<open>
  The handlers of the AI resources, requests and the caller (\<open>internal/api/ai.go\<close>, \<open>request.go\<close>, \<open>me.go\<close>):
  each decodes its request, makes one call of the service and answers.
\<close>

section \<open>Providers\<close>

definition listAIProviders :: "'w handler" where
  "listAIProviders S c q = answer 500 (ListAIProviders (srv_svc S) c) (\<lambda>ps. OK (ProviderList (map (aiProviderToDTO (uid S)) ps)))"

definition createAIProviderReq :: "json \<Rightarrow> AIProviderInput option" where
  "createAIProviderReq = dec_struct (\<lambda>m.
     Option.bind (dec_string ''name'' m []) (\<lambda>n. Option.bind (dec_string ''type'' m []) (\<lambda>t.
     Option.bind (dec_ptr dec_object ''config'' m None) (\<lambda>cfg. Option.bind (dec_string ''secretRef'' m []) (\<lambda>ref.
     Option.bind (dec_strings ''scopes'' m []) (\<lambda>sc.
     Some \<lparr>ap_Name = n, ap_Type = t, ap_Config = cfg, ap_SecretRef = ref, ap_Scopes = sc\<rparr>))))))"

definition createAIProvider :: "'w handler" where
  "createAIProvider S c q = with_body createAIProviderReq q (\<lambda>i.
     answer 400 (CreateAIProvider (srv_svc S) c i) (\<lambda>p. Created (ProviderItem (aiProviderToDTO (uid S) p))))"

definition updateAIProviderReq :: "json \<Rightarrow> UpdateAIProviderInput option" where
  "updateAIProviderReq = dec_struct (\<lambda>m.
     Option.bind (dec_ptr dec_object ''config'' m None) (\<lambda>cfg. Option.bind (dec_ptr dec_text ''secretRef'' m None) (\<lambda>ref.
     Option.bind (dec_string ''status'' m []) (\<lambda>st.
     Some \<lparr>up_Config = cfg, up_SecretRef = ref, up_Status = st\<rparr>))))"

definition updateAIProvider :: "'w handler" where
  "updateAIProvider S c q = with_body updateAIProviderReq q (\<lambda>i.
     answer 400 (UpdateAIProvider (srv_svc S) c (URLParam q ''name'') i) (\<lambda>p. OK (ProviderItem (aiProviderToDTO (uid S) p))))"

fun has_active_instances :: "err \<Rightarrow> bool" where
  "has_active_instances (ActiveInstances n) = True"
| "has_active_instances (Wrap x e) = has_active_instances e"
| "has_active_instances e = False"

text \<open>A provider with live instances is a conflict.\<close>

definition deleteAIProvider :: "'w handler" where
  "deleteAIProvider S c q s =
     (let name = URLParam q ''name'' in
      case DeleteAIProvider (srv_svc S) c name s of
        (Inl e, t) \<Rightarrow> (if panics e then Aborted else writeErr (if has_active_instances e then 409 else 400) e, t)
      | (Inr x, t) \<Rightarrow> (OK (named_status ''name'' name ''deleted''), t))"

definition checkAIProvider :: "'w handler" where
  "checkAIProvider S c q = (let name = URLParam q ''name'' in
     answer 400 (CheckAIProvider (srv_svc S) c name) (\<lambda>_. OK (named_status ''provider'' name ''ok'')))"

definition syncAIProvider :: "'w handler" where
  "syncAIProvider S c q = (let name = URLParam q ''name'' in
     answer 400 (SyncAIProviderServicesByName (srv_svc S) c name) (\<lambda>_. OK (named_status ''provider'' name ''synced'')))"

definition syncAIProviderModels :: "'w handler" where
  "syncAIProviderModels S c q = (let name = URLParam q ''name'' in
     answer 400 (SyncAIProviderModelsByName (srv_svc S) c name) (\<lambda>_. OK (named_status ''provider'' name ''models_synced'')))"

definition listAIServices :: "'w handler" where
  "listAIServices S c q = answer 500 (ListAIServices (srv_svc S)) (\<lambda>vs. OK (ServiceList (map (aiServiceToDTO (uid S)) vs)))"

definition listAIModels :: "'w handler" where
  "listAIModels S c q = answer 500 (ListAIModelCatalog (srv_svc S)) (\<lambda>ms. OK (ModelList (map (aiModelToDTO (uid S)) ms)))"

section \<open>Requests\<close>

definition listRequests :: "'w handler" where
  "listRequests S c q = answer 500 (ListRequests (srv_svc S) c) (\<lambda>rs. OK (RequestList (map (requestToDTO (uid S)) rs)))"

definition getRequest :: "'w handler" where
  "getRequest S c q = answer 404 (RequestStatus (srv_svc S) c (URLParam q ''name'') (queryEnv q))
     (\<lambda>r. OK (RequestItem (requestToDTO (uid S) r)))"

definition createRequestReq :: "json \<Rightarrow> (string \<times> string \<times> string \<times> string \<times> string \<times> string \<times> json) option" where
  "createRequestReq = dec_struct (\<lambda>m.
     Option.bind (dec_string ''name'' m []) (\<lambda>n. Option.bind (dec_string ''environment'' m []) (\<lambda>e.
     Option.bind (dec_string ''requester'' m []) (\<lambda>r. Option.bind (dec_string ''kind'' m []) (\<lambda>k.
     Option.bind (dec_string ''provider'' m []) (\<lambda>p. Option.bind (dec_string ''blueprint'' m []) (\<lambda>b.
     Some (n, e, r, k, p, b, (case dec_raw ''spec'' m None of None \<Rightarrow> JObj [] | Some j \<Rightarrow> j)))))))))"

definition createRequest :: "'w handler" where
  "createRequest S c q = with_body createRequestReq q (\<lambda>(n, e, r, k, p, b, spec).
     answer 400 (CreateRequest (srv_svc S) c n e r k p b spec) (\<lambda>x. Created (RequestItem (requestToDTO (uid S) x))))"

definition approveRequest :: "'w handler" where
  "approveRequest S c q = (let name = URLParam q ''name'' in
     answer 400 (ApproveRequest (srv_svc S) c name (queryEnv q) (decider q)) (\<lambda>_. OK (named_status ''name'' name ''approved'')))"

definition rejectRequest :: "'w handler" where
  "rejectRequest S c q = (let name = URLParam q ''name'' in
     answer 400 (RejectRequest (srv_svc S) c name (queryEnv q) (decider q) (de_Reason (decision q)))
       (\<lambda>_. OK (named_status ''name'' name ''rejected'')))"

definition listAIRequests :: "'w handler" where
  "listAIRequests S c q = answer 500 (ListAIRequests (srv_svc S) c) (\<lambda>rs. OK (RequestList (map (requestToDTO (uid S)) rs)))"

definition createAIRequestReq :: "json \<Rightarrow> CreateAIRequestInput option" where
  "createAIRequestReq = dec_struct (\<lambda>m.
     Option.bind (dec_string ''name'' m []) (\<lambda>n. Option.bind (dec_string ''requester'' m []) (\<lambda>r.
     Option.bind (dec_string ''serviceId'' m []) (\<lambda>i. Option.bind (dec_string ''serviceSlug'' m []) (\<lambda>sl.
     Option.bind (dec_string ''owner'' m []) (\<lambda>ow. Option.bind (dec_string ''workspace'' m []) (\<lambda>w.
     Option.bind (dec_string ''justification'' m []) (\<lambda>j. Option.bind (dec_string ''expiresAt'' m []) (\<lambda>x.
     Option.bind (dec_obj ''metadata'' m []) (\<lambda>md.
     Some \<lparr>in_Name = n, in_Requester = r, in_ServiceID = i, in_ServiceSlug = sl, in_Owner = ow, in_Workspace = w,
           in_Justification = j, in_ExpiresAt = x, in_Metadata = md\<rparr>))))))))))"

definition createAIRequest :: "'w handler" where
  "createAIRequest S c q = with_body createAIRequestReq q (\<lambda>i.
     answer 400 (CreateAIRequest (srv_svc S) c i) (\<lambda>x. Created (RequestItem (requestToDTO (uid S) x))))"

text \<open>AI requests are decided in the environment \<open>dev\<close>.\<close>

definition approveAIRequest :: "'w handler" where
  "approveAIRequest S c q = (let name = URLParam q ''name'' in
     answer 400 (ApproveRequest (srv_svc S) c name ''dev'' (decider q)) (\<lambda>_. OK (named_status ''name'' name ''approved'')))"

definition rejectAIRequest :: "'w handler" where
  "rejectAIRequest S c q = (let name = URLParam q ''name'' in
     answer 400 (RejectRequest (srv_svc S) c name ''dev'' (decider q) (de_Reason (decision q)))
       (\<lambda>_. OK (named_status ''name'' name ''rejected'')))"

section \<open>Instances\<close>

definition listAIInstances :: "'w handler" where
  "listAIInstances S c q = answer 500 (ListAIInstances (srv_svc S) c) (\<lambda>xs. OK (InstanceList (map (aiInstanceToDTO (uid S)) xs)))"

definition revealAIInstanceSecret :: "'w handler" where
  "revealAIInstanceSecret S c q = with_id S q (\<lambda>k.
     answer 400 (RevealAIInstanceSecret (srv_svc S) c k (actor_or c ''api''))
       (\<lambda>key. Reply [(''Cache-Control'', ''no-store'')] 200 (Fields [(''key'', JStr key)])))"

definition reapExpiredAIInstances :: "'w handler" where
  "reapExpiredAIInstances S c q = answer 400 (ReapExpiredAIInstances (srv_svc S) c)
     (\<lambda>n. OK (Fields [(''revoked'', JNum (of_nat n))]))"

definition revokeAIInstance :: "'w handler" where
  "revokeAIInstance S c q = with_id S q (\<lambda>k.
     answer 400 (RevokeAIInstance (srv_svc S) c k (de_By (decision q)))
       (\<lambda>i. OK (Fields [(''id'', JStr (uid S (i_ID i))), (''status'', JStr (i_Status i))])))"

definition recertifyAIInstance :: "'w handler" where
  "recertifyAIInstance S c q = with_id S q (\<lambda>k.
     answer 400 (RecertifyAIInstance (srv_svc S) c k (lax_field dec_int ''extendDays'' (lax_object q) 0)
         (actor_or c (lax_field dec_text ''by'' (lax_object q) [])))
       (\<lambda>i. OK (Fields [(''id'', JStr (uid S (i_ID i))), (''status'', JStr ''recertified'')])))"

definition listAIAccessReview :: "'w handler" where
  "listAIAccessReview S c q = answer 500 (ListAIAccessReview (srv_svc S) c (query_days q ''staleDays'' 90))
     (\<lambda>xs. OK (ReviewList (map (aiAccessReviewToDTO (uid S)) xs)))"

definition listAIRenewals :: "'w handler" where
  "listAIRenewals S c q = answer 500 (ListAIExpiringInstances (srv_svc S) c (wrap32 (query_days q ''days'' 30)))
     (\<lambda>xs. OK (InstanceList (map (aiInstanceToDTO (uid S)) xs)))"

section \<open>Usage and audit\<close>

definition listAIUsage :: "'w handler" where
  "listAIUsage S c q = answer 500 (ListAIUsageRecords (srv_svc S) c) (\<lambda>us. OK (UsageList (map (aiUsageToDTO (uid S)) us)))"

definition listAIAudit :: "'w handler" where
  "listAIAudit S c q = answer 500 (ListAIAuditEvents (srv_svc S) c 100) (\<lambda>es. OK (AuditList (map (aiAuditToDTO (uid S)) es)))"

text \<open>The name and the window of an import; both times must parse.\<close>

definition importUsageReq :: "json \<Rightarrow> (string \<times> time option \<times> time option) option" where
  "importUsageReq = dec_struct (\<lambda>m.
     Option.bind (dec_string ''providerName'' m []) (\<lambda>n. Option.bind (dec_string ''start'' m []) (\<lambda>a.
     Option.bind (dec_string ''end'' m []) (\<lambda>b.
     Option.bind (parseOptionalTime a) (\<lambda>start. Option.bind (parseOptionalTime b) (\<lambda>stop. Some (n, start, stop)))))))"

definition importOpenAIUsage :: "'w handler" where
  "importOpenAIUsage S c q = with_body importUsageReq q (\<lambda>(n, start, stop).
     answer 400 (ImportOpenAICosts (srv_svc S) c n start stop) (\<lambda>r. OK (Imported r)))"

definition importAnthropicUsage :: "'w handler" where
  "importAnthropicUsage S c q = with_body importUsageReq q (\<lambda>(n, start, stop).
     answer 400 (ImportAnthropicCosts (srv_svc S) c n start stop) (\<lambda>r. OK (Imported r)))"

definition importLiteLLMSpend :: "'w handler" where
  "importLiteLLMSpend S c q =
     answer 400 (ImportLiteLLMSpend (srv_svc S) c (lax_field dec_text ''providerName'' (lax_object q) [])) (\<lambda>r. OK (SpendImported r))"

section \<open>Rules\<close>

definition listAIBudgets :: "'w handler" where
  "listAIBudgets S c q = answer 500 (ListAIBudgetSummaries (srv_svc S) c) (\<lambda>bs. OK (BudgetList (map (aiBudgetSummaryToDTO (uid S)) bs)))"

definition createAIBudgetReq :: "json \<Rightarrow> AIBudgetInput option" where
  "createAIBudgetReq = dec_struct (\<lambda>m.
     Option.bind (dec_string ''scope'' m []) (\<lambda>a. Option.bind (dec_string ''scopeRef'' m []) (\<lambda>b.
     Option.bind (dec_num ''limitUsd'' m 0) (\<lambda>l. Option.bind (dec_string ''period'' m []) (\<lambda>p.
     Option.bind (dec_field dec_int32 ''softThresholdPct'' m 0) (\<lambda>x. Option.bind (dec_field dec_int32 ''hardThresholdPct'' m 0) (\<lambda>y.
     Some \<lparr>bi_Scope = a, bi_ScopeRef = b, bi_LimitUSD = l, bi_Period = p, bi_SoftThresholdPct = x, bi_HardThresholdPct = y\<rparr>)))))))"

definition createAIBudget :: "'w handler" where
  "createAIBudget S c q = with_body createAIBudgetReq q (\<lambda>i.
     answer 400 (CreateAIBudget (srv_svc S) c i) (\<lambda>b. Created (BudgetItem (aiBudgetSummaryToDTO (uid S) (fresh_summary b)))))"

definition updateAIBudget :: "'w handler" where
  "updateAIBudget S c q = with_id S q (\<lambda>k. with_body createAIBudgetReq q (\<lambda>i.
     answer 400 (UpdateAIBudget (srv_svc S) c k i) (\<lambda>b. OK (BudgetItem (aiBudgetSummaryToDTO (uid S) (fresh_summary b))))))"

definition deleteAIBudget :: "'w handler" where
  "deleteAIBudget S c q = with_id S q (\<lambda>k. answer 400 (DeleteAIBudget (srv_svc S) c k) (\<lambda>_. OK (status_fields ''deleted'')))"

definition listAIQuotas :: "'w handler" where
  "listAIQuotas S c q = answer 500 (ListAIQuotas (srv_svc S) c) (\<lambda>xs. OK (QuotaList (map (aiQuotaToDTO (uid S)) xs)))"

definition createAIQuotaReq :: "json \<Rightarrow> AIQuotaInput option" where
  "createAIQuotaReq = dec_struct (\<lambda>m.
     Option.bind (dec_string ''serviceSlug'' m []) (\<lambda>a. Option.bind (dec_string ''metric'' m []) (\<lambda>b.
     Option.bind (dec_num ''limitQuantity'' m 0) (\<lambda>l. Option.bind (dec_string ''period'' m []) (\<lambda>p.
     Option.bind (dec_string ''enforcement'' m []) (\<lambda>e.
     Some \<lparr>qi_ServiceSlug = a, qi_Metric = b, qi_LimitQuantity = l, qi_Period = p, qi_Enforcement = e\<rparr>))))))"

definition createAIQuota :: "'w handler" where
  "createAIQuota S c q = with_body createAIQuotaReq q (\<lambda>i.
     answer 400 (CreateAIQuota (srv_svc S) c i) (\<lambda>x. Created (QuotaItem (aiQuotaToDTO (uid S) x))))"

definition updateAIQuota :: "'w handler" where
  "updateAIQuota S c q = with_id S q (\<lambda>k. with_body createAIQuotaReq q (\<lambda>i.
     answer 400 (UpdateAIQuota (srv_svc S) c k (qi_LimitQuantity i) (qi_Period i) (qi_Enforcement i))
       (\<lambda>x. OK (QuotaItem (aiQuotaToDTO (uid S) x)))))"

definition deleteAIQuota :: "'w handler" where
  "deleteAIQuota S c q = with_id S q (\<lambda>k. answer 400 (DeleteAIQuota (srv_svc S) c k) (\<lambda>_. OK (status_fields ''deleted'')))"

definition listAIPolicies :: "'w handler" where
  "listAIPolicies S c q = answer 500 (ListAIAccessPolicies (srv_svc S) c) (\<lambda>xs. OK (PolicyList (map (aiPolicyToDTO (uid S)) xs)))"

definition createAIPolicyReq :: "json \<Rightarrow> AIAccessPolicyInput option" where
  "createAIPolicyReq = dec_struct (\<lambda>m.
     Option.bind (dec_string ''name'' m []) (\<lambda>a. Option.bind (dec_ptr dec_object ''rules'' m None) (\<lambda>r.
     Option.bind (dec_string ''status'' m []) (\<lambda>st. Some \<lparr>pi_Name = a, pi_Rules = r, pi_Status = st\<rparr>))))"

definition createAIPolicy :: "'w handler" where
  "createAIPolicy S c q = with_body createAIPolicyReq q (\<lambda>i.
     answer 400 (CreateAIAccessPolicy (srv_svc S) c i) (\<lambda>p. Created (PolicyItem (aiPolicyToDTO (uid S) p))))"

definition updateAIPolicy :: "'w handler" where
  "updateAIPolicy S c q = with_id S q (\<lambda>k. with_body createAIPolicyReq q (\<lambda>i.
     answer 400 (UpdateAIAccessPolicy (srv_svc S) c k (pi_Rules i) (pi_Status i)) (\<lambda>p. OK (PolicyItem (aiPolicyToDTO (uid S) p)))))"

definition deleteAIPolicy :: "'w handler" where
  "deleteAIPolicy S c q = with_id S q (\<lambda>k. answer 400 (DeleteAIAccessPolicy (srv_svc S) c k) (\<lambda>_. OK (status_fields ''deleted'')))"

section \<open>The gateways\<close>

definition relayed :: "AIGatewayResponse \<Rightarrow> reply" where
  "relayed r = Relay (gr_StatusCode r) (gr_ContentType r) (gr_Body r)"

definition gatewayOpenAIResponses :: "'w handler" where
  "gatewayOpenAIResponses S c q = (case aq_Body q of
     Inl e \<Rightarrow> say (writeErr 400 e)
   | Inr pl \<Rightarrow> answer 400 (GatewayOpenAIResponses (srv_svc S) c (QueryGet q ''provider'') pl) relayed)"

definition gatewayAnthropicMessages :: "'w handler" where
  "gatewayAnthropicMessages S c q = (case aq_Body q of
     Inl e \<Rightarrow> say (writeErr 400 e)
   | Inr pl \<Rightarrow> answer 400 (GatewayAnthropicMessages (srv_svc S) c (QueryGet q ''provider'') pl) relayed)"

section \<open>The caller\<close>

definition getMe :: "'w handler" where
  "getMe S c q = say (case c of
     None \<Rightarrow> Refuse 401 (Msg ''unknown error'')
   | Some i \<Rightarrow> OK (Whoami \<lparr>de_Email = id_email i, de_Tenant = id_tenant_name i, de_Role = id_role i\<rparr>))"

end
