(* ===== verification/AdminHandlers.thy ===== *)
theory AdminHandlers
  imports Handlers
begin

text \<open>
  The handlers of organization administration and of MCP governance (\<open>internal/api/ai_admin.go\<close>,
  \<open>mcp.go\<close>).
\<close>

section \<open>Organizations\<close>

definition listAIOrgUsers :: "'w handler" where
  "listAIOrgUsers S c q = answer 400 (ListAIOrgUsers (srv_svc S) (URLParam q ''name'')) (\<lambda>us. OK (OrgUserList us))"

definition listAIWorkspaces :: "'w handler" where
  "listAIWorkspaces S c q = answer 400 (ListAIWorkspaces (srv_svc S) (URLParam q ''name'')) (\<lambda>ws. OK (WorkspaceList (map workspaceToDTO ws)))"

definition listAIInvites :: "'w handler" where
  "listAIInvites S c q = answer 400 (ListAIInvites (srv_svc S) (URLParam q ''name'')) (\<lambda>ivs. OK (InviteList ivs))"

definition listAIWorkspaceAccess :: "'w handler" where
  "listAIWorkspaceAccess S c q = answer 400 (AIWorkspaceAccess (srv_svc S) (URLParam q ''name'') (URLParam q ''wsID'')) (\<lambda>xs. OK (AccessList xs))"

definition inviteUserReq :: "json \<Rightarrow> (string \<times> string) option" where
  "inviteUserReq = dec_struct (\<lambda>m. Option.bind (dec_string ''email'' m []) (\<lambda>e.
     Option.bind (dec_string ''role'' m []) (\<lambda>r. Some (e, r))))"

definition inviteAIOrgUser :: "'w handler" where
  "inviteAIOrgUser S c q = with_body inviteUserReq q (\<lambda>(e, r).
     answer 400 (InviteAIOrgUser (srv_svc S) c (URLParam q ''name'') e r) (\<lambda>i. Created (InviteItem i)))"

definition setOrgRoleReq :: "json \<Rightarrow> string option" where
  "setOrgRoleReq = dec_struct (\<lambda>m. dec_string ''role'' m [])"

definition setAIOrgRole :: "'w handler" where
  "setAIOrgRole S c q = with_body setOrgRoleReq q (\<lambda>r.
     answer 400 (SetAIOrgRole (srv_svc S) c (URLParam q ''name'') (URLParam q ''userID'') r) (\<lambda>u. OK (OrgUserItem u)))"

definition removeAIOrgUser :: "'w handler" where
  "removeAIOrgUser S c q = answer 400 (RemoveAIOrgUser (srv_svc S) c (URLParam q ''name'') (URLParam q ''userID''))
     (\<lambda>_. OK (status_fields ''removed''))"

definition createWorkspaceReq :: "json \<Rightarrow> string option" where
  "createWorkspaceReq = dec_struct (\<lambda>m. dec_string ''name'' m [])"

definition createAIWorkspace :: "'w handler" where
  "createAIWorkspace S c q = with_body createWorkspaceReq q (\<lambda>n.
     answer 400 (CreateAIWorkspace (srv_svc S) c (URLParam q ''name'') n) (\<lambda>w. Created (WorkspaceItem (workspaceToDTO w))))"

definition archiveAIWorkspace :: "'w handler" where
  "archiveAIWorkspace S c q = answer 400 (ArchiveAIWorkspace (srv_svc S) c (URLParam q ''name'') (URLParam q ''wsID''))
     (\<lambda>_. OK (status_fields ''archived''))"

definition grantAccessReq :: "json \<Rightarrow> (string \<times> string) option" where
  "grantAccessReq = dec_struct (\<lambda>m. Option.bind (dec_string ''userId'' m []) (\<lambda>u.
     Option.bind (dec_string ''role'' m []) (\<lambda>r. Some (u, r))))"

definition grantAIWorkspaceAccess :: "'w handler" where
  "grantAIWorkspaceAccess S c q = with_body grantAccessReq q (\<lambda>(u, r).
     answer 400 (GrantAIWorkspaceAccess (srv_svc S) c (URLParam q ''name'') (URLParam q ''wsID'') u r) (\<lambda>_. OK (status_fields ''granted'')))"

definition removeAIWorkspaceMember :: "'w handler" where
  "removeAIWorkspaceMember S c q =
     answer 400 (RemoveAIWorkspaceMember (srv_svc S) c (URLParam q ''name'') (URLParam q ''wsID'') (URLParam q ''userID''))
       (\<lambda>_. OK (status_fields ''removed''))"

section \<open>Project controls\<close>

definition listAIProjectAPIKeys :: "'w handler" where
  "listAIProjectAPIKeys S c q = answer 400 (ListAIProjectAPIKeys (srv_svc S) (URLParam q ''name'') (URLParam q ''wsID'')) (\<lambda>ks. OK (ProjectKeyList ks))"

definition listAIProjectRateLimits :: "'w handler" where
  "listAIProjectRateLimits S c q = answer 400 (ListAIProjectRateLimits (srv_svc S) (URLParam q ''name'') (URLParam q ''wsID''))
     (\<lambda>ls. OK (RateLimitList (map aiProjectRateLimitToDTO ls)))"

definition getAIProjectModelPermissions :: "'w handler" where
  "getAIProjectModelPermissions S c q = answer 400 (GetAIProjectModelPermissions (srv_svc S) (URLParam q ''name'') (URLParam q ''wsID''))
     (\<lambda>p. OK (ModelPermissions p))"

definition getAIProjectHostedToolPermissions :: "'w handler" where
  "getAIProjectHostedToolPermissions S c q =
     answer 400 (GetAIProjectHostedToolPermissions (srv_svc S) (URLParam q ''name'') (URLParam q ''wsID'')) (\<lambda>p. OK (ToolPermissions p))"

definition getAIProjectDataRetention :: "'w handler" where
  "getAIProjectDataRetention S c q = answer 400 (GetAIProjectDataRetention (srv_svc S) (URLParam q ''name'') (URLParam q ''wsID''))
     (\<lambda>ty. OK (Retention ty))"

definition listAIProjectSpendAlerts :: "'w handler" where
  "listAIProjectSpendAlerts S c q = answer 400 (ListAIProjectSpendAlerts (srv_svc S) (URLParam q ''name'') (URLParam q ''wsID''))
     (\<lambda>xs. OK (SpendAlertList xs))"

definition deleteAIProjectAPIKey :: "'w handler" where
  "deleteAIProjectAPIKey S c q =
     answer 400 (DeleteAIProjectAPIKey (srv_svc S) c (URLParam q ''name'') (URLParam q ''wsID'') (URLParam q ''keyID''))
       (\<lambda>_. OK (status_fields ''deleted''))"

definition updateProjectRateLimitReq :: "json \<Rightarrow> ProjectRateLimitUpdate option" where
  "updateProjectRateLimitReq = dec_struct (\<lambda>m.
     Option.bind (dec_ptr dec_float ''maxRequestsPer1Minute'' m None) (\<lambda>a.
     Option.bind (dec_ptr dec_float ''maxTokensPer1Minute'' m None) (\<lambda>b.
     Option.bind (dec_ptr dec_float ''maxRequestsPer1Day'' m None) (\<lambda>d.
     Option.bind (dec_ptr dec_float ''maxImagesPer1Minute'' m None) (\<lambda>e.
     Option.bind (dec_ptr dec_float ''maxAudioMegabytesPer1Minute'' m None) (\<lambda>f.
     Option.bind (dec_ptr dec_float ''batch1DayMaxInputTokens'' m None) (\<lambda>g.
     Some \<lparr>ru_MaxRequestsPer1Minute = a, ru_MaxTokensPer1Minute = b, ru_MaxRequestsPer1Day = d, ru_MaxImagesPer1Minute = e,
           ru_MaxAudioMegabytesPer1Minute = f, ru_Batch1DayMaxInputTokens = g\<rparr>)))))))"

definition updateAIProjectRateLimit :: "'w handler" where
  "updateAIProjectRateLimit S c q = with_body updateProjectRateLimitReq q (\<lambda>u.
     answer 400 (UpdateAIProjectRateLimit (srv_svc S) c (URLParam q ''name'') (URLParam q ''wsID'') (URLParam q ''rateLimitID'') u)
       (\<lambda>l. OK (RateLimitItem (aiProjectRateLimitToDTO l))))"

definition modelPermissionsReq :: "json \<Rightarrow> ProjectModelPermissions option" where
  "modelPermissionsReq = dec_struct (\<lambda>m. Option.bind (dec_string ''mode'' m []) (\<lambda>x.
     Option.bind (dec_strings ''modelIds'' m []) (\<lambda>ids. Some \<lparr>pm_Mode = x, pm_ModelIDs = ids\<rparr>)))"

definition setAIProjectModelPermissions :: "'w handler" where
  "setAIProjectModelPermissions S c q = with_body modelPermissionsReq q (\<lambda>p.
     answer 400 (SetAIProjectModelPermissions (srv_svc S) c (URLParam q ''name'') (URLParam q ''wsID'') p) (\<lambda>r. OK (ModelPermissions r)))"

definition deleteAIProjectModelPermissions :: "'w handler" where
  "deleteAIProjectModelPermissions S c q =
     answer 400 (DeleteAIProjectModelPermissions (srv_svc S) c (URLParam q ''name'') (URLParam q ''wsID'')) (\<lambda>_. OK (status_fields ''deleted''))"

definition toolPermissionsReq :: "json \<Rightarrow> ProjectHostedToolPermissions option" where
  "toolPermissionsReq = dec_struct (\<lambda>m.
     Option.bind (dec_field dec_bool ''codeInterpreter'' m False) (\<lambda>a. Option.bind (dec_field dec_bool ''fileSearch'' m False) (\<lambda>b.
     Option.bind (dec_field dec_bool ''imageGeneration'' m False) (\<lambda>d. Option.bind (dec_field dec_bool ''mcp'' m False) (\<lambda>e.
     Option.bind (dec_field dec_bool ''webSearch'' m False) (\<lambda>f.
     Some \<lparr>ht_CodeInterpreter = a, ht_FileSearch = b, ht_ImageGeneration = d, ht_MCP = e, ht_WebSearch = f\<rparr>))))))"

definition setAIProjectHostedToolPermissions :: "'w handler" where
  "setAIProjectHostedToolPermissions S c q = with_body toolPermissionsReq q (\<lambda>p.
     answer 400 (SetAIProjectHostedToolPermissions (srv_svc S) c (URLParam q ''name'') (URLParam q ''wsID'') p) (\<lambda>r. OK (ToolPermissions r)))"

definition dataRetentionReq :: "json \<Rightarrow> string option" where
  "dataRetentionReq = dec_struct (\<lambda>m. dec_string ''type'' m [])"

definition setAIProjectDataRetention :: "'w handler" where
  "setAIProjectDataRetention S c q = with_body dataRetentionReq q (\<lambda>ty.
     answer 400 (SetAIProjectDataRetention (srv_svc S) c (URLParam q ''name'') (URLParam q ''wsID'') ty) (\<lambda>r. OK (Retention r)))"

record projectSpendAlertReq =
  sq_ThresholdCents :: float64
  sq_ThresholdUSD :: float64
  sq_Recipients :: "string list"
  sq_SubjectPrefix :: string

definition dec_spend_alert :: "json \<Rightarrow> projectSpendAlertReq option" where
  "dec_spend_alert = dec_struct (\<lambda>m.
     Option.bind (dec_num ''thresholdCents'' m 0) (\<lambda>a. Option.bind (dec_num ''thresholdUsd'' m 0) (\<lambda>b.
     Option.bind (dec_strings ''recipients'' m []) (\<lambda>rs. Option.bind (dec_string ''subjectPrefix'' m []) (\<lambda>x.
     Some \<lparr>sq_ThresholdCents = a, sq_ThresholdUSD = b, sq_Recipients = rs, sq_SubjectPrefix = x\<rparr>)))))"

text \<open>The recipients, trimmed, without the blank ones; one that is no address spoils the request.\<close>

definition alert_input :: "(string \<Rightarrow> bool) \<Rightarrow> projectSpendAlertReq \<Rightarrow> ProjectSpendAlertInput option" where
  "alert_input address r =
     (let cents = (if sq_ThresholdCents r = 0 \<and> sq_ThresholdUSD r > 0 then fmul (sq_ThresholdUSD r) 100 else sq_ThresholdCents r);
          recipients = filter (\<lambda>e. e \<noteq> []) (map TrimSpace (sq_Recipients r)) in
      if list_all address recipients
      then Some \<lparr>si_ThresholdCents = cents, si_Recipients = Some recipients, si_SubjectPrefix = sq_SubjectPrefix r\<rparr>
      else None)"

definition spendAlertReq :: "'w Server \<Rightarrow> json \<Rightarrow> ProjectSpendAlertInput option" where
  "spendAlertReq S j = Option.bind (dec_spend_alert j) (alert_input (srv_ParseAddress S))"

definition createAIProjectSpendAlert :: "'w handler" where
  "createAIProjectSpendAlert S c q = with_body (spendAlertReq S) q (\<lambda>i.
     answer 400 (CreateAIProjectSpendAlert (srv_svc S) c (URLParam q ''name'') (URLParam q ''wsID'') i) (\<lambda>a. Created (SpendAlertItem a)))"

definition updateAIProjectSpendAlert :: "'w handler" where
  "updateAIProjectSpendAlert S c q = with_body (spendAlertReq S) q (\<lambda>i.
     answer 400 (UpdateAIProjectSpendAlert (srv_svc S) c (URLParam q ''name'') (URLParam q ''wsID'') (URLParam q ''alertID'') i)
       (\<lambda>a. OK (SpendAlertItem a)))"

definition deleteAIProjectSpendAlert :: "'w handler" where
  "deleteAIProjectSpendAlert S c q =
     answer 400 (DeleteAIProjectSpendAlert (srv_svc S) c (URLParam q ''name'') (URLParam q ''wsID'') (URLParam q ''alertID''))
       (\<lambda>_. OK (status_fields ''deleted''))"

section \<open>MCP\<close>

definition listMCPServers :: "'w handler" where
  "listMCPServers S c q = answer 400 (ListMCPServers (srv_svc S) c) (\<lambda>vs. OK (McpServerList (map (mcpServerToDTO (uid S)) vs)))"

definition registerMCPServerReq :: "json \<Rightarrow> MCPServerInput option" where
  "registerMCPServerReq = dec_struct (\<lambda>m.
     Option.bind (dec_string ''name'' m []) (\<lambda>n. Option.bind (dec_string ''transport'' m []) (\<lambda>t.
     Option.bind (dec_string ''endpoint'' m []) (\<lambda>e. Option.bind (dec_string ''description'' m []) (\<lambda>d.
     Option.bind (dec_string ''riskTier'' m []) (\<lambda>r. Option.bind (dec_strings ''allowedTools'' m []) (\<lambda>ts.
     Some \<lparr>mi_Name = n, mi_Transport = t, mi_Endpoint = e, mi_Description = d, mi_RiskTier = r, mi_AllowedTools = ts\<rparr>)))))))"

definition registerMCPServer :: "'w handler" where
  "registerMCPServer S c q = with_body registerMCPServerReq q (\<lambda>i.
     answer 400 (RegisterMCPServer (srv_svc S) c i) (\<lambda>v. Created (McpServerItem (mcpServerToDTO (uid S) v))))"

definition deleteMCPServer :: "'w handler" where
  "deleteMCPServer S c q = answer 400 (DeleteMCPServer (srv_svc S) c (URLParam q ''name'')) (\<lambda>_. OK (status_fields ''deleted''))"

definition listMCPGrants :: "'w handler" where
  "listMCPGrants S c q = answer 400 (ListMCPGrants (srv_svc S) c) (\<lambda>gs. OK (McpGrantList (map (mcpGrantToDTO (uid S)) gs)))"

text \<open>The expiry of a grant: none, or an RFC 3339 time.\<close>

definition grantMCPReq :: "json \<Rightarrow> (string \<times> string \<times> time option \<times> string) option" where
  "grantMCPReq = dec_struct (\<lambda>m.
     Option.bind (dec_string ''server'' m []) (\<lambda>v. Option.bind (dec_string ''owner'' m []) (\<lambda>ow.
     Option.bind (dec_string ''expiresAt'' m []) (\<lambda>x. Option.bind (dec_string ''grantedBy'' m []) (\<lambda>by'.
     Option.bind (if x = [] then Some None else map_option Some (ParseRFC3339 x)) (\<lambda>exp'.
     Some (v, ow, exp', by')))))))"

definition new_grant_fields :: "'w Server \<Rightarrow> McpGrant \<Rightarrow> body" where
  "new_grant_fields S g = Fields [(''id'', JStr (uid S (g_ID g))), (''owner'', JStr (g_Owner g)), (''status'', JStr (g_Status g))]"

definition decided_grant_fields :: "'w Server \<Rightarrow> McpGrant \<Rightarrow> body" where
  "decided_grant_fields S g = Fields [(''id'', JStr (uid S (g_ID g))), (''status'', JStr (g_Status g))]"

definition grantMCPAccess :: "'w handler" where
  "grantMCPAccess S c q = with_body grantMCPReq q (\<lambda>(v, ow, exp', by').
     answer 400 (GrantMCPAccess (srv_svc S) c v ow exp' by') (\<lambda>g. Created (new_grant_fields S g)))"

definition requestMCPReq :: "json \<Rightarrow> (string \<times> string \<times> string) option" where
  "requestMCPReq = dec_struct (\<lambda>m.
     Option.bind (dec_string ''server'' m []) (\<lambda>v. Option.bind (dec_string ''owner'' m []) (\<lambda>ow.
     Option.bind (dec_string ''requester'' m []) (\<lambda>r. Some (v, ow, r)))))"

definition requestMCPAccess :: "'w handler" where
  "requestMCPAccess S c q = with_body requestMCPReq q (\<lambda>(v, ow, r).
     answer 400 (RequestMCPAccess (srv_svc S) c v ow r) (\<lambda>g. Created (new_grant_fields S g)))"

definition approveMCPGrant :: "'w handler" where
  "approveMCPGrant S c q = with_id S q (\<lambda>k.
     answer 400 (ApproveMCPGrant (srv_svc S) c k (de_By (decision q))) (\<lambda>g. OK (decided_grant_fields S g)))"

definition rejectMCPGrant :: "'w handler" where
  "rejectMCPGrant S c q = with_id S q (\<lambda>k.
     answer 400 (RejectMCPGrant (srv_svc S) c k (de_By (decision q))) (\<lambda>g. OK (decided_grant_fields S g)))"

definition revokeMCPGrant :: "'w handler" where
  "revokeMCPGrant S c q = with_id S q (\<lambda>k.
     answer 400 (RevokeMCPGrant (srv_svc S) c k (de_By (decision q))) (\<lambda>g. OK (decided_grant_fields S g)))"

text \<open>The answer is the verdict; a denial has the status of one.\<close>

definition authorizeMCP :: "'w handler" where
  "authorizeMCP S c q =
     answer 400 (AuthorizeMCP (srv_svc S) c (QueryGet q ''server'') (QueryGet q ''owner'') (QueryGet q ''tool''))
       (\<lambda>r. Reply [] (if mr_Allowed r then 200 else 403) (Authorized r))"

end
