(* ===== verification/Routes.thy ===== *)
theory Routes
  imports AdminHandlers
begin

text \<open>
  The route table and the way of a request through the middlewares (\<open>internal/api/server.go\<close>, \<open>Routes\<close>):
  preflight, health check, authentication, role, handler.
\<close>

section \<open>The table\<close>

type_synonym 'w route = "(string \<times> string) \<times> 'w handler"

text \<open>Reads, and what a viewer may ask for.\<close>

definition viewer_routes :: "'w route list" where
  "viewer_routes =
    [((''GET'', ''/me''), getMe),
     ((''GET'', ''/requests''), listRequests),
     ((''GET'', ''/requests/{name}''), getRequest),
     ((''GET'', ''/ai/providers''), listAIProviders),
     ((''GET'', ''/ai/services''), listAIServices),
     ((''GET'', ''/ai/requests''), listAIRequests),
     ((''GET'', ''/ai/instances''), listAIInstances),
     ((''GET'', ''/ai/usage''), listAIUsage),
     ((''GET'', ''/ai/budgets''), listAIBudgets),
     ((''GET'', ''/ai/quotas''), listAIQuotas),
     ((''GET'', ''/ai/policies''), listAIPolicies),
     ((''GET'', ''/ai/models''), listAIModels),
     ((''GET'', ''/ai/renewals''), listAIRenewals),
     ((''GET'', ''/ai/access-review''), listAIAccessReview),
     ((''GET'', ''/ai/audit''), listAIAudit),
     ((''GET'', ''/ai/admin/{name}/users''), listAIOrgUsers),
     ((''GET'', ''/ai/admin/{name}/workspaces''), listAIWorkspaces),
     ((''GET'', ''/ai/admin/{name}/invites''), listAIInvites),
     ((''GET'', ''/ai/admin/{name}/workspaces/{wsID}/access''), listAIWorkspaceAccess),
     ((''GET'', ''/ai/admin/{name}/workspaces/{wsID}/api-keys''), listAIProjectAPIKeys),
     ((''GET'', ''/ai/admin/{name}/workspaces/{wsID}/rate-limits''), listAIProjectRateLimits),
     ((''GET'', ''/ai/admin/{name}/workspaces/{wsID}/model-permissions''), getAIProjectModelPermissions),
     ((''GET'', ''/ai/admin/{name}/workspaces/{wsID}/tool-permissions''), getAIProjectHostedToolPermissions),
     ((''GET'', ''/ai/admin/{name}/workspaces/{wsID}/data-retention''), getAIProjectDataRetention),
     ((''GET'', ''/ai/admin/{name}/workspaces/{wsID}/spend-alerts''), listAIProjectSpendAlerts),
     ((''GET'', ''/ai/mcp/servers''), listMCPServers),
     ((''GET'', ''/ai/mcp/grants''), listMCPGrants),
     ((''GET'', ''/ai/mcp/authorize''), authorizeMCP),
     ((''POST'', ''/ai/mcp/requests''), requestMCPAccess)]"

text \<open>Writes.\<close>

definition operator_routes :: "'w route list" where
  "operator_routes =
    [((''POST'', ''/requests''), createRequest),
     ((''POST'', ''/requests/{name}/approve''), approveRequest),
     ((''POST'', ''/requests/{name}/reject''), rejectRequest),
     ((''POST'', ''/ai/providers''), createAIProvider),
     ((''PATCH'', ''/ai/providers/{name}''), updateAIProvider),
     ((''DELETE'', ''/ai/providers/{name}''), deleteAIProvider),
     ((''POST'', ''/ai/providers/{name}/check''), checkAIProvider),
     ((''POST'', ''/ai/providers/{name}/sync''), syncAIProvider),
     ((''POST'', ''/ai/providers/{name}/sync-models''), syncAIProviderModels),
     ((''POST'', ''/ai/requests''), createAIRequest),
     ((''POST'', ''/ai/requests/{name}/approve''), approveAIRequest),
     ((''POST'', ''/ai/requests/{name}/reject''), rejectAIRequest),
     ((''POST'', ''/ai/instances/{id}/revoke''), revokeAIInstance),
     ((''GET'', ''/ai/instances/{id}/secret''), revealAIInstanceSecret),
     ((''POST'', ''/ai/instances/{id}/recertify''), recertifyAIInstance),
     ((''POST'', ''/ai/instances/reap-expired''), reapExpiredAIInstances),
     ((''POST'', ''/ai/mcp/servers''), registerMCPServer),
     ((''DELETE'', ''/ai/mcp/servers/{name}''), deleteMCPServer),
     ((''POST'', ''/ai/mcp/grants''), grantMCPAccess),
     ((''POST'', ''/ai/mcp/grants/{id}/approve''), approveMCPGrant),
     ((''POST'', ''/ai/mcp/grants/{id}/reject''), rejectMCPGrant),
     ((''POST'', ''/ai/mcp/grants/{id}/revoke''), revokeMCPGrant),
     ((''POST'', ''/ai/budgets''), createAIBudget),
     ((''PATCH'', ''/ai/budgets/{id}''), updateAIBudget),
     ((''DELETE'', ''/ai/budgets/{id}''), deleteAIBudget),
     ((''POST'', ''/ai/quotas''), createAIQuota),
     ((''PATCH'', ''/ai/quotas/{id}''), updateAIQuota),
     ((''DELETE'', ''/ai/quotas/{id}''), deleteAIQuota),
     ((''POST'', ''/ai/policies''), createAIPolicy),
     ((''PATCH'', ''/ai/policies/{id}''), updateAIPolicy),
     ((''DELETE'', ''/ai/policies/{id}''), deleteAIPolicy),
     ((''POST'', ''/ai/usage/import/openai''), importOpenAIUsage),
     ((''POST'', ''/ai/usage/import/anthropic''), importAnthropicUsage),
     ((''POST'', ''/ai/usage/import/litellm''), importLiteLLMSpend),
     ((''POST'', ''/ai/admin/{name}/invites''), inviteAIOrgUser),
     ((''POST'', ''/ai/admin/{name}/users/{userID}/role''), setAIOrgRole),
     ((''DELETE'', ''/ai/admin/{name}/users/{userID}''), removeAIOrgUser),
     ((''POST'', ''/ai/admin/{name}/workspaces''), createAIWorkspace),
     ((''POST'', ''/ai/admin/{name}/workspaces/{wsID}/archive''), archiveAIWorkspace),
     ((''POST'', ''/ai/admin/{name}/workspaces/{wsID}/members''), grantAIWorkspaceAccess),
     ((''DELETE'', ''/ai/admin/{name}/workspaces/{wsID}/members/{userID}''), removeAIWorkspaceMember),
     ((''DELETE'', ''/ai/admin/{name}/workspaces/{wsID}/api-keys/{keyID}''), deleteAIProjectAPIKey),
     ((''POST'', ''/ai/admin/{name}/workspaces/{wsID}/rate-limits/{rateLimitID}''), updateAIProjectRateLimit),
     ((''POST'', ''/ai/admin/{name}/workspaces/{wsID}/model-permissions''), setAIProjectModelPermissions),
     ((''DELETE'', ''/ai/admin/{name}/workspaces/{wsID}/model-permissions''), deleteAIProjectModelPermissions),
     ((''POST'', ''/ai/admin/{name}/workspaces/{wsID}/tool-permissions''), setAIProjectHostedToolPermissions),
     ((''POST'', ''/ai/admin/{name}/workspaces/{wsID}/data-retention''), setAIProjectDataRetention),
     ((''POST'', ''/ai/admin/{name}/workspaces/{wsID}/spend-alerts''), createAIProjectSpendAlert),
     ((''POST'', ''/ai/admin/{name}/workspaces/{wsID}/spend-alerts/{alertID}''), updateAIProjectSpendAlert),
     ((''DELETE'', ''/ai/admin/{name}/workspaces/{wsID}/spend-alerts/{alertID}''), deleteAIProjectSpendAlert),
     ((''POST'', ''/ai/gateway/openai/responses''), gatewayOpenAIResponses),
     ((''POST'', ''/ai/gateway/anthropic/messages''), gatewayAnthropicMessages)]"

text \<open>The role a route asks for, with its handler.\<close>

definition find_route :: "ApiRequest \<Rightarrow> (string \<times> 'w handler) option" where
  "find_route q = (case map_of viewer_routes (aq_Method q, aq_Pattern q) of
     Some h \<Rightarrow> Some (RoleViewer, h)
   | None \<Rightarrow> map_option (Pair RoleOperator) (map_of operator_routes (aq_Method q, aq_Pattern q)))"

text \<open>What the router answers when nothing matched: another method of a path it knows, or not found.\<close>

definition unrouted :: "'w Server \<Rightarrow> ApiRequest \<Rightarrow> reply" where
  "unrouted S q = (if aq_Pattern q \<in> (snd \<circ> fst) ` set (viewer_routes @ operator_routes :: 'w route list)
     then Refused 405 [] else Refused 404 ''404 page not found'')"

section \<open>Serving a request\<close>

definition authenticate :: "'w Server \<Rightarrow> ApiRequest \<Rightarrow> 'w st \<Rightarrow> gate" where
  "authenticate S q s = Middleware (resolver (srv_svc S) s) (srv_authEnabled S) (aq_Authorization q)"

text \<open>A request under \<open>/api/v1\<close>, past the preflight; what matched no route is answered by the router.\<close>

definition serve_api :: "'w Server \<Rightarrow> ApiRequest \<Rightarrow> 'w serving" where
  "serve_api S q s =
     (case authenticate S q s of
        Deny n m \<Rightarrow> (Refused n m, s)
      | Pass c \<Rightarrow>
          (case find_route q of
             None \<Rightarrow> (unrouted S q, s)
           | Some (need, h) \<Rightarrow>
               (case RequireRole need c of
                  Deny n m \<Rightarrow> (Refused n m, s)
                | Pass c' \<Rightarrow> h S c' q s)))"

text \<open>Every request: CORS answers a preflight itself, and the health check asks for no key.\<close>

definition serve :: "'w Server \<Rightarrow> ApiRequest \<Rightarrow> 'w serving" where
  "serve S q s =
     (if aq_Method q = ''OPTIONS'' then (NoContent, s)
      else if aq_Pattern q = ''/healthz'' then (if aq_Method q = ''GET'' then OK (status_fields ''ok'') else Refused 405 [], s)
      else serve_api S q s)"

end
