(* ===== verification/ApiSteps.thy ===== *)
theory ApiSteps
  imports Routes Isolation
begin

text \<open>
  What a request can do to the store, route by route: every handler runs one command of the system as its
  caller, or only asks the backends (\<open>follows\<close>), and what a viewer is offered writes nothing but the audit
  trail and requested MCP grants (\<open>visited\<close>). \<open>kept\<close> is \<open>rel\<close> for handlers.
\<close>

section \<open>Carrying a relation through a handler\<close>

definition told :: "('w st \<Rightarrow> reply \<times> 'w st \<Rightarrow> bool) \<Rightarrow> 'w serving \<Rightarrow> bool" where
  "told R v \<longleftrightarrow> (\<forall>s. R s (v s))"

lemma told_say: "(\<And>s. R s (r, s)) \<Longrightarrow> told R (say r)"
  by (simp add: told_def say_def)

text \<open>The errors of decoding come before the service is called.\<close>

lemma told_with_body:
  "(\<And>s. R s (writeErr 400 (Msg ''invalid request body''), s)) \<Longrightarrow> (\<And>x. told R (h x)) \<Longrightarrow> told R (with_body f q h)"
  by (simp add: with_body_def told_say split: option.split)

lemma told_with_id:
  "(\<And>s. R s (writeErr 400 (Msg ''invalid UUID''), s)) \<Longrightarrow> (\<And>x. told R (h x)) \<Longrightarrow> told R (with_id S q h)"
  by (simp add: with_id_def told_say split: option.split)

lemma told_case_prod: "(\<And>a b. told R (f a b)) \<Longrightarrow> told R (case_prod f x)"
  by (cases x) simp

lemma told_case_sum: "(\<And>a. told R (f a)) \<Longrightarrow> (\<And>b. told R (g b)) \<Longrightarrow> told R (case_sum f g x)"
  by (cases x) simp_all

lemmas told_rules = told_say told_with_body told_with_id told_case_prod told_case_sum

text \<open>A relation of states alone.\<close>

definition kept :: "('w st \<Rightarrow> 'w st \<Rightarrow> bool) \<Rightarrow> 'w serving \<Rightarrow> bool" where
  "kept R = told (\<lambda>s rt. R s (snd rt))"

lemma kept_answer: "rel R m \<Longrightarrow> kept R (answer n m f)"
  by (auto simp: kept_def told_def answer_def rel_def split: prod.splits sum.splits) (metis snd_conv)+

section \<open>Reading\<close>

text \<open>Only the backends have been asked.\<close>

definition untouched :: "'w st \<Rightarrow> 'w st \<Rightarrow> bool" where
  "untouched s t \<longleftrightarrow> (\<exists>w. t = s\<lparr>st_world := w\<rparr>)"

lemma untouched_refl [simp]: "untouched s s"
  unfolding untouched_def by (rule exI [of _ "st_world s"]) simp

interpretation untouched: query_rel untouched
  by unfold_locales (auto simp: untouched_def intro: untouched_refl [unfolded untouched_def])

lemma untouched_on_world: "rel untouched (on_world m)"
  by (auto simp: rel_def on_world_def untouched_def split: prod.splits)

lemma untouched_lists:
  "rel untouched (ListAIProviders E c)" "rel untouched (ListAIServices E)" "rel untouched (ListAIModelCatalog E)"
  "rel untouched (ListRequests E c)" "rel untouched (ListAIRequests E c)" "rel untouched (RequestStatus E c name environment)"
  "rel untouched (ListAIInstances E c)" "rel untouched (ListAIAccessReview E c days)"
  "rel untouched (ListAIExpiringInstances E c n)" "rel untouched (ListAIUsageRecords E c)"
  "rel untouched (ListAIBudgetSummaries E c)" "rel untouched (ListAIQuotas E c)" "rel untouched (ListAIAccessPolicies E c)"
  "rel untouched (ListAIAuditEvents E c n)" "rel untouched (ListMCPServers E c)" "rel untouched (ListMCPGrants E c)"
  unfolding ListAIProviders_def ListAIServices_def ListAIModelCatalog_def ListRequests_def ListAIRequests_def RequestStatus_def
    find_request_def ListAIInstances_def ListAIAccessReview_def ListAIExpiringInstances_def ListAIUsageRecords_def
    ListAIBudgetSummaries_def ListAIQuotas_def ListAIAccessPolicies_def ListAIAuditEvents_def ListMCPServers_def ListMCPGrants_def
  by (intro untouched.query_rules)+

lemma untouched_admin:
  "rel untouched (adminFor E name)" "rel untouched (projectControlsFor E name)"
  unfolding adminFor_def projectControlsFor_def by (intro untouched.query_rules untouched_on_world)+

lemma untouched_org:
  "rel untouched (ListAIOrgUsers E name)" "rel untouched (ListAIWorkspaces E name)" "rel untouched (ListAIInvites E name)"
  "rel untouched (AIWorkspaceAccess E name ws)" "rel untouched (ListAIProjectAPIKeys E name ws)"
  "rel untouched (ListAIProjectRateLimits E name ws)" "rel untouched (GetAIProjectModelPermissions E name ws)"
  "rel untouched (GetAIProjectHostedToolPermissions E name ws)" "rel untouched (GetAIProjectDataRetention E name ws)"
  "rel untouched (ListAIProjectSpendAlerts E name ws)"
  unfolding ListAIOrgUsers_def ListAIWorkspaces_def ListAIInvites_def AIWorkspaceAccess_def ListAIProjectAPIKeys_def
    ListAIProjectRateLimits_def GetAIProjectModelPermissions_def GetAIProjectHostedToolPermissions_def
    GetAIProjectDataRetention_def ListAIProjectSpendAlerts_def
  by (intro untouched.query_rules untouched_on_world untouched_admin)+

lemmas untouched_rules = untouched_lists untouched_org

section \<open>Commanding\<close>

text \<open>An operation that is a command of the system, up to its value.\<close>

definition does :: "'w env \<Rightarrow> ctx \<Rightarrow> ('w st, 'a) op \<Rightarrow> bool" where
  "does E c m \<longleftrightarrow> (\<exists>k. \<forall>s. snd (m s) = snd (run E c k s) \<and> isl (fst (m s)) = isl (fst (run E c k s)))"

lemma does_run: "run E c k = m \<Longrightarrow> does E c m"
  by (auto simp: does_def)

lemma isl_discard: "isl (fst (discard m s)) = isl (fst (m s))"
  by (simp add: discard_def fst_bindE split: sum.split)

lemma does_discard: "does E c (discard m) \<longleftrightarrow> does E c m"
  by (simp add: does_def isl_discard)

lemmas commands = run.simps [THEN does_run, unfolded does_discard]

fun refused :: "reply \<Rightarrow> bool" where
  "refused (Reply h n b) = False"
| "refused (Refuse n e) = True"
| "refused (Refused n m) = True"
| "refused (Relay n ct pl) = False"
| "refused NoContent = False"
| "refused Aborted = True"

lemma refused_simps [simp]:
  "\<not> refused (OK b)" "\<not> refused (Created b)" "\<not> refused (relayed r)" "refused (writeErr n e)"
  by (simp_all add: OK_def Created_def relayed_def writeErr_def)

text \<open>One command has been run for the caller and its outcome told, or the request was refused and nothing
  done; what reads may also have asked the backends.\<close>

definition ran :: "'w env \<Rightarrow> ctx \<Rightarrow> 'w st \<Rightarrow> reply \<times> 'w st \<Rightarrow> bool" where
  "ran E c s rt \<longleftrightarrow> (\<exists>k. snd rt = snd (run E c k s) \<and> refused (fst rt) = isl (fst (run E c k s))) \<or> refused (fst rt) \<and> snd rt = s"

definition follows :: "'w env \<Rightarrow> string \<Rightarrow> ctx \<Rightarrow> 'w st \<Rightarrow> reply \<times> 'w st \<Rightarrow> bool" where
  "follows E mth c s rt \<longleftrightarrow> ran E c s rt \<or> mth \<in> {''GET'', ''OPTIONS''} \<and> untouched s (snd rt)"

lemma ran_refused: "refused r \<Longrightarrow> ran E c s (r, s)"
  by (simp add: ran_def)

lemma follows_ran: "told (ran E c) v \<Longrightarrow> told (follows E mth c) v"
  by (simp add: told_def follows_def)

lemma follows_untouched: "kept untouched v \<Longrightarrow> told (follows E ''GET'' c) v"
  by (simp add: told_def kept_def follows_def)

lemma refused_answer: "(\<And>x. \<not> refused (f x)) \<Longrightarrow> refused (fst (answer n m f s)) = isl (fst (m s))"
  by (auto simp: answer_def split: prod.splits sum.splits)

lemma snd_answer: "snd (answer n m f s) = snd (m s)"
  by (simp add: answer_def split: prod.splits sum.splits)

lemma answer_command: "does E c m \<Longrightarrow> (\<And>x. \<not> refused (f x)) \<Longrightarrow> told (ran E c) (answer n m f)"
  by (auto simp: told_def ran_def does_def refused_answer snd_answer)

lemma follows_step: "follows E mth c s (r, t) \<Longrightarrow> step s t"
  unfolding follows_def ran_def untouched_def snd_conv by (metis step.command step.outside untouched_def untouched_refl)

text \<open>Every route.\<close>

lemma kept_rules: "(\<And>s. R s s) \<Longrightarrow> kept R (say r)" "(\<And>s. R s s) \<Longrightarrow> (\<And>x. kept R (h x)) \<Longrightarrow> kept R (with_body f q h)"
  "(\<And>a b. kept R (g a b)) \<Longrightarrow> kept R (case_prod g x)"
  unfolding kept_def by (intro told_rules; simp)+

lemma viewer_reads:
  "kept untouched (listRequests S c q)" "kept untouched (getRequest S c q)" "kept untouched (listAIProviders S c q)"
  "kept untouched (listAIServices S c q)" "kept untouched (listAIRequests S c q)"
  "kept untouched (listAIInstances S c q)" "kept untouched (listAIUsage S c q)"
  "kept untouched (listAIBudgets S c q)" "kept untouched (listAIQuotas S c q)"
  "kept untouched (listAIPolicies S c q)" "kept untouched (listAIModels S c q)"
  "kept untouched (listAIRenewals S c q)" "kept untouched (listAIAccessReview S c q)"
  "kept untouched (listAIAudit S c q)" "kept untouched (listAIOrgUsers S c q)"
  "kept untouched (listAIWorkspaces S c q)" "kept untouched (listAIInvites S c q)"
  "kept untouched (listAIWorkspaceAccess S c q)" "kept untouched (listAIProjectAPIKeys S c q)"
  "kept untouched (listAIProjectRateLimits S c q)" "kept untouched (getAIProjectModelPermissions S c q)"
  "kept untouched (getAIProjectHostedToolPermissions S c q)" "kept untouched (getAIProjectDataRetention S c q)"
  "kept untouched (listAIProjectSpendAlerts S c q)" "kept untouched (listMCPServers S c q)"
  "kept untouched (listMCPGrants S c q)"
  unfolding listRequests_def getRequest_def listAIProviders_def listAIServices_def listAIRequests_def
    listAIInstances_def listAIUsage_def listAIBudgets_def listAIQuotas_def listAIPolicies_def listAIModels_def
    listAIRenewals_def listAIAccessReview_def listAIAudit_def listAIOrgUsers_def listAIWorkspaces_def
    listAIInvites_def listAIWorkspaceAccess_def listAIProjectAPIKeys_def listAIProjectRateLimits_def
    getAIProjectModelPermissions_def getAIProjectHostedToolPermissions_def getAIProjectDataRetention_def
    listAIProjectSpendAlerts_def listMCPServers_def listMCPGrants_def
  by (intro kept_answer untouched_rules)+

lemma commands_follow1:
  "told (ran (srv_svc S) c) (authorizeMCP S c q)" "told (ran (srv_svc S) c) (requestMCPAccess S c q)"
  "told (ran (srv_svc S) c) (createRequest S c q)" "told (ran (srv_svc S) c) (approveRequest S c q)"
  "told (ran (srv_svc S) c) (rejectRequest S c q)" "told (ran (srv_svc S) c) (createAIProvider S c q)"
  "told (ran (srv_svc S) c) (updateAIProvider S c q)" "told (ran (srv_svc S) c) (checkAIProvider S c q)"
  "told (ran (srv_svc S) c) (syncAIProvider S c q)" "told (ran (srv_svc S) c) (syncAIProviderModels S c q)"
  "told (ran (srv_svc S) c) (createAIRequest S c q)" "told (ran (srv_svc S) c) (approveAIRequest S c q)"
  "told (ran (srv_svc S) c) (rejectAIRequest S c q)" "told (ran (srv_svc S) c) (revokeAIInstance S c q)"
  "told (ran (srv_svc S) c) (revealAIInstanceSecret S c q)"
  "told (ran (srv_svc S) c) (recertifyAIInstance S c q)"
  "told (ran (srv_svc S) c) (reapExpiredAIInstances S c q)"
  unfolding authorizeMCP_def requestMCPAccess_def createRequest_def approveRequest_def rejectRequest_def
    createAIProvider_def updateAIProvider_def checkAIProvider_def syncAIProvider_def syncAIProviderModels_def
    createAIRequest_def approveAIRequest_def rejectAIRequest_def revokeAIInstance_def
    revealAIInstanceSecret_def recertifyAIInstance_def reapExpiredAIInstances_def Let_def
  by (intro told_rules answer_command commands; simp add: ran_refused)+

lemma commands_follow2:
  "told (ran (srv_svc S) c) (registerMCPServer S c q)" "told (ran (srv_svc S) c) (deleteMCPServer S c q)"
  "told (ran (srv_svc S) c) (grantMCPAccess S c q)" "told (ran (srv_svc S) c) (approveMCPGrant S c q)"
  "told (ran (srv_svc S) c) (rejectMCPGrant S c q)" "told (ran (srv_svc S) c) (revokeMCPGrant S c q)"
  "told (ran (srv_svc S) c) (createAIBudget S c q)" "told (ran (srv_svc S) c) (updateAIBudget S c q)"
  "told (ran (srv_svc S) c) (deleteAIBudget S c q)" "told (ran (srv_svc S) c) (createAIQuota S c q)"
  "told (ran (srv_svc S) c) (updateAIQuota S c q)" "told (ran (srv_svc S) c) (deleteAIQuota S c q)"
  "told (ran (srv_svc S) c) (createAIPolicy S c q)" "told (ran (srv_svc S) c) (updateAIPolicy S c q)"
  "told (ran (srv_svc S) c) (deleteAIPolicy S c q)" "told (ran (srv_svc S) c) (importOpenAIUsage S c q)"
  "told (ran (srv_svc S) c) (importAnthropicUsage S c q)" "told (ran (srv_svc S) c) (importLiteLLMSpend S c q)"
  unfolding registerMCPServer_def deleteMCPServer_def grantMCPAccess_def approveMCPGrant_def rejectMCPGrant_def
    revokeMCPGrant_def createAIBudget_def updateAIBudget_def deleteAIBudget_def createAIQuota_def
    updateAIQuota_def deleteAIQuota_def createAIPolicy_def updateAIPolicy_def deleteAIPolicy_def
    importOpenAIUsage_def importAnthropicUsage_def importLiteLLMSpend_def Let_def
  by (intro told_rules answer_command commands; simp add: ran_refused)+

lemma commands_follow3:
  "told (ran (srv_svc S) c) (inviteAIOrgUser S c q)" "told (ran (srv_svc S) c) (setAIOrgRole S c q)"
  "told (ran (srv_svc S) c) (removeAIOrgUser S c q)" "told (ran (srv_svc S) c) (createAIWorkspace S c q)"
  "told (ran (srv_svc S) c) (archiveAIWorkspace S c q)"
  "told (ran (srv_svc S) c) (grantAIWorkspaceAccess S c q)"
  "told (ran (srv_svc S) c) (removeAIWorkspaceMember S c q)"
  "told (ran (srv_svc S) c) (deleteAIProjectAPIKey S c q)"
  "told (ran (srv_svc S) c) (updateAIProjectRateLimit S c q)"
  "told (ran (srv_svc S) c) (setAIProjectModelPermissions S c q)"
  "told (ran (srv_svc S) c) (deleteAIProjectModelPermissions S c q)"
  "told (ran (srv_svc S) c) (setAIProjectHostedToolPermissions S c q)"
  "told (ran (srv_svc S) c) (setAIProjectDataRetention S c q)"
  "told (ran (srv_svc S) c) (createAIProjectSpendAlert S c q)"
  "told (ran (srv_svc S) c) (updateAIProjectSpendAlert S c q)"
  "told (ran (srv_svc S) c) (deleteAIProjectSpendAlert S c q)"
  "told (ran (srv_svc S) c) (gatewayOpenAIResponses S c q)"
  "told (ran (srv_svc S) c) (gatewayAnthropicMessages S c q)"
  unfolding inviteAIOrgUser_def setAIOrgRole_def removeAIOrgUser_def createAIWorkspace_def archiveAIWorkspace_def
    grantAIWorkspaceAccess_def removeAIWorkspaceMember_def deleteAIProjectAPIKey_def
    updateAIProjectRateLimit_def setAIProjectModelPermissions_def deleteAIProjectModelPermissions_def
    setAIProjectHostedToolPermissions_def setAIProjectDataRetention_def createAIProjectSpendAlert_def
    updateAIProjectSpendAlert_def deleteAIProjectSpendAlert_def gatewayOpenAIResponses_def
    gatewayAnthropicMessages_def Let_def
  by (intro told_rules answer_command commands; simp add: ran_refused)+


lemma me_reads: "kept untouched (getMe S c q)"
  by (simp add: getMe_def kept_rules)

lemma delete_follows: "told (ran (srv_svc S) c) (deleteAIProvider S c q)"
proof -
  have "snd (deleteAIProvider S c q s) = snd (DeleteAIProvider (srv_svc S) c (URLParam q ''name'') s)"
    "refused (fst (deleteAIProvider S c q s)) = isl (fst (DeleteAIProvider (srv_svc S) c (URLParam q ''name'') s))" for s
    by (simp_all add: deleteAIProvider_def Let_def split: prod.splits sum.splits)
  then show ?thesis
    using commands(3) [of "srv_svc S" c "URLParam q ''name''"] by (auto simp: told_def ran_def does_def)
qed

lemma routes_follow:
  "list_all (\<lambda>((m, p), h). \<forall>c q. told (follows (srv_svc S) m c) (h S c q)) viewer_routes"
  "list_all (\<lambda>((m, p), h). \<forall>c q. told (follows (srv_svc S) m c) (h S c q)) operator_routes"
  by (simp_all add: viewer_routes_def operator_routes_def viewer_reads me_reads follows_untouched
      commands_follow1 commands_follow2 commands_follow3 delete_follows follows_ran)

section \<open>Serving\<close>

text \<open>Who a request is served as: the identity the middleware puts into its context.\<close>

definition caller :: "'w Server \<Rightarrow> ApiRequest \<Rightarrow> 'w st \<Rightarrow> ctx" where
  "caller S q s = (case authenticate S q s of Deny n m \<Rightarrow> None | Pass c \<Rightarrow> c)"

lemma RequireRole_Pass: "RequireRole need c = Pass c' \<Longrightarrow> c' = c"
  by (auto simp: RequireRole_def split: option.splits if_splits)

lemma find_route_mem:
  "find_route q = Some (need, h) \<Longrightarrow>
     need = RoleViewer \<and> ((aq_Method q, aq_Pattern q), h) \<in> set viewer_routes
   \<or> need = RoleOperator \<and> ((aq_Method q, aq_Pattern q), h) \<in> set operator_routes"
  by (auto simp: find_route_def dest!: map_of_SomeD split: option.splits)

text \<open>What comes from a middleware or the router, before any handler.\<close>

definition gate_reply :: "ApiRequest \<Rightarrow> reply \<Rightarrow> bool" where
  "gate_reply q r \<longleftrightarrow> (case r of Refused n m \<Rightarrow> n \<in> {401, 403, 404, 405} | NoContent \<Rightarrow> aq_Method q = ''OPTIONS''
     | _ \<Rightarrow> r = OK (status_fields ''ok'') \<and> aq_Method q = ''GET'')"

lemma plainI:
  "n \<in> {401, 403, 404, 405} \<Longrightarrow> gate_reply q (Refused n m)" "aq_Method q = ''OPTIONS'' \<Longrightarrow> gate_reply q NoContent"
  "aq_Method q = ''GET'' \<Longrightarrow> gate_reply q (OK (status_fields ''ok''))" "gate_reply q (unrouted S q)"
  by (simp_all add: gate_reply_def OK_def unrouted_def)

lemma gate_codes: "Middleware f b a = Deny n m \<Longrightarrow> n = 401" "RequireRole need c = Deny n m \<Longrightarrow> n = 403"
  by (auto simp: Middleware_def RequireRole_def Let_def split: if_splits option.splits)

text \<open>Any claim on what serving does comes from the claim on the routes.\<close>

lemma serve_cases:
  assumes "\<And>r. gate_reply q r \<Longrightarrow> R s (r, s)"
    and "\<And>h. ((aq_Method q, aq_Pattern q), h) \<in> set viewer_routes \<Longrightarrow> R s (h S (caller S q s) q s)"
    and "\<And>h i. ((aq_Method q, aq_Pattern q), h) \<in> set operator_routes \<Longrightarrow> caller S q s = Some i
      \<Longrightarrow> AtLeast (id_role i) RoleOperator \<Longrightarrow> R s (h S (caller S q s) q s)"
  shows "R s (serve S q s)"
proof -
  have "R s (h S c' q s)"
    if "authenticate S q s = Pass c" "find_route q = Some (need, h)" "RequireRole need c = Pass c'" for c c' need h
  proof -
    have "caller S q s = c" "c' = c" using that by (auto simp: caller_def dest: RequireRole_Pass)
    with that assms(2,3) show ?thesis
      by (auto simp: RequireRole_def dest!: find_route_mem split: option.splits if_splits)
  qed
  moreover have "R s (Refused n m, s)" if "n \<in> {401, 403, 404, 405}" for n m using assms(1) plainI(1) that by blast
  moreover have "R s (NoContent, s)" if "aq_Method q = ''OPTIONS''" using assms(1) plainI(2) that by blast
  moreover have "R s (OK (status_fields ''ok''), s)" if "aq_Method q = ''GET''" using assms(1) plainI(3) that by blast
  moreover have "R s (unrouted S q, s)" using assms(1) plainI(4) by blast
  ultimately show ?thesis
    by (simp add: serve_def serve_api_def authenticate_def split: gate.splits option.splits) (meson gate_codes insertCI)
qed

lemma list_all_route: "list_all (\<lambda>((m, p), h). P m h) rs \<Longrightarrow> ((m, p), h) \<in> set rs \<Longrightarrow> P m h"
  by (auto simp: list_all_iff)

text \<open>The same for a claim on handlers.\<close>

lemma told_serve:
  assumes "\<And>r. gate_reply q r \<Longrightarrow> R (aq_Method q) (caller S q s) s (r, s)"
    and "list_all (\<lambda>((m, p), h). \<forall>c q. told (R m c) (h S c q)) viewer_routes"
    and "list_all (\<lambda>((m, p), h). \<forall>c q. told (R m c) (h S c q)) operator_routes"
  shows "R (aq_Method q) (caller S q s) s (serve S q s)"
proof (rule serve_cases)
  fix h
  show "R (aq_Method q) (caller S q s) s (h S (caller S q s) q s)" if "((aq_Method q, aq_Pattern q), h) \<in> set viewer_routes"
    using list_all_route [OF assms(2) that] by (simp add: told_def)
  show "R (aq_Method q) (caller S q s) s (h S (caller S q s) q s)" if "((aq_Method q, aq_Pattern q), h) \<in> set operator_routes"
    using list_all_route [OF assms(3) that] by (simp add: told_def)
qed (rule assms(1))

lemma follows_serve: "follows (srv_svc S) (aq_Method q) (caller S q s) s (serve S q s)"
proof (rule told_serve [OF _ routes_follow])
  show "gate_reply q r \<Longrightarrow> follows (srv_svc S) (aq_Method q) (caller S q s) s (r, s)" for r
    by (cases r) (auto simp: gate_reply_def follows_def ran_refused)
qed

section \<open>What a viewer is offered\<close>

text \<open>The audit trail has grown, MCP grants have been requested for the caller's tenant, and that is all.\<close>

definition visited :: "ctx \<Rightarrow> 'w st \<Rightarrow> 'w st \<Rightarrow> bool" where
  "visited c s t \<longleftrightarrow> (\<exists>n a gs b w.
     t = s\<lparr>st_next := n, st_audit := st_audit s @ a, st_grants := st_grants s @ gs, st_bus := b, st_world := w\<rparr>
     \<and> list_all (\<lambda>g. g_Status g = ''requested'' \<and> g_TenantID g = tenantForCreate c) gs)"

lemma visitedI:
  "t = s\<lparr>st_next := n, st_audit := st_audit s @ a, st_grants := st_grants s @ gs, st_bus := b, st_world := w\<rparr> \<Longrightarrow>
   list_all (\<lambda>g. g_Status g = ''requested'' \<and> g_TenantID g = tenantForCreate c) gs \<Longrightarrow> visited c s t"
  unfolding visited_def by blast

lemma visited_refl [simp]: "visited c s s"
  by (rule visitedI [where n = "st_next s" and a = "[]" and gs = "[]" and b = "st_bus s" and w = "st_world s"]) simp_all

lemma visited_trans: "visited c s t \<Longrightarrow> visited c t u \<Longrightarrow> visited c s u"
  unfolding visited_def by (clarsimp, intro exI conjI) (rule refl, simp)

interpretation visited: audit_rel "visited c" for c
proof (unfold_locales, goal_cases)
  case (3 E actor tenant sty sid action msg flds)
  have "visited c s (st_audit_update (\<lambda>rows. rows @ [x]) s\<lparr>st_next := n\<rparr>)" for s :: "'a st" and n x
    by (rule visitedI [where n = n and a = "[x]" and gs = "[]" and b = "st_bus s" and w = "st_world s"]) (cases s; simp)+
  then show ?case
    by (auto simp: rel_def q_CreateAIAuditEvent_def query_def check_def insert_row_def run_simps Let_def)
next
  case (4 s b)
  show ?case by (rule visitedI [where n = "st_next s" and a = "[]" and gs = "[]" and b = b and w = "st_world s"]) simp_all
next
  case (5 s w)
  show ?case by (rule visitedI [where n = "st_next s" and a = "[]" and gs = "[]" and b = "st_bus s" and w = w]) simp_all
qed (simp, rule visited_trans)

lemma visited_untouched: "rel untouched m \<Longrightarrow> rel (visited c) m"
  unfolding rel_def untouched_def by (metis visited.R_world)

lemma visited_request_grant: "rel (visited c) (q_CreateMCPGrant E k owner expires by (tenantForCreate c) ''requested'')"
proof -
  have "visited c s (st_grants_update (\<lambda>rows. rows @ [g]) s\<lparr>st_next := n\<rparr>)"
    if "g_Status g = ''requested''" "g_TenantID g = tenantForCreate c" for s :: "'a st" and n g
    by (rule visitedI [where n = n and a = "[]" and gs = "[g]" and b = "st_bus s" and w = "st_world s"]) (use that in \<open>cases s; simp\<close>)+
  then show ?thesis
    by (auto simp: rel_def q_CreateMCPGrant_def query_def check_def insert_row_def run_simps Let_def)
qed

lemma visited_mcp: "rel (visited c) (RequestMCPAccess E c server owner by)" "rel (visited c) (AuthorizeMCP E c server owner tool)"
  unfolding RequestMCPAccess_def AuthorizeMCP_def authz_def auditMCPAuthz_def Let_def
  by (intro visited.audit_rules visited_request_grant)+

lemma viewer_visited:
  "kept (visited c) (getMe S c q)" "kept (visited c) (authorizeMCP S c q)" "kept (visited c) (requestMCPAccess S c q)"
  by (auto simp: getMe_def authorizeMCP_def requestMCPAccess_def intro!: kept_rules kept_answer visited_mcp)

lemma kept_untouched: "kept untouched v \<Longrightarrow> kept (visited c) v"
  unfolding kept_def told_def untouched_def by (metis visited.R_world)

lemma viewer_routes_visit: "list_all (\<lambda>((m, p), h). \<forall>c q. kept (visited c) (h S c q)) viewer_routes"
  by (simp add: viewer_routes_def viewer_visited kept_untouched viewer_reads)

text \<open>The caller holds the key of an operator or an administrator, or authentication is off.\<close>

definition entitled :: "'w Server \<Rightarrow> ApiRequest \<Rightarrow> 'w st \<Rightarrow> bool" where
  "entitled S q s = (if srv_authEnabled S
     then bearer (aq_Authorization q) \<noteq> [] \<and> list_ex (\<lambda>u. us_ApiKeyHash u = HashKey (bearer (aq_Authorization q))
       \<and> us_Role u \<in> {RoleOperator, RoleAdmin}) (st_users s)
     else True)"

lemma caller_entitled: "caller S q s = Some i \<Longrightarrow> AtLeast (id_role i) RoleOperator \<Longrightarrow> entitled S q s"
  by (auto simp: caller_def authenticate_def Middleware_def resolver_def entitled_def AtLeast_def rank_def role_defs list_ex_iff
      Let_def dest!: ResolveAPIKey_Some split: if_splits option.splits sum.splits)

lemma visited_serve: "visited (caller S q s) s (snd (serve S q s)) \<or> entitled S q s"
proof (rule serve_cases [where R = "\<lambda>s rt. visited (caller S q s) s (snd rt) \<or> entitled S q s"])
  fix h
  show "visited (caller S q s) s (snd (h S (caller S q s) q s)) \<or> entitled S q s"
    if "((aq_Method q, aq_Pattern q), h) \<in> set viewer_routes"
    using list_all_route [OF viewer_routes_visit that] by (simp add: kept_def told_def)
qed (simp_all add: caller_entitled)

end
