(* ===== verification/ApiReplies.thy ===== *)
theory ApiReplies
  imports ApiSteps Custody
begin

text \<open>
  What the API answers: which status an error gets, and what no answer carries. \<open>said\<close> holds of every
  reply of every route.
\<close>

section \<open>Statuses and secrets\<close>

text \<open>A governance block is a 403 and the only error that is one, a violated unique key is never passed on,
  and a 403 with a body is the denial of a tool call.\<close>

definition proper :: "reply \<Rightarrow> bool" where
  "proper r = (case r of
     Refuse n e \<Rightarrow> \<not> isUniqueViolation e \<and> (n = 403) = IsAIEnforcementError e \<and> n \<in> {400, 401, 403, 404, 409, 500}
   | Reply h n b \<Rightarrow> (case b of Authorized v \<Rightarrow> n = (if mr_Allowed v then 200 else 403) | _ \<Rightarrow> n \<in> {200, 201})
   | Refused n m \<Rightarrow> n \<in> {401, 403, 404, 405}
   | _ \<Rightarrow> True)"

definition masked :: "aiProviderDTO \<Rightarrow> bool" where
  "masked d = (case dp_Config d of None \<Rightarrow> True
     | Some m \<Rightarrow> list_all (\<lambda>(k, v). if isSensitiveAIProviderConfigKey k then v = JStr ''[redacted]'' else True) m)"

definition keyless :: "aiInstanceDTO \<Rightarrow> bool" where
  "keyless d = (case di_Observed d of None \<Rightarrow> True | Some m \<Rightarrow> sealed m)"

definition withheld :: "reply \<Rightarrow> bool" where
  "withheld r = (case r of Reply h n b \<Rightarrow> (case b of
       ProviderItem d \<Rightarrow> masked d
     | ProviderList ds \<Rightarrow> list_all masked ds
     | InstanceList ds \<Rightarrow> list_all keyless ds
     | ReviewList xs \<Rightarrow> list_all (\<lambda>x. keyless (dr_Instance x)) xs
     | _ \<Rightarrow> True)
   | _ \<Rightarrow> True)"

definition said :: "'w st \<Rightarrow> reply \<times> 'w st \<Rightarrow> bool" where
  "said s rt \<longleftrightarrow> proper (fst rt) \<and> (sealed_instances s \<longrightarrow> withheld (fst rt))"

lemma writeErr_proper: "n \<in> {400, 401, 404, 409, 500} \<Longrightarrow> proper (writeErr n e) \<and> withheld (writeErr n e)"
  by (auto simp: writeErr_def proper_def withheld_def)

lemma writeErr_said [simp]: "n \<in> {400, 401, 404, 409, 500} \<Longrightarrow> said s (writeErr n e, t)"
  by (simp add: said_def writeErr_proper)

lemma said_simps [simp]:
  "said s (Refuse 401 (Msg m), t)" "said s (Relay n ct pl, t)" "said s (Aborted, t)"
  by (simp_all add: said_def proper_def withheld_def)

lemma answer_eq: "answer n m f s = (case fst (m s) of
    Inl e \<Rightarrow> (if panics e then Aborted else writeErr n e, snd (m s)) | Inr x \<Rightarrow> (f x, snd (m s)))"
  by (simp add: answer_def split: prod.split sum.split)

lemma answer_said:
  assumes "n \<in> {400, 404, 500}" "\<And>s t x. fst (m s) = Inr x \<Longrightarrow> said s (f x, t)"
  shows "told said (answer n m f)"
  using assms by (auto simp: told_def answer_eq split: sum.split)

lemma said_reply: "(case b of Authorized v \<Rightarrow> False | ProviderItem d \<Rightarrow> False | ProviderList ds \<Rightarrow> False | InstanceList ds \<Rightarrow> False
     | ReviewList xs \<Rightarrow> False | _ \<Rightarrow> True) \<Longrightarrow> n \<in> {200, 201} \<Longrightarrow> said s (Reply h n b, t)"
  by (auto simp: said_def proper_def withheld_def split: body.splits)

lemmas said_bodies [simp] = said_reply [where n = 200] said_reply [where n = 201]

declare OK_def [simp] Created_def [simp] status_fields_def [simp] named_status_def [simp]
  new_grant_fields_def [simp] decided_grant_fields_def [simp]

section \<open>The routes\<close>

lemma rest_said1:
  "told said (listRequests S c q)" "told said (getRequest S c q)" "told said (listAIServices S c q)"
  "told said (listAIRequests S c q)" "told said (listAIUsage S c q)" "told said (listAIBudgets S c q)"
  "told said (listAIQuotas S c q)" "told said (listAIPolicies S c q)" "told said (listAIModels S c q)"
  "told said (listAIAudit S c q)" "told said (listAIOrgUsers S c q)" "told said (listAIWorkspaces S c q)"
  "told said (listAIInvites S c q)" "told said (listAIWorkspaceAccess S c q)" "told said (listAIProjectAPIKeys S c q)"
  "told said (listAIProjectRateLimits S c q)" "told said (getAIProjectModelPermissions S c q)"
  "told said (getAIProjectHostedToolPermissions S c q)" "told said (getAIProjectDataRetention S c q)"
  "told said (listAIProjectSpendAlerts S c q)" "told said (listMCPServers S c q)" "told said (listMCPGrants S c q)"
  "told said (requestMCPAccess S c q)"
  unfolding listRequests_def getRequest_def listAIServices_def listAIRequests_def listAIUsage_def listAIBudgets_def
    listAIQuotas_def listAIPolicies_def listAIModels_def listAIAudit_def listAIOrgUsers_def listAIWorkspaces_def
    listAIInvites_def listAIWorkspaceAccess_def listAIProjectAPIKeys_def listAIProjectRateLimits_def
    getAIProjectModelPermissions_def getAIProjectHostedToolPermissions_def getAIProjectDataRetention_def
    listAIProjectSpendAlerts_def listMCPServers_def listMCPGrants_def requestMCPAccess_def Let_def
  by (intro told_rules answer_said; simp)+

lemma rest_said2:
  "told said (createRequest S c q)" "told said (approveRequest S c q)" "told said (rejectRequest S c q)"
  "told said (checkAIProvider S c q)" "told said (syncAIProvider S c q)" "told said (syncAIProviderModels S c q)"
  "told said (createAIRequest S c q)" "told said (approveAIRequest S c q)" "told said (rejectAIRequest S c q)"
  "told said (revokeAIInstance S c q)" "told said (revealAIInstanceSecret S c q)"
  "told said (recertifyAIInstance S c q)" "told said (reapExpiredAIInstances S c q)"
  "told said (registerMCPServer S c q)" "told said (deleteMCPServer S c q)" "told said (grantMCPAccess S c q)"
  "told said (approveMCPGrant S c q)" "told said (rejectMCPGrant S c q)" "told said (revokeMCPGrant S c q)"
  "told said (createAIBudget S c q)" "told said (updateAIBudget S c q)" "told said (deleteAIBudget S c q)"
  "told said (createAIQuota S c q)"
  unfolding createRequest_def approveRequest_def rejectRequest_def checkAIProvider_def syncAIProvider_def
    syncAIProviderModels_def createAIRequest_def approveAIRequest_def rejectAIRequest_def revokeAIInstance_def
    revealAIInstanceSecret_def recertifyAIInstance_def reapExpiredAIInstances_def registerMCPServer_def
    deleteMCPServer_def grantMCPAccess_def approveMCPGrant_def rejectMCPGrant_def revokeMCPGrant_def createAIBudget_def
    updateAIBudget_def deleteAIBudget_def createAIQuota_def Let_def
  by (intro told_rules answer_said; simp)+

lemma rest_said3:
  "told said (updateAIQuota S c q)" "told said (deleteAIQuota S c q)" "told said (createAIPolicy S c q)"
  "told said (updateAIPolicy S c q)" "told said (deleteAIPolicy S c q)" "told said (importOpenAIUsage S c q)"
  "told said (importAnthropicUsage S c q)" "told said (importLiteLLMSpend S c q)" "told said (inviteAIOrgUser S c q)"
  "told said (setAIOrgRole S c q)" "told said (removeAIOrgUser S c q)" "told said (createAIWorkspace S c q)"
  "told said (archiveAIWorkspace S c q)" "told said (grantAIWorkspaceAccess S c q)"
  "told said (removeAIWorkspaceMember S c q)" "told said (deleteAIProjectAPIKey S c q)"
  "told said (updateAIProjectRateLimit S c q)" "told said (setAIProjectModelPermissions S c q)"
  "told said (deleteAIProjectModelPermissions S c q)" "told said (setAIProjectHostedToolPermissions S c q)"
  "told said (setAIProjectDataRetention S c q)" "told said (createAIProjectSpendAlert S c q)"
  "told said (updateAIProjectSpendAlert S c q)" "told said (deleteAIProjectSpendAlert S c q)"
  unfolding updateAIQuota_def deleteAIQuota_def createAIPolicy_def updateAIPolicy_def deleteAIPolicy_def importOpenAIUsage_def
    importAnthropicUsage_def importLiteLLMSpend_def inviteAIOrgUser_def setAIOrgRole_def removeAIOrgUser_def
    createAIWorkspace_def archiveAIWorkspace_def grantAIWorkspaceAccess_def removeAIWorkspaceMember_def
    deleteAIProjectAPIKey_def updateAIProjectRateLimit_def setAIProjectModelPermissions_def
    deleteAIProjectModelPermissions_def setAIProjectHostedToolPermissions_def setAIProjectDataRetention_def
    createAIProjectSpendAlert_def updateAIProjectSpendAlert_def deleteAIProjectSpendAlert_def Let_def
  by (intro told_rules answer_said; simp)+

lemma masked_provider: "masked (aiProviderToDTO str p)"
  by (auto simp: masked_def aiProviderToDTO_def redactAIProviderConfig_def list_all_iff split: option.split)

lemma providers_said:
  "told said (listAIProviders S c q)" "told said (createAIProvider S c q)" "told said (updateAIProvider S c q)"
  unfolding listAIProviders_def createAIProvider_def updateAIProvider_def
  by (intro told_rules answer_said; (simp; fail | simp add: said_def proper_def withheld_def list_all_iff masked_provider))+

lemma other_said:
  "told said (getMe S c q)" "told said (authorizeMCP S c q)" "told said (gatewayOpenAIResponses S c q)"
  "told said (gatewayAnthropicMessages S c q)"
  unfolding getMe_def authorizeMCP_def gatewayOpenAIResponses_def gatewayAnthropicMessages_def
  by (intro told_rules answer_said; (simp split: option.split; fail | simp add: said_def proper_def withheld_def relayed_def split: option.split))+

lemma delete_said: "told said (deleteAIProvider S c q)"
  by (auto simp: told_def deleteAIProvider_def Let_def split: prod.split sum.split)

text \<open>The rows of a listing come from the store, with the observed state that is there.\<close>

lemma keyless_row: "sealed_instances s \<Longrightarrow> i \<in> set (st_instances s) \<Longrightarrow> instance_row s i = Some r \<Longrightarrow> keyless (aiInstanceToDTO str r)"
  by (auto simp: sealed_instances_def list_all_iff keyless_def aiInstanceToDTO_def any_map_def instance_row_def to_obj_def
      AiServiceInstance.defs split: option.splits json.splits)

lemma listed_rows:
  "fst (ListAIInstances E c s) = Inr rs \<Longrightarrow> r \<in> set rs \<Longrightarrow> \<exists>i \<in> set (st_instances s). instance_row s i = Some r"
  "fst (ListAIExpiringInstances E c n s) = Inr rs \<Longrightarrow> r \<in> set rs \<Longrightarrow> \<exists>i \<in> set (st_instances s). instance_row s i = Some r"
  by (auto simp: ListAIInstances_def ListAIExpiringInstances_def q_ListAIServiceInstances_def q_ListAIExpiringInstances_def
      Let_def query_def run_simps visible_rows_in_scope map_filter_def split: if_splits) blast+

lemma reviewed_rows:
  "fst (ListAIAccessReview E c n s) = Inr xs \<Longrightarrow> x \<in> set xs \<Longrightarrow>
     \<exists>i \<in> set (st_instances s). instance_row s i = Some (ri_Instance x)"
  by (auto simp: ListAIAccessReview_def Let_def run_simps split: sum.splits dest!: listed_rows(1))

lemma instances_said:
  "told said (listAIInstances S c q)" "told said (listAIRenewals S c q)" "told said (listAIAccessReview S c q)"
  unfolding listAIInstances_def listAIRenewals_def listAIAccessReview_def
  by (intro answer_said;
      auto simp: said_def proper_def withheld_def list_all_iff aiAccessReviewToDTO_def
        dest!: listed_rows reviewed_rows intro: keyless_row)+

lemma routes_said:
  "list_all (\<lambda>((m, p), h). \<forall>c q. told said (h S c q)) viewer_routes"
  "list_all (\<lambda>((m, p), h). \<forall>c q. told said (h S c q)) operator_routes"
  by (simp_all add: viewer_routes_def operator_routes_def rest_said1 rest_said2 rest_said3 providers_said other_said
      delete_said instances_said)

lemma said_serve: "said s (serve S q s)"
proof (rule told_serve [where R = "\<lambda>_ _. said", OF _ routes_said])
  show "gate_reply q r \<Longrightarrow> said s (r, s)" for r
    by (auto simp: gate_reply_def said_def proper_def withheld_def split: reply.splits)
qed

end
