(* ===== verification/Vault.thy ===== *)
theory Vault
  imports Clients
begin

text \<open>
  The credential resolver (\<open>internal/creds\<close>): secrets and provider configuration from OpenBao, with the
  process environment behind it, and the short-lived cloud credentials it reads through a pointer. The
  client of OpenBao (\<open>hashicorp/vault/api\<close>) is not in the sources: its three calls are parameters.
\<close>

section \<open>What the resolver runs on\<close>

text \<open>Reading a versioned secret changes nothing at the store; a dynamic read mints a credential. \<open>None\<close> is a
  nil secret or one without data.\<close>

record 'w VaultClient =
  vc_Get :: "string \<Rightarrow> string \<Rightarrow> 'w \<Rightarrow> err + obj"
  vc_Put :: "string \<Rightarrow> string \<Rightarrow> obj \<Rightarrow> ('w, unit) op"
  vc_Read :: "string \<Rightarrow> ('w, obj option) op"

record InfraProvider =
  ip_ID :: uuid
  ip_Name :: string
  ip_Type :: string
  ip_Config :: json
  ip_SecretRef :: string
  ip_CreatedAt :: time
  ip_UpdatedAt :: time
  ip_LastCheckStatus :: string
  ip_LastCheckMessage :: string
  ip_LastCheckLatencyMs :: int
  ip_LastCheckAt :: "time option"

text \<open>The resolver's own memory beside the world, and what an operation of it sees of its context: the marks
  \<open>WithSecretWait\<close> and \<open>WithFactoryCreds\<close>.\<close>

record cachedAzureCred =
  ac_clientID :: string
  ac_clientSecret :: string
  ac_expiry :: time

record 'w vst =
  vs_cache :: "(string \<times> cachedAzureCred) list"
  vs_world :: 'w

record marks =
  mk_wait :: bool
  mk_factory :: bool

text \<open>The network and clock, sleeping, and \<open>%v\<close> of a value that is no string.\<close>

record 'w VaultResolver =
  rv_client :: "'w VaultClient"
  rv_mount :: string
  rv_net :: "'w Net"
  rv_sleep :: "int \<Rightarrow> 'w \<Rightarrow> 'w"
  rv_show :: "json \<Rightarrow> string"

definition in_world :: "('w, 'a) op \<Rightarrow> ('w vst, 'a) op" where
  "in_world m = (\<lambda>s. case m (vs_world s) of (r, w) \<Rightarrow> (r, s\<lparr>vs_world := w\<rparr>))"

section \<open>The environment\<close>

definition EnvResolver_Resolve :: "(string \<Rightarrow> string) \<Rightarrow> InfraProvider \<Rightarrow> kv" where
  "EnvResolver_Resolve getenv p =
     (if ip_Type p = ''vsphere''
      then [(''user'', getenv ''OPORD_VSPHERE_USER''), (''password'', getenv ''OPORD_VSPHERE_PASSWORD'')]
      else if ip_Type p = ''proxmox''
      then [(''user'', getenv ''OPORD_PROXMOX_USER''), (''password'', getenv ''OPORD_PROXMOX_PASSWORD'')]
      else [])"

section \<open>Settled credentials\<close>

definition cache_get :: "time \<Rightarrow> (string \<times> cachedAzureCred) list \<Rightarrow> string \<Rightarrow> (string \<times> string) option" where
  "cache_get now m key = (case map_of m key of
     None \<Rightarrow> None
   | Some v \<Rightarrow> if ac_expiry v < now then None else Some (ac_clientID v, ac_clientSecret v))"

definition cache_put :: "time \<Rightarrow> string \<Rightarrow> string \<Rightarrow> string \<Rightarrow> int \<Rightarrow> (string \<times> cachedAzureCred) list \<Rightarrow> (string \<times> cachedAzureCred) list" where
  "cache_put now key i secret ttl m = AList.update key \<lparr>ac_clientID = i, ac_clientSecret = secret, ac_expiry = now + ttl\<rparr> m"

definition second_ns :: int where "second_ns = 1000000000"
definition azureCacheTTL :: int where "azureCacheTTL = 45 * 60 * second_ns"
definition azureProbeInterval :: int where "azureProbeInterval = 6 * second_ns"
definition azureSettleDuration :: int where "azureSettleDuration = 90 * second_ns"

definition form_field :: "string \<Rightarrow> string \<Rightarrow> string" where
  "form_field k v = QueryEscape k @ ''='' @ QueryEscape v"

text \<open>The token request, its form in the order of its keys.\<close>

definition azure_token_request :: "string \<Rightarrow> string \<Rightarrow> string \<Rightarrow> HttpRequest" where
  "azure_token_request tenant i secret =
     \<lparr>hq_Method = ''POST'', hq_URL = ''https://login.microsoftonline.com/'' @ tenant @ ''/oauth2/v2.0/token'', hq_Query = [],
      hq_Headers = [(''Content-Type'', ''application/x-www-form-urlencoded'')],
      hq_Body = Some (Bytes (form_field ''client_id'' i @ ''&'' @ form_field ''client_secret'' secret @ ''&''
        @ form_field ''grant_type'' ''client_credentials'' @ ''&'' @ form_field ''scope'' ''https://management.azure.com/.default''))\<rparr>"

definition azure_probe :: "'w VaultResolver \<Rightarrow> HttpRequest \<Rightarrow> 'w \<Rightarrow> bool \<times> 'w" where
  "azure_probe R req w = (case send (rv_net R) ''probe'' req w of
     (Inl e, w') \<Rightarrow> (False, w')
   | (Inr resp, w') \<Rightarrow> (hr_StatusCode resp = 200, w'))"

text \<open>The loop of \<open>waitAzureSecretReady\<close>: probe until an answer is 200, or until a failed probe ends past the
  deadline; \<open>None\<close> when \<open>fuel\<close> probes were not enough. The context it gets is never cancelled.\<close>

fun azure_first :: "nat \<Rightarrow> 'w VaultResolver \<Rightarrow> HttpRequest \<Rightarrow> time \<Rightarrow> 'w \<Rightarrow> (bool \<times> 'w) option" where
  "azure_first 0 R req deadline w = None"
| "azure_first (Suc fuel) R req deadline w =
     (case azure_probe R req w of
        (True, w') \<Rightarrow> Some (True, w')
      | (False, w') \<Rightarrow> if deadline < nt_now (rv_net R) w' then Some (False, w')
                       else azure_first fuel R req deadline (rv_sleep R azureProbeInterval w'))"

definition azure_fuel :: nat where "azure_fuel = 17"

definition waitAzureSecretReady :: "'w VaultResolver \<Rightarrow> string \<Rightarrow> string \<Rightarrow> string \<Rightarrow> 'w \<Rightarrow> 'w" where
  "waitAzureSecretReady R tenant i secret w =
     (case azure_first azure_fuel R (azure_token_request tenant i secret) (nt_now (rv_net R) w + 90 * second_ns) w of
        None \<Rightarrow> w
      | Some (True, w') \<Rightarrow> rv_sleep R azureSettleDuration w'
      | Some (False, w') \<Rightarrow> w')"

section \<open>Resolving\<close>

definition readDynamic :: "'w VaultResolver \<Rightarrow> string \<Rightarrow> ('w, obj) op" where
  "readDynamic R path = bindE (vc_Read (rv_client R) path) (\<lambda>secret.
     case secret of None \<Rightarrow> fail (NotFound ''no data at dynamic path'' path) | Some d \<Rightarrow> ret d)"

definition dynStr :: "obj \<Rightarrow> string \<Rightarrow> string" where
  "dynStr d key = (case str_at d key of Some v \<Rightarrow> v | None \<Rightarrow> [])"

definition as_strings :: "'w VaultResolver \<Rightarrow> obj \<Rightarrow> kv" where
  "as_strings R = map (\<lambda>(k, v). (k, case v of JStr t \<Rightarrow> t | _ \<Rightarrow> rv_show R v))"

definition put_solid :: "string \<Rightarrow> string \<Rightarrow> kv \<Rightarrow> kv" where
  "put_solid k v out = (if v = [] then out else AList.update k v out)"

definition resolve_gcp :: "'w VaultResolver \<Rightarrow> kv \<Rightarrow> ('w vst, kv) op" where
  "resolve_gcp R out =
     (let path = kv_at out ''gcp_token_path'' in
      if path = [] then ret out
      else bindE (attempt (in_world (readDynamic R path))) (\<lambda>r. case r of
        Inl e \<Rightarrow> ret out
      | Inr d \<Rightarrow> ret (put_solid ''access_token'' (dynStr d ''token'') out)))"

definition resolve_aws :: "'w VaultResolver \<Rightarrow> marks \<Rightarrow> kv \<Rightarrow> ('w vst, kv) op" where
  "resolve_aws R mk out =
     (let fp = kv_at out ''aws_factory_creds_path'';
          path = (if mk_factory mk \<and> fp \<noteq> [] then fp else kv_at out ''aws_creds_path'') in
      if path = [] then ret out
      else bindE (attempt (in_world (readDynamic R path))) (\<lambda>r. case r of
        Inl e \<Rightarrow> ret out
      | Inr d \<Rightarrow> ret (put_solid ''session_token'' (dynStr d ''security_token'')
          (put_solid ''secret_key'' (dynStr d ''secret_key'') (put_solid ''access_key'' (dynStr d ''access_key'') out)))))"

text \<open>A fresh Azure credential; with the mark it is waited for and kept.\<close>

definition azure_settle :: "'w VaultResolver \<Rightarrow> marks \<Rightarrow> string \<Rightarrow> string \<Rightarrow> string \<Rightarrow> string \<Rightarrow> ('w vst, unit) op" where
  "azure_settle R mk ref tenant i secret =
     (if i \<noteq> [] \<and> secret \<noteq> [] \<and> tenant \<noteq> [] \<and> mk_wait mk
      then (\<lambda>s. let w = waitAzureSecretReady R tenant i secret (vs_world s) in
        (Inr (), s\<lparr>vs_world := w, vs_cache := cache_put (nt_now (rv_net R) w) ref i secret azureCacheTTL (vs_cache s)\<rparr>))
      else ret ())"

definition resolve_azure :: "'w VaultResolver \<Rightarrow> marks \<Rightarrow> string \<Rightarrow> (err \<Rightarrow> string) \<Rightarrow> kv \<Rightarrow> ('w vst, kv) op" where
  "resolve_azure R mk ref text_of out =
     (let path = kv_at out ''azure_creds_path'' in
      if path = [] then ret out
      else bindE (gets (\<lambda>s. cache_get (nt_now (rv_net R) (vs_world s)) (vs_cache s) ref)) (\<lambda>hit. case hit of
        Some (i, secret) \<Rightarrow> ret (AList.update ''client_secret'' secret (AList.update ''client_id'' i out))
      | None \<Rightarrow> bindE (attempt (in_world (readDynamic R path))) (\<lambda>r. case r of
            Inl e \<Rightarrow> ret (AList.update ''azure_dynamic_error'' (text_of e) out)
          | Inr d \<Rightarrow>
              let i = dynStr d ''client_id''; secret = dynStr d ''client_secret'';
                  out = put_solid ''client_secret'' secret (put_solid ''client_id'' i out);
                  out = (if i = [] \<or> secret = [] then AList.update ''azure_dynamic_error''
                          ''dynamic credentials response did not include client_id/client_secret'' out else out) in
              bindE (azure_settle R mk ref (kv_at out ''tenant_id'') i secret) (\<lambda>_. ret out))))"

text \<open>\<open>Resolve\<close>: the secret at the provider's reference, with the dynamic credentials of its cloud; without a
  reference, or when the secret cannot be read, what the environment has.\<close>

definition VaultResolver_Resolve ::
  "'w VaultResolver \<Rightarrow> marks \<Rightarrow> (err \<Rightarrow> string) \<Rightarrow> InfraProvider \<Rightarrow> ('w vst, kv) op" where
  "VaultResolver_Resolve R mk text_of p =
     (let fallback = EnvResolver_Resolve (nt_getenv (rv_net R)) p in
      if ip_SecretRef p = [] then ret fallback
      else bindE (gets (\<lambda>s. vc_Get (rv_client R) (rv_mount R) (ip_SecretRef p) (vs_world s))) (\<lambda>r. case r of
        Inl e \<Rightarrow> ret fallback
      | Inr secret \<Rightarrow>
          let out = as_strings R secret in
          if ip_Type p = ''gcp'' then resolve_gcp R out
          else if ip_Type p = ''aws'' then resolve_aws R mk out
          else if ip_Type p = ''azure'' then resolve_azure R mk (ip_SecretRef p) text_of out
          else ret out))"

section \<open>Configuration and single secrets\<close>

definition credKeys :: "string list" where
  "credKeys = [''access_key'', ''access_key_id'', ''aws_access_key_id'', ''secret_key'', ''secret_access_key'',
     ''aws_secret_access_key'', ''session_token'', ''aws_session_token'', ''user'', ''username'', ''password'', ''token'',
     ''app_token'', ''user_token'', ''credentials'', ''service_account_json'', ''google_credentials'', ''gcp_token_path'',
     ''access_token'', ''client_id'', ''client_secret'', ''aws_creds_path'', ''azure_creds_path'']"

text \<open>Without a reference or on an error there is no configuration, and no error either.\<close>

definition VaultResolver_ResolveConfig :: "'w VaultResolver \<Rightarrow> InfraProvider \<Rightarrow> 'w \<Rightarrow> obj" where
  "VaultResolver_ResolveConfig R p w =
     (if ip_SecretRef p = [] then []
      else (case vc_Get (rv_client R) (rv_mount R) (ip_SecretRef p) w of
              Inl e \<Rightarrow> [] | Inr secret \<Rightarrow> filter (\<lambda>(k, v). k \<notin> set credKeys) secret))"

definition VaultResolver_ReadSecret :: "'w VaultResolver \<Rightarrow> string \<Rightarrow> 'w \<Rightarrow> err + kv" where
  "VaultResolver_ReadSecret R path w =
     (if path = [] then Inr []
      else (case vc_Get (rv_client R) (rv_mount R) path w of Inl e \<Rightarrow> Inl e | Inr secret \<Rightarrow> Inr (as_strings R secret)))"

definition VaultResolver_WriteSecret :: "'w VaultResolver \<Rightarrow> string \<Rightarrow> kv \<Rightarrow> ('w, unit) op" where
  "VaultResolver_WriteSecret R path data =
     wrap (''write secret '' @ quoted path) (vc_Put (rv_client R) (rv_mount R) path (map (\<lambda>(k, v). (k, JStr v)) data))"

section \<open>Choosing a resolver\<close>

datatype 'w resolver = EnvResolver | OpenBao "'w VaultResolver"

text \<open>\<open>client\<close> is what \<open>vaultapi.NewClient\<close> makes of an address, if it makes one.\<close>

definition NewResolver ::
  "(string \<Rightarrow> string \<Rightarrow> 'w VaultClient option) \<Rightarrow> 'w Net \<Rightarrow> (int \<Rightarrow> 'w \<Rightarrow> 'w) \<Rightarrow> (json \<Rightarrow> string)
     \<Rightarrow> string \<Rightarrow> string \<Rightarrow> string \<Rightarrow> 'w resolver" where
  "NewResolver client net sleep' shown addr token kvMount =
     (if addr = [] \<or> token = [] then EnvResolver
      else (case client addr token of
              None \<Rightarrow> EnvResolver
            | Some cl \<Rightarrow> OpenBao \<lparr>rv_client = cl, rv_mount = (if kvMount = [] then ''secret'' else kvMount), rv_net = net,
                rv_sleep = sleep', rv_show = shown\<rparr>))"

fun ReadSecret :: "'w resolver \<Rightarrow> string \<Rightarrow> 'w \<Rightarrow> err + kv" where
  "ReadSecret EnvResolver path w = Inr []"
| "ReadSecret (OpenBao R) path w = VaultResolver_ReadSecret R path w"

fun ResolveConfig :: "'w resolver \<Rightarrow> InfraProvider \<Rightarrow> 'w \<Rightarrow> obj" where
  "ResolveConfig EnvResolver p w = []"
| "ResolveConfig (OpenBao R) p w = VaultResolver_ResolveConfig R p w"

text \<open>What the service can do with a resolver: writing is the type assertion that only OpenBao passes.\<close>

fun resolver_creds :: "'w resolver \<Rightarrow> 'w Creds" where
  "resolver_creds EnvResolver = \<lparr>cr_ReadSecret = ReadSecret EnvResolver, cr_WriteSecret = None\<rparr>"
| "resolver_creds (OpenBao R) = \<lparr>cr_ReadSecret = ReadSecret (OpenBao R), cr_WriteSecret = Some (VaultResolver_WriteSecret R)\<rparr>"

definition StateEncryptionPassphrase :: "(string \<Rightarrow> string) \<Rightarrow> 'w resolver option \<Rightarrow> 'w \<Rightarrow> string" where
  "StateEncryptionPassphrase getenv r w =
     (if getenv ''OPORD_STATE_ENCRYPTION_PASSPHRASE'' \<noteq> [] then getenv ''OPORD_STATE_ENCRYPTION_PASSPHRASE''
      else (case r of
              None \<Rightarrow> []
            | Some rv \<Rightarrow> (case ReadSecret rv ''opord/state-encryption'' w of Inl e \<Rightarrow> [] | Inr m \<Rightarrow> kv_at m ''passphrase'')))"

text \<open>The orchestrator's view of an infrastructure provider: its stored configuration with the keys kept at
  its reference over it.\<close>

definition providerCfg :: "'w resolver option \<Rightarrow> InfraProvider \<Rightarrow> 'w \<Rightarrow> obj" where
  "providerCfg r p w = (let cfg = to_obj (ip_Config p) in
     case r of None \<Rightarrow> cfg | Some rv \<Rightarrow> fold (\<lambda>(k, v). AList.update k v) (ResolveConfig rv p w) cfg)"

end
