(* ===== verification/Sinks.thy ===== *)
theory Sinks
  imports Clients
begin

text \<open>
  The connector bus (\<open>internal/events\<close>): its sinks, what each makes of an event, and the fan-out. The service
  publishes without waiting; here the deliveries of one event are made one after the other in the order of
  the sinks, each under its own ten seconds, which are not modelled.
\<close>

section \<open>Sinks\<close>

datatype sink = Audit | Slack string | SIEM string string

definition NewSIEMSink :: "string \<Rightarrow> string \<Rightarrow> sink" where
  "NewSIEMSink url host = SIEM url (if host = [] then ''opord'' else host)"

fun sink_Name :: "sink \<Rightarrow> string" where
  "sink_Name Audit = ''audit''"
| "sink_Name (Slack url) = ''slack''"
| "sink_Name (SIEM url host) = ''siem''"

definition actionEmoji :: "string \<Rightarrow> string" where
  "actionEmoji action =
     (if action = ''ready'' then '':white_check_mark:''
      else if action = ''failed'' then '':x:''
      else if action = ''destroyed'' then '':wastebasket:''
      else if action \<in> {''created'', ''provisioning''} then '':rocket:''
      else '':information_source:'')"

definition gelfLevel :: "string \<Rightarrow> int" where
  "gelfLevel action = (if action = ''failed'' then 3 else 6)"

text \<open>The text of an event's message is given by \<open>text_of\<close>.\<close>

definition slack_text :: "(message \<Rightarrow> string) \<Rightarrow> Event \<Rightarrow> string" where
  "slack_text text_of e =
     actionEmoji (ev_Action e) @ '' *'' @ ev_Kind e @ ''* `'' @ ev_Name e @ ''`''
     @ (if ev_Environment e = [] then [] else '' ('' @ ev_Environment e @ '')'')
     @ (if ev_Provider e = [] then [] else '' on '' @ ev_Provider e)
     @ '' - *'' @ ev_Action e @ ''*''
     @ (if text_of (ev_Message e) = [] then [] else CHR 0x0A # text_of (ev_Message e))"

definition siem_fields :: "(message \<Rightarrow> string) \<Rightarrow> time \<Rightarrow> string \<Rightarrow> Event \<Rightarrow> obj" where
  "siem_fields text_of t host e =
     [(''version'', JStr ''1.1''), (''host'', JStr host),
      (''short_message'', JStr (ev_Kind e @ '' '' @ ev_Action e @ '': '' @ ev_Name e)),
      (''level'', JNum (of_int (gelfLevel (ev_Action e)))), (''timestamp'', JNum (of_int (t div 1000000000))),
      (''_kind'', JStr (ev_Kind e)), (''_action'', JStr (ev_Action e)), (''_name'', JStr (ev_Name e)),
      (''_environment'', JStr (ev_Environment e)), (''_provider'', JStr (ev_Provider e))]
     @ (if text_of (ev_Message e) = [] then [] else [(''_message'', JStr (text_of (ev_Message e)))])"

definition postJSON :: "'w Net \<Rightarrow> string \<Rightarrow> json \<Rightarrow> ('w, unit) op" where
  "postJSON N url body =
     bindE (send N ''Post'' \<lparr>hq_Method = ''POST'', hq_URL = url, hq_Query = [],
        hq_Headers = [(''Content-Type'', ''application/json'')], hq_Body = Some (Doc body)\<rparr>) (\<lambda>resp.
     guardE (hr_StatusCode resp < 300) (Upstream (''POST '' @ url @ '' returned '' @ show_nat (hr_StatusCode resp))))"

text \<open>The audit sink writes a line of the process log.\<close>

fun Emit :: "'w Net \<Rightarrow> (message \<Rightarrow> string) \<Rightarrow> time \<Rightarrow> sink \<Rightarrow> Event \<Rightarrow> ('w, unit) op" where
  "Emit N text_of t Audit e = ret ()"
| "Emit N text_of t (Slack url) e = postJSON N url (JObj [(''text'', JStr (slack_text text_of e))])"
| "Emit N text_of t (SIEM url host) e = postJSON N url (JObj (siem_fields text_of t host e))"

section \<open>The bus\<close>

definition FromConfig :: "string \<Rightarrow> string \<Rightarrow> sink list" where
  "FromConfig slack siem = [Audit] @ (if slack = [] then [] else [Slack slack]) @ (if siem = [] then [] else [NewSIEMSink siem ''opord''])"

definition bus_Sinks :: "sink list \<Rightarrow> string list" where
  "bus_Sinks = map sink_Name"

text \<open>An event goes to every sink; a failure is logged. The service never sets its time, so it is the time of
  publishing.\<close>

definition Publish :: "'w Net \<Rightarrow> (message \<Rightarrow> string) \<Rightarrow> sink list \<Rightarrow> Event \<Rightarrow> ('w, unit) op" where
  "Publish N text_of sinks e = bindE (gets (nt_now N)) (\<lambda>t. forE sinks (\<lambda>s. ignore (Emit N text_of t s e)))"

text \<open>No sink can hold up another, and publishing does not fail.\<close>

lemma Publish_total: "fst (Publish N text_of sinks e s) = Inr ()"
  by (simp add: Publish_def fst_bindE fst_forE_total)

end
