(* ===== verification/Start.thy ===== *)
theory Start
  imports Vault Sinks Routes OpenAI Anthropic LiteLLM
begin

text \<open>
  Configuration and process start (\<open>internal/config\<close>, \<open>cmd/api/main.go\<close>): the settings, the server they
  make of the parts of the program, the first key of an empty store, and the loop that reaps expired access.
  What the process finds around it (the network, the clock, the client of OpenBao, hashing, random bytes) is the record
  \<open>Around\<close>.
\<close>

section \<open>Configuration\<close>

record Config =
  cf_HTTPAddr :: string
  cf_LogLevel :: string
  cf_Env :: string
  cf_DatabaseURL :: string
  cf_VaultAddr :: string
  cf_VaultToken :: string
  cf_VaultKVMount :: string
  cf_VaultKVBase :: string
  cf_OIDCIssuerURL :: string
  cf_OIDCClientID :: string
  cf_OIDCClientSecret :: string
  cf_OIDCRedirectURL :: string
  cf_ModulesDir :: string
  cf_TofuBin :: string
  cf_AnsibleBin :: string
  cf_AnsibleDir :: string
  cf_SSHPrivateKey :: string
  cf_ArtifactsDir :: string
  cf_ReconcileInterval :: string
  cf_ProviderCheckInterval :: string
  cf_SlackWebhookURL :: string
  cf_SIEMURL :: string
  cf_GLPIURL :: string
  cf_GLPIAppToken :: string
  cf_GLPIUserToken :: string
  cf_GLPIItemType :: string
  cf_AzureTenantID :: string
  cf_AzureClientID :: string
  cf_AzureClientSecret :: string
  cf_AuthEnabled :: bool

definition getenv_or :: "(string \<Rightarrow> string) \<Rightarrow> string \<Rightarrow> string \<Rightarrow> string" where
  "getenv_or env key d = (let v = TrimSpace (env key) in if v \<noteq> [] then v else d)"

definition Load :: "(string \<Rightarrow> string) \<Rightarrow> Config" where
  "Load env =
     \<lparr>cf_HTTPAddr = getenv_or env ''OPORD_HTTP_ADDR'' '':8080'',
      cf_LogLevel = getenv_or env ''OPORD_LOG_LEVEL'' ''info'',
      cf_Env = getenv_or env ''OPORD_ENV'' ''dev'',
      cf_DatabaseURL = env ''DATABASE_URL'',
      cf_VaultAddr = getenv_or env ''VAULT_ADDR'' ''http://localhost:8200'',
      cf_VaultToken = env ''VAULT_TOKEN'',
      cf_VaultKVMount = getenv_or env ''VAULT_KV_MOUNT'' ''secret'',
      cf_VaultKVBase = getenv_or env ''VAULT_KV_BASE'' ''opord'',
      cf_OIDCIssuerURL = env ''OIDC_ISSUER_URL'',
      cf_OIDCClientID = env ''OIDC_CLIENT_ID'',
      cf_OIDCClientSecret = env ''OIDC_CLIENT_SECRET'',
      cf_OIDCRedirectURL = env ''OIDC_REDIRECT_URL'',
      cf_ModulesDir = getenv_or env ''OPORD_MODULES_DIR'' ''./modules'',
      cf_TofuBin = getenv_or env ''TOFU_BIN'' ''tofu'',
      cf_AnsibleBin = getenv_or env ''ANSIBLE_BIN'' ''ansible-playbook'',
      cf_AnsibleDir = getenv_or env ''ANSIBLE_DIR'' ''./ansible'',
      cf_SSHPrivateKey = env ''OPORD_SSH_PRIVATE_KEY'',
      cf_ArtifactsDir = getenv_or env ''OPORD_ARTIFACTS_DIR'' ''./artifacts'',
      cf_ReconcileInterval = getenv_or env ''OPORD_RECONCILE_INTERVAL'' ''15m'',
      cf_ProviderCheckInterval = getenv_or env ''OPORD_PROVIDER_CHECK_INTERVAL'' ''0'',
      cf_SlackWebhookURL = env ''OPORD_SLACK_WEBHOOK_URL'',
      cf_SIEMURL = env ''OPORD_SIEM_URL'',
      cf_GLPIURL = env ''OPORD_GLPI_URL'',
      cf_GLPIAppToken = env ''OPORD_GLPI_APP_TOKEN'',
      cf_GLPIUserToken = env ''OPORD_GLPI_USER_TOKEN'',
      cf_GLPIItemType = getenv_or env ''OPORD_GLPI_ITEM_TYPE'' ''Computer'',
      cf_AzureTenantID = env ''AZURE_TENANT_ID'',
      cf_AzureClientID = env ''AZURE_CLIENT_ID'',
      cf_AzureClientSecret = env ''AZURE_CLIENT_SECRET'',
      cf_AuthEnabled = (getenv_or env ''OPORD_AUTH_ENABLED'' ''false'' = ''true'')\<rparr>"

section \<open>The parts put together\<close>

record 'w Around =
  ar_fault :: "string \<Rightarrow> bool"
  ar_net :: "'w Net"
  ar_sleep :: "int \<Rightarrow> 'w \<Rightarrow> 'w"
  ar_show :: "json \<Rightarrow> string"
  ar_vault :: "string \<Rightarrow> string \<Rightarrow> 'w VaultClient option"
  ar_uuid_parse :: "string \<Rightarrow> uuid option"
  ar_RandRead :: "('w, string) op"
  ar_ParseAddress :: "string \<Rightarrow> bool"

text \<open>The registrations in the order of \<open>run\<close>; \<open>None\<close> is the panic of a type registered twice.\<close>

definition ai_registry :: "'w Net \<Rightarrow> 'w Registry option" where
  "ai_registry N =
     Option.bind (Register NewRegistry ''mock_ai'' (mock_provider (nt_uuid_string N))) (\<lambda>r.
     Option.bind (Register r ''openai'' (openai_provider N)) (\<lambda>r.
     Option.bind (Register r ''anthropic'' (anthropic_provider N)) (\<lambda>r.
     Register r ''litellm'' (litellm_provider N))))"

definition resolver_of :: "'w Around \<Rightarrow> Config \<Rightarrow> 'w resolver" where
  "resolver_of A cf = NewResolver (ar_vault A) (ar_net A) (ar_sleep A) (ar_show A) (cf_VaultAddr cf) (cf_VaultToken cf) (cf_VaultKVMount cf)"

text \<open>The service with its registry, its resolver and its bus; no ticket backend is ever set.\<close>

definition service_of :: "'w Around \<Rightarrow> Config \<Rightarrow> 'w Registry \<Rightarrow> 'w env" where
  "service_of A cf r =
     \<lparr>env_fault = ar_fault A, env_uuid_string = nt_uuid_string (ar_net A), env_uuid_parse = ar_uuid_parse A,
      env_creds = Some (resolver_creds (resolver_of A cf)), env_ai = Some r, env_events = True, env_CreateTicket = None,
      env_RandRead = ar_RandRead A, env_url_ok = nt_url_ok (ar_net A), env_http = nt_http (ar_net A)\<rparr>"

definition server_of :: "'w Around \<Rightarrow> Config \<Rightarrow> 'w Registry \<Rightarrow> 'w Server" where
  "server_of A cf r = \<lparr>srv_svc = service_of A cf r, srv_authEnabled = cf_AuthEnabled cf, srv_ParseAddress = ar_ParseAddress A\<rparr>"

definition bus_of :: "Config \<Rightarrow> sink list" where
  "bus_of cf = FromConfig (cf_SlackWebhookURL cf) (cf_SIEMURL cf)"

section \<open>Starting and running\<close>

text \<open>The first run: with authentication on, an administrator is made in an empty store and its key printed; a failure is logged
  and the server starts all the same.\<close>

definition first_key :: "'w Server \<Rightarrow> ('w st, string) op" where
  "first_key S = (if srv_authEnabled S
     then bindE (attempt (EnsureInitialAdmin (srv_svc S))) (\<lambda>r. case r of Inl e \<Rightarrow> ret [] | Inr key \<Rightarrow> ret key)
     else ret [])"

text \<open>\<open>run\<close> up to the point where it listens: the server and the printed key.\<close>

definition run_api :: "'w Around \<Rightarrow> (string \<Rightarrow> string) \<Rightarrow> ('w st, 'w Server \<times> string) op" where
  "run_api A env =
     (let cf = Load env in
      if cf_DatabaseURL cf = [] then fail (Msg ''DATABASE_URL is not set (see .env.example)'')
      else (case ai_registry (ar_net A) of
              None \<Rightarrow> fail (Panic ''aiproviders: type already registered'')
            | Some r \<Rightarrow> bindE (first_key (server_of A cf r)) (\<lambda>key. ret (server_of A cf r, key))))"

text \<open>One tick of the reaper; its error is logged.\<close>

definition reaper_tick :: "'w Server \<Rightarrow> ('w st, unit) op" where
  "reaper_tick S = ignore (ReapExpiredAIInstances (srv_svc S) None)"

text \<open>What happens to the store while the server runs.\<close>

inductive running :: "'w Server \<Rightarrow> 'w st \<Rightarrow> 'w st \<Rightarrow> bool" for S where
  started: "running S s s"
| request: "running S s t \<Longrightarrow> running S s (snd (serve S q t))"
| tick: "running S s t \<Longrightarrow> running S s (snd (reaper_tick S t))"
| clock: "running S s t \<Longrightarrow> st_now t \<le> now \<Longrightarrow> running S s (t\<lparr>st_now := now\<rparr>)"
| outside: "running S s t \<Longrightarrow> running S s (t\<lparr>st_world := w\<rparr>)"

end
