(* ===== verification/Deployed.thy ===== *)
theory Deployed
  imports Start ApiSteps Wellformed
begin

text \<open>
  The program as it is started: the clients its registry serves, the states a running server reaches, what
  becomes of a secret written through the resolver, and that the resolver neither fails nor waits forever.
\<close>

section \<open>The registry\<close>

lemma ai_registry_some: "ai_registry N = Some
    [(''mock_ai'', mock_provider (nt_uuid_string N)), (''openai'', openai_provider N),
     (''anthropic'', anthropic_provider N), (''litellm'', litellm_provider N)]"
  by (simp add: ai_registry_def Register_def NewRegistry_def)

section \<open>The running server\<close>

text \<open>A tick of the reaper is a command, whether it succeeds or not.\<close>

lemma tick_step: "step s (snd (reaper_tick S s))"
  using step.command [of s "srv_svc S" None Reap] by (simp add: reaper_tick_def)

lemma running_reachable: "running S s t \<Longrightarrow> reachable s \<Longrightarrow> reachable t"
proof (induction rule: running.induct)
  case (request s t q)
  obtain r u where "serve S q t = (r, u)" by fastforce
  then show ?case
    using request follows_serve [of S q t] by (auto intro: reachable.more dest: follows_step)
qed (auto intro: reachable.more tick_step step.clock step.outside)

text \<open>Starting is at most the bootstrap, which is a command.\<close>

lemma first_key_step: "snd (first_key S s) = s \<or> snd (first_key S s) = snd (run (srv_svc S) None Bootstrap s)"
  by (auto simp: first_key_def bindE_attempt split: sum.split)

lemma first_key_reachable: "reachable s \<Longrightarrow> reachable (snd (first_key S s))"
  using first_key_step [of S s] step.command [of s "srv_svc S" None Bootstrap] by (metis reachable.more)

lemma first_key_total: "fst (first_key S s) \<noteq> Inl e"
  by (simp add: first_key_def fst_bindE split: sum.split)

lemma run_api_started:
  "run_api A env s = (r, t) \<Longrightarrow>
     (case r of
        Inl e \<Rightarrow> t = s \<and> cf_DatabaseURL (Load env) = []
      | Inr (S, key) \<Rightarrow> srv_authEnabled S = cf_AuthEnabled (Load env) \<and> env_ai (srv_svc S) = ai_registry (ar_net A)
          \<and> first_key S s = (Inr key, t))"
proof (cases "cf_DatabaseURL (Load env) = []")
  case False
  assume run: "run_api A env s = (r, t)"
  obtain reg where reg: "ai_registry (ar_net A) = Some reg" using ai_registry_some by blast
  obtain key u where key: "first_key (server_of A (Load env) reg) s = (Inr key, u)"
    using first_key_total by (metis prod.collapse sum.exhaust_sel sum.collapse(1) sum.collapse(2))
  have "(r, t) = (Inr (server_of A (Load env) reg, key), u)"
    using run False reg key by (simp add: run_api_def Let_def bindE_def ret_def)
  with reg key show ?thesis by (simp add: server_of_def service_of_def)
qed (auto simp: run_api_def fail_def)

section \<open>Secrets\<close>

lemma as_strings_JStr: "as_strings R (map (\<lambda>(k, v). (k, JStr v)) data) = data"
  by (induction data) (auto simp: as_strings_def)

text \<open>What the store accepted under a path is read back from it.\<close>

lemma secret_read_back:
  assumes "VaultResolver_WriteSecret R path data w = (Inr (), w')" "path \<noteq> []"
    and "\<And>d. vc_Put (rv_client R) (rv_mount R) path d w = (Inr (), w') \<Longrightarrow> vc_Get (rv_client R) (rv_mount R) path w' = Inr d"
  shows "VaultResolver_ReadSecret R path w' = Inr data"
  using assms by (auto simp: VaultResolver_WriteSecret_def VaultResolver_ReadSecret_def as_strings_JStr)

text \<open>A minted key that the service takes out of an observed state and hands to OpenBao is the key it reads
  back for the instance.\<close>

definition key_path :: "'w env \<Rightarrow> uuid \<Rightarrow> obj \<Rightarrow> string" where
  "key_path E k m = ''opord/ai/keys/'' @ (case str_at m ''key_alias'' of
     None \<Rightarrow> env_uuid_string E k | Some a \<Rightarrow> if a = [] then env_uuid_string E k else a)"

lemma strip_writes:
  assumes "str_at m ''virtual_key'' = Some raw" "TrimSpace raw \<noteq> []"
  shows "stripMintedSecret E k m = bindE
     (case Option.bind (env_creds E) cr_WriteSecret of
        None \<Rightarrow> ret (AList.delete ''virtual_key'' m)
      | Some write' \<Rightarrow> bindE (attempt (on_world (write' (key_path E k m) [(''key'', raw)]))) (\<lambda>r. case r of
            Inl _ \<Rightarrow> ret (AList.delete ''virtual_key'' m)
          | Inr _ \<Rightarrow> ret (AList.update ''virtual_key_secret'' (JStr (key_path E k m)) (AList.delete ''virtual_key'' m))))
     (\<lambda>obs. ret (raw, AList.update ''virtual_key_preview'' (JStr (maskKey raw)) obs))"
proof -
  have names: "''opord/ai/keys/'' @ (if (case str_at (AList.delete ''virtual_key'' m) ''key_alias'' of Some a \<Rightarrow> a | None \<Rightarrow> []) = []
      then env_uuid_string E k else case str_at (AList.delete ''virtual_key'' m) ''key_alias'' of Some a \<Rightarrow> a | None \<Rightarrow> []) = key_path E k m"
    by (simp add: str_at_delete key_path_def split: option.split)
  show ?thesis unfolding stripMintedSecret_def Let_def names by (simp only: assms option.case if_False)
qed

lemma minted_key_kept:
  assumes creds: "env_creds E = Some (resolver_creds (OpenBao R))"
    and key: "str_at m ''virtual_key'' = Some raw" "TrimSpace raw \<noteq> []"
    and path: "TrimSpace (key_path E k m) = key_path E k m"
    and put: "vc_Put (rv_client R) (rv_mount R) (key_path E k m) [(''key'', JStr raw)] (st_world s) = (Inr (), w)"
    and got: "vc_Get (rv_client R) (rv_mount R) (key_path E k m) w = Inr [(''key'', JStr raw)]"
  shows "case stripMintedSecret E k m s of
      (Inl e, t) \<Rightarrow> False
    | (Inr (found, m'), t) \<Rightarrow> found = raw \<and> sealed m' \<and> st_world t = w
        \<and> readMintedKey E (mintedKeyPath (JObj m')) t = (Inr (TrimSpace raw), t)"
proof -
  define m' where "m' = AList.update ''virtual_key_preview'' (JStr (maskKey raw))
    (AList.update ''virtual_key_secret'' (JStr (key_path E k m)) (AList.delete ''virtual_key'' m))"
  have "VaultResolver_WriteSecret R (key_path E k m) [(''key'', raw)] (st_world s) = (Inr (), w)"
    using put by (simp add: VaultResolver_WriteSecret_def)
  then have strip: "stripMintedSecret E k m s = (Inr (raw, m'), s\<lparr>st_world := w\<rparr>)"
    unfolding strip_writes [OF key] m'_def
    by (simp add: creds attempt_def on_world_def bindE_def ret_def)
  have "mintedKeyPath (JObj m') = key_path E k m"
    using path by (simp add: mintedKeyPath_def to_obj_def m'_def str_at_update)
  moreover have "key_path E k m \<noteq> []" by (simp add: key_path_def)
  ultimately have "readMintedKey E (mintedKeyPath (JObj m')) (s\<lparr>st_world := w\<rparr>) = (Inr (TrimSpace raw), s\<lparr>st_world := w\<rparr>)"
    using got by (simp add: readMintedKey_def creds VaultResolver_ReadSecret_def as_strings_def kv_at_def gets_def)
  moreover have "sealed m'"
    using stripMintedSecret_sealed [of E k m s raw m'] strip by simp
  ultimately show ?thesis by (simp add: strip)
qed

lemma config_has_no_credentials: "list_all (\<lambda>(k, v). k \<notin> set credKeys) (ResolveConfig rv p w)"
  by (cases rv) (auto simp: VaultResolver_ResolveConfig_def list_all_iff split: sum.split)

section \<open>Resolving ends and does not fail\<close>

lemma fst_azure_settle: "fst (azure_settle R mk ref tenant i secret s) = Inr ()"
  by (simp add: azure_settle_def Let_def)

lemma resolve_total: "\<not> isl (fst (VaultResolver_Resolve R mk text_of p s))"
  by (auto simp: VaultResolver_Resolve_def resolve_gcp_def resolve_aws_def resolve_azure_def Let_def fst_bindE
      fst_azure_settle split: sum.splits option.splits)

text \<open>The wait for a fresh Azure credential: a sleep lasts at least as long as it was asked for, and a probe
  does not turn the clock back. Then the loop stops within the fuel.\<close>

lemma azure_first_stops:
  assumes clock: "\<And>w d. nt_now (rv_net R) w + d \<le> nt_now (rv_net R) (rv_sleep R d w)"
    and probe: "\<And>w. nt_now (rv_net R) w \<le> nt_now (rv_net R) (snd (azure_probe R req w))"
  shows "deadline < nt_now (rv_net R) w + int n * azureProbeInterval \<Longrightarrow> azure_first (Suc n) R req deadline w \<noteq> None"
proof (induction n arbitrary: w)
  case 0
  then show ?case using probe [of w] by (auto split: prod.splits bool.splits)
next
  case (Suc n)
  obtain ok w' where w': "azure_probe R req w = (ok, w')" by fastforce
  have "nt_now (rv_net R) w + azureProbeInterval \<le> nt_now (rv_net R) (rv_sleep R azureProbeInterval w')"
    using probe [of w] clock [of w' azureProbeInterval] w' by simp
  with Suc.prems have "azure_first (Suc n) R req deadline (rv_sleep R azureProbeInterval w') \<noteq> None"
    by (intro Suc.IH) (simp add: algebra_simps)
  with w' show ?case by (auto simp del: azure_first.simps simp: azure_first.simps(2) [of "Suc n"] split: bool.split)
qed

lemma azure_fuel_suffices:
  assumes "\<And>w d. nt_now (rv_net R) w + d \<le> nt_now (rv_net R) (rv_sleep R d w)"
    and "\<And>w. nt_now (rv_net R) w \<le> nt_now (rv_net R) (snd (azure_probe R req w))"
  shows "azure_first azure_fuel R req (nt_now (rv_net R) w + 90 * second_ns) w \<noteq> None"
  using azure_first_stops [OF assms, of "nt_now (rv_net R) w + 90 * second_ns" w 16]
  by (simp add: azure_fuel_def azureProbeInterval_def second_ns_def eval_nat_numeral)

end
