(* ===== verification/Infra.thy ===== *)
theory Infra
  imports Queries Vault
begin

text \<open>
  The infrastructure tables of an earlier product (\<open>internal/db/providers.sql.go\<close>, \<open>clusters\<close>, \<open>nodes\<close>, \<open>jobs\<close>,
  \<open>resources\<close>, \<open>environments\<close>, \<open>backups\<close>). Their queries are part of \<open>internal/db\<close> and no operation of the service
  calls them, so they have a store of their own, which shares with the other only the identifiers of tenants.
  Every constraint of a table is one function from a row to the violation it would be: an insertion and an update
  ask it for the row they are about to write, and the invariant is that no stored row violates it. At the end, the
  remaining operations without a caller.
\<close>

section \<open>Rows\<close>

record Cluster =
  cl_ID :: uuid
  cl_Name :: string
  cl_Environment :: string
  cl_ProviderID :: uuid
  cl_Status :: string
  cl_DesiredSpec :: json
  cl_ObservedState :: json
  cl_TofuWorkspace :: string
  cl_KubeconfigRef :: "string option"
  cl_CreatedAt :: time
  cl_UpdatedAt :: time
  cl_TenantID :: "uuid option"

record ClusterNode =
  nd_ID :: uuid
  nd_ClusterID :: uuid
  nd_Name :: string
  nd_Role :: string
  nd_IpAddress :: "string option"
  nd_VmMoid :: "string option"
  nd_Cpu :: "int option"
  nd_MemoryMb :: "int option"
  nd_DiskGb :: "int option"
  nd_Status :: string
  nd_CreatedAt :: time
  nd_UpdatedAt :: time

record Job =
  jb_ID :: uuid
  jb_ClusterID :: "uuid option"
  jb_Operation :: string
  jb_Status :: string
  jb_RiverJobID :: "int option"
  jb_Error :: "string option"
  jb_StartedAt :: "time option"
  jb_FinishedAt :: "time option"
  jb_CreatedAt :: time

record Resource =
  rs_ID :: uuid
  rs_Name :: string
  rs_Environment :: string
  rs_ProviderID :: uuid
  rs_Kind :: string
  rs_Status :: string
  rs_Spec :: json
  rs_Observed :: json
  rs_TofuWorkspace :: string
  rs_CreatedAt :: time
  rs_UpdatedAt :: time
  rs_TenantID :: "uuid option"

record Environment =
  en_ID :: uuid
  en_Name :: string
  en_Environment :: string
  en_Blueprint :: string
  en_Status :: string
  en_Spec :: json
  en_CreatedAt :: time
  en_UpdatedAt :: time
  en_TenantID :: "uuid option"

record Backup =
  bk_ID :: uuid
  bk_ResourceKind :: string
  bk_ResourceName :: string
  bk_Environment :: string
  bk_Provider :: string
  bk_SnapshotID :: string
  bk_TofuWorkspace :: string
  bk_Status :: string
  bk_TenantID :: "uuid option"
  bk_CreatedAt :: time
  bk_UpdatedAt :: time

record infra =
  nf_now :: time
  nf_next :: uuid
  nf_tenants :: "uuid list"
  nf_providers :: "InfraProvider list"
  nf_clusters :: "Cluster list"
  nf_nodes :: "ClusterNode list"
  nf_jobs :: "Job list"
  nf_resources :: "Resource list"
  nf_environments :: "Environment list"
  nf_backups :: "Backup list"

section \<open>Constraints\<close>

text \<open>Checks come before unique keys, unique keys before references.\<close>

definition violation :: "bool \<Rightarrow> bool \<Rightarrow> bool \<Rightarrow> err option" where
  "violation checks unique refs =
     (if \<not> checks then Some CheckViolation else if \<not> unique then Some UniqueViolation
      else if \<not> refs then Some FkViolation else None)"

text \<open>No row with another identifier has the same key.\<close>

definition sole :: "('t \<Rightarrow> uuid) \<Rightarrow> ('t \<Rightarrow> 'k) \<Rightarrow> 't list \<Rightarrow> 't \<Rightarrow> bool" where
  "sole key f rows r = list_all (\<lambda>x. key x = key r \<or> f x \<noteq> f r) rows"

definition known_tenant :: "uuid option \<Rightarrow> infra \<Rightarrow> bool" where
  "known_tenant t s = (case t of None \<Rightarrow> True | Some k \<Rightarrow> k \<in> set (nf_tenants s))"

definition provider_violation :: "infra \<Rightarrow> InfraProvider \<Rightarrow> err option" where
  "provider_violation s p = violation (ip_Type p \<in> {''vsphere'', ''proxmox'', ''aws'', ''azure'', ''gcp''})
     (sole ip_ID ip_Name (nf_providers s) p) True"

definition cluster_violation :: "infra \<Rightarrow> Cluster \<Rightarrow> err option" where
  "cluster_violation s c = violation
     (cl_Status c \<in> {''pending'', ''provisioning'', ''bootstrapping'', ''ready'', ''degraded'', ''destroying'', ''destroyed'', ''failed''})
     (sole cl_ID cl_TofuWorkspace (nf_clusters s) c \<and> sole cl_ID (\<lambda>c. (cl_Name c, cl_Environment c)) (nf_clusters s) c)
     (cl_ProviderID c \<in> ip_ID ` set (nf_providers s) \<and> known_tenant (cl_TenantID c) s)"

definition node_violation :: "infra \<Rightarrow> ClusterNode \<Rightarrow> err option" where
  "node_violation s n = violation
     (nd_Role n \<in> {''control_plane'', ''worker''} \<and> nd_Status n \<in> {''pending'', ''provisioned'', ''ready'', ''failed''})
     (sole nd_ID (\<lambda>n. (nd_ClusterID n, nd_Name n)) (nf_nodes s) n)
     (nd_ClusterID n \<in> cl_ID ` set (nf_clusters s))"

definition job_violation :: "infra \<Rightarrow> Job \<Rightarrow> err option" where
  "job_violation s j = violation
     (jb_Operation j \<in> {''provision'', ''bootstrap'', ''reconcile'', ''destroy''}
      \<and> jb_Status j \<in> {''queued'', ''running'', ''succeeded'', ''failed'', ''cancelled''})
     True (case jb_ClusterID j of None \<Rightarrow> True | Some k \<Rightarrow> k \<in> cl_ID ` set (nf_clusters s))"

definition resource_kinds :: "string list" where
  "resource_kinds = [''vm'', ''k8s-cluster'', ''database'', ''stack'', ''table'', ''function'', ''project'', ''account'', ''s3'',
     ''secret'', ''queue'', ''cache'', ''dns'', ''cert'', ''loadbalancer'', ''apigateway'', ''cdn'']"

definition resource_violation :: "infra \<Rightarrow> Resource \<Rightarrow> err option" where
  "resource_violation s r = violation
     (rs_Kind r \<in> set resource_kinds
      \<and> rs_Status r \<in> {''pending'', ''provisioning'', ''ready'', ''degraded'', ''destroying'', ''destroyed'', ''failed''})
     (sole rs_ID rs_TofuWorkspace (nf_resources s) r \<and> sole rs_ID (\<lambda>r. (rs_Name r, rs_Environment r)) (nf_resources s) r)
     (rs_ProviderID r \<in> ip_ID ` set (nf_providers s) \<and> known_tenant (rs_TenantID r) s)"

definition environment_violation :: "infra \<Rightarrow> Environment \<Rightarrow> err option" where
  "environment_violation s e = violation
     (en_Status e \<in> {''pending'', ''provisioning'', ''ready'', ''degraded'', ''destroying'', ''destroyed'', ''failed''})
     (sole en_ID (\<lambda>e. (en_Name e, en_Environment e)) (nf_environments s) e) (known_tenant (en_TenantID e) s)"

definition backup_violation :: "infra \<Rightarrow> Backup \<Rightarrow> err option" where
  "backup_violation s b = violation (bk_Status b \<in> {''pending'', ''running'', ''completed'', ''failed''})
     (sole bk_ID bk_TofuWorkspace (nf_backups s) b) (known_tenant (bk_TenantID b) s)"

section \<open>Reading and writing rows\<close>

definition iquery :: "(string \<Rightarrow> bool) \<Rightarrow> string \<Rightarrow> (infra, 'a) op \<Rightarrow> (infra, 'a) op" where
  "iquery F n m = (if F n then fail Fault else m)"

definition infra_one :: "(infra \<Rightarrow> 'a option) \<Rightarrow> (infra, 'a) op" where
  "infra_one f = (\<lambda>s. case f s of None \<Rightarrow> (Inl NoRows, s) | Some r \<Rightarrow> (Inr r, s))"

definition add_row :: "(('t list \<Rightarrow> 't list) \<Rightarrow> infra \<Rightarrow> infra) \<Rightarrow> (infra \<Rightarrow> 't \<Rightarrow> err option) \<Rightarrow> (uuid \<Rightarrow> time \<Rightarrow> 't) \<Rightarrow> (infra, 't) op" where
  "add_row upd bad mk = (\<lambda>s. let r = mk (nf_next s) (nf_now s) in case bad s r of
     Some e \<Rightarrow> (Inl e, s)
   | None \<Rightarrow> (Inr r, (upd (\<lambda>rows. rows @ [r]) s)\<lparr>nf_next := Suc (nf_next s)\<rparr>))"

definition set_row ::
  "(infra \<Rightarrow> 't list) \<Rightarrow> (('t list \<Rightarrow> 't list) \<Rightarrow> infra \<Rightarrow> infra) \<Rightarrow> ('t \<Rightarrow> uuid) \<Rightarrow> (infra \<Rightarrow> 't \<Rightarrow> err option) \<Rightarrow> uuid
     \<Rightarrow> (time \<Rightarrow> 't \<Rightarrow> 't) \<Rightarrow> (infra, 't) op" where
  "set_row get upd key bad k f = (\<lambda>s. case List.find (\<lambda>r. key r = k) (get s) of
     None \<Rightarrow> (Inl NoRows, s)
   | Some r \<Rightarrow> (case bad s (f (nf_now s) r) of
       Some e \<Rightarrow> (Inl e, s)
     | None \<Rightarrow> (Inr (f (nf_now s) r), upd (update_rows (\<lambda>r. key r = k) (f (nf_now s))) s)))"

definition infra_change :: "(infra \<Rightarrow> bool) \<Rightarrow> (infra \<Rightarrow> infra) \<Rightarrow> (infra, unit) op" where
  "infra_change allowed f = (\<lambda>s. if allowed s then (Inr (), f s) else (Inl FkViolation, s))"

section \<open>Providers\<close>

definition q_CreateProvider :: "(string \<Rightarrow> bool) \<Rightarrow> string \<Rightarrow> string \<Rightarrow> json \<Rightarrow> string \<Rightarrow> (infra, InfraProvider) op" where
  "q_CreateProvider F name ty config ref = iquery F ''CreateProvider''
     (add_row nf_providers_update provider_violation (\<lambda>i t. \<lparr>ip_ID = i, ip_Name = name, ip_Type = ty, ip_Config = config,
        ip_SecretRef = ref, ip_CreatedAt = t, ip_UpdatedAt = t, ip_LastCheckStatus = [], ip_LastCheckMessage = [],
        ip_LastCheckLatencyMs = 0, ip_LastCheckAt = None\<rparr>))"

definition q_GetProvider :: "(string \<Rightarrow> bool) \<Rightarrow> uuid \<Rightarrow> (infra, InfraProvider) op" where
  "q_GetProvider F k = iquery F ''GetProvider'' (infra_one (\<lambda>s. List.find (\<lambda>p. ip_ID p = k) (nf_providers s)))"

definition q_GetProviderByName :: "(string \<Rightarrow> bool) \<Rightarrow> string \<Rightarrow> (infra, InfraProvider) op" where
  "q_GetProviderByName F name = iquery F ''GetProviderByName'' (infra_one (\<lambda>s. List.find (\<lambda>p. ip_Name p = name) (nf_providers s)))"

definition q_ListProviders :: "(string \<Rightarrow> bool) \<Rightarrow> (infra, InfraProvider list) op" where
  "q_ListProviders F = iquery F ''ListProviders'' (gets (\<lambda>s. rev (nf_providers s)))"

definition q_UpdateProvider :: "(string \<Rightarrow> bool) \<Rightarrow> uuid \<Rightarrow> string \<Rightarrow> string \<Rightarrow> json \<Rightarrow> string \<Rightarrow> (infra, InfraProvider) op" where
  "q_UpdateProvider F k name ty config ref = iquery F ''UpdateProvider''
     (set_row nf_providers nf_providers_update ip_ID provider_violation k (\<lambda>t p.
        p\<lparr>ip_Name := name, ip_Type := ty, ip_Config := config, ip_SecretRef := ref, ip_UpdatedAt := t\<rparr>))"

definition q_UpdateProviderHealth :: "(string \<Rightarrow> bool) \<Rightarrow> uuid \<Rightarrow> string \<Rightarrow> string \<Rightarrow> int \<Rightarrow> (infra, InfraProvider) op" where
  "q_UpdateProviderHealth F k status msg latency = iquery F ''UpdateProviderHealth''
     (set_row nf_providers nf_providers_update ip_ID provider_violation k (\<lambda>t p.
        p\<lparr>ip_LastCheckStatus := status, ip_LastCheckMessage := msg, ip_LastCheckLatencyMs := latency, ip_LastCheckAt := Some t\<rparr>))"

definition q_CountClustersByProvider :: "(string \<Rightarrow> bool) \<Rightarrow> uuid \<Rightarrow> (infra, nat) op" where
  "q_CountClustersByProvider F k = iquery F ''CountClustersByProvider''
     (gets (\<lambda>s. length (filter (\<lambda>c. cl_ProviderID c = k) (nf_clusters s))))"

definition q_CountResourcesByProvider :: "(string \<Rightarrow> bool) \<Rightarrow> uuid \<Rightarrow> (infra, nat) op" where
  "q_CountResourcesByProvider F k = iquery F ''CountResourcesByProvider''
     (gets (\<lambda>s. length (filter (\<lambda>r. rs_ProviderID r = k) (nf_resources s))))"

text \<open>Clusters and resources restrict the deletion of their provider.\<close>

definition q_DeleteProvider :: "(string \<Rightarrow> bool) \<Rightarrow> uuid \<Rightarrow> (infra, unit) op" where
  "q_DeleteProvider F k = iquery F ''DeleteProvider''
     (infra_change (\<lambda>s. list_all (\<lambda>c. cl_ProviderID c \<noteq> k) (nf_clusters s) \<and> list_all (\<lambda>r. rs_ProviderID r \<noteq> k) (nf_resources s))
        (\<lambda>s. s\<lparr>nf_providers := filter (\<lambda>p. ip_ID p \<noteq> k) (nf_providers s)\<rparr>))"

section \<open>Clusters, nodes, jobs\<close>

definition q_CreateCluster ::
  "(string \<Rightarrow> bool) \<Rightarrow> string \<Rightarrow> string \<Rightarrow> uuid \<Rightarrow> json \<Rightarrow> string \<Rightarrow> uuid option \<Rightarrow> (infra, Cluster) op" where
  "q_CreateCluster F name environment provider spec workspace tenant = iquery F ''CreateCluster''
     (add_row nf_clusters_update cluster_violation (\<lambda>i t. \<lparr>cl_ID = i, cl_Name = name, cl_Environment = environment,
        cl_ProviderID = provider, cl_Status = ''pending'', cl_DesiredSpec = spec, cl_ObservedState = JObj [],
        cl_TofuWorkspace = workspace, cl_KubeconfigRef = None, cl_CreatedAt = t, cl_UpdatedAt = t, cl_TenantID = tenant\<rparr>))"

definition q_GetCluster :: "(string \<Rightarrow> bool) \<Rightarrow> uuid \<Rightarrow> (infra, Cluster) op" where
  "q_GetCluster F k = iquery F ''GetCluster'' (infra_one (\<lambda>s. List.find (\<lambda>c. cl_ID c = k) (nf_clusters s)))"

definition q_GetClusterByName :: "(string \<Rightarrow> bool) \<Rightarrow> string \<Rightarrow> string \<Rightarrow> (infra, Cluster) op" where
  "q_GetClusterByName F name environment = iquery F ''GetClusterByName''
     (infra_one (\<lambda>s. List.find (\<lambda>c. cl_Name c = name \<and> cl_Environment c = environment) (nf_clusters s)))"

definition q_ListClusters :: "(string \<Rightarrow> bool) \<Rightarrow> (infra, Cluster list) op" where
  "q_ListClusters F = iquery F ''ListClusters'' (gets (\<lambda>s. rev (nf_clusters s)))"

definition q_ListClustersByProvider :: "(string \<Rightarrow> bool) \<Rightarrow> uuid \<Rightarrow> (infra, Cluster list) op" where
  "q_ListClustersByProvider F k = iquery F ''ListClustersByProvider''
     (gets (\<lambda>s. filter (\<lambda>c. cl_ProviderID c = k) (rev (nf_clusters s))))"

definition q_UpdateClusterSpec :: "(string \<Rightarrow> bool) \<Rightarrow> uuid \<Rightarrow> json \<Rightarrow> (infra, Cluster) op" where
  "q_UpdateClusterSpec F k spec = iquery F ''UpdateClusterSpec''
     (set_row nf_clusters nf_clusters_update cl_ID cluster_violation k (\<lambda>t c. c\<lparr>cl_DesiredSpec := spec, cl_UpdatedAt := t\<rparr>))"

definition q_UpdateClusterState :: "(string \<Rightarrow> bool) \<Rightarrow> uuid \<Rightarrow> json \<Rightarrow> string option \<Rightarrow> (infra, Cluster) op" where
  "q_UpdateClusterState F k observed ref = iquery F ''UpdateClusterState''
     (set_row nf_clusters nf_clusters_update cl_ID cluster_violation k (\<lambda>t c.
        c\<lparr>cl_ObservedState := observed, cl_KubeconfigRef := ref, cl_UpdatedAt := t\<rparr>))"

definition q_UpdateClusterStatus :: "(string \<Rightarrow> bool) \<Rightarrow> uuid \<Rightarrow> string \<Rightarrow> (infra, Cluster) op" where
  "q_UpdateClusterStatus F k status = iquery F ''UpdateClusterStatus''
     (set_row nf_clusters nf_clusters_update cl_ID cluster_violation k (\<lambda>t c. c\<lparr>cl_Status := status, cl_UpdatedAt := t\<rparr>))"

text \<open>The nodes and jobs of a cluster go with it.\<close>

definition q_DeleteCluster :: "(string \<Rightarrow> bool) \<Rightarrow> uuid \<Rightarrow> (infra, unit) op" where
  "q_DeleteCluster F k = iquery F ''DeleteCluster''
     (infra_change (\<lambda>_. True) (\<lambda>s. s\<lparr>nf_clusters := filter (\<lambda>c. cl_ID c \<noteq> k) (nf_clusters s),
        nf_nodes := filter (\<lambda>n. nd_ClusterID n \<noteq> k) (nf_nodes s),
        nf_jobs := filter (\<lambda>j. jb_ClusterID j \<noteq> Some k) (nf_jobs s)\<rparr>))"

text \<open>A node is known by its name in the cluster.\<close>

definition q_UpsertNode ::
  "(string \<Rightarrow> bool) \<Rightarrow> uuid \<Rightarrow> string \<Rightarrow> string \<Rightarrow> string option \<Rightarrow> string option \<Rightarrow> int option \<Rightarrow> int option \<Rightarrow> int option
     \<Rightarrow> string \<Rightarrow> (infra, ClusterNode) op" where
  "q_UpsertNode F cluster name role ip vm cpu mem disk status = iquery F ''UpsertNode''
     (bindE (gets (\<lambda>s. List.find (\<lambda>n. nd_ClusterID n = cluster \<and> nd_Name n = name) (nf_nodes s))) (\<lambda>old. case old of
        Some n \<Rightarrow> set_row nf_nodes nf_nodes_update nd_ID node_violation (nd_ID n) (\<lambda>t n.
          n\<lparr>nd_Role := role, nd_IpAddress := ip, nd_VmMoid := vm, nd_Cpu := cpu, nd_MemoryMb := mem, nd_DiskGb := disk,
            nd_Status := status, nd_UpdatedAt := t\<rparr>)
      | None \<Rightarrow> add_row nf_nodes_update node_violation (\<lambda>i t. \<lparr>nd_ID = i, nd_ClusterID = cluster, nd_Name = name,
          nd_Role = role, nd_IpAddress = ip, nd_VmMoid = vm, nd_Cpu = cpu, nd_MemoryMb = mem, nd_DiskGb = disk,
          nd_Status = status, nd_CreatedAt = t, nd_UpdatedAt = t\<rparr>)))"

definition node_le :: "ClusterNode \<Rightarrow> ClusterNode \<Rightarrow> bool" where
  "node_le a b = (if nd_Role a = nd_Role b then text_le (nd_Name a) (nd_Name b) else text_le (nd_Role a) (nd_Role b))"

definition q_ListNodesByCluster :: "(string \<Rightarrow> bool) \<Rightarrow> uuid \<Rightarrow> (infra, ClusterNode list) op" where
  "q_ListNodesByCluster F k = iquery F ''ListNodesByCluster''
     (gets (\<lambda>s. foldr (insert_by node_le) (filter (\<lambda>n. nd_ClusterID n = k) (nf_nodes s)) []))"

definition q_UpdateNodeStatus :: "(string \<Rightarrow> bool) \<Rightarrow> uuid \<Rightarrow> string \<Rightarrow> (infra, ClusterNode) op" where
  "q_UpdateNodeStatus F k status = iquery F ''UpdateNodeStatus''
     (set_row nf_nodes nf_nodes_update nd_ID node_violation k (\<lambda>t n. n\<lparr>nd_Status := status, nd_UpdatedAt := t\<rparr>))"

definition q_DeleteNodesByCluster :: "(string \<Rightarrow> bool) \<Rightarrow> uuid \<Rightarrow> (infra, unit) op" where
  "q_DeleteNodesByCluster F k = iquery F ''DeleteNodesByCluster''
     (infra_change (\<lambda>_. True) (\<lambda>s. s\<lparr>nf_nodes := filter (\<lambda>n. nd_ClusterID n \<noteq> k) (nf_nodes s)\<rparr>))"

definition q_CreateJob :: "(string \<Rightarrow> bool) \<Rightarrow> uuid option \<Rightarrow> string \<Rightarrow> (infra, Job) op" where
  "q_CreateJob F cluster operation = iquery F ''CreateJob''
     (add_row nf_jobs_update job_violation (\<lambda>i t. \<lparr>jb_ID = i, jb_ClusterID = cluster, jb_Operation = operation,
        jb_Status = ''queued'', jb_RiverJobID = None, jb_Error = None, jb_StartedAt = None, jb_FinishedAt = None, jb_CreatedAt = t\<rparr>))"

definition q_GetJob :: "(string \<Rightarrow> bool) \<Rightarrow> uuid \<Rightarrow> (infra, Job) op" where
  "q_GetJob F k = iquery F ''GetJob'' (infra_one (\<lambda>s. List.find (\<lambda>j. jb_ID j = k) (nf_jobs s)))"

text \<open>Nothing equals a null identifier.\<close>

definition q_ListJobsByCluster :: "(string \<Rightarrow> bool) \<Rightarrow> uuid option \<Rightarrow> (infra, Job list) op" where
  "q_ListJobsByCluster F k = iquery F ''ListJobsByCluster''
     (gets (\<lambda>s. filter (\<lambda>j. k \<noteq> None \<and> jb_ClusterID j = k) (rev (nf_jobs s))))"

definition q_MarkJobRunning :: "(string \<Rightarrow> bool) \<Rightarrow> uuid \<Rightarrow> int option \<Rightarrow> (infra, Job) op" where
  "q_MarkJobRunning F k river = iquery F ''MarkJobRunning''
     (set_row nf_jobs nf_jobs_update jb_ID job_violation k (\<lambda>t j.
        j\<lparr>jb_Status := ''running'', jb_RiverJobID := river, jb_StartedAt := Some t\<rparr>))"

definition q_MarkJobFinished :: "(string \<Rightarrow> bool) \<Rightarrow> uuid \<Rightarrow> string \<Rightarrow> string option \<Rightarrow> (infra, Job) op" where
  "q_MarkJobFinished F k status e = iquery F ''MarkJobFinished''
     (set_row nf_jobs nf_jobs_update jb_ID job_violation k (\<lambda>t j.
        j\<lparr>jb_Status := status, jb_Error := e, jb_FinishedAt := Some t\<rparr>))"

section \<open>Resources, environments, backups\<close>

definition q_CreateResource ::
  "(string \<Rightarrow> bool) \<Rightarrow> string \<Rightarrow> string \<Rightarrow> uuid \<Rightarrow> string \<Rightarrow> json \<Rightarrow> string \<Rightarrow> uuid option \<Rightarrow> (infra, Resource) op" where
  "q_CreateResource F name environment provider kind spec workspace tenant = iquery F ''CreateResource''
     (add_row nf_resources_update resource_violation (\<lambda>i t. \<lparr>rs_ID = i, rs_Name = name, rs_Environment = environment,
        rs_ProviderID = provider, rs_Kind = kind, rs_Status = ''pending'', rs_Spec = spec, rs_Observed = JObj [],
        rs_TofuWorkspace = workspace, rs_CreatedAt = t, rs_UpdatedAt = t, rs_TenantID = tenant\<rparr>))"

definition q_GetResource :: "(string \<Rightarrow> bool) \<Rightarrow> uuid \<Rightarrow> (infra, Resource) op" where
  "q_GetResource F k = iquery F ''GetResource'' (infra_one (\<lambda>s. List.find (\<lambda>r. rs_ID r = k) (nf_resources s)))"

definition q_GetResourceByName :: "(string \<Rightarrow> bool) \<Rightarrow> string \<Rightarrow> string \<Rightarrow> (infra, Resource) op" where
  "q_GetResourceByName F name environment = iquery F ''GetResourceByName''
     (infra_one (\<lambda>s. List.find (\<lambda>r. rs_Name r = name \<and> rs_Environment r = environment) (nf_resources s)))"

definition q_ListResources :: "(string \<Rightarrow> bool) \<Rightarrow> (infra, Resource list) op" where
  "q_ListResources F = iquery F ''ListResources'' (gets (\<lambda>s. rev (nf_resources s)))"

definition q_ListResourcesByKind :: "(string \<Rightarrow> bool) \<Rightarrow> string \<Rightarrow> (infra, Resource list) op" where
  "q_ListResourcesByKind F kind = iquery F ''ListResourcesByKind''
     (gets (\<lambda>s. filter (\<lambda>r. rs_Kind r = kind) (rev (nf_resources s))))"

definition q_UpdateResourceObserved :: "(string \<Rightarrow> bool) \<Rightarrow> uuid \<Rightarrow> json \<Rightarrow> string \<Rightarrow> (infra, Resource) op" where
  "q_UpdateResourceObserved F k observed status = iquery F ''UpdateResourceObserved''
     (set_row nf_resources nf_resources_update rs_ID resource_violation k (\<lambda>t r.
        r\<lparr>rs_Observed := observed, rs_Status := status, rs_UpdatedAt := t\<rparr>))"

definition q_UpdateResourceSpec :: "(string \<Rightarrow> bool) \<Rightarrow> uuid \<Rightarrow> json \<Rightarrow> string \<Rightarrow> (infra, Resource) op" where
  "q_UpdateResourceSpec F k spec status = iquery F ''UpdateResourceSpec''
     (set_row nf_resources nf_resources_update rs_ID resource_violation k (\<lambda>t r.
        r\<lparr>rs_Spec := spec, rs_Status := status, rs_UpdatedAt := t\<rparr>))"

definition q_UpdateResourceStatus :: "(string \<Rightarrow> bool) \<Rightarrow> uuid \<Rightarrow> string \<Rightarrow> (infra, Resource) op" where
  "q_UpdateResourceStatus F k status = iquery F ''UpdateResourceStatus''
     (set_row nf_resources nf_resources_update rs_ID resource_violation k (\<lambda>t r. r\<lparr>rs_Status := status, rs_UpdatedAt := t\<rparr>))"

definition q_DeleteResource :: "(string \<Rightarrow> bool) \<Rightarrow> uuid \<Rightarrow> (infra, unit) op" where
  "q_DeleteResource F k = iquery F ''DeleteResource''
     (infra_change (\<lambda>_. True) (\<lambda>s. s\<lparr>nf_resources := filter (\<lambda>r. rs_ID r \<noteq> k) (nf_resources s)\<rparr>))"

definition q_CreateEnvironment ::
  "(string \<Rightarrow> bool) \<Rightarrow> string \<Rightarrow> string \<Rightarrow> string \<Rightarrow> json \<Rightarrow> uuid option \<Rightarrow> (infra, Environment) op" where
  "q_CreateEnvironment F name environment blueprint spec tenant = iquery F ''CreateEnvironment''
     (add_row nf_environments_update environment_violation (\<lambda>i t. \<lparr>en_ID = i, en_Name = name, en_Environment = environment,
        en_Blueprint = blueprint, en_Status = ''pending'', en_Spec = spec, en_CreatedAt = t, en_UpdatedAt = t, en_TenantID = tenant\<rparr>))"

definition q_GetEnvironment :: "(string \<Rightarrow> bool) \<Rightarrow> uuid \<Rightarrow> (infra, Environment) op" where
  "q_GetEnvironment F k = iquery F ''GetEnvironment'' (infra_one (\<lambda>s. List.find (\<lambda>e. en_ID e = k) (nf_environments s)))"

definition q_GetEnvironmentByName :: "(string \<Rightarrow> bool) \<Rightarrow> string \<Rightarrow> string \<Rightarrow> (infra, Environment) op" where
  "q_GetEnvironmentByName F name environment = iquery F ''GetEnvironmentByName''
     (infra_one (\<lambda>s. List.find (\<lambda>e. en_Name e = name \<and> en_Environment e = environment) (nf_environments s)))"

definition q_ListEnvironments :: "(string \<Rightarrow> bool) \<Rightarrow> (infra, Environment list) op" where
  "q_ListEnvironments F = iquery F ''ListEnvironments'' (gets (\<lambda>s. rev (nf_environments s)))"

definition q_UpdateEnvironmentStatus :: "(string \<Rightarrow> bool) \<Rightarrow> uuid \<Rightarrow> string \<Rightarrow> (infra, Environment) op" where
  "q_UpdateEnvironmentStatus F k status = iquery F ''UpdateEnvironmentStatus''
     (set_row nf_environments nf_environments_update en_ID environment_violation k (\<lambda>t e.
        e\<lparr>en_Status := status, en_UpdatedAt := t\<rparr>))"

definition q_DeleteEnvironment :: "(string \<Rightarrow> bool) \<Rightarrow> uuid \<Rightarrow> (infra, unit) op" where
  "q_DeleteEnvironment F k = iquery F ''DeleteEnvironment''
     (infra_change (\<lambda>_. True) (\<lambda>s. s\<lparr>nf_environments := filter (\<lambda>e. en_ID e \<noteq> k) (nf_environments s)\<rparr>))"

definition q_CreateBackup ::
  "(string \<Rightarrow> bool) \<Rightarrow> string \<Rightarrow> string \<Rightarrow> string \<Rightarrow> string \<Rightarrow> string \<Rightarrow> uuid option \<Rightarrow> (infra, Backup) op" where
  "q_CreateBackup F kind name environment provider workspace tenant = iquery F ''CreateBackup''
     (add_row nf_backups_update backup_violation (\<lambda>i t. \<lparr>bk_ID = i, bk_ResourceKind = kind, bk_ResourceName = name,
        bk_Environment = environment, bk_Provider = provider, bk_SnapshotID = [], bk_TofuWorkspace = workspace,
        bk_Status = ''pending'', bk_TenantID = tenant, bk_CreatedAt = t, bk_UpdatedAt = t\<rparr>))"

definition q_GetBackup :: "(string \<Rightarrow> bool) \<Rightarrow> uuid \<Rightarrow> (infra, Backup) op" where
  "q_GetBackup F k = iquery F ''GetBackup'' (infra_one (\<lambda>s. List.find (\<lambda>b. bk_ID b = k) (nf_backups s)))"

definition q_ListBackups :: "(string \<Rightarrow> bool) \<Rightarrow> (infra, Backup list) op" where
  "q_ListBackups F = iquery F ''ListBackups'' (gets (\<lambda>s. rev (nf_backups s)))"

definition q_SetBackupResult :: "(string \<Rightarrow> bool) \<Rightarrow> uuid \<Rightarrow> string \<Rightarrow> string \<Rightarrow> (infra, Backup) op" where
  "q_SetBackupResult F k snapshot status = iquery F ''SetBackupResult''
     (set_row nf_backups nf_backups_update bk_ID backup_violation k (\<lambda>t b.
        b\<lparr>bk_SnapshotID := snapshot, bk_Status := status, bk_UpdatedAt := t\<rparr>))"

section \<open>Operations without a caller\<close>

definition q_UpdateAIServiceInstanceStatus :: "'w env \<Rightarrow> uuid \<Rightarrow> string \<Rightarrow> json \<Rightarrow> ('w st, AiServiceInstance) op" where
  "q_UpdateAIServiceInstanceStatus E k status observed = query E ''UpdateAIServiceInstanceStatus''
     (bindE (one (\<lambda>s. List.find (\<lambda>i. i_ID i = k) (st_instances s))) (\<lambda>_.
      bindE (check (\<lambda>_. status \<in> set instance_statuses) CheckViolation) (\<lambda>_.
      update_row st_instances st_instances_update i_ID k (\<lambda>t i. i\<lparr>i_Status := status, i_Observed := observed, i_UpdatedAt := t\<rparr>))))"

definition q_UpdateRequestStatus :: "'w env \<Rightarrow> uuid \<Rightarrow> string \<Rightarrow> ('w st, Request) op" where
  "q_UpdateRequestStatus E k status = query E ''UpdateRequestStatus''
     (bindE (one (\<lambda>s. List.find (\<lambda>r. r_ID r = k) (st_requests s))) (\<lambda>_.
      bindE (check (\<lambda>_. status \<in> set request_statuses) CheckViolation) (\<lambda>_.
      update_row st_requests st_requests_update r_ID k (\<lambda>t r. r\<lparr>r_Status := status, r_UpdatedAt := t\<rparr>))))"

definition service_Provider :: "(string \<Rightarrow> bool) \<Rightarrow> string \<Rightarrow> (infra, InfraProvider) op" where
  "service_Provider F name = q_GetProviderByName F name"

definition resourceVisible :: "Resource \<Rightarrow> uuid \<Rightarrow> bool" where
  "resourceVisible r tid = tenantVisible (rs_TenantID r) tid"

text \<open>The registered types in order.\<close>

definition Registry_Types :: "'w Registry \<Rightarrow> string list" where
  "Registry_Types r = foldr (insert_by text_le) (map fst r) []"

end
