(* ===== verification/InfraRules.thy ===== *)
theory InfraRules
  imports Infra Wellformed
begin

text \<open>
  What the queries of the infrastructure tables keep: identifiers stay unique and below the next one, and no stored
  row violates a constraint of its table, whatever queries run in whatever order.
\<close>

section \<open>The writing queries\<close>

inductive infra_step :: "infra \<Rightarrow> infra \<Rightarrow> bool" where
  "infra_step s (snd (q_CreateProvider F name ty config ref s))"
| "infra_step s (snd (q_UpdateProvider F k name ty config ref s))"
| "infra_step s (snd (q_UpdateProviderHealth F k status msg latency s))"
| "infra_step s (snd (q_DeleteProvider F k s))"
| "infra_step s (snd (q_CreateCluster F name environment provider spec workspace tenant s))"
| "infra_step s (snd (q_UpdateClusterSpec F k spec s))"
| "infra_step s (snd (q_UpdateClusterState F k observed kref s))"
| "infra_step s (snd (q_UpdateClusterStatus F k status s))"
| "infra_step s (snd (q_DeleteCluster F k s))"
| "infra_step s (snd (q_UpsertNode F cluster name role ip vm cpu mem disk status s))"
| "infra_step s (snd (q_UpdateNodeStatus F k status s))"
| "infra_step s (snd (q_DeleteNodesByCluster F k s))"
| "infra_step s (snd (q_CreateJob F job_cluster operation s))"
| "infra_step s (snd (q_MarkJobRunning F k river s))"
| "infra_step s (snd (q_MarkJobFinished F k status e s))"
| "infra_step s (snd (q_CreateResource F name environment provider kind spec workspace tenant s))"
| "infra_step s (snd (q_UpdateResourceObserved F k observed status s))"
| "infra_step s (snd (q_UpdateResourceSpec F k spec status s))"
| "infra_step s (snd (q_UpdateResourceStatus F k status s))"
| "infra_step s (snd (q_DeleteResource F k s))"
| "infra_step s (snd (q_CreateEnvironment F name environment blueprint spec tenant s))"
| "infra_step s (snd (q_UpdateEnvironmentStatus F k status s))"
| "infra_step s (snd (q_DeleteEnvironment F k s))"
| "infra_step s (snd (q_CreateBackup F kind name environment backup_provider workspace tenant s))"
| "infra_step s (snd (q_SetBackupResult F k snapshot status s))"

section \<open>The invariant\<close>

definition infra_ids :: "infra \<Rightarrow> bool" where
  "infra_ids s \<longleftrightarrow> 0 < nf_next s \<and> fresh (nf_next s) (map ip_ID (nf_providers s)) \<and> fresh (nf_next s) (map cl_ID (nf_clusters s))
     \<and> fresh (nf_next s) (map nd_ID (nf_nodes s)) \<and> fresh (nf_next s) (map jb_ID (nf_jobs s))
     \<and> fresh (nf_next s) (map rs_ID (nf_resources s)) \<and> fresh (nf_next s) (map en_ID (nf_environments s))
     \<and> fresh (nf_next s) (map bk_ID (nf_backups s))"

definition infra_rows :: "infra \<Rightarrow> bool" where
  "infra_rows s \<longleftrightarrow> list_all (\<lambda>p. provider_violation s p = None) (nf_providers s)
     \<and> list_all (\<lambda>c. cluster_violation s c = None) (nf_clusters s) \<and> list_all (\<lambda>n. node_violation s n = None) (nf_nodes s)
     \<and> list_all (\<lambda>j. job_violation s j = None) (nf_jobs s) \<and> list_all (\<lambda>r. resource_violation s r = None) (nf_resources s)
     \<and> list_all (\<lambda>e. environment_violation s e = None) (nf_environments s)
     \<and> list_all (\<lambda>b. backup_violation s b = None) (nf_backups s)"

definition infra_ok :: "infra \<Rightarrow> bool" where
  "infra_ok s \<longleftrightarrow> infra_ids s \<and> infra_rows s"

lemma violation_None [simp]: "violation c u r = None \<longleftrightarrow> c \<and> u \<and> r"
  by (simp add: violation_def)

section \<open>The rules of one table\<close>

text \<open>References only ever point to providers, clusters and tenants.\<close>

definition refs_le :: "infra \<Rightarrow> infra \<Rightarrow> bool" where
  "refs_le s t \<longleftrightarrow> ip_ID ` set (nf_providers s) \<subseteq> ip_ID ` set (nf_providers t)
     \<and> cl_ID ` set (nf_clusters s) \<subseteq> cl_ID ` set (nf_clusters t) \<and> nf_tenants t = nf_tenants s"

text \<open>One table gets new rows, at most one that it did not have.\<close>

definition turned :: "(infra \<Rightarrow> 't list) \<Rightarrow> (infra \<Rightarrow> 't \<Rightarrow> err option) \<Rightarrow> infra \<Rightarrow> infra \<Rightarrow> bool" where
  "turned get bad s t \<longleftrightarrow> get t = get s \<or> (\<exists>r. bad s r = None \<and> set (get t) \<subseteq> insert r (set (get s)))"

lemmas turned_simps = turned_def refs_le_def

text \<open>What the rules of a table come to: a row is fine by itself, with what it refers to, and apart from every other
  row. Then a table without a violation stays so when a row without one is added or put in the place of the row with
  its identifier, when rows go, and when nothing but other tables changes.\<close>

locale table_rules =
  fixes get :: "infra \<Rightarrow> 't list" and key :: "'t \<Rightarrow> uuid" and bad :: "infra \<Rightarrow> 't \<Rightarrow> err option"
    and fine :: "infra \<Rightarrow> 't \<Rightarrow> bool" and apart :: "'t \<Rightarrow> 't \<Rightarrow> bool"
  assumes bad_None: "bad s r = None \<longleftrightarrow> fine s r \<and> list_all (\<lambda>x. apart x r) (get s)"
    and apart_sym: "apart x y \<Longrightarrow> apart y x"
    and apart_key: "key x = key y \<Longrightarrow> apart x y"
    and fine_mono: "refs_le s t \<Longrightarrow> fine s r \<Longrightarrow> fine t r"
begin

lemma rows_iff: "list_all (\<lambda>r. bad s r = None) (get s) \<longleftrightarrow>
    (\<forall>r \<in> set (get s). fine s r) \<and> (\<forall>r \<in> set (get s). \<forall>x \<in> set (get s). apart x r)"
  by (auto simp: list_all_iff bad_None)

lemma shrunk:
  assumes "list_all (\<lambda>r. bad s r = None) (get s)" "set (get t) \<subseteq> set (get s)"
    and "\<And>r. r \<in> set (get t) \<Longrightarrow> fine s r \<Longrightarrow> fine t r"
  shows "list_all (\<lambda>r. bad t r = None) (get t)"
  using assms unfolding rows_iff by blast

lemma kept:
  assumes "list_all (\<lambda>r. bad s r = None) (get s)" "get t = get s" "refs_le s t"
  shows "list_all (\<lambda>r. bad t r = None) (get t)"
  using assms by (intro shrunk [of s t]) (auto intro: fine_mono)

lemma replaced:
  assumes "list_all (\<lambda>r. bad s r = None) (get s)" "bad s r = None" "refs_le s t"
    and "set (get t) \<subseteq> insert r (set (get s))"
  shows "list_all (\<lambda>r. bad t r = None) (get t)"
proof -
  have old: "fine t x" "apart x r" "apart r x" if "x \<in> set (get s)" for x
    using that assms(1-3) unfolding rows_iff bad_None list_all_iff by (auto intro: fine_mono apart_sym)
  have "fine t r" "apart r r" using assms(2,3) by (auto simp: bad_None intro: fine_mono apart_key)
  with old assms(1,4) show ?thesis unfolding rows_iff by (metis insertE subsetD)
qed

lemma turned_rows:
  assumes "list_all (\<lambda>r. bad s r = None) (get s)" "refs_le s t" "turned get bad s t"
  shows "list_all (\<lambda>r. bad t r = None) (get t)"
proof (cases "get t = get s")
  case True
  with assms(1,2) show ?thesis by (intro kept [of s t])
next
  case False
  with assms(3) obtain r where "bad s r = None" "set (get t) \<subseteq> insert r (set (get s))"
    by (auto simp: turned_def)
  with assms(1,2) show ?thesis by (intro replaced [of s r t])
qed

end

definition apart_by :: "('t \<Rightarrow> uuid) \<Rightarrow> ('t \<Rightarrow> 'k) \<Rightarrow> 't \<Rightarrow> 't \<Rightarrow> bool" where
  "apart_by key f x y \<longleftrightarrow> key x = key y \<or> f x \<noteq> f y"

lemmas rule_simps = violation_None sole_def apart_by_def refs_le_def list_all_iff known_tenant_def

interpretation pr: table_rules nf_providers ip_ID provider_violation
  "\<lambda>s p. ip_Type p \<in> {''vsphere'', ''proxmox'', ''aws'', ''azure'', ''gcp''}" "apart_by ip_ID ip_Name"
  by unfold_locales (auto simp: provider_violation_def rule_simps)

interpretation cl: table_rules nf_clusters cl_ID cluster_violation
  "\<lambda>s c. cl_Status c \<in> {''pending'', ''provisioning'', ''bootstrapping'', ''ready'', ''degraded'', ''destroying'', ''destroyed'', ''failed''}
     \<and> cl_ProviderID c \<in> ip_ID ` set (nf_providers s) \<and> known_tenant (cl_TenantID c) s"
  "\<lambda>x y. apart_by cl_ID cl_TofuWorkspace x y \<and> apart_by cl_ID (\<lambda>c. (cl_Name c, cl_Environment c)) x y"
  by unfold_locales (auto simp: cluster_violation_def rule_simps split: option.splits)

interpretation nd: table_rules nf_nodes nd_ID node_violation
  "\<lambda>s n. (nd_Role n \<in> {''control_plane'', ''worker''} \<and> nd_Status n \<in> {''pending'', ''provisioned'', ''ready'', ''failed''})
     \<and> nd_ClusterID n \<in> cl_ID ` set (nf_clusters s)"
  "apart_by nd_ID (\<lambda>n. (nd_ClusterID n, nd_Name n))"
  by unfold_locales (auto simp: node_violation_def rule_simps)

interpretation jb: table_rules nf_jobs jb_ID job_violation "\<lambda>s j. job_violation s j = None" "\<lambda>x y. True"
  by unfold_locales (auto simp: job_violation_def rule_simps split: option.splits)

interpretation rs: table_rules nf_resources rs_ID resource_violation
  "\<lambda>s r. (rs_Kind r \<in> set resource_kinds
      \<and> rs_Status r \<in> {''pending'', ''provisioning'', ''ready'', ''degraded'', ''destroying'', ''destroyed'', ''failed''})
     \<and> rs_ProviderID r \<in> ip_ID ` set (nf_providers s) \<and> known_tenant (rs_TenantID r) s"
  "\<lambda>x y. apart_by rs_ID rs_TofuWorkspace x y \<and> apart_by rs_ID (\<lambda>r. (rs_Name r, rs_Environment r)) x y"
  by unfold_locales (auto simp: resource_violation_def rule_simps split: option.splits)

interpretation en: table_rules nf_environments en_ID environment_violation
  "\<lambda>s e. en_Status e \<in> {''pending'', ''provisioning'', ''ready'', ''degraded'', ''destroying'', ''destroyed'', ''failed''}
     \<and> known_tenant (en_TenantID e) s"
  "apart_by en_ID (\<lambda>e. (en_Name e, en_Environment e))"
  by unfold_locales (auto simp: environment_violation_def rule_simps split: option.splits)

interpretation bk: table_rules nf_backups bk_ID backup_violation
  "\<lambda>s b. bk_Status b \<in> {''pending'', ''running'', ''completed'', ''failed''} \<and> known_tenant (bk_TenantID b) s"
  "apart_by bk_ID bk_TofuWorkspace"
  by unfold_locales (auto simp: backup_violation_def rule_simps split: option.splits)

lemma rows_turned:
  assumes "infra_rows s" "refs_le s t" "turned nf_providers provider_violation s t" "turned nf_clusters cluster_violation s t"
    and "turned nf_nodes node_violation s t" "turned nf_jobs job_violation s t" "turned nf_resources resource_violation s t"
    and "turned nf_environments environment_violation s t" "turned nf_backups backup_violation s t"
  shows "infra_rows t"
  using assms unfolding infra_rows_def
  by (intro conjI pr.turned_rows [of s t] cl.turned_rows [of s t] nd.turned_rows [of s t] jb.turned_rows [of s t]
      rs.turned_rows [of s t] en.turned_rows [of s t] bk.turned_rows [of s t]) simp_all

lemma infra_rows_next [simp]: "infra_rows s \<Longrightarrow> infra_rows (s\<lparr>nf_next := n\<rparr>)"
  by (rule rows_turned [of s]) (simp_all add: turned_simps)

text \<open>A table that is written through its query.\<close>

locale table_writes = table_rules get key bad fine apart
  for get :: "infra \<Rightarrow> 't list" and key :: "'t \<Rightarrow> uuid" and bad :: "infra \<Rightarrow> 't \<Rightarrow> err option"
    and fine :: "infra \<Rightarrow> 't \<Rightarrow> bool" and apart :: "'t \<Rightarrow> 't \<Rightarrow> bool" +
  fixes upd :: "('t list \<Rightarrow> 't list) \<Rightarrow> infra \<Rightarrow> infra"
  assumes turn: "infra_rows s \<Longrightarrow> bad s r = None \<Longrightarrow> set (F (get s)) \<subseteq> insert r (set (get s)) \<Longrightarrow>
    key ` set (get s) \<subseteq> key ` set (F (get s)) \<Longrightarrow> infra_rows (upd F s)"
    and own_ids: "infra_ids s \<Longrightarrow> fresh (nf_next s) (map key (get s))"
    and set_ids: "infra_ids s \<Longrightarrow> fresh (nf_next s) (map key (F (get s))) \<Longrightarrow> infra_ids (upd F s)"
    and add_ids: "infra_ids s \<Longrightarrow> fresh (Suc (nf_next s)) (map key (F (get s))) \<Longrightarrow>
      infra_ids ((upd F s)\<lparr>nf_next := Suc (nf_next s)\<rparr>)"
begin

lemma add_row_ok:
  assumes "infra_ok s" "\<And>i t. key (mk i t) = i"
  shows "infra_ok (snd (add_row upd bad mk s))"
proof -
  let ?r = "mk (nf_next s) (nf_now s)"
  have "fresh (Suc (nf_next s)) (map key (get s @ [?r]))"
    using own_ids [of s] assms by (simp add: infra_ok_def infra_ids_def)
  then have "infra_ids ((upd (\<lambda>rows. rows @ [?r]) s)\<lparr>nf_next := Suc (nf_next s)\<rparr>)"
    using assms(1) by (intro add_ids) (simp_all add: infra_ok_def)
  moreover have "infra_rows (upd (\<lambda>rows. rows @ [?r]) s)" if "bad s ?r = None"
    using assms(1) that by (intro turn [of s ?r]) (auto simp: infra_ok_def)
  ultimately show ?thesis using assms(1) by (simp add: add_row_def Let_def infra_ok_def split: option.split)
qed

lemma set_row_ok:
  assumes "infra_ok s" "\<And>t x. key (f t x) = key x"
  shows "infra_ok (snd (set_row get upd key bad k f s))"
proof (cases "List.find (\<lambda>r. key r = k) (get s)")
  case (Some r)
  let ?new = "update_rows (\<lambda>r. key r = k) (f (nf_now s)) (get s)"
  have ids: "fresh (nf_next s) (map key (get s))" using own_ids assms(1) by (simp add: infra_ok_def)
  have keys: "map key ?new = map key (get s)" by (rule update_rows_map_same) (rule assms(2))
  have "x = r" if "x \<in> set (get s)" "key x = k" for x
    using find_Some_unique [OF _ that(1), of key] that(2) ids Some by (simp add: fresh_def)
  then have "set ?new \<subseteq> insert (f (nf_now s) r) (set (get s))"
    by (auto simp: set_update_rows)
  moreover have "key ` set ?new = key ` set (get s)" by (metis keys list.set_map)
  moreover have "infra_ids (upd (update_rows (\<lambda>r. key r = k) (f (nf_now s))) s)"
    using assms(1) ids keys by (intro set_ids) (simp_all add: infra_ok_def)
  ultimately show ?thesis using assms(1) Some by (simp add: set_row_def turn infra_ok_def split: option.split)
qed (use assms in \<open>simp add: set_row_def\<close>)

end

interpretation prw: table_writes nf_providers ip_ID provider_violation
  "\<lambda>s p. ip_Type p \<in> {''vsphere'', ''proxmox'', ''aws'', ''azure'', ''gcp''}" "apart_by ip_ID ip_Name"
  nf_providers_update
  by unfold_locales (rule rows_turned, assumption, auto simp: turned_simps infra_ids_def)

interpretation clw: table_writes nf_clusters cl_ID cluster_violation
  "\<lambda>s c. cl_Status c \<in> {''pending'', ''provisioning'', ''bootstrapping'', ''ready'', ''degraded'', ''destroying'', ''destroyed'', ''failed''}
     \<and> cl_ProviderID c \<in> ip_ID ` set (nf_providers s) \<and> known_tenant (cl_TenantID c) s"
  "\<lambda>x y. apart_by cl_ID cl_TofuWorkspace x y \<and> apart_by cl_ID (\<lambda>c. (cl_Name c, cl_Environment c)) x y"
  nf_clusters_update
  by unfold_locales (rule rows_turned, assumption, auto simp: turned_simps infra_ids_def)

interpretation ndw: table_writes nf_nodes nd_ID node_violation
  "\<lambda>s n. (nd_Role n \<in> {''control_plane'', ''worker''} \<and> nd_Status n \<in> {''pending'', ''provisioned'', ''ready'', ''failed''})
     \<and> nd_ClusterID n \<in> cl_ID ` set (nf_clusters s)"
  "apart_by nd_ID (\<lambda>n. (nd_ClusterID n, nd_Name n))"
  nf_nodes_update
  by unfold_locales (rule rows_turned, assumption, auto simp: turned_simps infra_ids_def)

interpretation rsw: table_writes nf_resources rs_ID resource_violation
  "\<lambda>s r. (rs_Kind r \<in> set resource_kinds
      \<and> rs_Status r \<in> {''pending'', ''provisioning'', ''ready'', ''degraded'', ''destroying'', ''destroyed'', ''failed''})
     \<and> rs_ProviderID r \<in> ip_ID ` set (nf_providers s) \<and> known_tenant (rs_TenantID r) s"
  "\<lambda>x y. apart_by rs_ID rs_TofuWorkspace x y \<and> apart_by rs_ID (\<lambda>r. (rs_Name r, rs_Environment r)) x y"
  nf_resources_update
  by unfold_locales (rule rows_turned, assumption, auto simp: turned_simps infra_ids_def)

interpretation enw: table_writes nf_environments en_ID environment_violation
  "\<lambda>s e. en_Status e \<in> {''pending'', ''provisioning'', ''ready'', ''degraded'', ''destroying'', ''destroyed'', ''failed''}
     \<and> known_tenant (en_TenantID e) s"
  "apart_by en_ID (\<lambda>e. (en_Name e, en_Environment e))"
  nf_environments_update
  by unfold_locales (rule rows_turned, assumption, auto simp: turned_simps infra_ids_def)

interpretation bkw: table_writes nf_backups bk_ID backup_violation
  "\<lambda>s b. bk_Status b \<in> {''pending'', ''running'', ''completed'', ''failed''} \<and> known_tenant (bk_TenantID b) s"
  "apart_by bk_ID bk_TofuWorkspace"
  nf_backups_update
  by unfold_locales (rule rows_turned, assumption, auto simp: turned_simps infra_ids_def)

interpretation jbw: table_writes nf_jobs jb_ID job_violation "\<lambda>s j. job_violation s j = None" "\<lambda>x y. True" nf_jobs_update
  by unfold_locales (rule rows_turned, assumption, auto simp: turned_simps infra_ids_def)

text \<open>Rows that go; those that refer to them have gone before.\<close>

lemma rows_deleted:
  assumes "infra_rows s" "nf_tenants t = nf_tenants s"
    and "set (nf_providers t) \<subseteq> set (nf_providers s)" "set (nf_clusters t) \<subseteq> set (nf_clusters s)"
    and "set (nf_nodes t) \<subseteq> set (nf_nodes s)" "set (nf_jobs t) \<subseteq> set (nf_jobs s)" "set (nf_resources t) \<subseteq> set (nf_resources s)"
    and "set (nf_environments t) \<subseteq> set (nf_environments s)" "set (nf_backups t) \<subseteq> set (nf_backups s)"
    and cl: "\<And>c. c \<in> set (nf_clusters t) \<Longrightarrow> cl_ProviderID c \<in> ip_ID ` set (nf_providers s) \<Longrightarrow>
      cl_ProviderID c \<in> ip_ID ` set (nf_providers t)"
    and rs: "\<And>r. r \<in> set (nf_resources t) \<Longrightarrow> rs_ProviderID r \<in> ip_ID ` set (nf_providers s) \<Longrightarrow>
      rs_ProviderID r \<in> ip_ID ` set (nf_providers t)"
    and nd: "\<And>n. n \<in> set (nf_nodes t) \<Longrightarrow> nd_ClusterID n \<in> cl_ID ` set (nf_clusters s) \<Longrightarrow>
      nd_ClusterID n \<in> cl_ID ` set (nf_clusters t)"
    and jb: "\<And>j k. j \<in> set (nf_jobs t) \<Longrightarrow> jb_ClusterID j = Some k \<Longrightarrow> k \<in> cl_ID ` set (nf_clusters s) \<Longrightarrow>
      k \<in> cl_ID ` set (nf_clusters t)"
  shows "infra_rows t"
proof -
  have tenant: "known_tenant u t = known_tenant u s" for u
    by (simp add: known_tenant_def assms(2) split: option.split)
  have job: "job_violation t j = None" if "j \<in> set (nf_jobs t)" "job_violation s j = None" for j
  proof (cases "jb_ClusterID j")
    case None
    with that(2) show ?thesis by (simp add: job_violation_def)
  next
    case (Some k)
    with that jb [OF that(1) Some] show ?thesis by (simp add: job_violation_def)
  qed
  show ?thesis unfolding infra_rows_def
  proof (intro conjI)
    show "list_all (\<lambda>p. provider_violation t p = None) (nf_providers t)"
      by (rule pr.shrunk [of s t]) (use assms(1,3) in \<open>simp_all add: infra_rows_def\<close>)
    show "list_all (\<lambda>c. cluster_violation t c = None) (nf_clusters t)"
      by (rule cl.shrunk [of s t]) (use assms(1,4) in \<open>simp_all add: infra_rows_def cl tenant\<close>)
    show "list_all (\<lambda>n. node_violation t n = None) (nf_nodes t)"
      by (rule nd.shrunk [of s t]) (use assms(1,5) in \<open>simp_all add: infra_rows_def nd\<close>)
    show "list_all (\<lambda>j. job_violation t j = None) (nf_jobs t)"
      by (rule jb.shrunk [of s t]) (use assms(1,6) in \<open>simp_all add: infra_rows_def job\<close>)
    show "list_all (\<lambda>r. resource_violation t r = None) (nf_resources t)"
      by (rule rs.shrunk [of s t]) (use assms(1,7) in \<open>simp_all add: infra_rows_def rs tenant\<close>)
    show "list_all (\<lambda>e. environment_violation t e = None) (nf_environments t)"
      by (rule en.shrunk [of s t]) (use assms(1,8) in \<open>simp_all add: infra_rows_def tenant\<close>)
    show "list_all (\<lambda>b. backup_violation t b = None) (nf_backups t)"
      by (rule bk.shrunk [of s t]) (use assms(1,9) in \<open>simp_all add: infra_rows_def tenant\<close>)
  qed
qed

lemma query_ok: "infra_ok s \<Longrightarrow> infra_ok (snd (m s)) \<Longrightarrow> infra_ok (snd (iquery F n m s))"
  by (simp add: iquery_def fail_def)

lemma change_ok:
  assumes "infra_ok s" "allowed s \<Longrightarrow> infra_ids (f s)" "allowed s \<Longrightarrow> infra_rows (f s)"
  shows "infra_ok (snd (infra_change allowed f s))"
  using assms by (simp add: infra_change_def infra_ok_def)

lemmas writes_ok = prw.add_row_ok clw.add_row_ok ndw.add_row_ok jbw.add_row_ok rsw.add_row_ok enw.add_row_ok bkw.add_row_ok
  prw.set_row_ok clw.set_row_ok ndw.set_row_ok jbw.set_row_ok rsw.set_row_ok enw.set_row_ok bkw.set_row_ok

lemmas infra_deletes = q_DeleteProvider_def q_DeleteCluster_def q_DeleteNodesByCluster_def q_DeleteResource_def q_DeleteEnvironment_def
lemmas infra_writes = q_CreateProvider_def q_UpdateProvider_def q_UpdateProviderHealth_def
  q_CreateCluster_def q_UpdateClusterSpec_def q_UpdateClusterState_def q_UpdateClusterStatus_def
  q_UpdateNodeStatus_def q_CreateJob_def q_MarkJobRunning_def q_MarkJobFinished_def
  q_CreateResource_def q_UpdateResourceObserved_def q_UpdateResourceSpec_def q_UpdateResourceStatus_def
  q_CreateEnvironment_def q_UpdateEnvironmentStatus_def q_CreateBackup_def q_SetBackupResult_def

lemma delete_rows:
  "infra_rows s \<Longrightarrow> infra_rows (s\<lparr>nf_nodes := filter p (nf_nodes s)\<rparr>)"
  "infra_rows s \<Longrightarrow> infra_rows (s\<lparr>nf_resources := filter q (nf_resources s)\<rparr>)"
  "infra_rows s \<Longrightarrow> infra_rows (s\<lparr>nf_environments := filter r (nf_environments s)\<rparr>)"
  by (rule rows_deleted [of s]; simp)+

lemma delete_provider_rows:
  assumes "infra_rows s" "list_all (\<lambda>c. cl_ProviderID c \<noteq> k) (nf_clusters s)" "list_all (\<lambda>r. rs_ProviderID r \<noteq> k) (nf_resources s)"
  shows "infra_rows (s\<lparr>nf_providers := filter (\<lambda>p. ip_ID p \<noteq> k) (nf_providers s)\<rparr>)"
proof -
  have other: "x \<in> ip_ID ` {p \<in> set (nf_providers s). ip_ID p \<noteq> k}" if "x \<in> ip_ID ` set (nf_providers s)" "x \<noteq> k" for x
    using that by auto
  show ?thesis
    by (rule rows_deleted [OF assms(1)]) (use assms(2,3) in \<open>auto simp: other list_all_iff\<close>)
qed

lemma delete_cluster_rows:
  assumes "infra_rows s"
  shows "infra_rows (s\<lparr>nf_clusters := filter (\<lambda>c. cl_ID c \<noteq> k) (nf_clusters s),
    nf_nodes := filter (\<lambda>n. nd_ClusterID n \<noteq> k) (nf_nodes s), nf_jobs := filter (\<lambda>j. jb_ClusterID j \<noteq> Some k) (nf_jobs s)\<rparr>)"
proof -
  have other: "x \<in> cl_ID ` {c \<in> set (nf_clusters s). cl_ID c \<noteq> k}" if "x \<in> cl_ID ` set (nf_clusters s)" "x \<noteq> k" for x
    using that by auto
  show ?thesis by (rule rows_deleted [OF assms]) (auto simp: other)
qed

lemma delete_ok:
  assumes "infra_ok s"
  shows "infra_ok (snd (q_DeleteProvider F k s))" "infra_ok (snd (q_DeleteCluster F k s))"
    "infra_ok (snd (q_DeleteNodesByCluster F k s))" "infra_ok (snd (q_DeleteResource F k s))"
    "infra_ok (snd (q_DeleteEnvironment F k s))"
  using assms
  by (simp_all add: infra_deletes iquery_def fail_def infra_change_def infra_ok_def infra_ids_def delete_rows delete_provider_rows delete_cluster_rows)

lemma upsert_ok: "infra_ok s \<Longrightarrow> infra_ok (snd (q_UpsertNode F cluster name role ip vm cpu mem disk status s))"
  unfolding q_UpsertNode_def
  by (rule query_ok) (auto simp: bindE_def gets_def intro!: ndw.add_row_ok ndw.set_row_ok split: option.split)

lemma infra_step_ok: "infra_step s t \<Longrightarrow> infra_ok s \<Longrightarrow> infra_ok t"
proof (induction rule: infra_step.induct)
qed (simp_all add: infra_writes query_ok writes_ok delete_ok upsert_ok)

section \<open>Reachable stores\<close>

text \<open>The migrated tables, all of them empty, beside the tenants that exist.\<close>

definition infra_start :: "time \<Rightarrow> uuid list \<Rightarrow> infra" where
  "infra_start t tenants = \<lparr>nf_now = t, nf_next = 1, nf_tenants = tenants, nf_providers = [], nf_clusters = [], nf_nodes = [],
     nf_jobs = [], nf_resources = [], nf_environments = [], nf_backups = []\<rparr>"

inductive infra_reachable :: "infra \<Rightarrow> bool" where
  start: "infra_reachable (infra_start t tenants)"
| more: "infra_reachable s \<Longrightarrow> infra_step s t \<Longrightarrow> infra_reachable t"
| clock: "infra_reachable s \<Longrightarrow> nf_now s \<le> t \<Longrightarrow> infra_reachable (s\<lparr>nf_now := t\<rparr>)"

lemma infra_ok_clock: "infra_ok s \<Longrightarrow> infra_ok (s\<lparr>nf_now := t\<rparr>)"
proof -
  assume ok: "infra_ok s"
  have "infra_rows (s\<lparr>nf_now := t\<rparr>)"
    by (rule rows_turned [of s]) (use ok in \<open>simp_all add: turned_simps infra_ok_def\<close>)
  with ok show ?thesis by (simp add: infra_ok_def infra_ids_def)
qed

lemma infra_reachable_ok: "infra_reachable s \<Longrightarrow> infra_ok s"
proof (induction rule: infra_reachable.induct)
  case (start t tenants)
  show ?case by (simp add: infra_ok_def infra_ids_def infra_rows_def infra_start_def fresh_def)
qed (simp_all add: infra_step_ok infra_ok_clock)

section \<open>Single queries\<close>

text \<open>A provider goes when nothing uses it, and otherwise nothing happens.\<close>

lemma DeleteProvider_exact:
  "q_DeleteProvider F k s =
     (if F ''DeleteProvider'' then (Inl Fault, s)
      else if fst (q_CountClustersByProvider (\<lambda>_. False) k s) = Inr 0 \<and> fst (q_CountResourcesByProvider (\<lambda>_. False) k s) = Inr 0
      then (Inr (), s\<lparr>nf_providers := filter (\<lambda>p. ip_ID p \<noteq> k) (nf_providers s)\<rparr>)
      else (Inl FkViolation, s))"
  by (auto simp: q_DeleteProvider_def iquery_def fail_def infra_change_def q_CountClustersByProvider_def q_CountResourcesByProvider_def
      gets_def list_all_iff filter_empty_conv)

lemma filter_eq_one: "distinct rows \<Longrightarrow> m \<in> set rows \<Longrightarrow> filter (\<lambda>x. x = m) rows = [m]"
  by (induction rows) (auto simp: filter_empty_conv)

lemma filter_update_one:
  assumes "distinct (map key rows)" "m \<in> set rows" "\<And>x. x \<in> set rows \<Longrightarrow> P x \<longleftrightarrow> x = m" "P (f m)"
  shows "filter P (update_rows (\<lambda>r. key r = key m) f rows) = [f m]"
proof -
  let ?g = "\<lambda>x. if key x = key m then f x else x"
  have "x = m" if "x \<in> set rows" "key x = key m" for x
    using assms(1,2) that by (meson distinct_map inj_onD)
  then have "P (?g x) \<longleftrightarrow> x = m" if "x \<in> set rows" for x
    using assms(3) [OF that] assms(4) that by auto
  then have "filter (P \<circ> ?g) rows = filter (\<lambda>x. x = m) rows" by (intro filter_cong) auto
  also have "\<dots> = [m]" using assms(1,2) by (intro filter_eq_one) (simp_all add: distinct_map)
  finally show ?thesis by (simp add: update_rows_def filter_map)
qed

text \<open>A node written twice under its name is one node.\<close>

lemma UpsertNode_once:
  assumes ok: "infra_ok s" and run: "q_UpsertNode F cluster name role ip vm cpu mem disk status s = (Inr n, t)"
  shows "filter (\<lambda>x. nd_ClusterID x = cluster \<and> nd_Name x = name) (nf_nodes t) = [n]"
proof (cases "List.find (\<lambda>x. nd_ClusterID x = cluster \<and> nd_Name x = name) (nf_nodes s)")
  case None
  then have "filter (\<lambda>x. nd_ClusterID x = cluster \<and> nd_Name x = name) (nf_nodes s) = []"
    by (simp add: find_None_iff filter_empty_conv)
  with run None show ?thesis
    by (auto simp: q_UpsertNode_def iquery_def fail_def bindE_def gets_def add_row_def Let_def split: if_splits option.splits)
next
  case (Some m)
  then have m: "m \<in> set (nf_nodes s)" "nd_ClusterID m = cluster" "nd_Name m = name" using find_SomeD [OF Some] by simp_all
  have ids: "distinct (map nd_ID (nf_nodes s))" using ok by (simp add: infra_ok_def infra_ids_def fresh_def)
  have "list_all (\<lambda>n. node_violation s n = None) (nf_nodes s)" using ok by (simp add: infra_ok_def infra_rows_def)
  then have apart: "apart_by nd_ID (\<lambda>n. (nd_ClusterID n, nd_Name n)) x m" if "x \<in> set (nf_nodes s)" for x
    using that m(1) unfolding nd.rows_iff by blast
  have same: "nd_ID x = nd_ID m" if "x \<in> set (nf_nodes s)" "nd_ClusterID x = cluster" "nd_Name x = name" for x
    using apart [OF that(1)] that(2,3) m(2,3) by (simp add: apart_by_def)
  then have one: "nd_ClusterID x = cluster \<and> nd_Name x = name \<longleftrightarrow> x = m" if "x \<in> set (nf_nodes s)" for x
    using that m ids by (meson distinct_map inj_onD)
  define f :: "ClusterNode \<Rightarrow> ClusterNode" where "f = (\<lambda>n. n\<lparr>nd_Role := role, nd_IpAddress := ip, nd_VmMoid := vm, nd_Cpu := cpu, nd_MemoryMb := mem,
    nd_DiskGb := disk, nd_Status := status, nd_UpdatedAt := nf_now s\<rparr>)"
  have hit: "List.find (\<lambda>r. nd_ID r = nd_ID m) (nf_nodes s) = Some m" by (rule find_Some_unique [OF ids m(1)])
  have "n = f m" "nf_nodes t = update_rows (\<lambda>r. nd_ID r = nd_ID m) f (nf_nodes s)"
    using run Some hit
    by (auto simp: q_UpsertNode_def iquery_def fail_def bindE_def gets_def set_row_def f_def split: if_splits option.splits)
  moreover have "nd_ClusterID (f m) = cluster \<and> nd_Name (f m) = name" using m by (simp add: f_def)
  ultimately show ?thesis using filter_update_one [OF ids m(1) one] by simp
qed

end
