(* ===== verification/Spec2Isabelle.thy ===== *)
theory Spec2Isabelle
  imports Races SpecText Undo ApiReplies Deployed InfraRules
begin

text \<open>
  OPORD governs the use of AI services in an organization. Employees file requests for access to the
  services of AI providers (OpenAI, Anthropic, a LiteLLM proxy, a mock); operators approve or reject
  them; an approval provisions an access instance at the provider, which is reviewed, recertified,
  revoked, or reaped when it expires. Policies, budgets and quotas decide which requests are filed
  and approved and which model calls pass the two gateways. Costs are imported from the providers, MCP servers
  and the grants on them are registered and authorized, and everything is audited. The program is one
  Go process over PostgreSQL; its core is the type \<open>Service\<close> of \<open>internal/orchestrator\<close>.

  How the program is rendered. The state \<open>'w st\<close> (theory Store) holds the tables of \<open>internal/db\<close> as
  lists of rows in insertion order, the published events, the clock, the next identifier and a world
  \<open>'w\<close> that stands for everything outside the process (backends, secret store, ticketing, random
  bytes). An operation is a function from states to a result and a state; a result is an error or a
  value, so every early return of the source is a branch. The environment \<open>'w env\<close> holds what the code
  receives from outside its sources: the registered providers as records of functions on the
  world, the secret store, HTTP, the printing of identifiers, the database's
  own failures. A context \<open>ctx\<close> is the tenant of the caller. Integers that the code keeps at a width
  are taken modulo that width, \<open>float64\<close> values are the rationals they denote with every operation
  rounded (theory GoNum), strings are lists of bytes.

  Theories and what they model, in the order of their imports.

  \<^item> Prelude: results and operations, the relational contracts, Go's package \<open>strings\<close>
  \<^item> GoNum, GoTime, Json, Hashes: numbers, package \<open>time\<close>, JSON values, SHA-1 and SHA-256
  \<^item> Auth: \<open>internal/auth/auth.go\<close> and \<open>orchestrator/tenant.go\<close>
  \<^item> AIProviders: the interface of \<open>internal/aiproviders\<close> and its mock
  \<^item> Store, Queries: the rows, the queries and the constraints of the schema (\<open>internal/db\<close>)
  \<^item> Service: events, audit, credentials and minted keys (\<open>service.go\<close>, \<open>ai.go\<close>)
  \<^item> Budget, Enforce, Governance: spend, the two gates, and the administration of budgets, quotas
    and policies (\<open>ai_governance.go\<close>, \<open>ai_enforce.go\<close>)
  \<^item> Instances, Requests: provisioning, revocation, the reaper and reviews; filing, approving and
    rejecting (\<open>ai.go\<close>, \<open>request.go\<close>)
  \<^item> ProviderOps, AdminOps: providers and their organizations (\<open>ai.go\<close>, \<open>ai_admin.go\<close>)
  \<^item> CostImport, Gateway, Pricing, Dlp: imports of spend, the gateways, prices and redaction
  \<^item> Mcp, Users: MCP governance; users, keys and the bootstrap (\<open>mcp.go\<close>, \<open>auth.go\<close>)
  \<^item> Clients: the network a client of a provider runs in, escaping of URL parts, the page loop
  \<^item> Anthropic, OpenAI, LiteLLM: the clients of \<open>internal/aiproviders/anthropic\<close>, \<open>openai\<close> and
    \<open>litellm\<close>, each ending in the provider record it registers
  \<^item> System: every operation as a command, the step relation of the whole program, its reachable stores
  \<^item> Dto, Api: what \<open>internal/api\<close> sends, its error mapping, and the decoding of what it receives
  \<^item> Handlers, AdminHandlers, Routes: every handler of \<open>internal/api\<close> under its name, the route table of
    \<open>server.go\<close> and the way of a request through preflight, authentication, role and handler
  \<^item> Vault, Sinks: the secret resolver with its dynamic cloud credentials, and the sinks of the
    connector bus (\<open>internal/creds\<close>, \<open>internal/events\<close>)
  \<^item> Start: the settings, the registry of clients, the bootstrap and the reaper's tick of the process
    (\<open>internal/config\<close>, \<open>cmd/api/main.go\<close>), and what happens to the store while it runs
  \<^item> Infra: the tables of an earlier product with their queries, whose store is separate because no operation
    uses both, and the few other operations without a caller

  Theories that prove. Wellformed: identifiers, keys, references and enumerations. Lifecycle, Grants:
  the audit log, the state machine of a request, and where access comes from. Outcome, Effects: what
  single operations do on every branch. Isolation: what a caller sees and changes. Custody: where
  secrets are, and what deleting a provider removes. Endpoints: authorization of tools, keys of users, the gateways.
  Progress: what does succeed. Instants, SpecText: printed forms. Paging: a page loop returns the collection
  its server keeps. Transcripts, Wire, Undo: the requests a client sends, as a list that grows, with the
  answers any function of it; how many there are, and what a revocation or a rollback sends. ApiSteps, ApiReplies: route by
  route, what a served request does to the store and what its answer says. Deployed: a running server stays
  within the reachable stores, a written secret is read back, resolving never fails and its wait ends. InfraRules: no query of the
  infrastructure tables leaves a row that its table forbids. Demo: a concrete deployment on
  which the hypotheses of the properties hold. Races: what two approvals of one request do when both read it pending.

  Interfaces. Each component states what it needs from the tables as a locale (a relation between
  the state before and after that the queries it uses satisfy), proves its operations inside, and is
  interpreted in System and the theories after it on the relations that the properties rest on.

  Bounds. The loop over the pages of an Anthropic cost report runs at most 40 times, those over the lists
  of the administration APIs 50 and the one over Anthropic's models 20, which are the bounds of the
  source. The wait for a fresh Azure credential has no bound but its deadline of 90 seconds, probed every six: 17
  probes are enough on a clock that does not run backwards (theory Deployed). No other recursion of the model carries fuel: lists are walked structurally.
  The model of one operation is atomic; several callers are sequences of steps.

  Not modelled. Parameters stand for the HTTP transport and the parsing of URLs, environment variables,
  the service's secret store, random bytes and the ticket system. The program proper is
  proved for any providers; the clients are instances of their interface and are proved by themselves.
  Request bodies and answers are JSON values, so their text is not modelled, except that of a refusal. A request of the HTTP API carries the pattern
  it matched and its path parameters, because the router is not in the sources; the headers of CORS, the logging and the
  text of a decoding error are left out, and a handler that panics gives no answer. The client of OpenBao is three
  parameters (get, put, read). Opening and migrating the database, listening, shutting down and the process log are not
  modelled, nor are the web interface and the deployment files. Two operations that run at once interleave between their queries in the
  program and not in the model, but for two approvals of one request (theory Races); where the code relies on
  a unique key for that case, the key is in the model of the query.
\<close>

section \<open>Access requests and grants\<close>

text \<open>C1: approving a request. When it succeeds, the request was found under its name and environment,
  pending and in the caller's tenant scope, the governance gate passed for it, exactly one instance
  was added, active and carrying the request's identifier, tenant and specification, and the row of
  the request is approved or completed and signed by the approver. When it fails, no instance was
  added or changed.\<close>

theorem approval_grants:
  "case ApproveRequest E c name environment approver s of
     (Inl e, t) \<Rightarrow> st_instances t = st_instances s
   | (Inr u, t) \<Rightarrow> \<exists>req i p. req \<in> set (st_requests s) \<and> r_Name req = name \<and> r_Environment req = default_env environment
       \<and> r_Status req = ''pending_approval'' \<and> in_scope c (r_TenantID req)
       \<and> fst (resolve_plan E req s) = Inr p \<and> gov_hard E c (plan_facts req p) s = []
       \<and> st_instances t = st_instances s @ [i] \<and> granted_by req p i
       \<and> signed (r_ID req) approver t"
proof (cases rule: ApproveRequest_cases [of E c name environment approver s])
  case (refused e)
  then show ?thesis by (auto split: prod.splits sum.splits)
next
  case (granted req i)
  then show ?thesis by (auto simp: grant_for_def split: prod.splits sum.splits)
qed

text \<open>C2: in every reachable store, every access instance was granted for a request that is approved
  or completed, with that request's tenant and specification, and no request has two instances.\<close>

theorem instances_grounded:
  assumes "reachable s"
  shows "list_all (\<lambda>i. list_ex (\<lambda>r. r_Status r \<in> {''approved'', ''completed''} \<and> i_RequestID i = Some (r_ID r)
      \<and> i_TenantID i = r_TenantID r \<and> i_Spec i = r_Spec r) (st_requests s)) (st_instances s)
    \<and> distinct (map i_RequestID (st_instances s))"
  using grounded_reachable [OF assms]
  by (auto simp: grounded_def backs_def backing_def settled_def list_all_iff list_ex_iff; force)

theorem instances_grounded_witness:
  "list_all (\<lambda>i. list_ex (\<lambda>r. r_Status r \<in> {''approved'', ''completed''} \<and> i_RequestID i = Some (r_ID r)
      \<and> i_TenantID i = r_TenantID r \<and> i_Spec i = r_Spec r) (st_requests demo2)) (st_instances demo2)
    \<and> distinct (map i_RequestID (st_instances demo2))"
  by (rule instances_grounded) (rule demo_reachable)

text \<open>C3: the state machine of a request. Under any command of any caller in any environment, a stored
  request keeps its identity and keeps its status or moves along an edge: approving moves it from
  pending to approved, completed or failed, rejecting from pending to rejected, and nothing else moves
  it. New requests start pending and no request is ever removed.\<close>

theorem request_state_machine:
  assumes "reachable s"
  shows "\<exists>old new. st_requests (snd (run E c k s)) = old @ new \<and> list_all2 (request_step k) (st_requests s) old
    \<and> list_all (\<lambda>r. r_Status r = ''pending_approval'') new"
  by (rule run_requests) (use grounded_reachable [OF assms] in simp)

theorem request_state_machine_witness:
  "\<exists>old new. st_requests (snd (run demo None (Reject ''req-1'' [] ''bob'' []) demo1)) = old @ new
    \<and> list_all2 (request_step (Reject ''req-1'' [] ''bob'' [])) (st_requests demo1) old
    \<and> list_all (\<lambda>r. r_Status r = ''pending_approval'') new"
  by (rule request_state_machine) (rule demo_reachable)




text \<open>C8: the governance gate of a request passes exactly when no visible active deny policy matches
  it, no visible blocking seat quota is reached and no visible applicable budget is at its hard limit;
  otherwise it fails with the reasons.\<close>

theorem gate_exact:
  "fst (evaluateAIGovernance E c rc s) = Inr () \<longleftrightarrow>
     list_all (\<lambda>p. \<not> policy_denies rc p) (policies_view E c s)
   \<and> list_all (\<lambda>q. \<not> (q_Enforcement q = ''block'' \<and> quota_reason rc (instances_view E c s) q \<noteq> None)) (quotas_view E c s)
   \<and> list_all (\<lambda>b. \<not> (budgetAppliesToRequest E (bs_Budget b) rc \<and> bs_Status b = ''hard_limit'')) (budgets_view E c s)"
  unfolding evaluateAIGovernance_result gov_hard_Nil_iff
  by (auto simp: gov_hard_Nil_iff list_all_iff budget_hard_def split: if_splits)

section \<open>Spend\<close>

text \<open>C30: the cost of a set of usage rows is the sum of the rows of the window that are in scope, without
  the gateway estimates of a provider that also has an imported spend report in the window.\<close>

theorem cost_supersession:
  "aiCostUSD usage start inScope = fsum 0 (map u_CostUsd (filter (billable usage start inScope) usage))"
  by (rule aiCostUSD_billable)

text \<open>C31: more spend never softens the status of a budget.\<close>

theorem budget_status_mono:
  assumes "x \<le> y"
  shows "severity (bs_Status (summarize b x)) \<le> severity (bs_Status (summarize b y))"
  using assms by (rule summarize_severity_mono)

definition demo_budget :: AiBudget where
  "demo_budget = \<lparr>b_ID = 1, b_TenantID = None, b_Scope = ''global'', b_ScopeRef = [], b_LimitUsd = 100,
     b_Period = ''monthly'', b_SoftThresholdPct = 80, b_HardThresholdPct = 100, b_CreatedAt = 0, b_UpdatedAt = 0\<rparr>"

theorem budget_status_mono_witness:
  "severity (bs_Status (summarize demo_budget 50)) \<le> severity (bs_Status (summarize demo_budget 100))"
  by (rule budget_status_mono) simp

text \<open>The window of a budget starts at midnight at or before now and holds now.\<close>

theorem budget_window:
  "aiBudgetPeriodStart now period \<le> now \<and> now < aiBudgetPeriodStart now period + 366 * day_ns
   \<and> aiBudgetPeriodStart now period mod day_ns = 0"
  using aiBudgetPeriodStart_le aiBudgetPeriodStart_window(1)
  by (auto simp: aiBudgetPeriodStart_def Date_def Let_def split: prod.splits)

text \<open>A call is priced by the first row of the table whose name occurs in the model, the bare
  Claude family names counting only for models that start with claude, and by the default otherwise.\<close>

theorem price_first_applicable:
  "priceFor model = (case List.find (applicable (ToLower (TrimSpace model))) aiModelPrices of
     None \<Rightarrow> aiDefaultPrice | Some p \<Rightarrow> p)"
  by (simp add: priceFor_def price_loop_find)

section \<open>Redaction\<close>

text \<open>C34: the card check detects every single mistyped digit.\<close>

theorem luhn_detects_digit:
  assumes "luhnValid (a @ c # b)" "digit09 c" "digit09 c'" "c' \<noteq> c"
  shows "\<not> luhnValid (a @ c' # b)"
  using assms by (rule luhn_single_digit)

theorem luhn_detects_digit_witness:
  "\<not> luhnValid (''411111111111111'' @ CHR ''2'' # [])"
  by (rule luhn_detects_digit [where c = "CHR ''1''"]) (code_simp, code_simp, code_simp, simp)

section \<open>The rest of the access lifecycle\<close>

text \<open>C7: an approval that nothing forbids succeeds. With a database that answers, a pending request in
  the caller's scope, whose plan resolves, whose gate passes and whose backend provisions, is approved.\<close>

theorem approval_succeeds:
  assumes "env_fault E = (\<lambda>_. False)" "fst (find_request E c name (default_env environment) s) = Inr req"
    and "r_Status req = ''pending_approval''" "r_Kind req = ''ai_service''" "fst (resolve_plan E req s) = Inr p"
    and "gov_hard E c (plan_facts req p) s = []" "willing (pl_Backend p)" "fk_tenant (r_TenantID req) s"
  shows "fst (ApproveRequest E c name environment approver s) = Inr ()"
  using assms by (rule ApproveRequest_succeeds)

theorem approval_succeeds_witness:
  "fst (ApproveRequest demo None ''req-1'' [] ''bob@corp.io'' demo_pending) = Inr ()"
proof -
  obtain p where p: "fst (resolve_plan demo demo_request demo_pending) = Inr p" using demo_plan by blast
  show ?thesis
    by (rule approval_succeeds [OF _ demo_found _ _ p demo_gate demo_willing [OF p]])
       (simp_all add: demo_def demo_request_def fk_tenant_def)
qed

text \<open>C5: revoking an instance. When it succeeds, the instance was found, in the caller's scope and
  live, and exactly the row with that identifier becomes revoked, stamped with the time; when it fails,
  whatever the step, no instance changes.\<close>

theorem revocation_exact:
  "case RevokeAIInstance E c k actor s of
     (Inl e, t) \<Rightarrow> st_instances t = st_instances s
   | (Inr x, t) \<Rightarrow> \<exists>i. List.find (\<lambda>i. i_ID i = k) (st_instances s) = Some i \<and> in_scope c (i_TenantID i)
       \<and> live_status (i_Status i) \<and> x = revoked_at (st_now s) i
       \<and> st_instances t = update_rows (\<lambda>i. i_ID i = k) (revoked_at (st_now s)) (st_instances s)"
  using post_RevokeAIInstance [of c k s E actor]
  by (auto simp: post_iff revocation_def live_in_scope_def with_instance_def split: prod.splits sum.splits)

text \<open>C22: recertifying an instance. When it succeeds, the instance was found, in scope and live, and
  exactly its expiry moves, to ninety days from now unless another extension was given; when it fails,
  no instance changes.\<close>

theorem recertification_exact:
  "case RecertifyAIInstance E c k days actor s of
     (Inl e, t) \<Rightarrow> st_instances t = st_instances s
   | (Inr x, t) \<Rightarrow> \<exists>i. List.find (\<lambda>i. i_ID i = k) (st_instances s) = Some i \<and> in_scope c (i_TenantID i)
       \<and> live_status (i_Status i) \<and> x = recertified days (st_now s) i
       \<and> st_instances t = update_rows (\<lambda>i. i_ID i = k) (recertified days (st_now s)) (st_instances s)"
  using post_RecertifyAIInstance [of c k days s E actor]
  by (auto simp: post_iff recertification_def live_in_scope_def with_instance_def split: prod.splits sum.splits)

text \<open>C19: the reaper is sound. Whatever fails under way, it leaves every instance as it was or revokes
  one that was live and expired.\<close>

theorem reaper_sound:
  assumes "reachable s"
  shows "list_all2 (\<lambda>i i'. i' = i \<or> (live_status (i_Status i) \<and> expired_now (st_now s) (i_ExpiresAt i)
      \<and> i' = revoked_at (st_now s) i)) (st_instances s) (st_instances (snd (ReapExpiredAIInstances E c s)))"
  using post_ReapExpiredAIInstances [OF reachable_wf_ids [OF assms], of E c]
  by (simp add: post_def reaping_def reaped_def [abs_def])

theorem reaper_sound_witness:
  "list_all2 (\<lambda>i i'. i' = i \<or> (live_status (i_Status i) \<and> expired_now (st_now demo2) (i_ExpiresAt i)
      \<and> i' = revoked_at (st_now demo2) i)) (st_instances demo2) (st_instances (snd (ReapExpiredAIInstances demo None demo2)))"
  by (rule reaper_sound) (rule demo_reachable)



text \<open>C20: filing a request. When it succeeds, the service was found, the governance gate passed, and
  exactly one pending request was added with the caller's tenant, whose stored specification decodes
  like the one built from the input; when it fails, the requests are as before. No instance changes.\<close>

theorem filing_exact:
  assumes "reachable s"
  shows "case CreateAIRequest E c i s of
     (Inl e, t) \<Rightarrow> st_requests t = st_requests s \<and> st_instances t = st_instances s
   | (Inr q, t) \<Rightarrow> st_instances t = st_instances s \<and> st_requests t = st_requests s @ [q]
       \<and> (\<exists>v. fst (lookupAIService E (lookup_spec i) s) = Inr v \<and> gov_hard E c (request_facts c i v) s = []
            \<and> aiRequestSpecOf (r_Spec q) = aiRequestSpecOf (marshal_spec (input_spec E i v)))
       \<and> r_Name q = in_Name i \<and> r_Requester q = in_Requester i \<and> r_Kind q = ''ai_service''
       \<and> r_Status q = ''pending_approval'' \<and> r_TenantID q = tenantForCreate c \<and> r_DecidedBy q = []"
  using post_CreateAIRequest [OF reachable_wf_ids [OF assms], of E c i]
  by (auto simp: post_iff filing_def filed_as_def split: prod.splits sum.splits)

theorem filing_exact_witness:
  "case CreateAIRequest demo None demo_input demo0 of
     (Inl e, t) \<Rightarrow> st_requests t = st_requests demo0 \<and> st_instances t = st_instances demo0
   | (Inr q, t) \<Rightarrow> st_instances t = st_instances demo0 \<and> st_requests t = st_requests demo0 @ [q]
       \<and> (\<exists>v. fst (lookupAIService demo (lookup_spec demo_input) demo0) = Inr v \<and> gov_hard demo None (request_facts None demo_input v) demo0 = []
            \<and> aiRequestSpecOf (r_Spec q) = aiRequestSpecOf (marshal_spec (input_spec demo demo_input v)))
       \<and> r_Name q = in_Name demo_input \<and> r_Requester q = in_Requester demo_input \<and> r_Kind q = ''ai_service''
       \<and> r_Status q = ''pending_approval'' \<and> r_TenantID q = tenantForCreate None \<and> r_DecidedBy q = []"
  by (rule filing_exact) (rule demo0_reachable)

section \<open>Tenants\<close>

text \<open>C10: what a caller can change. Under any command of any caller, the budgets and access policies
  outside the caller's tenant scope stay exactly as they are.\<close>

theorem tenant_writes:
  assumes "reachable s"
  shows "filter (\<lambda>b. \<not> in_scope c (b_TenantID b)) (st_budgets (snd (run E c k s)))
      = filter (\<lambda>b. \<not> in_scope c (b_TenantID b)) (st_budgets s)
    \<and> filter (\<lambda>p. \<not> in_scope c (po_TenantID p)) (st_policies (snd (run E c k s)))
      = filter (\<lambda>p. \<not> in_scope c (po_TenantID p)) (st_policies s)"
  using run_spares [OF reachable_wf_ids [OF assms], of c E k] by (simp add: outside_def)

theorem tenant_writes_witness:
  "filter (\<lambda>b. \<not> in_scope None (b_TenantID b)) (st_budgets (snd (run demo None (DeleteBudget 3) demo2)))
      = filter (\<lambda>b. \<not> in_scope None (b_TenantID b)) (st_budgets demo2)
    \<and> filter (\<lambda>p. \<not> in_scope None (po_TenantID p)) (st_policies (snd (run demo None (DeleteBudget 3) demo2)))
      = filter (\<lambda>p. \<not> in_scope None (po_TenantID p)) (st_policies demo2)"
  by (rule tenant_writes) (rule demo_reachable)


text \<open>C28: stored rules make sense. In every reachable store a budget has a positive limit and positive
  thresholds in order, and a quota a positive limit.\<close>

theorem rules_valid:
  assumes "reachable s"
  shows "list_all (\<lambda>b. 0 < b_LimitUsd b \<and> 0 < b_SoftThresholdPct b \<and> b_SoftThresholdPct b \<le> b_HardThresholdPct b) (st_budgets s)
    \<and> list_all (\<lambda>q. 0 < q_LimitQuantity q) (st_quotas s)"
  using valid_rules_reachable [OF assms] by (simp add: valid_rules_def)

theorem rules_valid_witness:
  "list_all (\<lambda>b. 0 < b_LimitUsd b \<and> 0 < b_SoftThresholdPct b \<and> b_SoftThresholdPct b \<le> b_HardThresholdPct b)
      (st_budgets (snd (run demo None (CreateBudget \<lparr>bi_Scope = [], bi_ScopeRef = [], bi_LimitUSD = 100, bi_Period = [],
        bi_SoftThresholdPct = 0, bi_HardThresholdPct = 0\<rparr>) demo2)))
    \<and> list_all (\<lambda>q. 0 < q_LimitQuantity q)
      (st_quotas (snd (run demo None (CreateBudget \<lparr>bi_Scope = [], bi_ScopeRef = [], bi_LimitUSD = 100, bi_Period = [],
        bi_SoftThresholdPct = 0, bi_HardThresholdPct = 0\<rparr>) demo2)))"
  by (rule rules_valid) (rule reachable.more [OF demo_reachable(2) step.command])

section \<open>The gateways\<close>

text \<open>C27: the gate of a gateway call passes exactly when the lists it reads cannot be read, or no visible
  global or provider budget that applies is at its hard limit and no visible blocking quota on tokens or
  cost is used up.\<close>

theorem gateway_gate_exact:
  "fst (evaluateGatewayBudget E c name s) = Inr () \<longleftrightarrow>
     env_fault E ''ListAIBudgets'' \<or> env_fault E ''ListAIUsageRecords''
     \<or> (list_all (\<lambda>b. \<not> gateway_budget_hit E (gateway_facts name) b) (budgets_view E c s)
        \<and> list_all (\<lambda>q. \<not> gateway_quota_hit (st_now s) (usage_view c s) q) (quotas_view E c s))"
  unfolding evaluateGatewayBudget_exact gateway_open_def by (rule refl)

text \<open>C9: what reaches a model. A gateway call leaves the backends untouched, or makes the one call built
  from the provider's configuration, its inference key and the payload: only when the provider exists
  with the right type, the key is there, the gate has passed, and with every sensitive value redacted
  when the provider asks for redaction.\<close>

theorem gateway_sends:
  "gateway_call E c (or_default ''openai-main'' name) ''openai'' [''api_key'', ''openai_api_key'', ''token'']
     openai_responses_request pl s (snd (GatewayOpenAIResponses E c name pl s))
   \<and> gateway_call E c (or_default ''anthropic-main'' name) ''anthropic'' [''api_key'', ''anthropic_api_key'', ''token'']
     anthropic_messages_request pl s (snd (GatewayAnthropicMessages E c name pl s))"
  unfolding GatewayOpenAIResponses_def GatewayAnthropicMessages_def
  by (intro conjI post_gateway [unfolded post_def])

section \<open>Secrets\<close>

text \<open>C11: in every reachable store, the observed state of an instance carries no raw minted key, and no
  provider configuration has a top-level key that names a secret.\<close>

theorem secrets_not_stored:
  assumes "reachable s"
  shows "list_all (\<lambda>i. case str_at (to_obj (i_Observed i)) ''virtual_key'' of None \<Rightarrow> True | Some raw \<Rightarrow> TrimSpace raw = [])
      (st_instances s)
    \<and> list_all (\<lambda>p. list_all (\<lambda>(k, v). \<not> isSensitiveAIConfigKey k) (to_obj (p_Config p))) (st_providers s)"
  using sealed_reachable [OF assms] clean_reachable [OF assms]
  by (simp add: sealed_instances_def sealed_def clean_configs_def clean_config_def)

theorem secrets_not_stored_witness:
  "list_all (\<lambda>i. case str_at (to_obj (i_Observed i)) ''virtual_key'' of None \<Rightarrow> True | Some raw \<Rightarrow> TrimSpace raw = [])
      (st_instances demo2)
    \<and> list_all (\<lambda>p. list_all (\<lambda>(k, v). \<not> isSensitiveAIConfigKey k) (to_obj (p_Config p))) (st_providers demo2)"
  by (rule secrets_not_stored) (rule demo_reachable)

text \<open>Taking a minted key out of an observed state. The key is returned and leaves the state, which
  gains its mask (and, when the secret store took it, where it is); everything else stays. Without a
  key the state is returned as it is. It cannot fail.\<close>

theorem minted_key_stripped:
  "case fst (stripMintedSecret E k m s) of
     Inl e \<Rightarrow> False
   | Inr (raw, m') \<Rightarrow> if sealed m then raw = [] \<and> m' = m
       else str_at m ''virtual_key'' = Some raw \<and> str_at m' ''virtual_key'' = None
         \<and> str_at m' ''virtual_key_preview'' = Some (maskKey raw) \<and> length (maskKey raw) \<le> 11
         \<and> (\<forall>j. j \<in> {''virtual_key'', ''virtual_key_preview'', ''virtual_key_secret''} \<or> map_of m' j = map_of m j)"
proof -
  obtain raw m' where strip: "fst (stripMintedSecret E k m s) = Inr (raw, m')"
    using fst_stripMintedSecret by (metis surj_pair)
  show ?thesis unfolding strip sum.case prod.case by (rule stripMintedSecret_value [OF strip])
qed

text \<open>C21: deleting a provider. On every branch the live instances stay. When it succeeds, the provider
  was visible to the caller, and exactly it, its services and their instances are gone; when it fails,
  the providers and services are as before.\<close>

theorem delete_provider_exact:
  "case DeleteAIProvider E c name s of (r, t) \<Rightarrow>
     filter (\<lambda>i. live_status (i_Status i)) (st_instances t) = filter (\<lambda>i. live_status (i_Status i)) (st_instances s)
   \<and> (case r of
        Inl e \<Rightarrow> st_providers t = st_providers s \<and> st_services t = st_services s
      | Inr u \<Rightarrow> \<exists>p. List.find (\<lambda>p. p_Name p = name) (st_providers s) = Some p \<and> in_scope_or_global c (p_TenantID p)
          \<and> st_providers t = filter (\<lambda>q. p_ID q \<noteq> p_ID p) (st_providers s)
          \<and> st_services t = filter (\<lambda>v. s_ProviderID v \<noteq> p_ID p) (st_services s)
          \<and> st_instances t = filter (\<lambda>i. i_ServiceID i \<notin> provider_services s (p_ID p)) (st_instances s))"
  using post_DeleteAIProvider [of c name s E]
  by (simp only: post_iff removal_def live_instances_def offered_def)

section \<open>Callers\<close>

text \<open>C13: authorizing a tool call answers allowed exactly when the server is registered and active, the
  owner has an active grant that has not expired, and the tool, when one is named, is on the server's
  allow-list, when there is one. The answer is always given and always audited, allowed or denied,
  unless the audit insert itself fails, and nothing else changes.\<close>

theorem authorize_exact:
  "case AuthorizeMCP E c server owner tool s of (r, t) \<Rightarrow>
     \<exists>res. r = Inr res \<and> (mr_Allowed res \<longleftrightarrow> permitted E server owner tool s)
       \<and> audited_as E c (if mr_Allowed res then ''authz_allowed'' else ''authz_denied'') owner s t \<and> quiet s t"
proof (cases "AuthorizeMCP E c server owner tool s")
  case (Pair r t)
  then obtain res where "r = Inr res" "mr_Allowed res = permitted E server owner tool s"
    "audited_as E c (if permitted E server owner tool s then ''authz_allowed'' else ''authz_denied'') owner s t" "quiet s t"
    using post_AuthorizeMCP [of E c owner server tool s] unfolding post_iff authorization_def by auto
  then show ?thesis unfolding Pair by simp
qed

text \<open>C23: the key of a new user opens the API as that user. When the hash is that of no other user, the
  plaintext returned by the creation, sent as a bearer token, passes the middleware with the identity,
  tenant and role the user was created with.\<close>

theorem key_opens:
  assumes "\<not> env_fault E ''GetUserByAPIKeyHash''"
  shows "case CreateUser E email tenantName role s of
     (Inl e, t) \<Rightarrow> st_users t = st_users s
   | (Inr (u, plain), t) \<Rightarrow> list_ex (\<lambda>x. us_ApiKeyHash x = HashKey plain) (st_users s)
       \<or> Middleware (resolver E t) True (''Bearer '' @ plain) = Pass (Some (identity_of E u t))
         \<and> us_Email u = email \<and> us_Role u = role"
proof (cases "CreateUser E email tenantName role s")
  case (Pair r t)
  then have m: "minted E email tenantName role s r t"
    using post_CreateUser [of E email tenantName role s] by (simp add: post_iff)
  show ?thesis
  proof (cases r)
    case (Inr up)
    obtain u plain where up: "up = (u, plain)" by fastforce
    show ?thesis
      using m new_key_opens [OF Pair [unfolded Inr up] assms]
      unfolding Pair Inr up minted_def by (auto simp only: list_ex_iff sum.case prod.case)
  qed (use Pair m in \<open>simp add: minted_def\<close>)
qed

theorem key_opens_witness:
  "case CreateUser demo ''ann@corp.io'' ''default'' ''viewer'' demo0 of
     (Inl e, t) \<Rightarrow> st_users t = st_users demo0
   | (Inr (u, plain), t) \<Rightarrow> list_ex (\<lambda>x. us_ApiKeyHash x = HashKey plain) (st_users demo0)
       \<or> Middleware (resolver demo t) True (''Bearer '' @ plain) = Pass (Some (identity_of demo u t))
         \<and> us_Email u = ''ann@corp.io'' \<and> us_Role u = ''viewer''"
  by (rule key_opens) (simp_all add: demo_def)

text \<open>C24: the bootstrap runs once. With users in the store it changes nothing and returns no key; in an
  empty one it creates exactly one user, the administrator, whose stored hash is that of the key it
  returns; when it fails there is no user.\<close>

theorem bootstrap_once:
  "case EnsureInitialAdmin E s of
     (Inl e, t) \<Rightarrow> st_users t = st_users s
   | (Inr plain, t) \<Rightarrow> if st_users s \<noteq> [] then plain = [] \<and> t = s
       else \<exists>u. st_users t = [u] \<and> us_Email u = ''admin@opord.local'' \<and> us_Role u = ''admin''
         \<and> us_ApiKeyHash u = HashKey plain"
  using post_EnsureInitialAdmin [of E s]
  by (auto simp: post_iff bootstrapped_def RoleAdmin_def split: prod.splits sum.splits)

text \<open>A route lets a request through exactly when authentication is off, with the development
  administrator, or the token is there, resolves to an identity and its role is high enough; and then
  the handler runs as that identity.\<close>

theorem route_gate_exact:
  "gated resolve enabled need header = Pass c \<longleftrightarrow>
     (if \<not> enabled then c = Some dev_identity
      else bearer header \<noteq> [] \<and> (\<exists>i. c = Some i \<and> resolve (HashKey (bearer header)) = Some i
        \<and> rank need \<le> rank (id_role i)))"
  using rank_bounds(2) [of need]
  by (auto simp: gated_def Middleware_def RequireRole_def AtLeast_def dev_identity_def rank_def [of RoleAdmin] Let_def
      split: option.splits)

section \<open>Imports and prices\<close>

text \<open>C29: importing a cost report again imports nothing. After a run over the buckets of a report, a
  second run over the same buckets adds no row and counts every item as skipped.\<close>

theorem import_idempotent:
  "case foldE (import_openai_bucket E p) acc buckets s of
     (Inl e, t) \<Rightarrow> True
   | (Inr a, t) \<Rightarrow> foldE (import_openai_bucket E p) (0, 0) buckets t
       = (Inr (0, sum_list (map (length \<circ> cb_Results) buckets)), t)"
  using import_again [of E p acc buckets s] by (auto split: prod.split sum.split)

text \<open>No row of the price table hides a later one: the name of each row, taken as a model, is priced
  by that row, except for the three bare family names, which count only in a Claude model.\<close>

theorem price_rows_live:
  "list_all (\<lambda>p. priceFor (mp_match p) = (if claudeFamilyKeyword (mp_match p) then aiDefaultPrice else p)) aiModelPrices"
  using price_rows_reachable by (simp add: list_all_iff)

text \<open>C33: redaction is structure preserving and never silent. Walking a document keeps its shape, every
  object key and every value that is no string, and it changes the document only when it counts a hit.\<close>

theorem redaction_shape:
  "case walkRedact j [] of (j', h) \<Rightarrow> shape j' = shape j \<and> (j' = j \<or> 0 < hits_total h)"
  using walkRedact_shape(1) [of j "[]"] walkRedact_honest(1) [of j "[]"]
  by (auto simp: honest_def split: prod.splits)

section \<open>Formats\<close>

text \<open>A request specification survives its stored form: decoding the JSON it is marshalled to gives
  it back.\<close>

theorem spec_roundtrip: "aiRequestSpecOf (marshal_spec sp) = Inr sp"
  by (rule spec_marshalled)

text \<open>C35: an expiry survives its printed form to the second: the RFC 3339 text the program prints for an
  instant of a four-digit year, given back as the expiry of a request, means that instant less its
  fraction of a second, whatever the default of the service.\<close>

theorem expiry_roundtrip:
  assumes "civil_of_days (day_number t) = (y, m, d)" "0 \<le> y" "y \<le> 9999"
  shows "aiExpiresAt (FormatRFC3339 t) created days = Inr (Some (t - t mod 1000000000))"
  using assms by (rule aiExpiresAt_printed)

theorem expiry_roundtrip_witness:
  "aiExpiresAt (FormatRFC3339 1709164800000000123) 0 30 = Inr (Some (1709164800000000123 - 1709164800000000123 mod 1000000000))"
  by (rule expiry_roundtrip [of _ 2024 2 29]) (code_simp, simp, simp)

section \<open>The clients of the providers\<close>

definition demo_net :: "'w Net" where
  "demo_net = \<lparr>nt_http = (\<lambda>_. fail (Upstream ''no network'')), nt_url_ok = (\<lambda>_. True), nt_getenv = (\<lambda>_. []),
     nt_now = (\<lambda>_. 0), nt_uuid_string = show_nat\<rparr>"

lemma demo_net_simps [simp]: "nt_url_ok demo_net = (\<lambda>_. True)"
  by (simp add: demo_net_def)

definition demo_access :: AdminContext where
  "demo_access = \<lparr>ac_Credentials = [(''admin_api_key'', ''k'')], ac_Config = []\<rparr>"

definition demo_user :: OrgUser where
  "demo_user = \<lparr>ou_ID = ''user_1'', ou_Email = ''ann@corp.io'', ou_Name = ''Ann'', ou_Role = ''developer'', ou_AddedAt = []\<rparr>"

text \<open>C39: reading a paged list. Against an API that keeps a collection under unique identifiers and serves
  it as documented, a hundred items after the cursor, the page loops of the Anthropic and OpenAI clients
  return the collection itself, in its order, up to the bound of fifty pages.\<close>

theorem lists_complete:
  assumes "nt_url_ok N = (\<lambda>_. True)" "anthropic_adminKey N (ac_Credentials ac) \<noteq> []"
    and "openai_adminKey (ac_Credentials ac) \<noteq> []" "TrimSpace projectID \<noteq> []"
    and "keyed ou_ID us" "keyed (\<lambda>row. mapString row ''id'') rows"
  shows "anthropic_ListOrgUsers (users_net N (ac_Config ac) us) ac w = (Inr (take 5000 us), w)
    \<and> openai_ListProjectRateLimits (rate_limits_net N (ac_Config ac) projectID rows) ac projectID w
      = (Inr (map projectRateLimitFromMap (take 5000 rows)), w)"
  using anthropic_users.pages_collection [of N ac us 50 w] openai_rate_limits.pages_collection [of ac N rows projectID 50 w] assms
  by (simp add: anthropic_ListOrgUsers_def anthropic_adminList_def openai_ListProjectRateLimits_def openai_adminList_def
      project_guard_def guardE_def bindE_def ret_def)

theorem lists_complete_witness:
  "anthropic_ListOrgUsers (users_net demo_net [] [demo_user]) demo_access () = (Inr (take 5000 [demo_user]), ())
    \<and> openai_ListProjectRateLimits (rate_limits_net demo_net [] ''proj_1'' [[(''id'', JStr ''rl_1'')]]) demo_access ''proj_1'' ()
      = (Inr (map projectRateLimitFromMap (take 5000 [[(''id'', JStr ''rl_1'')]])), ())"
  by (rule lists_complete [where ac = demo_access, unfolded demo_access_def, simplified, folded demo_access_def])
    (simp_all add: demo_net_def, code_simp+)











section \<open>The HTTP API\<close>

text \<open>A server on the demonstration deployment that asks for no keys, and two requests to it.\<close>

definition demo_server :: "unit Server" where
  "demo_server = \<lparr>srv_svc = demo, srv_authEnabled = False, srv_ParseAddress = (\<lambda>_. True)\<rparr>"

definition demo_call :: "string \<Rightarrow> ApiRequest" where
  "demo_call path = \<lparr>aq_Method = ''GET'', aq_Pattern = path, aq_Params = [], aq_Query = [], aq_Authorization = [],
     aq_Body = Inr (Doc JNull)\<rparr>"

text \<open>C4: what an API request can change. Unless it carries the key of a stored operator or administrator
  (or the server asks for no keys), it leaves every table as it is, except that it may append to the
  audit log and append MCP grants in the status requested, for the caller's own tenant.\<close>

theorem api_entitled:
  "(\<exists>n a gs b w. snd (serve S q s) = s\<lparr>st_next := n, st_audit := st_audit s @ a, st_grants := st_grants s @ gs, st_bus := b, st_world := w\<rparr>
      \<and> list_all (\<lambda>g. g_Status g = ''requested'' \<and> g_TenantID g = tenantForCreate (caller S q s)) gs)
   \<or> entitled S q s"
  using visited_serve [of S q s] by (simp add: visited_def)

text \<open>C15: an API request is at most one command. Serving runs one command of the system as the authenticated
  caller and refuses exactly when the command failed; or it refuses and does nothing; or it is a read that
  at most asks the backends. In each case it is a step of the system.\<close>

theorem api_step:
  "case serve S q s of (r, t) \<Rightarrow> step s t \<and>
     ((\<exists>k. t = snd (run (srv_svc S) (caller S q s) k s) \<and> refused r = isl (fst (run (srv_svc S) (caller S q s) k s)))
    \<or> refused r \<and> t = s
    \<or> aq_Method q \<in> {''GET'', ''OPTIONS''} \<and> (\<exists>w. t = s\<lparr>st_world := w\<rparr>))"
  using follows_serve [of S q s] follows_step [of "srv_svc S" "aq_Method q" "caller S q s" s]
  by (cases "serve S q s") (auto simp: follows_def ran_def untouched_def)

text \<open>C25: how errors are answered. An error is a 403 exactly when a governance rule blocked the request,
  no answer passes on a violated unique key, a value comes with 200 or 201, and the verdict on a tool call
  with 200 or 403.\<close>

theorem api_statuses:
  "case fst (serve S q s) of
     Refuse n e \<Rightarrow> \<not> isUniqueViolation e \<and> (n = 403) = IsAIEnforcementError e \<and> n \<in> {400, 401, 403, 404, 409, 500}
   | Reply h n b \<Rightarrow> (case b of Authorized v \<Rightarrow> n = (if mr_Allowed v then 200 else 403) | _ \<Rightarrow> n \<in> {200, 201})
   | Refused n m \<Rightarrow> n \<in> {401, 403, 404, 405}
   | _ \<Rightarrow> True"
  using said_serve [of s S q] by (simp add: said_def proper_def)

text \<open>C12: what no answer shows. In every answer the values of a provider's configuration under a
  sensitive key are replaced, and, in a reachable store, no listed or reviewed access instance carries a
  raw minted key.\<close>

theorem api_withholds:
  assumes "reachable s"
  shows "case fst (serve S q s) of
      Reply h n (ProviderItem d) \<Rightarrow> masked d
    | Reply h n (ProviderList ds) \<Rightarrow> list_all masked ds
    | Reply h n (InstanceList ds) \<Rightarrow> list_all keyless ds
    | Reply h n (ReviewList xs) \<Rightarrow> list_all (\<lambda>x. keyless (dr_Instance x)) xs
    | _ \<Rightarrow> True"
  using said_serve [of s S q] sealed_reachable [OF assms] by (auto simp: said_def withheld_def split: reply.splits body.splits)

theorem api_withholds_witness:
  "case fst (serve demo_server (demo_call ''/ai/instances'') demo2) of
      Reply h n (ProviderItem d) \<Rightarrow> masked d
    | Reply h n (ProviderList ds) \<Rightarrow> list_all masked ds
    | Reply h n (InstanceList ds) \<Rightarrow> list_all keyless ds
    | Reply h n (ReviewList xs) \<Rightarrow> list_all (\<lambda>x. keyless (dr_Instance x)) xs
    | _ \<Rightarrow> True"
  by (rule api_withholds) (rule demo_reachable)

section \<open>The process\<close>

text \<open>A process that finds no OpenBao token and no settings but a database, asking for no keys.\<close>

definition demo_around :: "unit Around" where
  "demo_around = \<lparr>ar_fault = (\<lambda>_. False), ar_net = demo_net, ar_sleep = (\<lambda>_ w. w), ar_show = (\<lambda>_. []), ar_vault = (\<lambda>_ _. None),
     ar_uuid_parse = demo_parse, ar_RandRead = ret (replicate 32 (CHR 0x2A)), ar_ParseAddress = (\<lambda>_. True)\<rparr>"

definition demo_environ :: "string \<Rightarrow> string" where
  "demo_environ key = (if key = ''DATABASE_URL'' then ''postgres://opord'' else [])"

definition demo_started :: "unit Server" where
  "demo_started = server_of demo_around (Load demo_environ) (the (ai_registry demo_net))"

text \<open>C16: a started process stays inside the model of the system. When the process starts on the migrated
  database, then whatever requests it serves, ticks its reaper makes and time passes, the store is one that
  commands of the system reach; every registered type has its client, and keys are asked for exactly when the
  setting says so.\<close>

theorem deployed:
  assumes "run_api A env (initial t0 w0) = (Inr (S, key), s)" "running S s t"
  shows "reachable t \<and> srv_authEnabled S = (getenv_or env ''OPORD_AUTH_ENABLED'' ''false'' = ''true'')
    \<and> list_all (\<lambda>ty. \<not> isl (aiProvider (srv_svc S) ty)) [''mock_ai'', ''openai'', ''anthropic'', ''litellm'']"
proof -
  have start: "srv_authEnabled S = cf_AuthEnabled (Load env)" "env_ai (srv_svc S) = ai_registry (ar_net A)"
    "snd (first_key S (initial t0 w0)) = s"
    using run_api_started [OF assms(1)] by simp_all
  have "reachable s"
    using start(3) first_key_reachable [OF reachable.start] by metis
  with assms(2) start(1,2) show ?thesis
    by (simp add: running_reachable Load_def aiProvider_def Registry_Get_def ai_registry_some)
qed

theorem deployed_witness:
  "reachable (snd (reaper_tick demo_started demo0))
    \<and> srv_authEnabled demo_started = (getenv_or demo_environ ''OPORD_AUTH_ENABLED'' ''false'' = ''true'')
    \<and> list_all (\<lambda>ty. \<not> isl (aiProvider (srv_svc demo_started) ty)) [''mock_ai'', ''openai'', ''anthropic'', ''litellm'']"
proof (rule deployed)
  show "run_api demo_around demo_environ (initial 0 ()) = (Inr (demo_started, []), demo0)"
    by (simp add: run_api_def Let_def demo_around_def ai_registry_some first_key_def server_of_def demo_started_def
        Load_def getenv_or_def demo_environ_def demo0_def bindE_def ret_def)
  show "running demo_started demo0 (snd (reaper_tick demo_started demo0))"
    by (rule running.tick) (rule running.started)
qed

text \<open>An OpenBao that keeps what it is given, newest first.\<close>

definition demo_bao :: "(string \<times> obj) list VaultResolver" where
  "demo_bao = \<lparr>rv_client = \<lparr>vc_Get = (\<lambda>mount path w. case map_of w path of None \<Rightarrow> Inl (Upstream ''secret not found'') | Some d \<Rightarrow> Inr d),
       vc_Put = (\<lambda>mount path d w. (Inr (), (path, d) # w)), vc_Read = (\<lambda>path. ret None)\<rparr>,
     rv_mount = ''secret'', rv_net = demo_net, rv_sleep = (\<lambda>_ w. w), rv_show = (\<lambda>_. [])\<rparr>"

definition demo_keeping :: "(string \<times> obj) list env" where
  "demo_keeping = \<lparr>env_fault = (\<lambda>_. False), env_uuid_string = show_nat, env_uuid_parse = demo_parse,
     env_creds = Some (resolver_creds (OpenBao demo_bao)), env_ai = None, env_events = True, env_CreateTicket = None,
     env_RandRead = ret (replicate 32 (CHR 0x2A)), env_url_ok = (\<lambda>_. True),
     env_http = (\<lambda>_. fail (Upstream ''no network''))\<rparr>"

definition demo_observed :: obj where
  "demo_observed = [(''key_alias'', JStr ''opord-ann''), (''virtual_key'', JStr ''sk-12345'')]"

text \<open>C17: a minted key survives its way through the secret store. When OpenBao accepts the key that the service takes
  out of an observed state, and returns under a path what it accepted there, then the key is gone from the
  state, and reading the path that the state names gives the key, without the blanks around it.\<close>

theorem secret_kept:
  assumes "env_creds E = Some (resolver_creds (OpenBao R))"
    and "str_at m ''virtual_key'' = Some raw" "TrimSpace raw \<noteq> []"
    and "TrimSpace (key_path E k m) = key_path E k m"
    and "vc_Put (rv_client R) (rv_mount R) (key_path E k m) [(''key'', JStr raw)] (st_world s) = (Inr (), w)"
    and "vc_Get (rv_client R) (rv_mount R) (key_path E k m) w = Inr [(''key'', JStr raw)]"
  shows "case stripMintedSecret E k m s of
      (Inl e, t) \<Rightarrow> False
    | (Inr (found, m'), t) \<Rightarrow> found = raw \<and> sealed m' \<and> st_world t = w
        \<and> readMintedKey E (mintedKeyPath (JObj m')) t = (Inr (TrimSpace raw), t)"
  using assms by (rule minted_key_kept)

theorem secret_kept_witness:
  "case stripMintedSecret demo_keeping 1 demo_observed (initial 0 []) of
      (Inl e, t) \<Rightarrow> False
    | (Inr (found, m'), t) \<Rightarrow> found = ''sk-12345'' \<and> sealed m'
        \<and> st_world t = [(''opord/ai/keys/opord-ann'', [(''key'', JStr ''sk-12345'')])]
        \<and> readMintedKey demo_keeping (mintedKeyPath (JObj m')) t = (Inr (TrimSpace ''sk-12345''), t)"
  by (rule secret_kept [where R = demo_bao])
     (simp_all add: demo_keeping_def demo_bao_def demo_observed_def str_at_def key_path_def initial_def
        TrimSpace_def TrimLeft_def TrimRight_def is_space_def)

section \<open>The infrastructure tables\<close>





end
